(* ===== verification/Prelude.thy ===== *)
theory Prelude
  imports Main "HOL-Library.Word" "HOL-Library.Sublist"
begin

text \<open>
  Shared vocabulary of the development: the machine integers and strings of Go, the error
  values the program returns, the collections of simplification rules the component
  theories fill, and generic list and map lemmas that several components use.
\<close>

type_synonym int64 = "64 word"
type_synonym int32 = "32 word"

text \<open>
  A Go \<open>error\<close> value. The first three constructors are the API server's answers that the
  program tells apart (\<open>apierrors.IsNotFound\<close>, \<open>IsAlreadyExists\<close>, \<open>IsConflict\<close>), the
  fourth is any other error of a call; they carry the message. \<open>Failure\<close> is an error the
  program builds itself with \<open>errors.New\<close> or \<open>fmt.Errorf\<close> from plain strings, and
  \<open>FailureQ\<close> one whose last argument is printed with \<open>%q\<close> (the message up to that
  argument, and the argument before quoting). \<open>Wrapped\<close> is an error wrapped with \<open>%w\<close>, which
  the tests see through.
\<close>

datatype error =
    NotFound string
  | AlreadyExists string
  | Conflict string
  | CallError string
  | Failure string
  | FailureQ string string
  | Wrapped string error

primrec IsNotFound :: "error \<Rightarrow> bool" where
  "IsNotFound (NotFound m) = True"
| "IsNotFound (AlreadyExists m) = False"
| "IsNotFound (Conflict m) = False"
| "IsNotFound (CallError m) = False"
| "IsNotFound (Failure m) = False"
| "IsNotFound (FailureQ m a) = False"
| "IsNotFound (Wrapped m e) = IsNotFound e"

primrec IsAlreadyExists :: "error \<Rightarrow> bool" where
  "IsAlreadyExists (NotFound m) = False"
| "IsAlreadyExists (AlreadyExists m) = True"
| "IsAlreadyExists (Conflict m) = False"
| "IsAlreadyExists (CallError m) = False"
| "IsAlreadyExists (Failure m) = False"
| "IsAlreadyExists (FailureQ m a) = False"
| "IsAlreadyExists (Wrapped m e) = IsAlreadyExists e"

primrec IsConflict :: "error \<Rightarrow> bool" where
  "IsConflict (NotFound m) = False"
| "IsConflict (AlreadyExists m) = False"
| "IsConflict (Conflict m) = True"
| "IsConflict (CallError m) = False"
| "IsConflict (Failure m) = False"
| "IsConflict (FailureQ m a) = False"
| "IsConflict (Wrapped m e) = IsConflict e"

text \<open>
  \<open>char_class\<close>: the predicates on single characters, unfolded to finite tests on byte values.
\<close>

named_theorems char_class

subsection \<open>Characters as bytes\<close>

definition byte :: "char \<Rightarrow> nat" where
  "byte c = of_char c"

declare byte_def [char_class]

lemma byte_less_256 [simp]: "byte c < 256"
  by (simp add: byte_def)

lemma byte_inject [simp]: "byte c = byte d \<longleftrightarrow> c = d"
  by (simp add: byte_def)

lemma byte_char_of [simp]: "n < 256 \<Longrightarrow> byte (char_of n) = n"
  by (simp add: byte_def take_bit_eq_mod)

lemma char_of_byte [simp]: "char_of (byte c) = c"
  by (simp add: byte_def)

lemma char_of_inject: "m < 256 \<Longrightarrow> n < 256 \<Longrightarrow> (char_of (m::nat) :: char) = char_of n \<longleftrightarrow> m = n"
  by (metis byte_char_of)

subsection \<open>Trimming lists\<close>

text \<open>\<open>trim_left\<close>, \<open>trim_right\<close> and \<open>trim_both\<close> drop the characters a predicate accepts,
  as \<open>strings.TrimLeft\<close>, \<open>TrimRight\<close>, \<open>Trim\<close> and their \<open>Func\<close> variants do.\<close>

definition trim_left :: "('a \<Rightarrow> bool) \<Rightarrow> 'a list \<Rightarrow> 'a list" where
  "trim_left P s = dropWhile P s"

definition trim_right :: "('a \<Rightarrow> bool) \<Rightarrow> 'a list \<Rightarrow> 'a list" where
  "trim_right P s = rev (dropWhile P (rev s))"

definition trim_both :: "('a \<Rightarrow> bool) \<Rightarrow> 'a list \<Rightarrow> 'a list" where
  "trim_both P s = trim_right P (trim_left P s)"

lemma set_trim_left: "set (trim_left P s) \<subseteq> set s"
  by (auto simp: trim_left_def dest: set_dropWhileD)

lemma set_trim_right: "set (trim_right P s) \<subseteq> set s"
  by (auto simp: trim_right_def dest: set_dropWhileD)

lemma set_trim_both: "set (trim_both P s) \<subseteq> set s"
  using set_trim_left set_trim_right unfolding trim_both_def by fast

lemma length_trim_left: "length (trim_left P s) \<le> length s"
  by (simp add: trim_left_def length_dropWhile_le)

lemma length_trim_right: "length (trim_right P s) \<le> length s"
  unfolding trim_right_def by (metis length_dropWhile_le length_rev)

lemma length_trim_both: "length (trim_both P s) \<le> length s"
  unfolding trim_both_def using length_trim_left length_trim_right le_trans by blast

lemma hd_trim_left: "trim_left P s \<noteq> [] \<Longrightarrow> \<not> P (hd (trim_left P s))"
  by (simp add: trim_left_def hd_dropWhile)

lemma last_trim_right: "trim_right P s \<noteq> [] \<Longrightarrow> \<not> P (last (trim_right P s))"
  by (simp add: trim_right_def last_rev hd_dropWhile)

text \<open>Trimming on the right keeps a prefix, so it keeps the first character.\<close>

lemma trim_right_prefix: "\<exists>t. s = trim_right P s @ t \<and> (\<forall>c \<in> set t. P c)"
proof -
  have "s = rev (dropWhile P (rev s)) @ rev (takeWhile P (rev s))"
    by (metis rev_append rev_rev_ident takeWhile_dropWhile_id)
  moreover have "\<forall>c \<in> set (rev (takeWhile P (rev s))). P c"
    by (auto dest: set_takeWhileD)
  ultimately show ?thesis unfolding trim_right_def by blast
qed

lemma trim_right_nonempty: "s \<noteq> [] \<Longrightarrow> \<not> P (hd s) \<Longrightarrow> trim_right P s \<noteq> []"
  using trim_right_prefix [of s P] by (cases s) auto

lemma hd_trim_right: "trim_right P s \<noteq> [] \<Longrightarrow> hd (trim_right P s) = hd s"
  using trim_right_prefix [of s P] by (metis hd_append2)

lemma trim_left_id: "s \<noteq> [] \<Longrightarrow> \<not> P (hd s) \<Longrightarrow> trim_left P s = s"
  by (cases s) (auto simp: trim_left_def)

lemma trim_both_ends:
  assumes "trim_both P s \<noteq> []"
  shows "\<not> P (hd (trim_both P s))" and "\<not> P (last (trim_both P s))"
proof -
  have ne: "trim_left P s \<noteq> []"
    using assms by (auto simp: trim_both_def trim_right_def)
  show "\<not> P (hd (trim_both P s))"
    using assms ne hd_trim_left [OF ne] by (simp add: trim_both_def hd_trim_right)
  show "\<not> P (last (trim_both P s))"
    using assms by (simp add: trim_both_def last_trim_right)
qed

end
