(* ===== verification/Go_Strings.thy ===== *)
theory Go_Strings
  imports Prelude
begin

text \<open>
  What the program uses of Go's strings and of the packages \<open>strings\<close>, \<open>strconv\<close> and
  \<open>unicode/utf8\<close>. A Go string is its list of bytes, here a \<open>char list\<close>; \<open>for _, r := range s\<close>
  walks over its runes, which \<open>runes\<close> computes by Go's UTF-8 decoder (an invalid byte is the
  rune U+FFFD of width one).
\<close>

subsection \<open>UTF-8 decoding\<close>

definition RuneError :: nat where
  "RuneError = 65533"

definition cont :: "nat \<Rightarrow> nat \<Rightarrow> char \<Rightarrow> bool" where
  "cont lo hi c = (lo \<le> byte c \<and> byte c \<le> hi)"

definition cont_bits :: "char \<Rightarrow> nat" where
  "cont_bits c = byte c - 128"

definition decode2 :: "nat \<Rightarrow> string \<Rightarrow> nat \<times> nat" where
  "decode2 b cs = (case cs of
     c1 # _ \<Rightarrow> if cont 128 191 c1 then ((b - 192) * 64 + cont_bits c1, 2) else (RuneError, 1)
   | [] \<Rightarrow> (RuneError, 1))"

definition decode3 :: "nat \<Rightarrow> nat \<Rightarrow> nat \<Rightarrow> string \<Rightarrow> nat \<times> nat" where
  "decode3 lo hi b cs = (case cs of
     c1 # c2 # _ \<Rightarrow>
       if cont lo hi c1 \<and> cont 128 191 c2
       then ((b - 224) * 4096 + cont_bits c1 * 64 + cont_bits c2, 3) else (RuneError, 1)
   | _ \<Rightarrow> (RuneError, 1))"

definition decode4 :: "nat \<Rightarrow> nat \<Rightarrow> nat \<Rightarrow> string \<Rightarrow> nat \<times> nat" where
  "decode4 lo hi b cs = (case cs of
     c1 # c2 # c3 # _ \<Rightarrow>
       if cont lo hi c1 \<and> cont 128 191 c2 \<and> cont 128 191 c3
       then ((b - 240) * 262144 + cont_bits c1 * 4096 + cont_bits c2 * 64 + cont_bits c3, 4)
       else (RuneError, 1)
   | _ \<Rightarrow> (RuneError, 1))"

text \<open>\<open>utf8.DecodeRuneInString\<close> on a non-empty string, first byte given apart.\<close>

definition decode_rune :: "char \<Rightarrow> string \<Rightarrow> nat \<times> nat" where
  "decode_rune c cs = (let b = byte c in
     if b < 128 then (b, 1)
     else if 194 \<le> b \<and> b \<le> 223 then decode2 b cs
     else if b = 224 then decode3 160 191 b cs
     else if b = 237 then decode3 128 159 b cs
     else if 225 \<le> b \<and> b \<le> 239 then decode3 128 191 b cs
     else if b = 240 then decode4 144 191 b cs
     else if 241 \<le> b \<and> b \<le> 243 then decode4 128 191 b cs
     else if b = 244 then decode4 128 143 b cs
     else (RuneError, 1))"

fun runes :: "string \<Rightarrow> nat list" where
  "runes [] = []"
| "runes (c # cs) = fst (decode_rune c cs) # runes (drop (snd (decode_rune c cs) - 1) cs)"

definition ascii :: "string \<Rightarrow> bool" where
  "ascii s = (\<forall>c \<in> set s. byte c < 128)"

lemma decode_rune_ascii [simp]: "byte c < 128 \<Longrightarrow> decode_rune c cs = (byte c, 1)"
  by (simp add: decode_rune_def)

lemma runes_ascii: "ascii s \<Longrightarrow> runes s = map byte s"
  by (induction s) (auto simp: ascii_def)

lemma length_runes_le: "length (runes s) \<le> length s"
proof (induction s rule: runes.induct)
  case (2 c cs)
  then show ?case by simp
qed simp

lemma runes_append_ascii: "ascii s \<Longrightarrow> runes (s @ t) = map byte s @ runes t"
  by (induction s) (auto simp: ascii_def)

subsection \<open>Case\<close>

text \<open>
  The runes of \<open>strings.ToLower(s)\<close>. Only U+0130 and U+212A have an ASCII lower case besides
  \<open>A\<close>..\<open>Z\<close>; every other rune beyond ASCII has its lower case beyond ASCII too, and is kept,
  since all that the callers ask of such a rune is that it is not ASCII.
\<close>

definition lower_rune :: "nat \<Rightarrow> nat" where
  "lower_rune r = (if 65 \<le> r \<and> r \<le> 90 then r + 32
     else if r = 304 then 105 else if r = 8490 then 107 else r)"

definition ToLower_runes :: "string \<Rightarrow> nat list" where
  "ToLower_runes s = map lower_rune (runes s)"

text \<open>\<open>strings.ToLower\<close> of an ASCII string, as a string.\<close>

definition ToLower_ascii :: "string \<Rightarrow> string" where
  "ToLower_ascii s = map (\<lambda>c. char_of (lower_rune (byte c))) s"

text \<open>
  Simple case folding, exact against an ASCII string: the letters \<open>k\<close> and \<open>s\<close> also fold with
  U+212A and U+017F, all other runes beyond ASCII fold outside ASCII.
\<close>

definition fold_rune :: "nat \<Rightarrow> nat" where
  "fold_rune r = (if 65 \<le> r \<and> r \<le> 90 then r + 32
     else if r = 383 then 115 else if r = 8490 then 107 else r)"

definition EqualFold :: "string \<Rightarrow> string \<Rightarrow> bool" where
  "EqualFold s t = (map fold_rune (runes s) = map fold_rune (runes t))"

lemma EqualFold_refl [simp]: "EqualFold s s"
  by (simp add: EqualFold_def)

subsection \<open>Prefixes, search, joining\<close>

definition HasPrefix :: "string \<Rightarrow> string \<Rightarrow> bool" where
  "HasPrefix s p = (take (length p) s = p)"

definition TrimPrefix :: "string \<Rightarrow> string \<Rightarrow> string" where
  "TrimPrefix s p = (if HasPrefix s p then drop (length p) s else s)"

lemma HasPrefix_append [simp]: "HasPrefix (p @ s) p"
  by (simp add: HasPrefix_def)

lemma TrimPrefix_append [simp]: "TrimPrefix (p @ s) p = s"
  by (simp add: TrimPrefix_def)

fun Contains :: "string \<Rightarrow> string \<Rightarrow> bool" where
  "Contains [] p = (p = [])"
| "Contains (c # cs) p = (HasPrefix (c # cs) p \<or> Contains cs p)"

fun Join :: "string list \<Rightarrow> string \<Rightarrow> string" where
  "Join [] sep = []"
| "Join [x] sep = x"
| "Join (x # y # xs) sep = x @ sep @ Join (y # xs) sep"

text \<open>\<open>strings.TrimSpace\<close> on the ASCII white space.\<close>

definition is_space :: "char \<Rightarrow> bool" where
  "is_space c = (byte c \<in> {9, 10, 11, 12, 13, 32})"

subsection \<open>Decimal numbers and booleans (strconv)\<close>

definition digit_char :: "nat \<Rightarrow> char" where
  "digit_char d = char_of (48 + d)"

fun show_nat :: "nat \<Rightarrow> string" where
  "show_nat n = (if n < 10 then [digit_char n] else show_nat (n div 10) @ [digit_char (n mod 10)])"

declare show_nat.simps [simp del]

definition show_int :: "int \<Rightarrow> string" where
  "show_int i = (if i < 0 then CHR ''-'' # show_nat (nat (- i)) else show_nat (nat i))"

definition FormatInt :: "int64 \<Rightarrow> string" where
  "FormatInt g = show_int (sint g)"

definition FormatBool :: "bool \<Rightarrow> string" where
  "FormatBool b = (if b then ''true'' else ''false'')"

datatype num_error = ErrSyntax | ErrRange

definition is_digit :: "char \<Rightarrow> bool" where
  "is_digit c = (48 \<le> byte c \<and> byte c \<le> 57)"

declare is_digit_def [char_class]

definition max_uint64 :: nat where
  "max_uint64 = 18446744073709551615"

text \<open>The loop of \<open>ParseUint\<close> in base 10: the range error is returned at the digit that
  overflows, before the rest is looked at.\<close>

fun ParseUint_loop :: "string \<Rightarrow> nat \<Rightarrow> nat \<times> num_error option" where
  "ParseUint_loop [] n = (n, None)"
| "ParseUint_loop (c # cs) n =
    (if \<not> is_digit c then (0, Some ErrSyntax)
     else if n \<ge> max_uint64 div 10 + 1 then (max_uint64, Some ErrRange)
     else if n * 10 + (byte c - 48) > max_uint64 then (max_uint64, Some ErrRange)
     else ParseUint_loop cs (n * 10 + (byte c - 48)))"

definition ParseUint :: "string \<Rightarrow> nat \<times> num_error option" where
  "ParseUint s = (if s = [] then (0, Some ErrSyntax) else ParseUint_loop s 0)"

text \<open>\<open>strconv.ParseInt(s, 10, 64)\<close>.\<close>

definition ParseInt_signed :: "bool \<Rightarrow> string \<Rightarrow> int64 \<times> num_error option" where
  "ParseInt_signed neg s = (case ParseUint s of
     (un, Some ErrSyntax) \<Rightarrow> (0, Some ErrSyntax)
   | (un, _) \<Rightarrow>
       if \<not> neg \<and> un \<ge> 2 ^ 63 then (word_of_int (2 ^ 63 - 1), Some ErrRange)
       else if neg \<and> un > 2 ^ 63 then (word_of_int (- (2 ^ 63)), Some ErrRange)
       else (if neg then - word_of_nat un else word_of_nat un, None))"

definition ParseInt :: "string \<Rightarrow> int64 \<times> num_error option" where
  "ParseInt s = (case s of
     [] \<Rightarrow> (0, Some ErrSyntax)
   | c # cs \<Rightarrow> if c = CHR ''+'' then ParseInt_signed False cs
               else if c = CHR ''-'' then ParseInt_signed True cs
               else ParseInt_signed False s)"

definition ParseBool :: "string \<Rightarrow> bool option" where
  "ParseBool s =
     (if s \<in> {''1'', ''t'', ''T'', ''true'', ''TRUE'', ''True''} then Some True
      else if s \<in> {''0'', ''f'', ''F'', ''false'', ''FALSE'', ''False''} then Some False
      else None)"

lemma ParseBool_FormatBool [simp]: "ParseBool (FormatBool b) = Some b"
  by (cases b) (simp_all add: ParseBool_def FormatBool_def)

lemma byte_digit_char [simp]: "d < 10 \<Longrightarrow> byte (digit_char d) = 48 + d"
  by (simp add: digit_char_def)

lemma is_digit_digit_char [simp]: "d < 10 \<Longrightarrow> is_digit (digit_char d)"
  by (simp add: is_digit_def)

lemma show_nat_digits: "\<forall>c \<in> set (show_nat n). is_digit c"
proof (induction n rule: show_nat.induct)
  case (1 n)
  then show ?case by (subst show_nat.simps) auto
qed

lemma show_nat_nonempty [simp]: "show_nat n \<noteq> []"
  by (subst show_nat.simps) simp

lemma ParseUint_loop_append:
  "ParseUint_loop s m = (v, None) \<Longrightarrow> ParseUint_loop (s @ t) m = ParseUint_loop t v"
  by (induction s m rule: ParseUint_loop.induct) (auto split: if_splits)

lemma ParseUint_loop_show_nat: "n \<le> max_uint64 \<Longrightarrow> ParseUint_loop (show_nat n) 0 = (n, None)"
proof (induction n rule: show_nat.induct)
  case (1 n)
  show ?case
  proof (cases "n < 10")
    case True
    then show ?thesis by (subst show_nat.simps) (simp add: max_uint64_def)
  next
    case False
    with 1 have "ParseUint_loop (show_nat (n div 10)) 0 = (n div 10, None)" by simp
    from ParseUint_loop_append [OF this, of "[digit_char (n mod 10)]"] False "1.prems"
    show ?thesis by (subst show_nat.simps) (simp add: max_uint64_def)
  qed
qed

lemma ParseUint_show_nat: "n \<le> max_uint64 \<Longrightarrow> ParseUint (show_nat n) = (n, None)"
  by (simp add: ParseUint_def ParseUint_loop_show_nat)

lemma show_nat_hd: "\<exists>c cs. show_nat n = c # cs \<and> is_digit c"
  using show_nat_digits [of n] show_nat_nonempty [of n] by (cases "show_nat n") auto

text \<open>The generation annotation round trip: printing an \<open>int64\<close> and parsing it gives it back.\<close>

lemma ParseInt_FormatInt: "ParseInt (FormatInt g) = (g, None)"
proof (cases "sint g < 0")
  case True
  let ?n = "nat (- sint g)"
  have b: "?n \<le> 2 ^ 63" using sint_ge [of g] by simp
  then have "ParseUint (show_nat ?n) = (?n, None)"
    by (intro ParseUint_show_nat) (simp add: max_uint64_def)
  moreover have "- word_of_nat ?n = g"
    using True by (simp add: of_nat_nat)
  ultimately show ?thesis
    using True b by (simp add: FormatInt_def show_int_def ParseInt_def ParseInt_signed_def)
next
  case False
  let ?n = "nat (sint g)"
  have b: "?n < 2 ^ 63" using sint_lt [of g] by simp
  then have p: "ParseUint (show_nat ?n) = (?n, None)"
    by (intro ParseUint_show_nat) (simp add: max_uint64_def)
  have w: "word_of_nat ?n = g" using False by (simp add: of_nat_nat)
  obtain c cs where s: "show_nat ?n = c # cs" and d: "is_digit c"
    using show_nat_hd by blast
  have "c \<noteq> CHR ''+''" "c \<noteq> CHR ''-''" using d by (auto simp: is_digit_def byte_def)
  then show ?thesis
    using False b p w s by (simp add: FormatInt_def show_int_def ParseInt_def ParseInt_signed_def)
qed

lemma FormatInt_nonempty [simp]: "FormatInt g \<noteq> []"
  by (simp add: FormatInt_def show_int_def)

end
