(* ===== verification/Go_Hash.thy ===== *)
theory Go_Hash
  imports Go_Strings
begin

text \<open>
  What the program uses of Go's \<open>crypto/sha256\<close>, \<open>crypto/hmac\<close> and \<open>encoding/hex\<close>: the SHA-256
  digest of a byte string (FIPS 180-4), HMAC over it (RFC 2104), and the hexadecimal text of
  a digest. The lemmas give the sizes and alphabets the callers rely on, and the decoding of
  an encoded digest.
\<close>

unbundle bit_operations_syntax

subsection \<open>SHA-256\<close>

text \<open>
  The standard takes its constants from the fractional parts of roots of the first primes: 32 bits
  of the cube roots of 64 primes for the rounds, of the square roots of 8 primes for the
  initial state. \<open>root_bits k n b r\<close> extends \<open>r\<close> by \<open>b\<close> more bits of the largest number
  whose \<open>k\<close>-th power is at most \<open>n\<close>.
\<close>

fun root_bits :: "nat \<Rightarrow> int \<Rightarrow> nat \<Rightarrow> int \<Rightarrow> int" where
  "root_bits k n 0 r = r"
| "root_bits k n (Suc b) r = root_bits k n b (if (r + 2 ^ b) ^ k \<le> n then r + 2 ^ b else r)"

definition root_fraction :: "nat \<Rightarrow> int \<Rightarrow> int32" where
  "root_fraction k p = word_of_int (root_bits k (p * 2 ^ (32 * k)) 37 0)"

definition primes_below_312 :: "int list" where
  "primes_below_312 = filter (\<lambda>n. list_all (\<lambda>d. n mod d \<noteq> 0) [2..min (n - 1) 17]) [2..311]"

definition sha_K :: "int32 list" where
  "sha_K = map (root_fraction 3) primes_below_312"

datatype sha_state = Sha int32 int32 int32 int32 int32 int32 int32 int32

definition sha_init :: sha_state where
  "sha_init = Sha (root_fraction 2 2) (root_fraction 2 3) (root_fraction 2 5) (root_fraction 2 7)
     (root_fraction 2 11) (root_fraction 2 13) (root_fraction 2 17) (root_fraction 2 19)"

definition rotr :: "nat \<Rightarrow> int32 \<Rightarrow> int32" where
  "rotr n x = (drop_bit n x) OR (push_bit (32 - n) x)"

definition small_sigma0 :: "int32 \<Rightarrow> int32" where
  "small_sigma0 x = rotr 7 x XOR rotr 18 x XOR drop_bit 3 x"

definition small_sigma1 :: "int32 \<Rightarrow> int32" where
  "small_sigma1 x = rotr 17 x XOR rotr 19 x XOR drop_bit 10 x"

definition big_sigma0 :: "int32 \<Rightarrow> int32" where
  "big_sigma0 x = rotr 2 x XOR rotr 13 x XOR rotr 22 x"

definition big_sigma1 :: "int32 \<Rightarrow> int32" where
  "big_sigma1 x = rotr 6 x XOR rotr 11 x XOR rotr 25 x"

fun sha_round :: "sha_state \<Rightarrow> int32 \<Rightarrow> int32 \<Rightarrow> sha_state" where
  "sha_round (Sha a b c d e f g h) k w =
    (let t1 = h + big_sigma1 e + ((e AND f) XOR ((NOT e) AND g)) + k + w;
         t2 = big_sigma0 a + ((a AND b) XOR (a AND c) XOR (b AND c))
     in Sha (t1 + t2) a b c (d + t1) e f g)"

text \<open>The message schedule keeps the last sixteen words, oldest first.\<close>

definition sha_next :: "int32 list \<Rightarrow> int32" where
  "sha_next w = small_sigma1 (w ! 14) + w ! 9 + small_sigma0 (w ! 1) + w ! 0"

fun sha_rounds :: "int32 list \<Rightarrow> int32 list \<Rightarrow> sha_state \<Rightarrow> sha_state" where
  "sha_rounds [] w s = s"
| "sha_rounds (k # ks) w s = sha_rounds ks (tl w @ [sha_next w]) (sha_round s k (hd w))"

fun sha_add :: "sha_state \<Rightarrow> sha_state \<Rightarrow> sha_state" where
  "sha_add (Sha a b c d e f g h) (Sha a' b' c' d' e' f' g' h') =
     Sha (a + a') (b + b') (c + c') (d + d') (e + e') (f + f') (g + g') (h + h')"

definition sha_block :: "sha_state \<Rightarrow> int32 list \<Rightarrow> sha_state" where
  "sha_block s w = sha_add s (sha_rounds sha_K w s)"

definition word_of_bytes :: "char \<Rightarrow> char \<Rightarrow> char \<Rightarrow> char \<Rightarrow> int32" where
  "word_of_bytes a b c d =
     word_of_nat (byte a * 16777216 + byte b * 65536 + byte c * 256 + byte d)"

fun words_of_bytes :: "string \<Rightarrow> int32 list" where
  "words_of_bytes (a # b # c # d # cs) = word_of_bytes a b c d # words_of_bytes cs"
| "words_of_bytes _ = []"

definition bytes_of_word :: "int32 \<Rightarrow> string" where
  "bytes_of_word w = (let n = unat w in
     map char_of [n div 16777216, n div 65536 mod 256, n div 256 mod 256, n mod 256])"

fun bytes_of_state :: "sha_state \<Rightarrow> string" where
  "bytes_of_state (Sha a b c d e f g h) =
     concat (map bytes_of_word [a, b, c, d, e, f, g, h])"

definition sha_length_bytes :: "nat \<Rightarrow> string" where
  "sha_length_bytes n = map (\<lambda>k. char_of (8 * n div 256 ^ k mod 256)) [7, 6, 5, 4, 3, 2, 1, 0]"

text \<open>One bit 1, then zeros up to 8 bytes below a multiple of 64, then the length in bits.\<close>

definition sha_pad :: "string \<Rightarrow> string" where
  "sha_pad m = m @ char_of (128::nat) # replicate ((119 - length m mod 64) mod 64) (char_of (0::nat))
     @ sha_length_bytes (length m)"

fun sha_blocks :: "int32 list \<Rightarrow> sha_state \<Rightarrow> sha_state" where
  "sha_blocks [] s = s"
| "sha_blocks (w # ws) s = sha_blocks (drop 15 ws) (sha_block s (take 16 (w # ws)))"

definition sha256 :: "string \<Rightarrow> string" where
  "sha256 m = bytes_of_state (sha_blocks (words_of_bytes (sha_pad m)) sha_init)"

lemma length_sha256 [simp]: "length (sha256 m) = 32"
  unfolding sha256_def
  by (cases "sha_blocks (words_of_bytes (sha_pad m)) sha_init") (simp add: bytes_of_word_def Let_def)

subsection \<open>HMAC\<close>

definition hmac_key :: "string \<Rightarrow> string" where
  "hmac_key k = (let k' = (if length k > 64 then sha256 k else k)
                 in k' @ replicate (64 - length k') (char_of (0::nat)))"

definition xor_bytes :: "nat \<Rightarrow> string \<Rightarrow> string" where
  "xor_bytes p s = map (\<lambda>c. char_of (byte c XOR p)) s"

definition hmac_sha256 :: "string \<Rightarrow> string \<Rightarrow> string" where
  "hmac_sha256 k m =
     sha256 (xor_bytes 92 (hmac_key k) @ sha256 (xor_bytes 54 (hmac_key k) @ m))"

lemma length_hmac [simp]: "length (hmac_sha256 k m) = 32"
  by (simp add: hmac_sha256_def)

subsection \<open>Hexadecimal text\<close>

definition hex_digit :: "nat \<Rightarrow> char" where
  "hex_digit d = char_of (if d < 10 then 48 + d else 87 + d)"

definition hex_value :: "char \<Rightarrow> nat option" where
  "hex_value c = (let b = byte c in
     if 48 \<le> b \<and> b \<le> 57 then Some (b - 48)
     else if 97 \<le> b \<and> b \<le> 102 then Some (b - 87)
     else if 65 \<le> b \<and> b \<le> 70 then Some (b - 55)
     else None)"

fun EncodeToString :: "string \<Rightarrow> string" where
  "EncodeToString [] = []"
| "EncodeToString (c # cs) = hex_digit (byte c div 16) # hex_digit (byte c mod 16) # EncodeToString cs"

text \<open>\<open>hex.DecodeString\<close>: \<open>None\<close> on a character that is not a hexadecimal digit and on an odd
  length.\<close>

fun DecodeString :: "string \<Rightarrow> string option" where
  "DecodeString [] = Some []"
| "DecodeString [c] = None"
| "DecodeString (c # d # cs) = (case (hex_value c, hex_value d) of
     (Some a, Some b) \<Rightarrow> map_option (\<lambda>s. char_of (16 * a + b) # s) (DecodeString cs)
   | _ \<Rightarrow> None)"

lemma byte_hex_digit: "d < 16 \<Longrightarrow> byte (hex_digit d) = (if d < 10 then 48 + d else 87 + d)"
  by (simp add: hex_digit_def)

lemma hex_value_digit [simp]: "d < 16 \<Longrightarrow> hex_value (hex_digit d) = Some d"
  by (simp add: hex_value_def byte_hex_digit Let_def)

lemma DecodeString_EncodeToString [simp]: "DecodeString (EncodeToString s) = Some s"
proof (induction s)
  case (Cons c cs)
  have "byte c div 16 < 16" using byte_less_256 [of c] by linarith
  with Cons show ?case by (simp)
qed simp

lemma length_EncodeToString [simp]: "length (EncodeToString s) = 2 * length s"
  by (induction s) auto

definition is_lower_hex :: "char \<Rightarrow> bool" where
  "is_lower_hex c = (let b = byte c in (48 \<le> b \<and> b \<le> 57) \<or> (97 \<le> b \<and> b \<le> 102))"

lemma is_lower_hex_digit: "d < 16 \<Longrightarrow> is_lower_hex (hex_digit d)"
  by (simp add: is_lower_hex_def byte_hex_digit Let_def)

lemma EncodeToString_chars: "\<forall>c \<in> set (EncodeToString s). is_lower_hex c"
proof (induction s)
  case (Cons c cs)
  have "byte c div 16 < 16" using byte_less_256 [of c] by linarith
  with Cons show ?case by (simp add: is_lower_hex_digit)
qed simp

text \<open>The twelve characters the program keeps of a digest's hexadecimal text.\<close>

definition hash12 :: "string \<Rightarrow> string" where
  "hash12 s = take 12 (EncodeToString (sha256 s))"

lemma length_hash12 [simp]: "length (hash12 s) = 12"
  by (simp add: hash12_def)

lemma hash12_chars: "c \<in> set (hash12 s) \<Longrightarrow> is_lower_hex c"
  using EncodeToString_chars in_set_takeD unfolding hash12_def by fast

lemma hash12_nonempty [simp]: "hash12 s \<noteq> []"
  using length_hash12 [of s] by (metis list.size(3) zero_neq_numeral)

end
