(* ===== verification/API_Types.thy ===== *)
theory API_Types
  imports Go_Strings
begin

text \<open>
  The data of the program. The first part is \<open>api/v1alpha1/gitmirror_types.go\<close>: one record per
  struct, fields in the source's order, a pointer as an option. The second part is what the
  program reads and writes of the Kubernetes objects it handles (Jobs, Leases, Secrets,
  conditions): these types are declared in third-party packages, and only the fields that
  code under \<open>src/\<close> touches are fields here. \<open>ObjectMeta\<close> is flattened into its object.
\<close>

text \<open>An instant, in nanoseconds since the Unix epoch (UTC).\<close>

type_synonym time = int

subsection \<open>The GitMirror resource\<close>

record SecretKeyRef =
  ref_Name :: string
  ref_Key :: string

record SSHAuthSpec =
  PrivateKeyRef :: SecretKeyRef

record BasicAuthSpec =
  UsernameSecretRef :: SecretKeyRef
  PasswordSecretRef :: SecretKeyRef

record GitHubAppAuthSpec =
  AppIDSecretRef :: SecretKeyRef
  InstallationIDSecretRef :: SecretKeyRef
  PrivateKeySecretRef :: SecretKeyRef
  APIURL :: string

record GitAuthSpec =
  auth_Type :: string
  auth_SSH :: "SSHAuthSpec option"
  auth_Basic :: "BasicAuthSpec option"
  auth_GitHubApp :: "GitHubAppAuthSpec option"

record GitEndpointSpec =
  URL :: string
  SSHSecretRef :: "SecretKeyRef option"
  Auth :: "GitAuthSpec option"

record GitHubSpec =
  Owner :: string
  Repo :: string
  WebhookSecretRef :: SecretKeyRef

record MirrorSpec =
  Mode :: string
  IncludeTags :: bool

record FallbackSpec =
  Schedule :: string

text \<open>A resource list maps a resource name to a quantity; \<open>None\<close> is Go's nil map.\<close>

type_synonym ResourceList = "(string \<rightharpoonup> string) option"

record ResourceRequirements =
  Requests :: ResourceList
  Limits :: ResourceList

record JobSpec =
  spec_Image :: string
  spec_BackoffLimit :: "int32 option"
  spec_ActiveDeadlineSeconds :: "int64 option"
  spec_TTLSecondsAfterFinished :: "int32 option"
  spec_Resources :: ResourceRequirements
  KnownHostsConfigMapName :: string
  KnownHostsConfigMapKey :: string
  spec_ServiceAccountName :: string

record GitMirrorSpec =
  Provider :: string
  GitHub :: GitHubSpec
  Source :: GitEndpointSpec
  Target :: GitEndpointSpec
  Mirror :: MirrorSpec
  Fallback :: FallbackSpec
  Job :: JobSpec

text \<open>\<open>metav1.Condition\<close>; the transition time is the library's.\<close>

datatype ConditionStatus = ConditionTrue | ConditionFalse | ConditionUnknown

record Condition =
  cond_Type :: string
  cond_Status :: ConditionStatus
  cond_ObservedGeneration :: int64
  cond_LastTransitionTime :: "time option"
  cond_Reason :: string
  cond_Message :: string

record GitMirrorStatus =
  ObservedGeneration :: int64
  LastWebhookAt :: "time option"
  LastDeliveryID :: string
  LastTriggeredAt :: "time option"
  LastJobName :: string
  LastCompletedJobName :: string
  LastSuccessAt :: "time option"
  LastFailureAt :: "time option"
  LastError :: string
  LastRequestedRevision :: string
  LastMirroredRevision :: string
  PendingResync :: bool
  Conditions :: "Condition list"

record GitMirror =
  gm_Name :: string
  gm_Namespace :: string
  gm_UID :: string
  gm_Generation :: int64
  Spec :: GitMirrorSpec
  Status :: GitMirrorStatus

subsection \<open>Jobs, pods and volumes\<close>

record JobCondition =
  jc_Type :: string
  jc_Status :: ConditionStatus
  jc_Reason :: string
  jc_Message :: string

datatype EnvValue = Value string | SecretValue SecretKeyRef

record EnvVar =
  env_Name :: string
  env_Value :: EnvValue

record VolumeMount =
  vm_Name :: string
  vm_MountPath :: string
  vm_SubPath :: string
  vm_ReadOnly :: bool

record KeyToPath =
  item_Key :: string
  item_Path :: string
  item_Mode :: "int32 option"

text \<open>The volume sources the program uses: a Secret with its name, default mode and items, a
  ConfigMap with its name, items and optional flag, and an empty directory.\<close>

datatype VolumeSource =
    SecretVolume string "int32 option" "KeyToPath list"
  | ConfigMapVolume string "KeyToPath list" "bool option"
  | EmptyDirVolume

record Volume =
  vol_Name :: string
  vol_Source :: VolumeSource

record SecurityContext =
  AllowPrivilegeEscalation :: "bool option"
  ReadOnlyRootFilesystem :: "bool option"
  DropCapabilities :: "string list"

record Container =
  ctr_Name :: string
  ctr_Image :: string
  ctr_ImagePullPolicy :: string
  ctr_Env :: "EnvVar list"
  ctr_Resources :: ResourceRequirements
  ctr_SecurityContext :: SecurityContext
  ctr_VolumeMounts :: "VolumeMount list"

record PodSecurityContext =
  RunAsNonRoot :: "bool option"
  RunAsUser :: "int64 option"
  SeccompProfileType :: string

record PodSpec =
  pod_ServiceAccountName :: string
  pod_RestartPolicy :: string
  pod_SecurityContext :: PodSecurityContext
  pod_Containers :: "Container list"
  pod_Volumes :: "Volume list"

record BatchJobSpec =
  BackoffLimit :: "int32 option"
  TTLSecondsAfterFinished :: "int32 option"
  ActiveDeadlineSeconds :: "int64 option"
  TemplateLabels :: "string \<rightharpoonup> string"
  TemplateSpec :: PodSpec

text \<open>A controller owner reference: API version, kind, name and UID of the owner.\<close>

record OwnerReference =
  owner_APIVersion :: string
  owner_Kind :: string
  owner_Name :: string
  owner_UID :: string

record BatchJob =
  job_Name :: string
  job_GenerateName :: string
  job_Namespace :: string
  job_Labels :: "string \<rightharpoonup> string"
  job_Annotations :: "string \<rightharpoonup> string"
  job_Owner :: "OwnerReference option"
  job_DeletionTimestamp :: "time option"
  job_Spec :: BatchJobSpec
  job_Conditions :: "JobCondition list"

subsection \<open>Leases, Secrets and keys\<close>

record Lease =
  lease_Name :: string
  lease_Namespace :: string
  lease_Labels :: "string \<rightharpoonup> string"
  lease_ResourceVersion :: string
  HolderIdentity :: "string option"
  AcquireTime :: "time option"
  RenewTime :: "time option"

type_synonym SecretData = "string \<rightharpoonup> string"

record ObjectKey =
  key_Namespace :: string
  key_Name :: string

text \<open>The keys of stored objects (\<open>client.ObjectKeyFromObject\<close>).\<close>

definition mirror_key :: "GitMirror \<Rightarrow> ObjectKey" where
  "mirror_key m = \<lparr>key_Namespace = gm_Namespace m, key_Name = gm_Name m\<rparr>"

definition job_key :: "BatchJob \<Rightarrow> ObjectKey" where
  "job_key job = \<lparr>key_Namespace = job_Namespace job, key_Name = job_Name job\<rparr>"

text \<open>A map lookup in Go gives the zero value of a missing key.\<close>

definition map_get :: "('k \<rightharpoonup> string) \<Rightarrow> 'k \<Rightarrow> string" where
  "map_get m k = (case m k of None \<Rightarrow> [] | Some v \<Rightarrow> v)"

lemma map_get_update [simp]:
  "map_get (m(k \<mapsto> v)) k' = (if k' = k then v else map_get m k')"
  by (simp add: map_get_def)

end
