(* ===== verification/Job_Names.thy ===== *)
theory Job_Names
  imports Go_Hash API_Types
begin

text \<open>
  The names and label values of \<open>internal/jobs/builder.go\<close> (\<open>dnsLabel\<close>,
  \<open>NameForMirrorTrigger\<close>, \<open>SanitizeLabelValue\<close> and its helpers, the label and annotation
  keys) and of \<open>internal/controller/gitmirror_controller.go\<close> (its own \<open>dnsLabel\<close> and
  \<open>SyncLeaseName\<close>). The two naming functions and the sanitiser share one scheme, a readable
  base cut to leave room for a hyphen and twelve digits of a digest; the locale
  \<open>hashed_name\<close> states what a base must satisfy for the result to be a DNS label.
\<close>

subsection \<open>Keys and constants\<close>

definition AppName :: string where
  "AppName = ''git-mirror-operator''"

definition LabelName :: string where
  "LabelName = ''app.kubernetes.io/name''"

definition LabelGitMirror :: string where
  "LabelGitMirror = ''mirror.shamubernetes.com/gitmirror''"

definition LabelDeliveryID :: string where
  "LabelDeliveryID = ''mirror.shamubernetes.com/delivery-id''"

definition LabelSourceOwner :: string where
  "LabelSourceOwner = ''mirror.shamubernetes.com/source-owner''"

definition LabelSourceRepo :: string where
  "LabelSourceRepo = ''mirror.shamubernetes.com/source-repo''"

definition AnnotationRevision :: string where
  "AnnotationRevision = ''mirror.shamubernetes.com/revision''"

definition AnnotationGeneration :: string where
  "AnnotationGeneration = ''mirror.shamubernetes.com/generation''"

definition AnnotationGitMirror :: string where
  "AnnotationGitMirror = ''mirror.shamubernetes.com/gitmirror-name''"

definition AnnotationOwner :: string where
  "AnnotationOwner = ''mirror.shamubernetes.com/full-source-owner''"

definition AnnotationRepo :: string where
  "AnnotationRepo = ''mirror.shamubernetes.com/full-source-repo''"

definition DefaultKnownHostsCM :: string where
  "DefaultKnownHostsCM = ''git-mirror-known-hosts''"

lemmas label_key_defs =
  LabelName_def LabelGitMirror_def LabelDeliveryID_def LabelSourceOwner_def LabelSourceRepo_def

lemmas annotation_key_defs =
  AnnotationRevision_def AnnotationGeneration_def AnnotationGitMirror_def
  AnnotationOwner_def AnnotationRepo_def

subsection \<open>Character classes\<close>

definition hyphen :: char where
  "hyphen = CHR ''-''"

definition isLabelValueAlnum :: "nat \<Rightarrow> bool" where
  "isLabelValueAlnum r =
     ((97 \<le> r \<and> r \<le> 122) \<or> (65 \<le> r \<and> r \<le> 90) \<or> (48 \<le> r \<and> r \<le> 57))"

definition isLabelValueChar :: "nat \<Rightarrow> bool" where
  "isLabelValueChar r = (isLabelValueAlnum r \<or> r = 45 \<or> r = 95 \<or> r = 46)"

definition is_dns_rune :: "nat \<Rightarrow> bool" where
  "is_dns_rune r = ((97 \<le> r \<and> r \<le> 122) \<or> (48 \<le> r \<and> r \<le> 57) \<or> r = 45)"

lemma byte_hyphen [simp]: "byte hyphen = 45"
  by (simp add: hyphen_def byte_def)

lemma is_dns_rune_lt: "is_dns_rune r \<Longrightarrow> r < 256"
  by (auto simp: is_dns_rune_def)

lemma isLabelValueChar_lt: "isLabelValueChar r \<Longrightarrow> r < 256"
  by (auto simp: isLabelValueChar_def isLabelValueAlnum_def)

text \<open>\<open>b.WriteRune\<close> of a rune that is an ASCII character.\<close>

definition keep_or_hyphen :: "(nat \<Rightarrow> bool) \<Rightarrow> nat \<Rightarrow> char" where
  "keep_or_hyphen P r = (if P r then char_of r else hyphen)"

subsection \<open>DNS labels\<close>

text \<open>\<open>dnsLabel\<close> of \<open>internal/jobs\<close>: lower case, every other rune a hyphen, leading hyphens
  dropped.\<close>

definition dnsLabel :: "string \<Rightarrow> string" where
  "dnsLabel s =
     trim_left (\<lambda>c. c = hyphen) (map (keep_or_hyphen is_dns_rune) (ToLower_runes s))"

text \<open>\<open>dnsLabel\<close> of \<open>internal/controller\<close> drops them at both ends.\<close>

definition controller_dnsLabel :: "string \<Rightarrow> string" where
  "controller_dnsLabel s =
     trim_both (\<lambda>c. c = hyphen)
       (trim_left (\<lambda>c. c = hyphen) (map (keep_or_hyphen is_dns_rune) (ToLower_runes s)))"

definition is_dns_char :: "char \<Rightarrow> bool" where
  "is_dns_char c = is_dns_rune (byte c)"

text \<open>A DNS label (RFC 1123), which Kubernetes asks of an object's name: 1 to 63 characters
  \<open>a\<close>..\<open>z\<close>, \<open>0\<close>..\<open>9\<close> and \<open>-\<close>, the first and the last no hyphen.\<close>

definition is_dns_label :: "string \<Rightarrow> bool" where
  "is_dns_label s = (s \<noteq> [] \<and> length s \<le> 63 \<and> (\<forall>c \<in> set s. is_dns_char c)
     \<and> hd s \<noteq> hyphen \<and> last s \<noteq> hyphen)"

lemma keep_or_hyphen_dns [simp]: "is_dns_char (keep_or_hyphen is_dns_rune r)"
  by (simp add: keep_or_hyphen_def is_dns_char_def is_dns_rune_lt)
    (simp add: is_dns_rune_def)

lemma keep_lower_dns: "is_dns_char c \<Longrightarrow> keep_or_hyphen is_dns_rune (lower_rune (byte c)) = c"
proof -
  assume d: "is_dns_char c"
  then have "lower_rune (byte c) = byte c"
    by (auto simp: is_dns_char_def is_dns_rune_def lower_rune_def)
  with d show ?thesis by (simp add: is_dns_char_def keep_or_hyphen_def)
qed

lemma dnsLabel_chars: "c \<in> set (dnsLabel s) \<Longrightarrow> is_dns_char c"
  unfolding dnsLabel_def using set_trim_left by fastforce

lemma controller_dnsLabel_chars: "c \<in> set (controller_dnsLabel s) \<Longrightarrow> is_dns_char c"
  unfolding controller_dnsLabel_def using set_trim_left set_trim_both by fastforce

lemma is_lower_hex_dns: "is_lower_hex c \<Longrightarrow> is_dns_char c \<and> c \<noteq> hyphen"
  by (auto simp: is_lower_hex_def is_dns_char_def is_dns_rune_def hyphen_def byte_def Let_def)

text \<open>A string that starts with \<open>gitmirror-\<close> keeps that start, so its label is not empty.\<close>

definition name_prefix :: string where
  "name_prefix = ''gitmirror-''"

lemma dns_map_prefix:
  "map (keep_or_hyphen is_dns_rune) (ToLower_runes (name_prefix @ s)) =
     name_prefix @ map (keep_or_hyphen is_dns_rune) (ToLower_runes s)"
proof -
  have a: "ascii name_prefix" by (simp add: ascii_def name_prefix_def byte_def)
  have "\<forall>c \<in> set name_prefix. is_dns_char c"
    by (simp add: name_prefix_def is_dns_char_def is_dns_rune_def byte_def)
  then have "map (\<lambda>c. keep_or_hyphen is_dns_rune (lower_rune (byte c))) name_prefix = name_prefix"
    by (intro map_idI) (simp add: keep_lower_dns)
  then show ?thesis by (simp add: ToLower_runes_def runes_append_ascii [OF a] comp_def)
qed

lemma dnsLabel_prefix:
  "dnsLabel (name_prefix @ s) = name_prefix @ map (keep_or_hyphen is_dns_rune) (ToLower_runes s)"
  unfolding dnsLabel_def dns_map_prefix by (simp add: trim_left_def name_prefix_def hyphen_def)

text \<open>A name that is made of label characters is kept.\<close>

lemma dnsLabel_keeps:
  assumes "\<forall>c \<in> set s. is_dns_char c"
  shows "dnsLabel (name_prefix @ s) = name_prefix @ s"
proof -
  have "ascii s" using assms by (auto simp: ascii_def is_dns_char_def is_dns_rune_def)
  moreover have "map (\<lambda>c. keep_or_hyphen is_dns_rune (lower_rune (byte c))) s = s"
    using assms by (intro map_idI) (simp add: keep_lower_dns)
  ultimately show ?thesis by (simp add: dnsLabel_prefix ToLower_runes_def runes_ascii comp_def)
qed

lemma controller_dnsLabel_prefix:
  "controller_dnsLabel (name_prefix @ s) =
     trim_right (\<lambda>c. c = hyphen) (name_prefix @ map (keep_or_hyphen is_dns_rune) (ToLower_runes s))"
  unfolding controller_dnsLabel_def dns_map_prefix trim_both_def
  by (simp add: trim_left_def name_prefix_def hyphen_def)

subsection \<open>A readable base and a digest\<close>

text \<open>
  The shape both naming functions have: the base cut to \<open>63 - 12 - 1\<close> characters and stripped
  of trailing hyphens when it is longer, \<open>gitmirror\<close> when nothing is left, a hyphen and twelve
  digits of the digest of the identifying string.
\<close>

definition maxBase :: nat where
  "maxBase = 63 - 12 - 1"

definition cut_base :: "string \<Rightarrow> string" where
  "cut_base base = (let b = (if length base > maxBase
      then trim_right (\<lambda>c. c = hyphen) (take maxBase base) else base)
    in if b = [] then ''gitmirror'' else b)"

definition NameForMirrorTrigger :: "GitMirror \<Rightarrow> string \<Rightarrow> string" where
  "NameForMirrorTrigger mirror triggerID =
     (let hash = hash12 (gm_Namespace mirror @ ''/'' @ gm_Name mirror @ ''/'' @ triggerID);
          base = cut_base (dnsLabel (''gitmirror-'' @ gm_Name mirror))
      in base @ ''-'' @ hash)"

definition SyncLeaseName :: "GitMirror \<Rightarrow> string" where
  "SyncLeaseName mirror =
     (let owner = Owner (GitHub (Spec mirror)); repo = Repo (GitHub (Spec mirror));
          base = controller_dnsLabel (''gitmirror-'' @ owner @ ''-'' @ repo);
          hash = hash12 (gm_Namespace mirror @ ''/'' @ Provider (Spec mirror) @ ''/'' @ owner @ ''/'' @ repo)
      in cut_base base @ ''-'' @ hash)"

locale hashed_name =
  fixes base :: "'a \<Rightarrow> string" and ident :: "'a \<Rightarrow> string"
  assumes base_chars: "c \<in> set (base x) \<Longrightarrow> is_dns_char c"
    and base_start: "base x \<noteq> [] \<and> hd (base x) \<noteq> hyphen"
begin

lemma cut_base_chars: "c \<in> set (cut_base (base x)) \<Longrightarrow> is_dns_char c"
  using base_chars [of _ x] set_trim_right [of "\<lambda>c. c = hyphen" "take maxBase (base x)"]
  by (auto simp: cut_base_def Let_def is_dns_char_def is_dns_rune_def byte_def dest: in_set_takeD
      split: if_splits)

lemma cut_base_start: "cut_base (base x) \<noteq> [] \<and> hd (cut_base (base x)) \<noteq> hyphen"
proof -
  have t: "take maxBase (base x) \<noteq> []" "hd (take maxBase (base x)) \<noteq> hyphen"
    using base_start [of x] by (cases "base x"; simp add: maxBase_def)+
  then have "trim_right (\<lambda>c. c = hyphen) (take maxBase (base x)) \<noteq> []"
    by (rule trim_right_nonempty)
  with t base_start [of x] hd_trim_right [OF this] show ?thesis
    by (simp add: cut_base_def Let_def)
qed

lemma cut_base_length: "length (cut_base (base x)) \<le> maxBase"
proof -
  have "length (trim_right (\<lambda>c. c = hyphen) (take maxBase (base x))) \<le> maxBase"
    using length_trim_right [of _ "take maxBase (base x)"] by (rule le_trans) simp
  then show ?thesis by (simp add: cut_base_def Let_def maxBase_def)
qed

lemma hashed_name_dns_label: "is_dns_label (cut_base (base x) @ ''-'' @ hash12 (ident x))"
proof -
  have h: "\<forall>c \<in> set (hash12 (ident x)). is_dns_char c \<and> c \<noteq> hyphen"
    using hash12_chars is_lower_hex_dns by blast
  have "is_dns_char CHR ''-''" by (simp add: is_dns_char_def is_dns_rune_def byte_def)
  then have "\<forall>c \<in> set (cut_base (base x) @ ''-'' @ hash12 (ident x)). is_dns_char c"
    using h cut_base_chars [of _ x] by auto
  moreover have "last (hash12 (ident x)) \<noteq> hyphen"
    using h last_in_set [OF hash12_nonempty [of "ident x"]] by blast
  ultimately show ?thesis
    using cut_base_start [of x] cut_base_length [of x]
    by (simp add: is_dns_label_def maxBase_def)
qed

end

interpretation trigger_name: hashed_name
  "\<lambda>(m, t). dnsLabel (''gitmirror-'' @ gm_Name m)"
  "\<lambda>(m, t). gm_Namespace m @ ''/'' @ gm_Name m @ ''/'' @ t"
proof (unfold_locales, goal_cases)
  case (1 c x)
  then show ?case by (cases x) (simp add: dnsLabel_chars)
next
  case (2 x)
  then show ?case
  proof (cases x)
    case (Pair m t)
    then show ?thesis
      using dnsLabel_prefix [of "gm_Name m"] by (simp add: name_prefix_def hyphen_def)
  qed
qed

lemma controller_dnsLabel_start:
  "controller_dnsLabel (name_prefix @ s) \<noteq> [] \<and> hd (controller_dnsLabel (name_prefix @ s)) \<noteq> hyphen"
proof -
  let ?t = "name_prefix @ map (keep_or_hyphen is_dns_rune) (ToLower_runes s)"
  have t: "?t \<noteq> []" "hd ?t \<noteq> hyphen" by (simp_all add: name_prefix_def hyphen_def)
  then have ne: "trim_right (\<lambda>c. c = hyphen) ?t \<noteq> []" by (rule trim_right_nonempty)
  with t(2) hd_trim_right [OF ne] show ?thesis unfolding controller_dnsLabel_prefix by simp
qed

interpretation lease_name: hashed_name
  "\<lambda>m. controller_dnsLabel (''gitmirror-'' @ Owner (GitHub (Spec m)) @ ''-'' @ Repo (GitHub (Spec m)))"
  "\<lambda>m. gm_Namespace m @ ''/'' @ Provider (Spec m) @ ''/'' @ Owner (GitHub (Spec m)) @ ''/''
     @ Repo (GitHub (Spec m))"
proof (unfold_locales, goal_cases)
  case (1 c m)
  then show ?case by (rule controller_dnsLabel_chars)
next
  case (2 m)
  then show ?case
    using controller_dnsLabel_start [of "Owner (GitHub (Spec m)) @ ''-'' @ Repo (GitHub (Spec m))"]
    by (simp add: name_prefix_def)
qed

subsection \<open>Label values\<close>

text \<open>\<open>s[0]\<close> and \<open>s[len(s)-1]\<close> panic on the empty string: the result is \<open>None\<close> there.\<close>

definition isValidLabelValue :: "string \<Rightarrow> bool option" where
  "isValidLabelValue s =
     (if length s > 63 then Some False
      else if s = [] then None
      else if \<not> isLabelValueAlnum (byte (hd s)) \<or> \<not> isLabelValueAlnum (byte (last s)) then Some False
      else Some (\<forall>r \<in> set (runes s). isLabelValueChar r))"

definition not_alnum :: "char \<Rightarrow> bool" where
  "not_alnum c = (\<not> isLabelValueAlnum (byte c))"

definition labelValueBase :: "string \<Rightarrow> string" where
  "labelValueBase s =
     (let clean = trim_both not_alnum (map (keep_or_hyphen isLabelValueChar) (runes s))
      in if clean = [] then ''value'' else clean)"

definition SanitizeLabelValue :: "string \<Rightarrow> string" where
  "SanitizeLabelValue s =
     (if s \<noteq> [] \<and> isValidLabelValue s = Some True \<and> length s \<le> 63 then s
      else let clean = labelValueBase s; hash = hash12 s;
               clean = (if length clean > maxBase then take maxBase clean else clean);
               clean = trim_right not_alnum clean;
               clean = (if clean = [] then ''value'' else clean)
           in clean @ ''-'' @ hash)"

text \<open>What Kubernetes asks of a non-empty label value.\<close>

definition is_label_value :: "string \<Rightarrow> bool" where
  "is_label_value s = (s \<noteq> [] \<and> length s \<le> 63 \<and> (\<forall>c \<in> set s. isLabelValueChar (byte c))
     \<and> isLabelValueAlnum (byte (hd s)) \<and> isLabelValueAlnum (byte (last s)))"

lemma isValidLabelValue_no_panic: "s \<noteq> [] \<Longrightarrow> isValidLabelValue s \<noteq> None"
  by (simp add: isValidLabelValue_def del: not_None_eq)

text \<open>If every rune is a label character, every byte is: a rune below 128 comes from one byte.\<close>

lemma decode2_large: "194 \<le> b \<Longrightarrow> 128 \<le> fst (decode2 b cs)"
  by (cases cs) (simp_all add: decode2_def RuneError_def trans_le_add1)

lemma decode3_large:
  assumes "225 \<le> b \<or> 160 \<le> lo"
  shows "128 \<le> fst (decode3 lo hi b cs)"
proof -
  have "128 \<le> (b - 224) * 4096 + cont_bits c1 * 64 + y" if "lo \<le> byte c1" for c1 y
  proof -
    have "1 \<le> b - 224 \<or> 32 \<le> cont_bits c1" using assms that by (auto simp: cont_bits_def)
    then show ?thesis by linarith
  qed
  then show ?thesis by (simp add: decode3_def cont_def RuneError_def split: list.split)
qed

lemma decode4_large:
  assumes "241 \<le> b \<or> 144 \<le> lo"
  shows "128 \<le> fst (decode4 lo hi b cs)"
proof -
  have "128 \<le> (b - 240) * 262144 + cont_bits c1 * 4096 + y + z" if "lo \<le> byte c1" for c1 y z
  proof -
    have "1 \<le> b - 240 \<or> 16 \<le> cont_bits c1" using assms that by (auto simp: cont_bits_def)
    then show ?thesis by linarith
  qed
  then show ?thesis by (simp add: decode4_def cont_def RuneError_def split: list.split)
qed

lemma decode_rune_large: "128 \<le> byte c \<Longrightarrow> 128 \<le> fst (decode_rune c cs)"
proof -
  assume a: "128 \<le> byte c"
  consider "byte c < 194" | "194 \<le> byte c \<and> byte c \<le> 223" | "byte c = 224" | "byte c = 237"
    | "225 \<le> byte c \<and> byte c \<le> 236" | "238 \<le> byte c \<and> byte c \<le> 239" | "byte c = 240"
    | "241 \<le> byte c \<and> byte c \<le> 243" | "byte c = 244" | "244 < byte c"
    by linarith
  then show ?thesis
    using a
    by cases (simp_all add: decode_rune_def Let_def decode2_large decode3_large decode4_large RuneError_def)
qed

lemma decode_rune_small:
  assumes "fst (decode_rune c cs) < 128"
  shows "decode_rune c cs = (byte c, 1)"
proof -
  have "byte c < 128" using assms decode_rune_large [of c cs] by linarith
  then show ?thesis by (rule decode_rune_ascii)
qed

lemma runes_small: "\<forall>r \<in> set (runes s). r < 128 \<Longrightarrow> runes s = map byte s"
proof (induction s)
  case (Cons c cs)
  have "fst (decode_rune c cs) \<in> set (runes (c # cs))" by simp
  with Cons.prems have "fst (decode_rune c cs) < 128" by blast
  then have d: "decode_rune c cs = (byte c, 1)" by (rule decode_rune_small)
  then have r: "runes (c # cs) = byte c # runes cs" by simp
  with Cons.prems have "\<forall>r \<in> set (runes cs). r < 128" by (simp only: r list.set) blast
  then show ?case using Cons.IH r by simp
qed simp

lemma isLabelValueChar_128: "isLabelValueChar r \<Longrightarrow> r < 128"
  by (auto simp: isLabelValueChar_def isLabelValueAlnum_def)

lemma label_value_runes:
  "(\<forall>r \<in> set (runes s). isLabelValueChar r) = (\<forall>c \<in> set s. isLabelValueChar (byte c))"
proof
  assume a: "\<forall>r \<in> set (runes s). isLabelValueChar r"
  then have "runes s = map byte s" using isLabelValueChar_128 runes_small by blast
  with a show "\<forall>c \<in> set s. isLabelValueChar (byte c)" by simp
next
  assume a: "\<forall>c \<in> set s. isLabelValueChar (byte c)"
  then have "ascii s" using isLabelValueChar_128 by (auto simp: ascii_def)
  with a show "\<forall>r \<in> set (runes s). isLabelValueChar r" by (simp add: runes_ascii)
qed

lemma isValidLabelValue_iff: "isValidLabelValue s = Some True \<longleftrightarrow> is_label_value s"
  by (auto simp: isValidLabelValue_def is_label_value_def label_value_runes)

lemma keep_label_char: "isLabelValueChar (byte (keep_or_hyphen isLabelValueChar r))"
proof (cases "isLabelValueChar r")
  case True
  then show ?thesis by (simp add: keep_or_hyphen_def isLabelValueChar_lt)
next
  case False
  then show ?thesis by (simp add: keep_or_hyphen_def isLabelValueChar_def)
qed

lemma value_label: "is_label_value ''value''"
  by (simp add: is_label_value_def isLabelValueChar_def isLabelValueAlnum_def byte_def)

lemma labelValueBase_ok:
  "labelValueBase s \<noteq> [] \<and> (\<forall>c \<in> set (labelValueBase s). isLabelValueChar (byte c))
     \<and> isLabelValueAlnum (byte (hd (labelValueBase s)))"
proof -
  let ?t = "trim_both not_alnum (map (keep_or_hyphen isLabelValueChar) (runes s))"
  show ?thesis
  proof (cases "?t = []")
    case True
    then have "labelValueBase s = ''value''" by (simp add: labelValueBase_def)
    then show ?thesis using value_label by (simp add: is_label_value_def)
  next
    case False
    then have e: "labelValueBase s = ?t" by (simp add: labelValueBase_def)
    have "\<forall>c \<in> set ?t. isLabelValueChar (byte c)"
    proof
      fix c assume "c \<in> set ?t"
      then have "c \<in> set (map (keep_or_hyphen isLabelValueChar) (runes s))"
        using set_trim_both by fast
      then show "isLabelValueChar (byte c)" by (auto simp: keep_label_char)
    qed
    then show ?thesis using False trim_both_ends(1) [OF False] unfolding e by (simp add: not_alnum_def)
  qed
qed

lemma SanitizeLabelValue_valid: "is_label_value s \<Longrightarrow> SanitizeLabelValue s = s"
  by (simp add: SanitizeLabelValue_def isValidLabelValue_iff) (simp add: is_label_value_def)

text \<open>A cut, trimmed base followed by a hyphen and a digest is a label value.\<close>

lemma hash12_alnum: "c \<in> set (hash12 s) \<Longrightarrow> isLabelValueAlnum (byte c)"
  using hash12_chars [of c s] by (auto simp: is_lower_hex_def isLabelValueAlnum_def Let_def)

lemma hashed_label:
  assumes "b \<noteq> []" and "\<forall>c \<in> set b. isLabelValueChar (byte c)"
    and "isLabelValueAlnum (byte (hd b))" and "length b \<le> maxBase"
  shows "is_label_value (b @ ''-'' @ hash12 s)"
proof -
  have "isLabelValueAlnum (byte (last (hash12 s)))"
    using last_in_set [OF hash12_nonempty] by (rule hash12_alnum)
  moreover have "\<forall>c \<in> set (b @ ''-'' @ hash12 s). isLabelValueChar (byte c)"
    using assms(2) hash12_alnum [of _ s] by (auto simp: isLabelValueChar_def byte_def)
  ultimately show ?thesis using assms by (simp add: is_label_value_def maxBase_def)
qed

lemma SanitizeLabelValue_ok: "is_label_value (SanitizeLabelValue s)"
proof (cases "is_label_value s")
  case True
  then show ?thesis by (simp add: SanitizeLabelValue_valid)
next
  case False
  let ?b = "labelValueBase s"
  let ?t = "if length ?b > maxBase then take maxBase ?b else ?b"
  let ?c = "trim_right not_alnum ?t"
  have t: "?t \<noteq> []" "\<not> not_alnum (hd ?t)" "\<forall>c \<in> set ?t. isLabelValueChar (byte c)"
    "length ?t \<le> maxBase"
    using labelValueBase_ok [of s]
    by (cases ?b; auto simp: maxBase_def not_alnum_def dest: in_set_takeD)+
  have c: "?c \<noteq> []" using t(1,2) by (rule trim_right_nonempty)
  have l: "length ?c \<le> maxBase" using length_trim_right t(4) by (rule le_trans)
  have s: "\<forall>c \<in> set ?c. isLabelValueChar (byte c)" using set_trim_right t(3) by fast
  have h: "isLabelValueAlnum (byte (hd ?c))" using hd_trim_right [OF c] t(2) by (simp add: not_alnum_def)
  have "SanitizeLabelValue s = ?c @ ''-'' @ hash12 s"
    using False c by (simp add: SanitizeLabelValue_def isValidLabelValue_iff Let_def)
  then show ?thesis using hashed_label [OF c s h l] by simp
qed

text \<open>What the clients of the sanitiser rely on: it yields label values and keeps those.\<close>

locale label_sanitizer =
  fixes clean :: "string \<Rightarrow> string"
  assumes clean_label: "is_label_value (clean s)"
    and clean_keeps: "is_label_value s \<Longrightarrow> clean s = s"
begin

lemma clean_idem: "clean (clean s) = clean s"
  by (rule clean_keeps) (rule clean_label)

lemma clean_length: "length (clean s) \<le> 63"
  using clean_label [of s] by (simp add: is_label_value_def)

lemma clean_fixpoint: "clean s = s \<longleftrightarrow> is_label_value s"
  using clean_label [of s] clean_keeps by metis

lemma clean_distinct:
  assumes "is_label_value s" and "is_label_value t" and "s \<noteq> t"
  shows "clean s \<noteq> clean t"
  using assms by (simp add: clean_keeps)

end

interpretation sanitizer: label_sanitizer SanitizeLabelValue
  by unfold_locales (rule SanitizeLabelValue_ok, rule SanitizeLabelValue_valid)

definition LabelsForMirror :: "GitMirror \<Rightarrow> (string \<rightharpoonup> string)" where
  "LabelsForMirror mirror = [
     LabelName \<mapsto> AppName,
     LabelGitMirror \<mapsto> SanitizeLabelValue (gm_Name mirror),
     LabelSourceOwner \<mapsto> SanitizeLabelValue (Owner (GitHub (Spec mirror))),
     LabelSourceRepo \<mapsto> SanitizeLabelValue (Repo (GitHub (Spec mirror)))]"

definition AnnotationsForMirror :: "GitMirror \<Rightarrow> (string \<rightharpoonup> string)" where
  "AnnotationsForMirror mirror = [
     AnnotationGitMirror \<mapsto> gm_Name mirror,
     AnnotationOwner \<mapsto> Owner (GitHub (Spec mirror)),
     AnnotationRepo \<mapsto> Repo (GitHub (Spec mirror))]"

lemma LabelsForMirror_GitMirror [simp]:
  "LabelsForMirror mirror LabelGitMirror = Some (SanitizeLabelValue (gm_Name mirror))"
  by (simp add: LabelsForMirror_def label_key_defs)

lemma AppName_label: "is_label_value AppName"
  by (simp add: is_label_value_def AppName_def isLabelValueChar_def isLabelValueAlnum_def byte_def)

lemma LabelsForMirror_values: "LabelsForMirror mirror k = Some v \<Longrightarrow> is_label_value v"
  using sanitizer.clean_label AppName_label by (auto simp: LabelsForMirror_def split: if_splits)

end
