(* ===== verification/Syncenv.thy ===== *)
theory Syncenv
  imports Prelude
begin

text \<open>
  \<open>internal/syncenv/env.go\<close>: the names of the environment variables through which the operator
  (\<open>internal/jobs\<close>) configures the sync runner (\<open>sync/main.go\<close>), and the fact both sides rely
  on: the per-endpoint names of one prefix are distinct from each other, from those of the
  other prefix and from the global names.
\<close>

definition AuthTypeSSH :: string where
  "AuthTypeSSH = ''ssh''"

definition AuthTypeBasic :: string where
  "AuthTypeBasic = ''basic''"

definition AuthTypeGitHubApp :: string where
  "AuthTypeGitHubApp = ''githubApp''"

definition SourcePrefix :: string where
  "SourcePrefix = ''SOURCE''"

definition TargetPrefix :: string where
  "TargetPrefix = ''TARGET''"

definition env_SourceURL :: string where
  "env_SourceURL = ''SOURCE_URL''"

definition env_TargetURL :: string where
  "env_TargetURL = ''TARGET_URL''"

definition env_MirrorMode :: string where
  "env_MirrorMode = ''MIRROR_MODE''"

definition env_IncludeTags :: string where
  "env_IncludeTags = ''INCLUDE_TAGS''"

definition env_KnownHostsPath :: string where
  "env_KnownHostsPath = ''KNOWN_HOSTS_PATH''"

definition env_Home :: string where
  "env_Home = ''HOME''"

definition SuffixAuthType :: string where
  "SuffixAuthType = ''AUTH_TYPE''"

definition SuffixSSHKeyPath :: string where
  "SuffixSSHKeyPath = ''SSH_KEY_PATH''"

definition SuffixAuthUsername :: string where
  "SuffixAuthUsername = ''AUTH_USERNAME''"

definition SuffixAuthPassword :: string where
  "SuffixAuthPassword = ''AUTH_PASSWORD''"

definition SuffixGitHubAppID :: string where
  "SuffixGitHubAppID = ''GITHUB_APP_ID''"

definition SuffixGitHubAppInstallationID :: string where
  "SuffixGitHubAppInstallationID = ''GITHUB_APP_INSTALLATION_ID''"

definition SuffixGitHubAppPrivateKeyPath :: string where
  "SuffixGitHubAppPrivateKeyPath = ''GITHUB_APP_PRIVATE_KEY_PATH''"

definition SuffixGitHubAppAPIURL :: string where
  "SuffixGitHubAppAPIURL = ''GITHUB_APP_API_URL''"

definition Endpoint :: "string \<Rightarrow> string \<Rightarrow> string" where
  "Endpoint pre suf = pre @ ''_'' @ suf"

lemmas auth_type_defs = AuthTypeSSH_def AuthTypeBasic_def AuthTypeGitHubApp_def

lemmas env_name_defs =
  SourcePrefix_def TargetPrefix_def env_SourceURL_def env_TargetURL_def env_MirrorMode_def
  env_IncludeTags_def env_KnownHostsPath_def env_Home_def SuffixAuthType_def
  SuffixSSHKeyPath_def SuffixAuthUsername_def SuffixAuthPassword_def SuffixGitHubAppID_def
  SuffixGitHubAppInstallationID_def SuffixGitHubAppPrivateKeyPath_def
  SuffixGitHubAppAPIURL_def Endpoint_def

end
