(* ===== verification/Job_Builder.thy ===== *)
theory Job_Builder
  imports Job_Names Syncenv
begin

text \<open>
  \<open>internal/jobs/builder.go\<close>: the Job the operator creates for a GitMirror. \<open>BuildSyncJob\<close>
  checks the image and the mode, turns each endpoint's authentication into environment
  variables, mounts and volumes (\<open>endpointAuth\<close>) and fills in the defaults. Of
  controller-runtime it uses \<open>controllerutil.SetControllerReference\<close>, a parameter here.
\<close>

subsection \<open>Secret references\<close>

definition sshAuthRef :: "GitEndpointSpec \<Rightarrow> error + SecretKeyRef" where
  "sshAuthRef endpoint =
     (case map_option auth_SSH (Auth endpoint) of
        Some (Some ssh) \<Rightarrow> Inr (PrivateKeyRef ssh)
      | _ \<Rightarrow> (case SSHSecretRef endpoint of
            Some ref \<Rightarrow> Inr ref
          | None \<Rightarrow> Inl (Failure ''auth.type=ssh requires auth.ssh.privateKeyRef or sshSecretRef'')))"

definition plainEnvVar :: "string \<Rightarrow> string \<Rightarrow> EnvVar" where
  "plainEnvVar name v = \<lparr>env_Name = name, env_Value = Value v\<rparr>"

definition secretEnvVar :: "string \<Rightarrow> SecretKeyRef \<Rightarrow> EnvVar" where
  "secretEnvVar name ref = \<lparr>env_Name = name, env_Value = SecretValue ref\<rparr>"

text \<open>File mode 0444.\<close>

definition mode_0444 :: int32 where
  "mode_0444 = 292"

definition secretVolume :: "string \<Rightarrow> SecretKeyRef \<Rightarrow> Volume" where
  "secretVolume name ref = \<lparr>vol_Name = name,
     vol_Source = SecretVolume (ref_Name ref) (Some mode_0444)
       [\<lparr>item_Key = ref_Key ref, item_Path = ref_Key ref, item_Mode = Some mode_0444\<rparr>]\<rparr>"

subsection \<open>Authentication of one endpoint\<close>

type_synonym auth_parts = "EnvVar list \<times> VolumeMount list \<times> Volume list"

definition endpoint_auth_type :: "GitEndpointSpec \<Rightarrow> string" where
  "endpoint_auth_type endpoint =
     (let authType = (case Auth endpoint of None \<Rightarrow> [] | Some a \<Rightarrow> auth_Type a)
      in if authType = [] \<and> SSHSecretRef endpoint \<noteq> None then AuthTypeSSH else authType)"

definition endpointAuth :: "string \<Rightarrow> string \<Rightarrow> GitEndpointSpec \<Rightarrow> error + auth_parts" where
  "endpointAuth envPrefix pathPrefix endpoint =
     (let authType = endpoint_auth_type endpoint;
          env = [plainEnvVar (Endpoint envPrefix SuffixAuthType) authType]
      in if authType = AuthTypeSSH then
           (case sshAuthRef endpoint of
              Inl err \<Rightarrow> Inl err
            | Inr ref \<Rightarrow>
                (let volumeName = pathPrefix @ ''-ssh-key'';
                     mountPath = ''/var/run/git-mirror/'' @ pathPrefix @ ''/ssh_key''
                 in Inr (env @ [plainEnvVar (Endpoint envPrefix SuffixSSHKeyPath) mountPath],
                      [\<lparr>vm_Name = volumeName, vm_MountPath = mountPath, vm_SubPath = ref_Key ref, vm_ReadOnly = True\<rparr>],
                      [secretVolume volumeName ref])))
         else if authType = AuthTypeBasic then
           (case map_option auth_Basic (Auth endpoint) of
              Some (Some basic) \<Rightarrow>
                Inr (env @ [secretEnvVar (Endpoint envPrefix SuffixAuthUsername) (UsernameSecretRef basic),
                       secretEnvVar (Endpoint envPrefix SuffixAuthPassword) (PasswordSecretRef basic)], [], [])
            | _ \<Rightarrow> Inl (Failure (ToLower_ascii envPrefix @ '' auth.type=basic requires auth.basic'')))
         else if authType = AuthTypeGitHubApp then
           (case map_option auth_GitHubApp (Auth endpoint) of
              Some (Some app) \<Rightarrow>
                (let privateKeyPath = ''/var/run/git-mirror/'' @ pathPrefix @ ''-github-app/private_key'';
                     volumeName = pathPrefix @ ''-github-app-private-key'';
                     env = env @ [secretEnvVar (Endpoint envPrefix SuffixGitHubAppID) (AppIDSecretRef app),
                       secretEnvVar (Endpoint envPrefix SuffixGitHubAppInstallationID) (InstallationIDSecretRef app),
                       plainEnvVar (Endpoint envPrefix SuffixGitHubAppPrivateKeyPath) privateKeyPath];
                     env = (if APIURL app \<noteq> []
                       then env @ [plainEnvVar (Endpoint envPrefix SuffixGitHubAppAPIURL) (APIURL app)] else env)
                 in Inr (env,
                      [\<lparr>vm_Name = volumeName, vm_MountPath = privateKeyPath,
                        vm_SubPath = ref_Key (PrivateKeySecretRef app), vm_ReadOnly = True\<rparr>],
                      [secretVolume volumeName (PrivateKeySecretRef app)]))
            | _ \<Rightarrow> Inl (Failure (ToLower_ascii envPrefix @ '' auth.type=githubApp requires auth.githubApp'')))
         else if authType = [] then Inl (Failure (ToLower_ascii envPrefix @ '' auth is required''))
         else Inl (FailureQ (''unsupported '' @ ToLower_ascii envPrefix @ '' auth type '') authType))"

subsection \<open>The Job\<close>

text \<open>
  \<open>opt_Scheme\<close> tells whether the scheme pointer is set. The function argument of
  \<open>BuildSyncJob\<close> stands for \<open>controllerutil.SetControllerReference\<close> with that scheme.
\<close>

record Options =
  opt_DefaultImage :: string
  opt_Scheme :: bool
  opt_TriggerID :: string
  opt_Revision :: string

record SyncJob =
  sync_Job :: BatchJob

type_synonym set_reference = "GitMirror \<Rightarrow> BatchJob \<Rightarrow> error + BatchJob"

definition or_default :: "string \<Rightarrow> string \<Rightarrow> string" where
  "or_default v d = (if v = [] then d else v)"

definition default_resources :: "ResourceRequirements \<Rightarrow> ResourceRequirements" where
  "default_resources r =
     (if Requests r = None \<and> Limits r = None then
        \<lparr>Requests = Some [''cpu'' \<mapsto> ''50m'', ''memory'' \<mapsto> ''64Mi''],
         Limits = Some [''cpu'' \<mapsto> ''500m'', ''memory'' \<mapsto> ''512Mi'']\<rparr>
      else r)"

definition sync_labels :: "GitMirror \<Rightarrow> Options \<Rightarrow> (string \<rightharpoonup> string)" where
  "sync_labels mirror opts =
     (if opt_TriggerID opts \<noteq> []
      then (LabelsForMirror mirror)(LabelDeliveryID \<mapsto> SanitizeLabelValue (opt_TriggerID opts))
      else LabelsForMirror mirror)"

definition sync_annotations :: "GitMirror \<Rightarrow> Options \<Rightarrow> (string \<rightharpoonup> string)" where
  "sync_annotations mirror opts =
     (let annotations = (AnnotationsForMirror mirror)(AnnotationGeneration \<mapsto> FormatInt (gm_Generation mirror))
      in if opt_Revision opts \<noteq> [] then annotations(AnnotationRevision \<mapsto> opt_Revision opts)
         else annotations)"

lemma sync_annotations_generation [simp]:
  "map_get (sync_annotations mirror opts) AnnotationGeneration = FormatInt (gm_Generation mirror)"
  by (simp add: sync_annotations_def Let_def annotation_key_defs)

lemma sync_annotations_revision:
  "map_get (sync_annotations mirror opts) AnnotationRevision = opt_Revision opts"
  by (simp add: sync_annotations_def AnnotationsForMirror_def Let_def annotation_key_defs map_get_def)

definition base_env :: "GitMirror \<Rightarrow> string \<Rightarrow> EnvVar list" where
  "base_env mirror mode =
     [plainEnvVar env_SourceURL (URL (Source (Spec mirror))),
      plainEnvVar env_TargetURL (URL (Target (Spec mirror))),
      plainEnvVar env_MirrorMode mode]
     @ (if mode = ''additive''
        then [plainEnvVar env_IncludeTags (FormatBool (IncludeTags (Mirror (Spec mirror))))] else [])
     @ [plainEnvVar env_KnownHostsPath ''/var/run/git-mirror/known-hosts/known_hosts'',
        plainEnvVar env_Home ''/tmp'']"

definition known_hosts_volume :: "JobSpec \<Rightarrow> Volume" where
  "known_hosts_volume spec = \<lparr>vol_Name = ''known-hosts'',
     vol_Source = ConfigMapVolume (or_default (KnownHostsConfigMapName spec) DefaultKnownHostsCM)
       [\<lparr>item_Key = or_default (KnownHostsConfigMapKey spec) ''known_hosts'',
         item_Path = ''known_hosts'', item_Mode = Some mode_0444\<rparr>] (Some True)\<rparr>"

definition base_mounts :: "VolumeMount list" where
  "base_mounts =
     [\<lparr>vm_Name = ''known-hosts'', vm_MountPath = ''/var/run/git-mirror/known-hosts/known_hosts'',
       vm_SubPath = ''known_hosts'', vm_ReadOnly = True\<rparr>,
      \<lparr>vm_Name = ''tmp'', vm_MountPath = ''/tmp'', vm_SubPath = [], vm_ReadOnly = False\<rparr>]"

text \<open>The pod template's spec, from the parts computed before.\<close>

definition sync_pod :: "JobSpec \<Rightarrow> string \<Rightarrow> EnvVar list \<Rightarrow> VolumeMount list \<Rightarrow> Volume list \<Rightarrow> PodSpec" where
  "sync_pod spec img env authMounts authVolumes = \<lparr>
     pod_ServiceAccountName = or_default (spec_ServiceAccountName spec) ''git-mirror-sync'',
     pod_RestartPolicy = ''Never'',
     pod_SecurityContext = \<lparr>RunAsNonRoot = Some True, RunAsUser = Some 65532,
       SeccompProfileType = ''RuntimeDefault''\<rparr>,
     pod_Containers = [\<lparr>
       ctr_Name = ''sync'',
       ctr_Image = img,
       ctr_ImagePullPolicy = ''IfNotPresent'',
       ctr_Env = env,
       ctr_Resources = default_resources (spec_Resources spec),
       ctr_SecurityContext = \<lparr>AllowPrivilegeEscalation = Some False,
         ReadOnlyRootFilesystem = Some True, DropCapabilities = [''ALL'']\<rparr>,
       ctr_VolumeMounts = authMounts @ base_mounts\<rparr>],
     pod_Volumes = authVolumes
       @ [known_hosts_volume spec, \<lparr>vol_Name = ''tmp'', vol_Source = EmptyDirVolume\<rparr>]\<rparr>"

definition sync_job :: "GitMirror \<Rightarrow> Options \<Rightarrow> PodSpec \<Rightarrow> BatchJob" where
  "sync_job mirror opts pod = (let spec = Job (Spec mirror) in \<lparr>
     job_Name = (if opt_TriggerID opts \<noteq> [] then NameForMirrorTrigger mirror (opt_TriggerID opts) else []),
     job_GenerateName = (if opt_TriggerID opts \<noteq> [] then []
       else dnsLabel (''gitmirror-'' @ gm_Name mirror @ ''-'')),
     job_Namespace = gm_Namespace mirror,
     job_Labels = sync_labels mirror opts,
     job_Annotations = sync_annotations mirror opts,
     job_Owner = None,
     job_DeletionTimestamp = None,
     job_Spec = \<lparr>
       BackoffLimit = Some (case spec_BackoffLimit spec of None \<Rightarrow> 1 | Some n \<Rightarrow> n),
       TTLSecondsAfterFinished = Some (case spec_TTLSecondsAfterFinished spec of None \<Rightarrow> 3600 | Some n \<Rightarrow> n),
       ActiveDeadlineSeconds = spec_ActiveDeadlineSeconds spec,
       TemplateLabels = sync_labels mirror opts,
       TemplateSpec = pod\<rparr>,
     job_Conditions = []\<rparr>)"

definition BuildSyncJob :: "set_reference \<Rightarrow> GitMirror option \<Rightarrow> Options \<Rightarrow> error + SyncJob" where
  "BuildSyncJob set_ref mirror_ptr opts =
     (case mirror_ptr of
        None \<Rightarrow> Inl (Failure ''mirror is required'')
      | Some mirror \<Rightarrow>
          (let img = or_default (spec_Image (Job (Spec mirror))) (opt_DefaultImage opts) in
           if img = [] then Inl (Failure ''sync job image is required'')
           else let mode = or_default (Mode (Mirror (Spec mirror))) ''exact'' in
           if mode \<noteq> ''exact'' \<and> mode \<noteq> ''additive'' then Inl (FailureQ ''unsupported mirror mode '' mode)
           else case endpointAuth SourcePrefix ''source'' (Source (Spec mirror)) of
             Inl err \<Rightarrow> Inl err
           | Inr (sourceEnv, sourceMounts, sourceVolumes) \<Rightarrow>
           (case endpointAuth TargetPrefix ''target'' (Target (Spec mirror)) of
             Inl err \<Rightarrow> Inl err
           | Inr (targetEnv, targetMounts, targetVolumes) \<Rightarrow>
           (let job = sync_job mirror opts (sync_pod (Job (Spec mirror)) img
                  (base_env mirror mode @ sourceEnv @ targetEnv)
                  (sourceMounts @ targetMounts) (sourceVolumes @ targetVolumes))
            in if opt_Scheme opts
               then (case set_ref mirror job of
                       Inl err \<Rightarrow> Inl err
                     | Inr job \<Rightarrow> Inr \<lparr>sync_Job = job\<rparr>)
               else Inr \<lparr>sync_Job = job\<rparr>))))"

end
