(* ===== verification/Go_Time.thy ===== *)
theory Go_Time
  imports API_Types
begin

text \<open>
  What the program uses of Go's \<open>time\<close>: the \<open>RFC3339Nano\<close> text of an instant in UTC (the
  reconciler's clock is \<open>time.Now().UTC()\<close>), which names the triggers of follow-up and
  scheduled syncs, and the saturating difference that \<open>time.Until\<close> computes.
\<close>

definition ns_per_second :: int where
  "ns_per_second = 1000000000"

definition seconds :: "int \<Rightarrow> int" where
  "seconds n = n * ns_per_second"

text \<open>Days since 1970-01-01 to (year, month, day), proleptic Gregorian calendar.\<close>

definition civil_of_days :: "int \<Rightarrow> int \<times> int \<times> int" where
  "civil_of_days z =
     (let z = z + 719468;
          era = z div 146097;
          doe = z mod 146097;
          yoe = (doe - doe div 1460 + doe div 36524 - doe div 146096) div 365;
          doy = doe - (365 * yoe + yoe div 4 - yoe div 100);
          mp = (5 * doy + 2) div 153;
          d = doy - (153 * mp + 2) div 5 + 1;
          m = (if mp < 10 then mp + 3 else mp - 9);
          y = yoe + era * 400
      in (if m \<le> 2 then y + 1 else y, m, d))"

definition pad_zeros :: "nat \<Rightarrow> int \<Rightarrow> string" where
  "pad_zeros w i =
     (let ds = show_nat (nat \<bar>i\<bar>); z = replicate (w - length ds) CHR ''0'' @ ds
      in if i < 0 then CHR ''-'' # z else z)"

text \<open>The fraction of a second without trailing zeros, with its point; empty when it is zero.\<close>

definition fraction :: "int \<Rightarrow> string" where
  "fraction ns = (if ns = 0 then []
     else CHR ''.'' # trim_right (\<lambda>c. c = CHR ''0'') (pad_zeros 9 ns))"

definition FormatRFC3339Nano :: "time \<Rightarrow> string" where
  "FormatRFC3339Nano t =
     (let ns = t mod ns_per_second; s = t div ns_per_second;
          (y, m, d) = civil_of_days (s div 86400);
          sod = s mod 86400
      in pad_zeros 4 y @ ''-'' @ pad_zeros 2 m @ ''-'' @ pad_zeros 2 d @ ''T''
         @ pad_zeros 2 (sod div 3600) @ '':'' @ pad_zeros 2 (sod div 60 mod 60) @ '':''
         @ pad_zeros 2 (sod mod 60) @ fraction ns @ ''Z'')"

text \<open>\<open>t.Sub(u)\<close>: a \<open>Duration\<close> is an \<open>int64\<close> of nanoseconds, and the difference saturates.\<close>

definition time_Sub :: "time \<Rightarrow> time \<Rightarrow> int" where
  "time_Sub t u = max (- (2 ^ 63)) (min (2 ^ 63 - 1) (t - u))"

lemma time_Sub_range: "- (2 ^ 63) \<le> time_Sub t u \<and> time_Sub t u < 2 ^ 63"
  by (simp add: time_Sub_def)

lemma time_Sub_exact: "- (2 ^ 63) \<le> t - u \<Longrightarrow> t - u < 2 ^ 63 \<Longrightarrow> time_Sub t u = t - u"
  by (simp add: time_Sub_def)

lemma FormatRFC3339Nano_nonempty [simp]: "FormatRFC3339Nano t \<noteq> []"
  by (simp add: FormatRFC3339Nano_def Let_def split: prod.split)

end
