(* ===== verification/Status.thy ===== *)
theory Status
  imports Job_Builder Go_Time
begin

text \<open>
  \<open>internal/controller/status.go\<close>: the functions that write \<open>GitMirror.status\<close>, as functions
  from a GitMirror to the updated GitMirror (and the boolean they return), and the tests on
  Jobs (\<open>JobFinished\<close>, \<open>JobActive\<close>). Third-party code the controller relies on is a record of
  parameters, \<open>External\<close>: \<open>meta.SetStatusCondition\<close>, \<open>cron.ParseStandard\<close> with the
  schedule's \<open>Next\<close>, \<open>controllerutil.SetControllerReference\<close>, and how often
  \<open>retry.RetryOnConflict\<close> tries again after the first attempt.
\<close>

record External =
  ext_SetStatusCondition :: "Condition list \<Rightarrow> Condition \<Rightarrow> Condition list"
  ext_ParseStandard :: "string \<Rightarrow> error + (time \<Rightarrow> time)"
  ext_SetControllerReference :: set_reference
  ext_Retries :: nat

subsection \<open>Tests on Jobs\<close>

definition isJobComplete :: "BatchJob \<Rightarrow> bool" where
  "isJobComplete job =
     list_ex (\<lambda>c. jc_Type c = ''Complete'' \<and> jc_Status c = ConditionTrue) (job_Conditions job)"

definition failure_reason :: "BatchJob \<Rightarrow> JobCondition \<Rightarrow> string" where
  "failure_reason job c =
     (let parts = (if jc_Reason c \<noteq> [] then [jc_Reason c] else [])
            @ (if jc_Message c \<noteq> [] then [jc_Message c] else [])
      in if parts = [] then ''job '' @ job_Name job @ '' failed'' else Join parts '': '')"

definition isJobFailed :: "BatchJob \<Rightarrow> bool \<times> string" where
  "isJobFailed job =
     (case List.find (\<lambda>c. jc_Type c = ''Failed'' \<and> jc_Status c = ConditionTrue) (job_Conditions job) of
        Some c \<Rightarrow> (True, failure_reason job c)
      | None \<Rightarrow> (False, []))"

definition JobFinished :: "BatchJob option \<Rightarrow> bool" where
  "JobFinished job = (case job of None \<Rightarrow> False
     | Some j \<Rightarrow> if isJobComplete j then True else fst (isJobFailed j))"

definition JobActive :: "BatchJob option \<Rightarrow> bool" where
  "JobActive job = (case job of None \<Rightarrow> False
     | Some j \<Rightarrow> \<not> JobFinished job \<and> job_DeletionTimestamp j = None)"

lemma failure_reason_nonempty: "failure_reason job c \<noteq> []"
  by (simp add: failure_reason_def Let_def)

lemma isJobFailed_reason: "isJobFailed job = (True, reason) \<Longrightarrow> reason \<noteq> []"
  by (auto simp: isJobFailed_def failure_reason_nonempty split: option.splits)

lemma JobFinished_Some: "JobFinished (Some j) \<longleftrightarrow> isJobComplete j \<or> fst (isJobFailed j)"
  by (simp add: JobFinished_def)

lemma not_active_finished: "JobFinished job \<Longrightarrow> \<not> JobActive job"
  by (cases job) (simp_all add: JobActive_def)

subsection \<open>Conditions\<close>

definition setConditionForGeneration ::
  "External \<Rightarrow> GitMirror \<Rightarrow> string \<Rightarrow> int64 \<Rightarrow> ConditionStatus \<Rightarrow> string \<Rightarrow> string \<Rightarrow> GitMirror" where
  "setConditionForGeneration X mirror conditionType observedGeneration status reason message =
     mirror\<lparr>Status := (Status mirror)\<lparr>Conditions :=
       ext_SetStatusCondition X (Conditions (Status mirror))
         \<lparr>cond_Type = conditionType, cond_Status = status,
          cond_ObservedGeneration = observedGeneration, cond_LastTransitionTime = None,
          cond_Reason = reason, cond_Message = message\<rparr>\<rparr>\<rparr>"

definition setCondition ::
  "External \<Rightarrow> GitMirror \<Rightarrow> string \<Rightarrow> ConditionStatus \<Rightarrow> string \<Rightarrow> string \<Rightarrow> GitMirror" where
  "setCondition X mirror conditionType status reason message =
     setConditionForGeneration X mirror conditionType (gm_Generation mirror) status reason message"

subsection \<open>Webhook and scheduling\<close>

definition ApplyWebhookState ::
  "External \<Rightarrow> GitMirror \<Rightarrow> string \<Rightarrow> time \<Rightarrow> bool \<Rightarrow> GitMirror \<times> bool" where
  "ApplyWebhookState X mirror deliveryID now activeJobExists =
     (let mirror = mirror\<lparr>Status := (Status mirror)\<lparr>LastWebhookAt := Some now, LastDeliveryID := deliveryID\<rparr>\<rparr>
      in if activeJobExists then
           (setCondition X (mirror\<lparr>Status := (Status mirror)\<lparr>PendingResync := True\<rparr>\<rparr>)
              ''SyncPending'' ConditionTrue ''ActiveJobExists'' ''Webhook coalesced while a sync job is active'', False)
         else
           (setCondition X (mirror\<lparr>Status := (Status mirror)\<lparr>LastTriggeredAt := Some now, PendingResync := False\<rparr>\<rparr>)
              ''SyncPending'' ConditionFalse ''JobScheduled'' ''Sync job scheduled'', True))"

definition ApplyWebhookIntent :: "External \<Rightarrow> GitMirror \<Rightarrow> string \<Rightarrow> string \<Rightarrow> time \<Rightarrow> GitMirror" where
  "ApplyWebhookIntent X mirror deliveryID revision now =
     (let st = (Status mirror)\<lparr>LastWebhookAt := Some now, LastDeliveryID := deliveryID\<rparr>;
          st = (if revision \<noteq> [] then st\<lparr>LastRequestedRevision := revision\<rparr> else st);
          st = st\<lparr>PendingResync := True\<rparr>
      in setCondition X (mirror\<lparr>Status := st\<rparr>) ''SyncPending'' ConditionTrue ''WebhookReceived''
           ''Webhook recorded and waiting for the reconciler to schedule a sync job'')"

definition ApplySyncScheduled :: "External \<Rightarrow> GitMirror \<Rightarrow> string \<Rightarrow> time \<Rightarrow> GitMirror" where
  "ApplySyncScheduled X mirror jobName now =
     setCondition X (mirror\<lparr>Status := (Status mirror)\<lparr>ObservedGeneration := gm_Generation mirror,
         LastTriggeredAt := Some now, LastJobName := jobName, PendingResync := False\<rparr>\<rparr>)
       ''SyncPending'' ConditionFalse ''JobScheduled'' ''Sync job scheduled''"

definition ApplySyncScheduledForGeneration ::
  "External \<Rightarrow> GitMirror \<Rightarrow> string \<Rightarrow> int64 \<Rightarrow> time \<Rightarrow> GitMirror \<times> bool" where
  "ApplySyncScheduledForGeneration X mirror jobName generation now =
     (if gm_Generation mirror \<noteq> generation then (mirror, False)
      else (ApplySyncScheduled X mirror jobName now, True))"

subsection \<open>Finished Jobs\<close>

definition record_outcome ::
  "External \<Rightarrow> GitMirror \<Rightarrow> BatchJob \<Rightarrow> time \<Rightarrow> int64 \<Rightarrow> GitMirror" where
  "record_outcome X mirror job now conditionGeneration =
     (let mirror = mirror\<lparr>Status := (Status mirror)\<lparr>LastJobName := job_Name job,
            LastCompletedJobName := job_Name job\<rparr>\<rparr>
      in if isJobComplete job then
           (let st = (Status mirror)\<lparr>LastSuccessAt := Some now, LastError := []\<rparr>;
                revision = map_get (job_Annotations job) AnnotationRevision;
                st = (if revision \<noteq> [] then st\<lparr>LastMirroredRevision := revision\<rparr> else st)
            in setConditionForGeneration X (mirror\<lparr>Status := st\<rparr>) ''Ready'' conditionGeneration
                 ConditionTrue ''SyncSucceeded'' ''Last sync job completed successfully'')
         else (case isJobFailed job of
             (True, reason) \<Rightarrow>
               setConditionForGeneration X
                 (mirror\<lparr>Status := (Status mirror)\<lparr>LastFailureAt := Some now, LastError := reason\<rparr>\<rparr>)
                 ''Ready'' conditionGeneration ConditionFalse ''SyncFailed'' reason
           | (False, _) \<Rightarrow> mirror))"

definition applyCompletedJobStatus ::
  "External \<Rightarrow> GitMirror \<Rightarrow> BatchJob \<Rightarrow> time \<Rightarrow> bool \<Rightarrow> int64 \<Rightarrow> GitMirror \<times> bool" where
  "applyCompletedJobStatus X mirror job now updatePending conditionGeneration =
     (let mirror = record_outcome X mirror job now conditionGeneration
      in if \<not> updatePending then (mirror, False)
         else let followup = PendingResync (Status mirror)
         in if followup then
              (setCondition X (mirror\<lparr>Status := (Status mirror)\<lparr>PendingResync := False, LastTriggeredAt := Some now\<rparr>\<rparr>)
                 ''SyncPending'' ConditionFalse ''FollowupScheduled'' ''Follow-up sync requested for coalesced webhook'',
               followup)
            else (mirror, followup))"

definition ApplyCompletedJobStatus ::
  "External \<Rightarrow> GitMirror \<Rightarrow> BatchJob \<Rightarrow> time \<Rightarrow> GitMirror \<times> bool" where
  "ApplyCompletedJobStatus X mirror job now =
     (let mirror = mirror\<lparr>Status := (Status mirror)\<lparr>ObservedGeneration := gm_Generation mirror\<rparr>\<rparr>
      in applyCompletedJobStatus X mirror job now True (gm_Generation mirror))"

definition ApplyCompletedJobStatusForGeneration ::
  "External \<Rightarrow> GitMirror \<Rightarrow> BatchJob \<Rightarrow> int64 \<Rightarrow> time \<Rightarrow> GitMirror \<times> bool" where
  "ApplyCompletedJobStatusForGeneration X mirror job generation now =
     (if gm_Generation mirror \<noteq> generation then (mirror, False)
      else ApplyCompletedJobStatus X mirror job now)"

definition ApplyCompletedLegacyJobStatus ::
  "External \<Rightarrow> GitMirror \<Rightarrow> BatchJob \<Rightarrow> time \<Rightarrow> GitMirror \<times> bool" where
  "ApplyCompletedLegacyJobStatus X mirror job now =
     applyCompletedJobStatus X mirror job now False (ObservedGeneration (Status mirror))"

end
