(* ===== verification/Kube_Client.thy ===== *)
theory Kube_Client
  imports API_Types
begin

text \<open>
  The operator talks to the Kubernetes API server through \<open>client.Client\<close> and reads the clock.
  That code is not under \<open>src/\<close>, so nothing is assumed here of what a call does: a handler is a
  \<open>prog\<close>, the calls it makes in order, each with a continuation that takes the answer. An
  \<open>event\<close> is one call with its answer; \<open>after p es\<close> is what is left of \<open>p\<close> once the events \<open>es\<close>
  have happened, for any answers, any state of the cluster and any moves of other processes
  between two calls. A list that stops short of \<open>Return\<close> is a run that was cut off.

  \<open>wp\<close> computes what must hold for a run to satisfy a postcondition and to keep an invariant
  in every state on the way, for worlds \<open>E\<close> that relate a state, an event and the next state;
  \<open>wp_sound\<close> ties it to the runs.
\<close>

subsection \<open>Programs and events\<close>

datatype 'a prog =
    Return 'a
  | GetMirror ObjectKey "error + GitMirror \<Rightarrow> 'a prog"
  | ListMirrors "error + GitMirror list \<Rightarrow> 'a prog"
  | PatchStatus GitMirror GitMirror "error option \<Rightarrow> 'a prog"
  | ListJobs string string string "error + BatchJob list \<Rightarrow> 'a prog"
  | GetJob ObjectKey "error + BatchJob \<Rightarrow> 'a prog"
  | CreateJob BatchJob "error option \<Rightarrow> 'a prog"
  | GetLease ObjectKey "error + Lease \<Rightarrow> 'a prog"
  | CreateLease Lease "error option \<Rightarrow> 'a prog"
  | UpdateLease Lease "error option \<Rightarrow> 'a prog"
  | DeleteLease Lease "error option \<Rightarrow> 'a prog"
  | GetSecret ObjectKey "error + SecretData \<Rightarrow> 'a prog"
  | ClockNow "time \<Rightarrow> 'a prog"
  | WallNow "time \<Rightarrow> 'a prog"

text \<open>
  \<open>PatchStatus m b\<close> sends the merge patch from \<open>b\<close> to \<open>m\<close> of the status subresource.
  \<open>ListJobs ns k v\<close> lists the Jobs of namespace \<open>ns\<close> whose label \<open>k\<close> is \<open>v\<close>. \<open>ClockNow\<close> is the
  reconciler's \<open>r.now()\<close> (or the webhook server's \<open>s.now()\<close>), \<open>WallNow\<close> the clock that
  \<open>time.Until\<close> reads.
\<close>

datatype event =
    EvGetMirror ObjectKey "error + GitMirror"
  | EvListMirrors "error + GitMirror list"
  | EvPatchStatus GitMirror GitMirror "error option"
  | EvListJobs string string string "error + BatchJob list"
  | EvGetJob ObjectKey "error + BatchJob"
  | EvCreateJob BatchJob "error option"
  | EvGetLease ObjectKey "error + Lease"
  | EvCreateLease Lease "error option"
  | EvUpdateLease Lease "error option"
  | EvDeleteLease Lease "error option"
  | EvGetSecret ObjectKey "error + SecretData"
  | EvClockNow time
  | EvWallNow time

primrec bindp :: "'a prog \<Rightarrow> ('a \<Rightarrow> 'b prog) \<Rightarrow> 'b prog" where
  "bindp (Return a) f = f a"
| "bindp (GetMirror k c) f = GetMirror k (\<lambda>r. bindp (c r) f)"
| "bindp (ListMirrors c) f = ListMirrors (\<lambda>r. bindp (c r) f)"
| "bindp (PatchStatus m b c) f = PatchStatus m b (\<lambda>r. bindp (c r) f)"
| "bindp (ListJobs n k v c) f = ListJobs n k v (\<lambda>r. bindp (c r) f)"
| "bindp (GetJob k c) f = GetJob k (\<lambda>r. bindp (c r) f)"
| "bindp (CreateJob j c) f = CreateJob j (\<lambda>r. bindp (c r) f)"
| "bindp (GetLease k c) f = GetLease k (\<lambda>r. bindp (c r) f)"
| "bindp (CreateLease l c) f = CreateLease l (\<lambda>r. bindp (c r) f)"
| "bindp (UpdateLease l c) f = UpdateLease l (\<lambda>r. bindp (c r) f)"
| "bindp (DeleteLease l c) f = DeleteLease l (\<lambda>r. bindp (c r) f)"
| "bindp (GetSecret k c) f = GetSecret k (\<lambda>r. bindp (c r) f)"
| "bindp (ClockNow c) f = ClockNow (\<lambda>r. bindp (c r) f)"
| "bindp (WallNow c) f = WallNow (\<lambda>r. bindp (c r) f)"

lemma bindp_Return [simp]: "bindp p Return = p"
  by (induction p) simp_all

lemma bindp_assoc: "bindp (bindp p f) g = bindp p (\<lambda>a. bindp (f a) g)"
  by (induction p) simp_all

subsection \<open>Runs\<close>

text \<open>One call with its answer; \<open>None\<close> when the event is not the call the program makes next.\<close>

primrec resume :: "'a prog \<Rightarrow> event \<Rightarrow> 'a prog option" where
  "resume (Return a) e = None"
| "resume (GetMirror k c) e =
     (case e of EvGetMirror k' r \<Rightarrow> if k' = k then Some (c r) else None | _ \<Rightarrow> None)"
| "resume (ListMirrors c) e = (case e of EvListMirrors r \<Rightarrow> Some (c r) | _ \<Rightarrow> None)"
| "resume (PatchStatus m b c) e =
     (case e of EvPatchStatus m' b' r \<Rightarrow> if m' = m \<and> b' = b then Some (c r) else None | _ \<Rightarrow> None)"
| "resume (ListJobs n k v c) e =
     (case e of EvListJobs n' k' v' r \<Rightarrow>
        if n' = n \<and> k' = k \<and> v' = v then Some (c r) else None | _ \<Rightarrow> None)"
| "resume (GetJob k c) e =
     (case e of EvGetJob k' r \<Rightarrow> if k' = k then Some (c r) else None | _ \<Rightarrow> None)"
| "resume (CreateJob j c) e =
     (case e of EvCreateJob j' r \<Rightarrow> if j' = j then Some (c r) else None | _ \<Rightarrow> None)"
| "resume (GetLease k c) e =
     (case e of EvGetLease k' r \<Rightarrow> if k' = k then Some (c r) else None | _ \<Rightarrow> None)"
| "resume (CreateLease l c) e =
     (case e of EvCreateLease l' r \<Rightarrow> if l' = l then Some (c r) else None | _ \<Rightarrow> None)"
| "resume (UpdateLease l c) e =
     (case e of EvUpdateLease l' r \<Rightarrow> if l' = l then Some (c r) else None | _ \<Rightarrow> None)"
| "resume (DeleteLease l c) e =
     (case e of EvDeleteLease l' r \<Rightarrow> if l' = l then Some (c r) else None | _ \<Rightarrow> None)"
| "resume (GetSecret k c) e =
     (case e of EvGetSecret k' r \<Rightarrow> if k' = k then Some (c r) else None | _ \<Rightarrow> None)"
| "resume (ClockNow c) e = (case e of EvClockNow r \<Rightarrow> Some (c r) | _ \<Rightarrow> None)"
| "resume (WallNow c) e = (case e of EvWallNow r \<Rightarrow> Some (c r) | _ \<Rightarrow> None)"

primrec after :: "'a prog \<Rightarrow> event list \<Rightarrow> 'a prog option" where
  "after p [] = Some p"
| "after p (e # es) = (case resume p e of None \<Rightarrow> None | Some p' \<Rightarrow> after p' es)"

lemma after_append:
  "after p (es @ es') = (case after p es of None \<Rightarrow> None | Some p' \<Rightarrow> after p' es')"
  by (induction es arbitrary: p) (auto split: option.split)

lemma resume_bindp:
  "resume p e = Some p' \<Longrightarrow> resume (bindp p f) e = Some (bindp p' f)"
  by (cases p; cases e) (auto split: if_split_asm)

lemma after_bindp:
  "after p es = Some p' \<Longrightarrow> after (bindp p f) es = Some (bindp p' f)"
  by (induction es arbitrary: p) (auto split: option.splits simp: resume_bindp)

text \<open>A run of a sequence is a run of its first part, then of the second.\<close>

lemma after_bindp_Return:
  "after p es = Some (Return a) \<Longrightarrow> after (bindp p f) (es @ es') = after (f a) es'"
  by (simp add: after_append after_bindp)

subsection \<open>Weakest preconditions\<close>

text \<open>
  A world relates a state, a call with its answer, and the next state. Any bookkeeping over
  the events (\<open>counting\<close>, a history, a monitor) and any model of a cluster is a world.
\<close>

type_synonym 's world = "'s \<Rightarrow> event \<Rightarrow> 's \<Rightarrow> bool"

primrec wp :: "'s world \<Rightarrow> ('s \<Rightarrow> bool) \<Rightarrow> 'a prog \<Rightarrow> ('a \<Rightarrow> 's \<Rightarrow> bool) \<Rightarrow> 's \<Rightarrow> bool" where
  "wp E I (Return a) Q s = Q a s"
| "wp E I (GetMirror k c) Q s = (\<forall>r t. E s (EvGetMirror k r) t \<longrightarrow> I t \<and> wp E I (c r) Q t)"
| "wp E I (ListMirrors c) Q s = (\<forall>r t. E s (EvListMirrors r) t \<longrightarrow> I t \<and> wp E I (c r) Q t)"
| "wp E I (PatchStatus m b c) Q s = (\<forall>r t. E s (EvPatchStatus m b r) t \<longrightarrow> I t \<and> wp E I (c r) Q t)"
| "wp E I (ListJobs n k v c) Q s = (\<forall>r t. E s (EvListJobs n k v r) t \<longrightarrow> I t \<and> wp E I (c r) Q t)"
| "wp E I (GetJob k c) Q s = (\<forall>r t. E s (EvGetJob k r) t \<longrightarrow> I t \<and> wp E I (c r) Q t)"
| "wp E I (CreateJob j c) Q s = (\<forall>r t. E s (EvCreateJob j r) t \<longrightarrow> I t \<and> wp E I (c r) Q t)"
| "wp E I (GetLease k c) Q s = (\<forall>r t. E s (EvGetLease k r) t \<longrightarrow> I t \<and> wp E I (c r) Q t)"
| "wp E I (CreateLease l c) Q s = (\<forall>r t. E s (EvCreateLease l r) t \<longrightarrow> I t \<and> wp E I (c r) Q t)"
| "wp E I (UpdateLease l c) Q s = (\<forall>r t. E s (EvUpdateLease l r) t \<longrightarrow> I t \<and> wp E I (c r) Q t)"
| "wp E I (DeleteLease l c) Q s = (\<forall>r t. E s (EvDeleteLease l r) t \<longrightarrow> I t \<and> wp E I (c r) Q t)"
| "wp E I (GetSecret k c) Q s = (\<forall>r t. E s (EvGetSecret k r) t \<longrightarrow> I t \<and> wp E I (c r) Q t)"
| "wp E I (ClockNow c) Q s = (\<forall>r t. E s (EvClockNow r) t \<longrightarrow> I t \<and> wp E I (c r) Q t)"
| "wp E I (WallNow c) Q s = (\<forall>r t. E s (EvWallNow r) t \<longrightarrow> I t \<and> wp E I (c r) Q t)"

lemma wp_bindp: "wp E I (bindp p f) Q s = wp E I p (\<lambda>a. wp E I (f a) Q) s"
  by (induction p arbitrary: s) simp_all

lemma wp_mono: "wp E I p Q s \<Longrightarrow> (\<And>a t. Q a t \<Longrightarrow> R a t) \<Longrightarrow> wp E I p R s"
  by (induction p arbitrary: s) auto

text \<open>The postcondition may use the invariant of the last state.\<close>

lemma wp_mono_inv:
  "wp E I p Q s \<Longrightarrow> I s \<Longrightarrow> (\<And>a t. I t \<Longrightarrow> Q a t \<Longrightarrow> R a t) \<Longrightarrow> wp E I p R s"
  by (induction p arbitrary: s) auto

inductive runs :: "'s world \<Rightarrow> 's \<Rightarrow> event list \<Rightarrow> 's \<Rightarrow> bool" for E where
  runs_Nil: "runs E s [] s"
| runs_Cons: "E s e t \<Longrightarrow> runs E t es u \<Longrightarrow> runs E s (e # es) u"

inductive_cases runs_NilE: "runs E s [] t"
inductive_cases runs_ConsE: "runs E s (e # es) t"
inductive_simps runs_Nil_iff [simp]: "runs E s [] t"
inductive_simps runs_Cons_iff [simp]: "runs E s (e # es) t"

lemma runs_append: "runs E s (es @ es') u \<longleftrightarrow> (\<exists>t. runs E s es t \<and> runs E t es' u)"
  by (induction es arbitrary: s) auto

lemma wp_resume:
  "wp E I p Q s \<Longrightarrow> resume p e = Some p' \<Longrightarrow> E s e t \<Longrightarrow> I t \<and> wp E I p' Q t"
  by (cases p; cases e) (auto split: if_split_asm)

text \<open>Soundness: along every run the invariant holds, and at a \<open>Return\<close> the postcondition.\<close>

theorem wp_sound:
  assumes "wp E I p Q s" and "I s" and "runs E s es t" and "after p es = Some p'"
  shows "I t \<and> wp E I p' Q t"
  using assms(3,1,2,4)
proof (induction arbitrary: p rule: runs.induct)
  case (runs_Nil s)
  then show ?case by simp
next
  case (runs_Cons s e t es u)
  then obtain q where q: "resume p e = Some q" "after q es = Some p'"
    by (auto split: option.splits)
  from wp_resume [OF runs_Cons.prems(1) q(1) runs_Cons.hyps(1)] have "I t" "wp E I q Q t" by auto
  from runs_Cons.IH [OF this(2,1) q(2)] show ?case .
qed

corollary wp_sound_Return:
  assumes "wp E I p Q s" and "I s" and "runs E s es t" and "after p es = Some (Return a)"
  shows "Q a t"
  using wp_sound [OF assms] by simp

subsection \<open>The history as a world\<close>

text \<open>The free world: any answer at any time; the state is the list of events so far.\<close>

definition history :: "event list world" where
  "history h e h' = (h' = h @ [e])"

lemma history_iff: "history h e h' \<longleftrightarrow> h' = h @ [e]"
  by (simp add: history_def)

lemma runs_history: "runs history h es h' \<longleftrightarrow> h' = h @ es"
  by (induction es arbitrary: h) (auto simp: history_iff)

text \<open>
  \<open>last_ok ok h\<close>: the last event of \<open>h\<close> is one that \<open>ok\<close> allows after the events before it.
  As the invariant of the free world it makes \<open>wp\<close> ask \<open>ok\<close> of each call in turn, and
  \<open>every_event ok\<close> holds of every run, finished or cut off.
\<close>

definition last_ok :: "(event list \<Rightarrow> event \<Rightarrow> bool) \<Rightarrow> event list \<Rightarrow> bool" where
  "last_ok ok h = (h = [] \<or> ok (butlast h) (last h))"

lemma last_ok_Nil [simp]: "last_ok ok []"
  by (simp add: last_ok_def)

lemma last_ok_snoc [simp]: "last_ok ok (h @ [e]) = ok h e"
  by (simp add: last_ok_def)

fun events_ok :: "(event list \<Rightarrow> event \<Rightarrow> bool) \<Rightarrow> event list \<Rightarrow> event list \<Rightarrow> bool" where
  "events_ok ok h [] = True"
| "events_ok ok h (e # es) = (ok h e \<and> events_ok ok (h @ [e]) es)"

definition every_event :: "(event list \<Rightarrow> event \<Rightarrow> bool) \<Rightarrow> event list \<Rightarrow> bool" where
  "every_event ok es = events_ok ok [] es"

lemma events_ok_append: "events_ok ok h (es @ es') = (events_ok ok h es \<and> events_ok ok (h @ es) es')"
  by (induction es arbitrary: h) simp_all

lemma every_event_Nil [simp]: "every_event ok []"
  by (simp add: every_event_def)

lemma every_event_snoc [simp]: "every_event ok (es @ [e]) = (every_event ok es \<and> ok es e)"
  by (simp add: every_event_def events_ok_append)

lemma every_event_split: "every_event ok (h @ e # es) \<Longrightarrow> ok h e"
  by (simp add: every_event_def events_ok_append)

definition wps ::
  "(event list \<Rightarrow> event \<Rightarrow> bool) \<Rightarrow> 'a prog \<Rightarrow> ('a \<Rightarrow> event list \<Rightarrow> bool) \<Rightarrow> event list \<Rightarrow> bool" where
  "wps ok p Q h = wp history (last_ok ok) p Q h"

lemma wps_simps [simp]:
  "wps ok (Return a) Q h = Q a h"
  "wps ok (GetMirror k c) Q h =
     (\<forall>r. ok h (EvGetMirror k r) \<and> wps ok (c r) Q (h @ [EvGetMirror k r]))"
  "wps ok (ListMirrors c1) Q h = (\<forall>r. ok h (EvListMirrors r) \<and> wps ok (c1 r) Q (h @ [EvListMirrors r]))"
  "wps ok (PatchStatus m b c') Q h =
     (\<forall>r. ok h (EvPatchStatus m b r) \<and> wps ok (c' r) Q (h @ [EvPatchStatus m b r]))"
  "wps ok (ListJobs n l v c2) Q h =
     (\<forall>r. ok h (EvListJobs n l v r) \<and> wps ok (c2 r) Q (h @ [EvListJobs n l v r]))"
  "wps ok (GetJob k c3) Q h = (\<forall>r. ok h (EvGetJob k r) \<and> wps ok (c3 r) Q (h @ [EvGetJob k r]))"
  "wps ok (CreateJob j c') Q h = (\<forall>r. ok h (EvCreateJob j r) \<and> wps ok (c' r) Q (h @ [EvCreateJob j r]))"
  "wps ok (GetLease k c4) Q h = (\<forall>r. ok h (EvGetLease k r) \<and> wps ok (c4 r) Q (h @ [EvGetLease k r]))"
  "wps ok (CreateLease e c') Q h =
     (\<forall>r. ok h (EvCreateLease e r) \<and> wps ok (c' r) Q (h @ [EvCreateLease e r]))"
  "wps ok (UpdateLease e c') Q h =
     (\<forall>r. ok h (EvUpdateLease e r) \<and> wps ok (c' r) Q (h @ [EvUpdateLease e r]))"
  "wps ok (DeleteLease e c') Q h =
     (\<forall>r. ok h (EvDeleteLease e r) \<and> wps ok (c' r) Q (h @ [EvDeleteLease e r]))"
  "wps ok (GetSecret k c5) Q h = (\<forall>r. ok h (EvGetSecret k r) \<and> wps ok (c5 r) Q (h @ [EvGetSecret k r]))"
  "wps ok (ClockNow c6) Q h = (\<forall>r. ok h (EvClockNow r) \<and> wps ok (c6 r) Q (h @ [EvClockNow r]))"
  "wps ok (WallNow c6) Q h = (\<forall>r. ok h (EvWallNow r) \<and> wps ok (c6 r) Q (h @ [EvWallNow r]))"
  by (simp_all add: wps_def history_iff)

lemma wps_bindp: "wps ok (bindp p f) Q h = wps ok p (\<lambda>a. wps ok (f a) Q) h"
  unfolding wps_def by (rule wp_bindp)

lemma wps_mono: "wps ok p Q h \<Longrightarrow> (\<And>a h'. Q a h' \<Longrightarrow> R a h') \<Longrightarrow> wps ok p R h"
  unfolding wps_def by (rule wp_mono)

theorem wps_sound:
  assumes "wps ok p Q []" and "after p es = Some p'"
  shows "every_event ok es \<and> wps ok p' Q es"
  using assms(2)
proof (induction es arbitrary: p' rule: rev_induct)
  case Nil
  then show ?case using assms(1) by simp
next
  case (snoc e es)
  then obtain q where q: "after p es = Some q" "resume q e = Some p'"
    by (auto simp: after_append split: option.splits)
  have "every_event ok es" and w: "wps ok q Q es" using snoc.IH [OF q(1)] by auto
  moreover have "last_ok ok (es @ [e]) \<and> wps ok p' Q (es @ [e])"
    using w q(2) unfolding wps_def by (rule wp_resume) (simp add: history_iff)
  ultimately show ?case by simp
qed

corollary wps_every_event: "wps ok p Q [] \<Longrightarrow> after p es = Some p' \<Longrightarrow> every_event ok es"
  using wps_sound by blast

corollary wps_Return: "wps ok p Q [] \<Longrightarrow> after p es = Some (Return a) \<Longrightarrow> Q a es"
  using wps_sound by fastforce

end
