(* ===== verification/Status_Update.thy ===== *)
theory Status_Update
  imports Status Kube_Client
begin

text \<open>
  \<open>internal/controller/status_update.go\<close>: \<open>PatchGitMirrorStatus\<close> reads the GitMirror afresh,
  lets a closure change the copy and sends the difference as a merge patch, and does so again
  while the answer is a conflict. The closure may also write variables of its caller; they
  are threaded through as a second component, so what an attempt left in them is seen by the
  next one.

  The lemmas give its shape under any answers: it is a read of the given key and then at most
  one patch per read, and what it sends is always the closure's result on the copy just read.
\<close>

text \<open>\<open>retries\<close> is the number of further attempts \<open>retry.RetryOnConflict\<close> makes.\<close>

fun PatchGitMirrorStatus ::
  "nat \<Rightarrow> ObjectKey \<Rightarrow> (GitMirror \<Rightarrow> 'c \<Rightarrow> GitMirror \<times> 'c) \<Rightarrow> 'c \<Rightarrow> (error option \<times> 'c) prog" where
  "PatchGitMirrorStatus retries key mutate c =
     GetMirror key (\<lambda>r. case r of
         Inl err \<Rightarrow>
           if IsConflict err \<and> retries > 0 then PatchGitMirrorStatus (retries - 1) key mutate c
           else Return (Some err, c)
       | Inr current \<Rightarrow>
           (let (new, c') = mutate current c
            in PatchStatus new current (\<lambda>err. case err of
                None \<Rightarrow> Return (None, c')
              | Some e \<Rightarrow>
                  if IsConflict e \<and> retries > 0 then PatchGitMirrorStatus (retries - 1) key mutate c'
                  else Return (Some e, c'))))"

declare PatchGitMirrorStatus.simps [simp del]

text \<open>A closure that only changes the copy.\<close>

definition only_mirror :: "(GitMirror \<Rightarrow> GitMirror) \<Rightarrow> GitMirror \<Rightarrow> unit \<Rightarrow> GitMirror \<times> unit" where
  "only_mirror f current c = (f current, c)"

lemma only_mirror_simp [simp]: "only_mirror f current c = (f current, c)"
  by (simp add: only_mirror_def)

text \<open>
  The proof rule for a patch: an assertion \<open>P\<close> on the closure's variables and the world that
  survives reads of the key, failed patches of a closure's result, and leads to the
  postcondition when a patch succeeds or an error is given up on.
\<close>

lemma wp_PatchGitMirrorStatus:
  assumes init: "P c s"
    and read: "\<And>c s r t. P c s \<Longrightarrow> E s (EvGetMirror key r) t \<Longrightarrow> I t \<and>
        (case r of Inl err \<Rightarrow> P c t \<and> Q (Some err, c) t | Inr current \<Rightarrow> R current c t)"
    and send: "\<And>current c s r t new c'. R current c s \<Longrightarrow> mutate current c = (new, c') \<Longrightarrow>
        E s (EvPatchStatus new current r) t \<Longrightarrow> I t \<and>
        (case r of None \<Rightarrow> Q (None, c') t | Some err \<Rightarrow> P c' t \<and> Q (Some err, c') t)"
  shows "wp E I (PatchGitMirrorStatus retries key mutate c) Q s"
  using init
proof (induction retries arbitrary: c s rule: less_induct)
  case (less n)
  have again: "wp E I (PatchGitMirrorStatus (n - 1) key mutate c) Q s" if "P c s" "n > 0" for c s
    using less.IH [of "n - 1"] that by simp
  show ?case
    using read [OF less.prems] again
    by (subst PatchGitMirrorStatus.simps)
      (fastforce split: sum.split option.split prod.split dest: send)
qed

text \<open>The same rule over the free world.\<close>

lemma wps_PatchGitMirrorStatus:
  assumes init: "P c h"
    and read: "\<And>c h r. P c h \<Longrightarrow> ok h (EvGetMirror key r) \<and>
        (case r of Inl err \<Rightarrow> P c (h @ [EvGetMirror key r]) \<and> Q (Some err, c) (h @ [EvGetMirror key r])
         | Inr current \<Rightarrow> R current c (h @ [EvGetMirror key r]))"
    and send: "\<And>current c h r new c'. R current c h \<Longrightarrow> mutate current c = (new, c') \<Longrightarrow>
        ok h (EvPatchStatus new current r) \<and>
        (case r of None \<Rightarrow> Q (None, c') (h @ [EvPatchStatus new current r])
         | Some err \<Rightarrow> P c' (h @ [EvPatchStatus new current r])
             \<and> Q (Some err, c') (h @ [EvPatchStatus new current r]))"
  shows "wps ok (PatchGitMirrorStatus retries key mutate c) Q h"
  unfolding wps_def
  by (rule wp_PatchGitMirrorStatus [where P = P and R = R])
    (use init read send in \<open>auto simp: history_iff\<close>)

end
