(* ===== verification/Sync_Lease.thy ===== *)
theory Sync_Lease
  imports Status_Update
begin

text \<open>
  The locked creation of sync Jobs of \<open>internal/controller/gitmirror_controller.go\<close>: the
  generation annotation of a Job (\<open>jobGenerationAnnotation\<close> and the tests built on it), the
  per-repository Lease (\<open>acquireSyncLease\<close>, \<open>releaseSyncLease\<close>,
  \<open>jobNameActiveForGeneration\<close>) and \<open>createLockedSyncJob\<close>.
\<close>

record GitMirrorReconciler =
  DefaultSyncImage :: string
  HasScheme :: bool

subsection \<open>Jobs of a generation\<close>

definition jobGenerationAnnotation :: "BatchJob option \<Rightarrow> int64 \<times> bool \<times> bool" where
  "jobGenerationAnnotation job = (case job of
     None \<Rightarrow> (0, False, False)
   | Some j \<Rightarrow> (let v = map_get (job_Annotations j) AnnotationGeneration
       in if v = [] then (0, False, False)
          else (case ParseInt v of (parsed, err) \<Rightarrow> (parsed, True, err = None))))"

definition jobGenerationMatches :: "BatchJob option \<Rightarrow> int64 \<Rightarrow> bool" where
  "jobGenerationMatches job generation = (case job of
     None \<Rightarrow> False
   | Some _ \<Rightarrow> (case jobGenerationAnnotation job of (parsed, annotated, valid) \<Rightarrow>
       if \<not> annotated then True else valid \<and> parsed = generation))"

definition activeJobExists :: "BatchJob list \<Rightarrow> bool" where
  "activeJobExists items = list_ex (\<lambda>j. JobActive (Some j)) items"

definition jobsForGeneration :: "BatchJob list \<Rightarrow> int64 \<Rightarrow> BatchJob list" where
  "jobsForGeneration items generation = filter (\<lambda>j. jobGenerationMatches (Some j) generation) items"

definition jobNameExists :: "BatchJob list \<Rightarrow> string \<Rightarrow> bool" where
  "jobNameExists items name = list_ex (\<lambda>j. job_Name j = name) items"

definition jobNameActiveForGeneration ::
  "string \<Rightarrow> string \<Rightarrow> int64 \<Rightarrow> (bool \<times> error option) prog" where
  "jobNameActiveForGeneration namespace name generation =
     GetJob \<lparr>key_Namespace = namespace, key_Name = name\<rparr> (\<lambda>r. case r of
         Inl err \<Rightarrow> if IsNotFound err then Return (False, None) else Return (False, Some err)
       | Inr job \<Rightarrow> Return (JobActive (Some job) \<and> jobGenerationMatches (Some job) generation, None))"

subsection \<open>The Lease\<close>

definition lease_key :: "GitMirror \<Rightarrow> ObjectKey" where
  "lease_key mirror = \<lparr>key_Namespace = gm_Namespace mirror, key_Name = SyncLeaseName mirror\<rparr>"

definition IgnoreNotFound :: "error \<Rightarrow> error option" where
  "IgnoreNotFound err = (if IsNotFound err then None else Some err)"

definition new_lease :: "GitMirror \<Rightarrow> string \<Rightarrow> time \<Rightarrow> Lease" where
  "new_lease mirror holder now =
     (let labels = LabelsForMirror mirror in \<lparr>
        lease_Name = SyncLeaseName mirror,
        lease_Namespace = gm_Namespace mirror,
        lease_Labels = [LabelName \<mapsto> map_get labels LabelName, LabelGitMirror \<mapsto> map_get labels LabelGitMirror],
        lease_ResourceVersion = [],
        HolderIdentity = Some holder,
        AcquireTime = Some now,
        RenewTime = Some now\<rparr>)"

definition current_holder :: "Lease \<Rightarrow> string" where
  "current_holder l = (case HolderIdentity l of None \<Rightarrow> [] | Some h \<Rightarrow> h)"

definition take_over :: "Lease \<Rightarrow> string \<Rightarrow> time \<Rightarrow> Lease" where
  "take_over existing holder now = existing\<lparr>
     HolderIdentity := Some holder,
     AcquireTime := (if AcquireTime existing = None \<or> current_holder existing \<noteq> holder
       then Some now else AcquireTime existing),
     RenewTime := Some now\<rparr>"

definition update_lease :: "Lease \<Rightarrow> string \<Rightarrow> time \<Rightarrow> (bool \<times> error option) prog" where
  "update_lease existing holder now =
     UpdateLease (take_over existing holder now) (\<lambda>r. case r of
         None \<Rightarrow> Return (True, None)
       | Some err \<Rightarrow> if IsConflict err then Return (False, None) else Return (False, Some err))"

definition acquireSyncLease :: "GitMirror \<Rightarrow> string \<Rightarrow> (bool \<times> error option) prog" where
  "acquireSyncLease mirror holder =
     ClockNow (\<lambda>now. CreateLease (new_lease mirror holder now) (\<lambda>r. case r of
         None \<Rightarrow> Return (True, None)
       | Some err \<Rightarrow>
           if \<not> IsAlreadyExists err then Return (False, Some err)
           else GetLease (lease_key mirror) (\<lambda>r. case r of
               Inl err \<Rightarrow> Return (False, Some err)
             | Inr existing \<Rightarrow>
                 if current_holder existing \<noteq> [] \<and> current_holder existing \<noteq> holder then
                   bindp (jobNameActiveForGeneration (gm_Namespace mirror) (current_holder existing)
                            (gm_Generation mirror))
                     (\<lambda>(active, err). case err of
                         Some e \<Rightarrow> Return (False, Some e)
                       | None \<Rightarrow> if active then Return (False, None) else update_lease existing holder now)
                 else update_lease existing holder now)))"

definition releaseSyncLease :: "GitMirror \<Rightarrow> string \<Rightarrow> error option prog" where
  "releaseSyncLease mirror holder =
     GetLease (lease_key mirror) (\<lambda>r. case r of
         Inl err \<Rightarrow> Return (IgnoreNotFound err)
       | Inr lease \<Rightarrow>
           if HolderIdentity lease \<noteq> Some holder then Return None
           else DeleteLease lease (\<lambda>r. case r of
               Some err \<Rightarrow> Return (IgnoreNotFound err)
             | None \<Rightarrow> Return None))"

subsection \<open>Creating a Job under the Lease\<close>

definition sync_options :: "GitMirrorReconciler \<Rightarrow> string \<Rightarrow> string \<Rightarrow> Options" where
  "sync_options R triggerID revision = \<lparr>opt_DefaultImage = DefaultSyncImage R,
     opt_Scheme = HasScheme R, opt_TriggerID = triggerID, opt_Revision = revision\<rparr>"

definition createLockedSyncJob ::
  "External \<Rightarrow> GitMirrorReconciler \<Rightarrow> GitMirror \<Rightarrow> string \<Rightarrow> string
     \<Rightarrow> (bool \<times> string \<times> error option) prog" where
  "createLockedSyncJob X R mirror triggerID revision =
     (case BuildSyncJob (ext_SetControllerReference X) (Some mirror) (sync_options R triggerID revision) of
        Inl err \<Rightarrow> Return (False, [], Some err)
      | Inr syncJob \<Rightarrow>
          (let job = sync_Job syncJob; jobName = job_Name job in
           if jobName = [] then
             Return (False, [], Some (Failure (''sync job for '' @ gm_Namespace mirror @ ''/''
               @ gm_Name mirror @ '' must have a deterministic name'')))
           else bindp (acquireSyncLease mirror jobName) (\<lambda>(acquired, err).
             if err \<noteq> None \<or> \<not> acquired then Return (acquired, jobName, err)
             else CreateJob job (\<lambda>r. case r of
                 None \<Rightarrow> Return (True, jobName, None)
               | Some err \<Rightarrow>
                   if \<not> IsAlreadyExists err then
                     bindp (releaseSyncLease mirror jobName) (\<lambda>_. Return (False, [], Some err))
                   else Return (True, jobName, None)))))"

end
