(* ===== verification/Reconciler.thy ===== *)
theory Reconciler
  imports Sync_Lease
begin

text \<open>
  \<open>Reconcile\<close> of \<open>internal/controller/gitmirror_controller.go\<close> and its four parts, in the
  order it tries them: finished Jobs of the current generation, a generation not yet
  observed, a pending resync, the fallback schedule. Each part returns its result, whether it
  handled the request, and an error.
\<close>

record Result =
  RequeueAfter :: int

definition zero_result :: Result where
  "zero_result = \<lparr>RequeueAfter = 0\<rparr>"

definition retry_soon :: Result where
  "retry_soon = \<lparr>RequeueAfter = seconds 5\<rparr>"

type_synonym outcome = "Result \<times> bool \<times> error option"

text \<open>The trigger ids of the reconciler's own Jobs.\<close>

definition resync_trigger :: "time \<Rightarrow> string" where
  "resync_trigger now = ''resync-'' @ FormatRFC3339Nano now"

definition scheduled_trigger :: "time \<Rightarrow> string" where
  "scheduled_trigger now = ''scheduled-'' @ FormatRFC3339Nano now"

definition generation_trigger :: "int64 \<Rightarrow> string" where
  "generation_trigger generation = ''generation-'' @ FormatInt generation"

subsection \<open>Finished Jobs\<close>

text \<open>The first closure of \<open>reconcileCompletedJobs\<close>; its variables are \<open>followup\<close> and
  \<open>followupRevision\<close>.\<close>

definition record_completed ::
  "External \<Rightarrow> BatchJob \<Rightarrow> time \<Rightarrow> GitMirror \<Rightarrow> bool \<times> string \<Rightarrow> GitMirror \<times> bool \<times> string" where
  "record_completed X job now current vars =
     (if LastCompletedJobName (Status current) = job_Name job then (current, vars)
      else case jobGenerationAnnotation (Some job) of (generation, annotated, valid) \<Rightarrow>
        if annotated then
          if \<not> valid then (current, vars)
          else (case ApplyCompletedJobStatusForGeneration X current job generation now of
                  (new, followup) \<Rightarrow> (new, followup, LastRequestedRevision (Status new)))
        else (case ApplyCompletedLegacyJobStatus X current job now of
                (new, followup) \<Rightarrow> (new, followup, LastRequestedRevision (Status new))))"

definition scheduled_for :: "External \<Rightarrow> string \<Rightarrow> int64 \<Rightarrow> time \<Rightarrow> GitMirror \<Rightarrow> GitMirror" where
  "scheduled_for X jobName generation now current =
     fst (ApplySyncScheduledForGeneration X current jobName generation now)"

definition skip_job :: "GitMirror \<Rightarrow> BatchJob list \<Rightarrow> BatchJob \<Rightarrow> bool" where
  "skip_job mirror jobItems job =
     (\<not> JobFinished (Some job) \<or> LastCompletedJobName (Status mirror) = job_Name job
      \<or> LastJobName (Status mirror) \<noteq> [] \<and> LastJobName (Status mirror) \<noteq> job_Name job
        \<and> jobNameExists jobItems (LastJobName (Status mirror)))"

text \<open>The loop: \<open>todo\<close> is what is left of \<open>jobItems\<close>. \<open>mirror\<close> stays the copy read at the
  start of \<open>Reconcile\<close>.\<close>

primrec completed_loop ::
  "External \<Rightarrow> GitMirrorReconciler \<Rightarrow> ObjectKey \<Rightarrow> GitMirror \<Rightarrow> BatchJob list \<Rightarrow> time
     \<Rightarrow> BatchJob list \<Rightarrow> outcome prog" where
  "completed_loop X R req mirror jobItems now [] = Return (zero_result, False, None)"
| "completed_loop X R req mirror jobItems now (job # todo) =
     (if skip_job mirror jobItems job then completed_loop X R req mirror jobItems now todo
      else bindp (PatchGitMirrorStatus (ext_Retries X) req (record_completed X job now) (False, []))
        (\<lambda>(err, followup, followupRevision). case err of
            Some e \<Rightarrow> Return (zero_result, False, Some e)
          | None \<Rightarrow> bindp (releaseSyncLease mirror (job_Name job)) (\<lambda>err. case err of
              Some e \<Rightarrow> Return (zero_result, False, Some e)
            | None \<Rightarrow>
                if \<not> followup then completed_loop X R req mirror jobItems now todo
                else bindp (createLockedSyncJob X R mirror (resync_trigger now) followupRevision)
                  (\<lambda>(acquired, jobName, err).
                     if (case err of Some e \<Rightarrow> \<not> IsAlreadyExists e | None \<Rightarrow> False) then
                       Return (zero_result, False, err)
                     else if \<not> acquired then Return (retry_soon, True, None)
                     else bindp (PatchGitMirrorStatus (ext_Retries X) req
                            (only_mirror (scheduled_for X jobName (gm_Generation mirror) now)) ())
                       (\<lambda>(err, _). case err of
                           Some e \<Rightarrow> Return (zero_result, False, Some e)
                         | None \<Rightarrow> completed_loop X R req mirror jobItems now todo)))))"

definition reconcileCompletedJobs ::
  "External \<Rightarrow> GitMirrorReconciler \<Rightarrow> ObjectKey \<Rightarrow> GitMirror \<Rightarrow> BatchJob list \<Rightarrow> time \<Rightarrow> outcome prog" where
  "reconcileCompletedJobs X R req mirror jobItems now =
     completed_loop X R req mirror jobItems now jobItems"

subsection \<open>A generation not yet observed\<close>

definition schedule_if_generation ::
  "External \<Rightarrow> string \<Rightarrow> int64 \<Rightarrow> time \<Rightarrow> GitMirror \<Rightarrow> GitMirror" where
  "schedule_if_generation X jobName scheduledGeneration now current =
     (if gm_Generation current = scheduledGeneration then ApplySyncScheduled X current jobName now
      else current)"

definition reconcileUnobservedGeneration ::
  "External \<Rightarrow> GitMirrorReconciler \<Rightarrow> ObjectKey \<Rightarrow> GitMirror \<Rightarrow> bool \<Rightarrow> time \<Rightarrow> outcome prog" where
  "reconcileUnobservedGeneration X R req mirror active now =
     (if ObservedGeneration (Status mirror) = gm_Generation mirror then Return (zero_result, False, None)
      else if active then Return (zero_result, False, None)
      else GetMirror req (\<lambda>r. case r of
          Inl err \<Rightarrow> Return (zero_result, False, Some err)
        | Inr current \<Rightarrow>
            if ObservedGeneration (Status current) = gm_Generation current
            then Return (zero_result, False, None)
            else (let scheduledGeneration = gm_Generation current;
                      triggerID = generation_trigger scheduledGeneration
                  in bindp (createLockedSyncJob X R current triggerID (LastRequestedRevision (Status current)))
                    (\<lambda>(acquired, jobName, err). case err of
                        Some e \<Rightarrow> Return (zero_result, False, Some e)
                      | None \<Rightarrow>
                          if \<not> acquired then Return (retry_soon, True, None)
                          else bindp (PatchGitMirrorStatus (ext_Retries X) req
                                 (only_mirror (schedule_if_generation X jobName scheduledGeneration now)) ())
                            (\<lambda>(err, _). case err of
                                Some e \<Rightarrow> Return (zero_result, False, Some e)
                              | None \<Rightarrow> Return (zero_result, True, None))))))"

subsection \<open>A pending resync\<close>

definition pending_trigger :: "GitMirror \<Rightarrow> time \<Rightarrow> string" where
  "pending_trigger current now =
     (if LastDeliveryID (Status current) = [] then resync_trigger now
      else LastDeliveryID (Status current))"

definition reconcilePendingResync ::
  "External \<Rightarrow> GitMirrorReconciler \<Rightarrow> ObjectKey \<Rightarrow> GitMirror \<Rightarrow> bool \<Rightarrow> time \<Rightarrow> outcome prog" where
  "reconcilePendingResync X R req mirror active now =
     (if \<not> PendingResync (Status mirror) \<or> active then Return (zero_result, False, None)
      else GetMirror req (\<lambda>r. case r of
          Inl err \<Rightarrow> Return (zero_result, False, Some err)
        | Inr current \<Rightarrow>
            if \<not> PendingResync (Status current) then Return (zero_result, False, None)
            else bindp (createLockedSyncJob X R current (pending_trigger current now)
                          (LastRequestedRevision (Status current)))
              (\<lambda>(acquired, jobName, err). case err of
                  Some e \<Rightarrow> Return (zero_result, False, Some e)
                | None \<Rightarrow>
                    if \<not> acquired then Return (retry_soon, True, None)
                    else bindp (PatchGitMirrorStatus (ext_Retries X) req
                           (only_mirror (scheduled_for X jobName (gm_Generation current) now)) ())
                      (\<lambda>(err, _). case err of
                          Some e \<Rightarrow> Return (zero_result, False, Some e)
                        | None \<Rightarrow> Return (zero_result, False, None)))))"

subsection \<open>The fallback schedule\<close>

definition NextFallbackTime ::
  "External \<Rightarrow> string \<Rightarrow> time option \<Rightarrow> time \<Rightarrow> error + time" where
  "NextFallbackTime X spec lastTriggered now =
     (case ext_ParseStandard X spec of
        Inl err \<Rightarrow> Inl err
      | Inr next \<Rightarrow> (case lastTriggered of None \<Rightarrow> Inr now | Some t \<Rightarrow> Inr (next t)))"

text \<open>The zero \<open>time.Time\<close>, 1 January of year 1, which a failed parse returns.\<close>

definition zero_time :: time where
  "zero_time = seconds (- 62135596800)"

definition ignore_error :: "error + time \<Rightarrow> time" where
  "ignore_error r = (case r of Inl _ \<Rightarrow> zero_time | Inr t \<Rightarrow> t)"

definition record_fallback ::
  "External \<Rightarrow> string \<Rightarrow> int64 \<Rightarrow> time \<Rightarrow> bool \<Rightarrow> GitMirror \<Rightarrow> GitMirror" where
  "record_fallback X scheduledJobName generation now active current =
     (case ApplyWebhookState X current ''scheduled'' now active of (new, create) \<Rightarrow>
        if create \<and> scheduledJobName \<noteq> [] then scheduled_for X scheduledJobName generation now new
        else new)"

text \<open>The end of \<open>reconcileFallback\<close>, from its status patch on.\<close>

definition finish_fallback ::
  "External \<Rightarrow> ObjectKey \<Rightarrow> GitMirror \<Rightarrow> bool \<Rightarrow> time \<Rightarrow> string \<Rightarrow> (Result \<times> error option) prog" where
  "finish_fallback X req mirror active now scheduledJobName =
     bindp (PatchGitMirrorStatus (ext_Retries X) req
              (only_mirror (record_fallback X scheduledJobName (gm_Generation mirror) now active)) ())
       (\<lambda>(err, _). case err of
           Some e \<Rightarrow> Return (zero_result, Some e)
         | None \<Rightarrow> ClockNow (\<lambda>clock.
             let last = (if scheduledJobName \<noteq> [] then Some now else LastTriggeredAt (Status mirror));
                 next = ignore_error (NextFallbackTime X (Schedule (Fallback (Spec mirror))) last clock)
             in WallNow (\<lambda>wall. Return (\<lparr>RequeueAfter = time_Sub next wall\<rparr>, None))))"

definition reconcileFallback ::
  "External \<Rightarrow> GitMirrorReconciler \<Rightarrow> ObjectKey \<Rightarrow> GitMirror \<Rightarrow> bool \<Rightarrow> time
     \<Rightarrow> (Result \<times> error option) prog" where
  "reconcileFallback X R req mirror active now =
     (if Schedule (Fallback (Spec mirror)) = [] then Return (zero_result, None)
      else ClockNow (\<lambda>clock.
        case NextFallbackTime X (Schedule (Fallback (Spec mirror))) (LastTriggeredAt (Status mirror)) clock of
          Inl _ \<Rightarrow> Return (zero_result, None)
        | Inr next \<Rightarrow> ClockNow (\<lambda>clock.
            if next > clock then WallNow (\<lambda>wall. Return (\<lparr>RequeueAfter = time_Sub next wall\<rparr>, None))
            else if \<not> active then
              bindp (createLockedSyncJob X R mirror (scheduled_trigger now) [])
                (\<lambda>(acquired, jobName, err). case err of
                    Some e \<Rightarrow> Return (zero_result, Some e)
                  | None \<Rightarrow>
                      if \<not> acquired then Return (retry_soon, None)
                      else finish_fallback X req mirror active now jobName)
            else finish_fallback X req mirror active now [])))"

subsection \<open>Reconcile\<close>

definition or_else :: "outcome prog \<Rightarrow> (Result \<times> error option) prog \<Rightarrow> (Result \<times> error option) prog" where
  "or_else p q = bindp p (\<lambda>(result, handled, err).
     if err \<noteq> None \<or> handled then Return (result, err) else q)"

definition Reconcile ::
  "External \<Rightarrow> GitMirrorReconciler \<Rightarrow> ObjectKey \<Rightarrow> (Result \<times> error option) prog" where
  "Reconcile X R req =
     GetMirror req (\<lambda>r. case r of
         Inl err \<Rightarrow> Return (zero_result, IgnoreNotFound err)
       | Inr mirror \<Rightarrow>
           ListJobs (gm_Namespace mirror) LabelGitMirror (map_get (LabelsForMirror mirror) LabelGitMirror)
             (\<lambda>r. case r of
                Inl err \<Rightarrow> Return (zero_result, Some err)
              | Inr items \<Rightarrow> ClockNow (\<lambda>now.
                  let currentGenerationJobs = jobsForGeneration items (gm_Generation mirror);
                      active = activeJobExists currentGenerationJobs
                  in or_else (reconcileCompletedJobs X R req mirror currentGenerationJobs now)
                    (or_else (reconcileUnobservedGeneration X R req mirror active now)
                      (or_else (reconcilePendingResync X R req mirror active now)
                        (reconcileFallback X R req mirror active now))))))"

end
