(* ===== verification/Demo.thy ===== *)
theory Demo
  imports Reconciler
begin

text \<open>
  Concrete inputs the witnesses use: a GitMirror with SSH endpoints, a reconciler, and concrete
  functions for the third-party parameters (\<open>meta.SetStatusCondition\<close> replaces the condition
  of the same type, the cron parser knows \<open>@hourly\<close>, the owner reference is the mirror's).
  \<open>demo_job\<close> is the Job \<open>BuildSyncJob\<close> makes of such a GitMirror.
\<close>

definition demo_owner :: "GitMirror \<Rightarrow> BatchJob \<Rightarrow> error + BatchJob" where
  "demo_owner m job = Inr (job\<lparr>job_Owner :=
     Some \<lparr>owner_APIVersion = ''mirror.shamubernetes.com/v1alpha1'', owner_Kind = ''GitMirror'', owner_Name = gm_Name m, owner_UID = gm_UID m\<rparr>\<rparr>)"

definition demo_conditions :: "Condition list \<Rightarrow> Condition \<Rightarrow> Condition list" where
  "demo_conditions cs c = c # filter (\<lambda>d. cond_Type d \<noteq> cond_Type c) cs"

definition demo_cron :: "string \<Rightarrow> error + (time \<Rightarrow> time)" where
  "demo_cron spec = (if spec = ''@hourly'' then Inr (\<lambda>t. t + seconds 3600) else Inl (CallError ''cron''))"

definition demo_X :: External where
  "demo_X = \<lparr>ext_SetStatusCondition = demo_conditions, ext_ParseStandard = demo_cron,
     ext_SetControllerReference = demo_owner, ext_Retries = 4\<rparr>"

definition demo_R :: GitMirrorReconciler where
  "demo_R = \<lparr>DefaultSyncImage = ''sync:1'', HasScheme = True\<rparr>"

definition demo_endpoint :: "string \<Rightarrow> string \<Rightarrow> GitEndpointSpec" where
  "demo_endpoint u secret = \<lparr>URL = u, SSHSecretRef = Some \<lparr>ref_Name = secret, ref_Key = ''id''\<rparr>, Auth = None\<rparr>"

definition demo_jobspec :: JobSpec where
  "demo_jobspec = \<lparr>spec_Image = [], spec_BackoffLimit = None, spec_ActiveDeadlineSeconds = None,
     spec_TTLSecondsAfterFinished = None, spec_Resources = \<lparr>Requests = None, Limits = None\<rparr>,
     KnownHostsConfigMapName = [], KnownHostsConfigMapKey = [], spec_ServiceAccountName = []\<rparr>"

definition demo_spec :: "string \<Rightarrow> GitMirrorSpec" where
  "demo_spec schedule = \<lparr>Provider = ''github'',
     GitHub = \<lparr>Owner = ''acme'', Repo = ''app'', WebhookSecretRef = \<lparr>ref_Name = ''hook'', ref_Key = ''token''\<rparr>\<rparr>,
     Source = demo_endpoint ''ssh://git@src/app'' ''src'',
     Target = demo_endpoint ''ssh://git@dst/app'' ''dst'',
     Mirror = \<lparr>Mode = ''exact'', IncludeTags = True\<rparr>,
     Fallback = \<lparr>Schedule = schedule\<rparr>, Job = demo_jobspec\<rparr>"

definition demo_status :: GitMirrorStatus where
  "demo_status = \<lparr>ObservedGeneration = 1, LastWebhookAt = None, LastDeliveryID = ''d1'',
     LastTriggeredAt = None, LastJobName = [], LastCompletedJobName = [], LastSuccessAt = None,
     LastFailureAt = None, LastError = [], LastRequestedRevision = ''abc'', LastMirroredRevision = [],
     PendingResync = True, Conditions = []\<rparr>"

definition demo_mirror :: "string \<Rightarrow> GitMirrorStatus \<Rightarrow> GitMirror" where
  "demo_mirror schedule st = \<lparr>gm_Name = ''app'', gm_Namespace = ''ns'', gm_UID = ''u'', gm_Generation = 1,
     Spec = demo_spec schedule, Status = st\<rparr>"

definition demo_key :: ObjectKey where
  "demo_key = \<lparr>key_Namespace = ''ns'', key_Name = ''app''\<rparr>"

definition demo_job :: "GitMirror \<Rightarrow> string \<Rightarrow> string \<Rightarrow> BatchJob" where
  "demo_job m triggerID revision =
     (case BuildSyncJob demo_owner (Some m) (sync_options demo_R triggerID revision) of
        Inr sj \<Rightarrow> sync_Job sj | Inl _ \<Rightarrow> undefined)"

lemma demo_mirror_simps [simp]:
  "Status (demo_mirror schedule st) = st" "gm_Generation (demo_mirror schedule st) = 1"
  "gm_Namespace (demo_mirror schedule st) = ''ns''" "gm_Name (demo_mirror schedule st) = ''app''"
  "Spec (demo_mirror schedule st) = demo_spec schedule" "Fallback (demo_spec schedule) = \<lparr>Schedule = schedule\<rparr>"
  by (simp_all add: demo_mirror_def demo_spec_def)

lemma demo_status_simps [simp]:
  "ObservedGeneration demo_status = 1" "LastDeliveryID demo_status = ''d1''" "LastJobName demo_status = []"
  "LastCompletedJobName demo_status = []" "LastRequestedRevision demo_status = ''abc''"
  "PendingResync demo_status" "LastTriggeredAt demo_status = None" "Conditions demo_status = []"
  by (simp_all add: demo_status_def)

lemmas demo_defs = demo_X_def demo_R_def demo_mirror_def demo_spec_def demo_endpoint_def
  demo_jobspec_def demo_status_def demo_key_def

lemma demo_build:
  "BuildSyncJob demo_owner (Some (demo_mirror schedule st)) (sync_options demo_R triggerID revision)
     = Inr \<lparr>sync_Job = demo_job (demo_mirror schedule st) triggerID revision\<rparr>"
  by (simp add: demo_job_def BuildSyncJob_def demo_defs or_default_def endpointAuth_def
      endpoint_auth_type_def sshAuthRef_def demo_owner_def sync_options_def Let_def
      auth_type_defs sync_job_def split: sum.split)

lemma demo_job_fields:
  assumes "triggerID \<noteq> []"
  shows "job_Name (demo_job (demo_mirror schedule st) triggerID revision)
      = NameForMirrorTrigger (demo_mirror schedule st) triggerID"
    and "job_Annotations (demo_job (demo_mirror schedule st) triggerID revision)
      = sync_annotations (demo_mirror schedule st) (sync_options demo_R triggerID revision)"
    and "job_Conditions (demo_job (demo_mirror schedule st) triggerID revision) = []"
    and "job_DeletionTimestamp (demo_job (demo_mirror schedule st) triggerID revision) = None"
  using assms
  by (simp_all add: demo_job_def BuildSyncJob_def demo_defs or_default_def endpointAuth_def
      endpoint_auth_type_def sshAuthRef_def demo_owner_def sync_options_def Let_def
      auth_type_defs sync_job_def split: sum.split)

lemma demo_job_namespace: "job_Namespace (demo_job (demo_mirror schedule st) triggerID revision) = ''ns''"
  by (simp add: demo_job_def BuildSyncJob_def demo_defs or_default_def endpointAuth_def
      endpoint_auth_type_def sshAuthRef_def demo_owner_def sync_options_def Let_def
      auth_type_defs sync_job_def split: sum.split)

lemma NameForMirrorTrigger_nonempty [simp]:
  "NameForMirrorTrigger m t \<noteq> []" "[] \<noteq> NameForMirrorTrigger m t"
  by (simp_all add: NameForMirrorTrigger_def Let_def)

lemma demo_generation:
  assumes "t \<noteq> []"
  shows "jobGenerationMatches (Some (demo_job (demo_mirror schedule st) t v)) 1"
    and "jobGenerationAnnotation (Some (demo_job (demo_mirror schedule st) t v)) = (1, True, True)"
proof -
  have "gm_Generation (demo_mirror schedule st) = 1" by (simp add: demo_mirror_def)
  then show "jobGenerationAnnotation (Some (demo_job (demo_mirror schedule st) t v)) = (1, True, True)"
    by (simp add: jobGenerationAnnotation_def demo_job_fields(2) [OF assms] Let_def ParseInt_FormatInt)
  then show "jobGenerationMatches (Some (demo_job (demo_mirror schedule st) t v)) 1"
    by (simp add: jobGenerationMatches_def)
qed

end
