(* ===== verification/Job_Properties.thy ===== *)
theory Job_Properties
  imports Sync_Lease Demo
begin

text \<open>
  The properties of the Job that \<open>BuildSyncJob\<close> makes: when there is one, its names and labels,
  its generation, and its pod (environment, mounts and volumes, security). Of
  \<open>controllerutil.SetControllerReference\<close> they use only that it sets an owner and nothing else
  (\<open>only_sets_owner\<close>).
\<close>

definition only_sets_owner :: "set_reference \<Rightarrow> bool" where
  "only_sets_owner set_ref = (\<forall>m job job'. set_ref m job = Inr job' \<longrightarrow> (\<exists>owner. job' = job\<lparr>job_Owner := owner\<rparr>))"

lemma demo_owner_only: "only_sets_owner demo_owner"
  by (auto simp: only_sets_owner_def demo_owner_def)

subsection \<open>When there is a Job\<close>

definition auth_given :: "GitEndpointSpec \<Rightarrow> bool" where
  "auth_given endpoint = (let t = endpoint_auth_type endpoint in
     t = AuthTypeSSH \<and> (SSHSecretRef endpoint \<noteq> None \<or> (\<exists>a. Auth endpoint = Some a \<and> auth_SSH a \<noteq> None))
   \<or> t = AuthTypeBasic \<and> (\<exists>a. Auth endpoint = Some a \<and> auth_Basic a \<noteq> None)
   \<or> t = AuthTypeGitHubApp \<and> (\<exists>a. Auth endpoint = Some a \<and> auth_GitHubApp a \<noteq> None))"

lemma auth_types_distinct [simp]:
  "AuthTypeSSH \<noteq> AuthTypeBasic" "AuthTypeSSH \<noteq> AuthTypeGitHubApp" "AuthTypeBasic \<noteq> AuthTypeGitHubApp"
  "AuthTypeBasic \<noteq> AuthTypeSSH" "AuthTypeGitHubApp \<noteq> AuthTypeSSH" "AuthTypeGitHubApp \<noteq> AuthTypeBasic"
  "AuthTypeSSH \<noteq> []" "AuthTypeBasic \<noteq> []" "AuthTypeGitHubApp \<noteq> []"
  by (simp_all add: auth_type_defs)

lemma sshAuthRef_ok:
  "(\<exists>ref. sshAuthRef endpoint = Inr ref) \<longleftrightarrow>
     SSHSecretRef endpoint \<noteq> None \<or> (\<exists>a. Auth endpoint = Some a \<and> auth_SSH a \<noteq> None)"
  by (auto simp: sshAuthRef_def split: option.split)

lemma endpointAuth_ok: "(\<exists>parts. endpointAuth e p endpoint = Inr parts) \<longleftrightarrow> auth_given endpoint"
  using sshAuthRef_ok [of endpoint]
  by (auto simp: endpointAuth_def auth_given_def Let_def split: sum.split option.splits)

definition spec_ok :: "GitMirror \<Rightarrow> Options \<Rightarrow> bool" where
  "spec_ok m opts = ((spec_Image (Job (Spec m)) \<noteq> [] \<or> opt_DefaultImage opts \<noteq> [])
     \<and> Mode (Mirror (Spec m)) \<in> {[], ''exact'', ''additive''}
     \<and> auth_given (Source (Spec m)) \<and> auth_given (Target (Spec m)))"

definition built_pod :: "GitMirror \<Rightarrow> Options \<Rightarrow> auth_parts \<Rightarrow> auth_parts \<Rightarrow> PodSpec" where
  "built_pod m opts src tgt =
     sync_pod (Job (Spec m)) (or_default (spec_Image (Job (Spec m))) (opt_DefaultImage opts))
       (base_env m (or_default (Mode (Mirror (Spec m))) ''exact'') @ fst src @ fst tgt)
       (fst (snd src) @ fst (snd tgt)) (snd (snd src) @ snd (snd tgt))"

lemma or_default_empty: "or_default v d = [] \<longleftrightarrow> v = [] \<and> d = []"
  by (simp add: or_default_def)

lemma mode_accepted:
  "(or_default mode ''exact'' \<noteq> ''exact'' \<and> or_default mode ''exact'' \<noteq> ''additive'')
     \<longleftrightarrow> mode \<notin> {[], ''exact'', ''additive''}"
  by (auto simp: or_default_def)

lemma BuildSyncJob_cases:
  "BuildSyncJob set_ref (Some m) opts = Inr sj \<longleftrightarrow>
     spec_ok m opts \<and> (\<exists>src tgt. endpointAuth SourcePrefix ''source'' (Source (Spec m)) = Inr src
       \<and> endpointAuth TargetPrefix ''target'' (Target (Spec m)) = Inr tgt
       \<and> (let job = sync_job m opts (built_pod m opts src tgt) in
          if opt_Scheme opts then set_ref m job = Inr (sync_Job sj) else sync_Job sj = job))"
proof -
  have s: "endpointAuth SourcePrefix ''source'' (Source (Spec m)) = Inr src \<Longrightarrow> auth_given (Source (Spec m))" for src
    using endpointAuth_ok by blast
  have t: "endpointAuth TargetPrefix ''target'' (Target (Spec m)) = Inr tgt \<Longrightarrow> auth_given (Target (Spec m))" for tgt
    using endpointAuth_ok by blast
  have e: "\<lparr>sync_Job = j\<rparr> = sj \<longleftrightarrow> sync_Job sj = j" for j by (cases sj) auto
  show ?thesis
  proof (cases "endpointAuth SourcePrefix ''source'' (Source (Spec m))")
    case (Inr src)
    note src = Inr
    show ?thesis
    proof (cases "endpointAuth TargetPrefix ''target'' (Target (Spec m))")
      case (Inr tgt)
      show ?thesis
        using s [OF src] t [OF Inr]
        by (cases src; cases tgt)
          (auto simp: BuildSyncJob_def spec_ok_def built_pod_def or_default_empty mode_accepted Let_def e src Inr
            split: sum.split)
    qed (simp add: BuildSyncJob_def Let_def src split: prod.split)
  qed (simp add: BuildSyncJob_def Let_def)
qed

text \<open>C35. A specification is turned into a Job exactly when it is complete: an image is known, the
  mode is one of the two (or absent), and each endpoint gives the credentials its
  authentication type asks for; nothing else makes the construction fail.\<close>

theorem BuildSyncJob_succeeds_iff:
  "(\<exists>sj. BuildSyncJob set_ref (Some m) opts = Inr sj) \<longleftrightarrow> spec_ok m opts
     \<and> (\<not> opt_Scheme opts \<or> (\<exists>src tgt job. endpointAuth SourcePrefix ''source'' (Source (Spec m)) = Inr src
         \<and> endpointAuth TargetPrefix ''target'' (Target (Spec m)) = Inr tgt
         \<and> set_ref m (sync_job m opts (built_pod m opts src tgt)) = Inr job))"
proof -
  have ex: "\<exists>src tgt. endpointAuth SourcePrefix ''source'' (Source (Spec m)) = Inr src
      \<and> endpointAuth TargetPrefix ''target'' (Target (Spec m)) = Inr tgt" if "spec_ok m opts"
    using that endpointAuth_ok unfolding spec_ok_def by blast
  have sj: "\<exists>sj::SyncJob. sync_Job sj = j" for j by (rule exI [of _ "\<lparr>sync_Job = j\<rparr>"]) simp
  show ?thesis
    using ex sj unfolding BuildSyncJob_cases Let_def by (cases "opt_Scheme opts") (simp, metis, simp, metis)
qed

text \<open>The Job, up to its owner.\<close>

lemma built_job:
  assumes "BuildSyncJob set_ref (Some m) opts = Inr sj" and "only_sets_owner set_ref"
  obtains owner src tgt where "endpointAuth SourcePrefix ''source'' (Source (Spec m)) = Inr src"
    and "endpointAuth TargetPrefix ''target'' (Target (Spec m)) = Inr tgt"
    and "sync_Job sj = (sync_job m opts (built_pod m opts src tgt))\<lparr>job_Owner := owner\<rparr>"
proof -
  from assms(1) obtain src tgt where parts: "endpointAuth SourcePrefix ''source'' (Source (Spec m)) = Inr src"
    "endpointAuth TargetPrefix ''target'' (Target (Spec m)) = Inr tgt"
    "if opt_Scheme opts then set_ref m (sync_job m opts (built_pod m opts src tgt)) = Inr (sync_Job sj)
     else sync_Job sj = sync_job m opts (built_pod m opts src tgt)"
    unfolding BuildSyncJob_cases Let_def by blast
  have "\<exists>owner. sync_Job sj = (sync_job m opts (built_pod m opts src tgt))\<lparr>job_Owner := owner\<rparr>"
  proof (cases "opt_Scheme opts")
    case True
    then show ?thesis using parts(3) assms(2) by (auto simp: only_sets_owner_def)
  next
    case False
    then show ?thesis using parts(3) by (intro exI [of _ None]) (simp add: sync_job_def Let_def)
  qed
  with parts that show ?thesis by blast
qed

subsection \<open>Names, labels and the generation\<close>

lemma trigger_label: "NameForMirrorTrigger m t = (\<lambda>(m, t). cut_base (dnsLabel (''gitmirror-'' @ gm_Name m)) @ ''-''
    @ hash12 (gm_Namespace m @ ''/'' @ gm_Name m @ ''/'' @ t)) (m, t)"
  by (simp add: NameForMirrorTrigger_def Let_def)

lemma NameForMirrorTrigger_dns: "is_dns_label (NameForMirrorTrigger m t)"
  using trigger_name.hashed_name_dns_label [of "(m, t)"] by (simp add: NameForMirrorTrigger_def Let_def)

lemma SyncLeaseName_dns: "is_dns_label (SyncLeaseName m)"
  using lease_name.hashed_name_dns_label [of m] by (simp add: SyncLeaseName_def Let_def)

lemma sync_labels_values:
  assumes "sync_labels m opts k = Some v"
  shows "is_label_value v"
  using assms sanitizer.clean_label LabelsForMirror_values
  by (auto simp: sync_labels_def split: if_splits)

text \<open>C36. The Job of a trigger has names Kubernetes accepts: its name is a DNS label of at most 63
  characters, so is the name of the Lease that guards it, and every label value, whatever the
  GitMirror and the delivery are called, is a valid label value.\<close>

theorem job_names_valid:
  assumes "BuildSyncJob set_ref (Some m) opts = Inr sj" and "only_sets_owner set_ref" and "opt_TriggerID opts \<noteq> []"
  shows "is_dns_label (job_Name (sync_Job sj)) \<and> job_GenerateName (sync_Job sj) = []
    \<and> job_Namespace (sync_Job sj) = gm_Namespace m \<and> is_dns_label (SyncLeaseName m)
    \<and> (\<forall>k v. job_Labels (sync_Job sj) k = Some v \<longrightarrow> is_label_value v)
    \<and> TemplateLabels (job_Spec (sync_Job sj)) = job_Labels (sync_Job sj)"
  using assms(3)
  by (rule_tac built_job [OF assms(1,2)])
    (auto simp: sync_job_def Let_def NameForMirrorTrigger_dns SyncLeaseName_dns intro: sync_labels_values)

abbreviation demo_m :: GitMirror where
  "demo_m \<equiv> demo_mirror [] demo_status"

lemma demo_build_opts: "BuildSyncJob demo_owner (Some demo_m) (sync_options demo_R ''d1'' ''abc'')
    = Inr \<lparr>sync_Job = demo_job demo_m ''d1'' ''abc''\<rparr>"
  by (rule demo_build)

lemma demo_opts: "opt_TriggerID (sync_options demo_R t v) = t" "opt_Revision (sync_options demo_R t v) = v"
  by (simp_all add: sync_options_def)

theorem BuildSyncJob_succeeds_iff_witness:
  "spec_ok demo_m (sync_options demo_R ''d1'' ''abc'')
     \<and> \<not> (\<exists>sj. BuildSyncJob demo_owner (Some demo_m) ((sync_options demo_R ''d1'' ''abc'')\<lparr>opt_DefaultImage := []\<rparr>) = Inr sj)"
proof
  show "spec_ok demo_m (sync_options demo_R ''d1'' ''abc'')"
    using BuildSyncJob_succeeds_iff [of demo_owner demo_m "sync_options demo_R ''d1'' ''abc''"] demo_build_opts by blast
  have "\<not> spec_ok demo_m ((sync_options demo_R ''d1'' ''abc'')\<lparr>opt_DefaultImage := []\<rparr>)"
    by (simp add: spec_ok_def demo_defs sync_options_def)
  then show "\<not> (\<exists>sj. BuildSyncJob demo_owner (Some demo_m) ((sync_options demo_R ''d1'' ''abc'')\<lparr>opt_DefaultImage := []\<rparr>) = Inr sj)"
    unfolding BuildSyncJob_succeeds_iff by blast
qed

theorem job_names_valid_witness:
  "is_dns_label (job_Name (demo_job demo_m ''d1'' ''abc'')) \<and> is_dns_label (SyncLeaseName demo_m)"
  using job_names_valid [OF demo_build_opts demo_owner_only] by (simp add: demo_opts)

text \<open>C37. A Job knows its generation and its revision: read back from the annotations, the Job
  matches the generation of the GitMirror it was built from and no other one (the number is
  printed and parsed exactly over the whole range of \<open>int64\<close>), and its revision is the requested one.\<close>

theorem job_generation_round_trip:
  assumes "BuildSyncJob set_ref (Some m) opts = Inr sj" and "only_sets_owner set_ref"
  shows "jobGenerationAnnotation (Some (sync_Job sj)) = (gm_Generation m, True, True)
    \<and> jobGenerationMatches (Some (sync_Job sj)) g = (g = gm_Generation m)
    \<and> map_get (job_Annotations (sync_Job sj)) AnnotationRevision = opt_Revision opts"
proof -
  obtain owner src tgt where "sync_Job sj = (sync_job m opts (built_pod m opts src tgt))\<lparr>job_Owner := owner\<rparr>"
    using built_job [OF assms] by blast
  then have "job_Annotations (sync_Job sj) = sync_annotations m opts" by (simp add: sync_job_def Let_def)
  then show ?thesis
    by (auto simp: jobGenerationMatches_def jobGenerationAnnotation_def Let_def ParseInt_FormatInt
        sync_annotations_revision)
qed

theorem job_generation_round_trip_witness:
  "\<not> jobGenerationMatches (Some (demo_job demo_m ''d1'' ''abc'')) 2
   \<and> map_get (job_Annotations (demo_job demo_m ''d1'' ''abc'')) AnnotationRevision = ''abc''"
  using job_generation_round_trip [OF demo_build_opts demo_owner_only, of 2] by (simp add: demo_opts)

subsection \<open>The pod\<close>

text \<open>The variables of one endpoint, and its mounts with their volumes.\<close>

definition auth_suffixes :: "string list set" where
  "auth_suffixes = {[SuffixAuthType, SuffixSSHKeyPath], [SuffixAuthType, SuffixAuthUsername, SuffixAuthPassword],
     [SuffixAuthType, SuffixGitHubAppID, SuffixGitHubAppInstallationID, SuffixGitHubAppPrivateKeyPath],
     [SuffixAuthType, SuffixGitHubAppID, SuffixGitHubAppInstallationID, SuffixGitHubAppPrivateKeyPath,
      SuffixGitHubAppAPIURL]}"

definition auth_mounts :: "string \<Rightarrow> (string list \<times> string list) set" where
  "auth_mounts p = {([], []), ([p @ ''-ssh-key''], [''/var/run/git-mirror/'' @ p @ ''/ssh_key'']),
     ([p @ ''-github-app-private-key''], [''/var/run/git-mirror/'' @ p @ ''-github-app/private_key''])}"

lemma endpointAuth_shape:
  assumes "endpointAuth e p endpoint = Inr (env, mounts, volumes)"
  shows "\<exists>sfx \<in> auth_suffixes. map env_Name env = map (Endpoint e) sfx"
    and "(map vm_Name mounts, map vm_MountPath mounts) \<in> auth_mounts p"
    and "map vol_Name volumes = map vm_Name mounts"
    and "\<forall>v \<in> set mounts. vm_ReadOnly v"
    and "\<forall>v \<in> set volumes. \<exists>secret item. vol_Source v = SecretVolume secret (Some mode_0444) [item]"
  using assms
  by (auto simp: endpointAuth_def auth_suffixes_def auth_mounts_def Let_def plainEnvVar_def secretEnvVar_def
      secretVolume_def split: if_splits sum.splits option.splits)

lemma distinct_env_names:
  assumes "sfx \<in> auth_suffixes" and "sfx' \<in> auth_suffixes"
  shows "distinct (map env_Name (base_env m mode) @ map (Endpoint SourcePrefix) sfx @ map (Endpoint TargetPrefix) sfx')"
  using assms by (auto simp: auth_suffixes_def base_env_def plainEnvVar_def env_name_defs)

lemma distinct_mounts:
  assumes "s \<in> auth_mounts ''source''" and "t \<in> auth_mounts ''target''"
  shows "distinct (fst s @ fst t @ [''known-hosts'', ''tmp''])"
    and "distinct (snd s @ snd t @ map vm_MountPath base_mounts)"
  using assms by (auto simp: auth_mounts_def base_mounts_def)

text \<open>C38. The pod is well formed: no environment variable is set twice, no two volumes share a name
  and no two mounts a path, and the container mounts exactly the pod's volumes.\<close>

theorem pod_well_formed:
  assumes "BuildSyncJob set_ref (Some m) opts = Inr sj" and "only_sets_owner set_ref"
  shows "let pod = TemplateSpec (job_Spec (sync_Job sj)); ctr = hd (pod_Containers pod) in
    length (pod_Containers pod) = 1 \<and> distinct (map env_Name (ctr_Env ctr))
    \<and> distinct (map vol_Name (pod_Volumes pod)) \<and> distinct (map vm_MountPath (ctr_VolumeMounts ctr))
    \<and> map vm_Name (ctr_VolumeMounts ctr) = map vol_Name (pod_Volumes pod)"
proof -
  obtain owner src tgt where p: "endpointAuth SourcePrefix ''source'' (Source (Spec m)) = Inr src"
    "endpointAuth TargetPrefix ''target'' (Target (Spec m)) = Inr tgt"
    "sync_Job sj = (sync_job m opts (built_pod m opts src tgt))\<lparr>job_Owner := owner\<rparr>"
    using built_job [OF assms] by blast
  obtain se sm sv te tm tv where st: "src = (se, sm, sv)" "tgt = (te, tm, tv)" by (cases src; cases tgt) auto
  note S = endpointAuth_shape [OF p(1) [unfolded st]] and T = endpointAuth_shape [OF p(2) [unfolded st]]
  obtain sfx sfx' where x: "sfx \<in> auth_suffixes" "map env_Name se = map (Endpoint SourcePrefix) sfx"
    "sfx' \<in> auth_suffixes" "map env_Name te = map (Endpoint TargetPrefix) sfx'"
    using S(1) T(1) by blast
  note d = distinct_mounts [OF S(2) T(2)]
  show ?thesis
    using distinct_env_names [OF x(1,3), of m "or_default (Mode (Mirror (Spec m))) ''exact''"] x d S(3) T(3)
    by (simp add: p(3) sync_job_def built_pod_def sync_pod_def Let_def st known_hosts_volume_def
        base_mounts_def del: distinct_append)
qed

theorem pod_well_formed_witness:
  "distinct (map env_Name (ctr_Env (hd (pod_Containers (TemplateSpec (job_Spec (demo_job demo_m ''d1'' ''abc'')))))))"
  using pod_well_formed [OF demo_build_opts demo_owner_only] by (simp add: Let_def)

text \<open>The pod is confined: it runs as user 65532 and not as root, without privilege escalation
  or capabilities, on a read-only root file system; of its mounts only \<open>/tmp\<close> can be written, and
  each secret is mounted as one file. It is never restarted in place.\<close>

lemma pod_confined:
  assumes "BuildSyncJob set_ref (Some m) opts = Inr sj" and "only_sets_owner set_ref"
  shows "let pod = TemplateSpec (job_Spec (sync_Job sj)); ctr = hd (pod_Containers pod) in
    RunAsNonRoot (pod_SecurityContext pod) = Some True \<and> RunAsUser (pod_SecurityContext pod) = Some 65532
    \<and> AllowPrivilegeEscalation (ctr_SecurityContext ctr) = Some False
    \<and> ReadOnlyRootFilesystem (ctr_SecurityContext ctr) = Some True
    \<and> DropCapabilities (ctr_SecurityContext ctr) = [''ALL''] \<and> pod_RestartPolicy pod = ''Never''
    \<and> (\<forall>v \<in> set (ctr_VolumeMounts ctr). vm_ReadOnly v \<or> vm_MountPath v = ''/tmp'')
    \<and> (\<forall>v \<in> set (pod_Volumes pod). \<forall>secret mode items.
        vol_Source v = SecretVolume secret mode items \<longrightarrow> mode = Some mode_0444 \<and> length items = 1)"
proof -
  obtain owner src tgt where p: "endpointAuth SourcePrefix ''source'' (Source (Spec m)) = Inr src"
    "endpointAuth TargetPrefix ''target'' (Target (Spec m)) = Inr tgt"
    "sync_Job sj = (sync_job m opts (built_pod m opts src tgt))\<lparr>job_Owner := owner\<rparr>"
    using built_job [OF assms] by blast
  obtain se sm sv te tm tv where st: "src = (se, sm, sv)" "tgt = (te, tm, tv)" by (cases src; cases tgt) auto
  note S = endpointAuth_shape(4,5) [OF p(1) [unfolded st]] and T = endpointAuth_shape(4,5) [OF p(2) [unfolded st]]
  from S T show ?thesis
    by (fastforce simp: p(3) sync_job_def built_pod_def sync_pod_def Let_def st known_hosts_volume_def
        base_mounts_def)
qed

end
