(* ===== verification/Go_URL.thy ===== *)
theory Go_URL
  imports Go_Strings
begin

text \<open>
  What the sync runner uses of Go's \<open>net/url\<close>: \<open>Parse\<close>, the \<open>Scheme\<close> and \<open>User\<close> of the result,
  \<open>User\<close> replaced by a fixed name, \<open>String\<close>, and \<open>PathEscape\<close>. \<open>Parse\<close> reads the bracketed
  host of an IPv6 address with \<open>netip.ParseAddr\<close>, whose verdict is the parameter \<open>is_ipv6\<close>.
\<close>

subsection \<open>Percent encoding\<close>

datatype encoding = encodePath | encodePathSegment | encodeHost | encodeZone | encodeUserPassword
  | encodeFragment

definition is_alnum :: "char \<Rightarrow> bool" where
  "is_alnum c = (is_digit c \<or> 97 \<le> byte c \<and> byte c \<le> 122 \<or> 65 \<le> byte c \<and> byte c \<le> 90)"

declare is_alnum_def [char_class]

definition dquote :: char where
  "dquote = CHR 0x22"

definition shouldEscape :: "char \<Rightarrow> encoding \<Rightarrow> bool" where
  "shouldEscape c mode =
     (if is_alnum c then False
      else if (mode = encodeHost \<or> mode = encodeZone) \<and> (c \<in> set ''!$&()*+,;=:[]<>'' \<or> byte c = 39 \<or> c = dquote)
        then False
      else if c \<in> set ''-_.~'' then False
      else if c \<in> set ''$&+,/:;=?@'' then
        (case mode of
           encodePath \<Rightarrow> c = CHR ''?''
         | encodePathSegment \<Rightarrow> c \<in> set ''/;,?''
         | encodeUserPassword \<Rightarrow> c \<in> set ''@/?:''
         | encodeFragment \<Rightarrow> False
         | _ \<Rightarrow> True)
      else if mode = encodeFragment \<and> c \<in> set ''!()*'' then False
      else True)"

definition hex_upper :: "nat \<Rightarrow> char" where
  "hex_upper n = (if n < 10 then char_of (48 + n) else char_of (55 + n))"

definition escape_char :: "encoding \<Rightarrow> char \<Rightarrow> string" where
  "escape_char mode c =
     (if shouldEscape c mode then [CHR ''%'', hex_upper (byte c div 16), hex_upper (byte c mod 16)] else [c])"

definition escape :: "string \<Rightarrow> encoding \<Rightarrow> string" where
  "escape s mode = concat (map (escape_char mode) s)"

definition unhex :: "char \<Rightarrow> nat option" where
  "unhex c = (if is_digit c then Some (byte c - 48)
     else if 97 \<le> byte c \<and> byte c \<le> 102 then Some (byte c - 87)
     else if 65 \<le> byte c \<and> byte c \<le> 70 then Some (byte c - 55) else None)"

text \<open>In a host only bytes beyond ASCII and the percent sign may be escaped; a zone may also
  escape a space and the bytes a host may hold.\<close>

definition escape_allowed :: "encoding \<Rightarrow> nat \<Rightarrow> bool" where
  "escape_allowed mode b =
     (case mode of
        encodeHost \<Rightarrow> b \<ge> 128 \<or> b = 37
      | encodeZone \<Rightarrow> b = 37 \<or> b = 32 \<or> \<not> shouldEscape (char_of b) encodeHost
      | _ \<Rightarrow> True)"

fun unescape :: "string \<Rightarrow> encoding \<Rightarrow> string option" where
  "unescape [] mode = Some []"
| "unescape (c # cs) mode =
     (if c = CHR ''%'' then
        (case cs of
           a # b # rest \<Rightarrow> (case (unhex a, unhex b) of
               (Some x, Some y) \<Rightarrow>
                 if escape_allowed mode (16 * x + y)
                 then map_option (\<lambda>s. char_of (16 * x + y) # s) (unescape rest mode) else None
             | _ \<Rightarrow> None)
         | _ \<Rightarrow> None)
      else if (mode = encodeHost \<or> mode = encodeZone) \<and> byte c < 128 \<and> shouldEscape c mode then None
      else map_option (\<lambda>s. c # s) (unescape cs mode))"

definition PathEscape :: "string \<Rightarrow> string" where
  "PathEscape s = escape s encodePathSegment"

subsection \<open>Cutting\<close>

definition cut_at :: "char \<Rightarrow> string \<Rightarrow> string \<times> string" where
  "cut_at d s = (takeWhile (\<lambda>c. c \<noteq> d) s, tl (dropWhile (\<lambda>c. c \<noteq> d) s))"

definition after_last :: "char \<Rightarrow> string \<Rightarrow> string" where
  "after_last d s = rev (takeWhile (\<lambda>c. c \<noteq> d) (rev s))"

definition before_last :: "char \<Rightarrow> string \<Rightarrow> string" where
  "before_last d s = rev (tl (dropWhile (\<lambda>c. c \<noteq> d) (rev s)))"

definition count_char :: "char \<Rightarrow> string \<Rightarrow> nat" where
  "count_char d s = length (filter (\<lambda>c. c = d) s)"

subsection \<open>URLs\<close>

record Userinfo =
  ui_username :: string
  ui_password :: "string option"

record url =
  Scheme :: string
  Opaque :: string
  url_User :: "Userinfo option"
  Host :: string
  Path :: string
  RawPath :: string
  OmitHost :: bool
  ForceQuery :: bool
  RawQuery :: string
  Fragment :: string
  RawFragment :: string

definition empty_url :: url where
  "empty_url = \<lparr>Scheme = [], Opaque = [], url_User = None, Host = [], Path = [], RawPath = [],
     OmitHost = False, ForceQuery = False, RawQuery = [], Fragment = [], RawFragment = []\<rparr>"

text \<open>\<open>getScheme\<close>: \<open>None\<close> is an error; the accumulator is what was read of the scheme.\<close>

fun getScheme_loop :: "string \<Rightarrow> string \<Rightarrow> string \<Rightarrow> (string \<times> string) option" where
  "getScheme_loop raw acc [] = Some ([], raw)"
| "getScheme_loop raw acc (c # cs) =
     (if is_alnum c \<and> \<not> is_digit c then getScheme_loop raw (acc @ [c]) cs
      else if is_digit c \<or> c \<in> set ''+-.'' then
        if acc = [] then Some ([], raw) else getScheme_loop raw (acc @ [c]) cs
      else if c = CHR '':'' then if acc = [] then None else Some (acc, cs)
      else Some ([], raw))"

definition getScheme :: "string \<Rightarrow> (string \<times> string) option" where
  "getScheme raw = getScheme_loop raw [] raw"

definition validOptionalPort :: "string \<Rightarrow> bool" where
  "validOptionalPort port = (case port of
     [] \<Rightarrow> True | c # cs \<Rightarrow> c = CHR '':'' \<and> list_all is_digit cs)"

definition validUserinfo :: "string \<Rightarrow> bool" where
  "validUserinfo s = list_all (\<lambda>c. is_alnum c \<or> c \<in> set ''-._:~!$&()*+,;=%@'' \<or> byte c = 39) s"

definition split_zone :: "string \<Rightarrow> string \<times> string" where
  "split_zone s = (let n = length (takeWhile (\<lambda>i. \<not> HasPrefix (drop i s) ''%25'') [0..<length s])
     in (take n s, drop n s))"

definition parse_bracket_host :: "(string \<Rightarrow> bool) \<Rightarrow> string \<Rightarrow> string option" where
  "parse_bracket_host is_ipv6 host =
     (if CHR '']'' \<notin> set host then None
      else let colonPort = after_last CHR '']'' host;
               hostname = tl (before_last CHR '']'' host)
        in if \<not> validOptionalPort colonPort then None
           else case unescape colonPort encodeHost of None \<Rightarrow> None | Some port \<Rightarrow>
             (case split_zone hostname of (h, z) \<Rightarrow>
               (case (unescape h encodeHost, unescape z encodeZone) of
                  (Some h', Some z') \<Rightarrow>
                    if is_ipv6 (h' @ z') then Some (''['' @ h' @ z' @ '']'' @ port) else None
                | _ \<Rightarrow> None)))"

definition parseHost :: "(string \<Rightarrow> bool) \<Rightarrow> string \<Rightarrow> string option" where
  "parseHost is_ipv6 host =
     (if HasPrefix host ''['' then parse_bracket_host is_ipv6 host
      else if CHR ''['' \<in> set host then None
      else if CHR '':'' \<in> set host \<and>
        (count_char CHR '':'' host > 1 \<or> \<not> validOptionalPort (CHR '':'' # snd (cut_at CHR '':'' host))) then None
      else unescape host encodeHost)"

definition parse_userinfo :: "string \<Rightarrow> Userinfo option" where
  "parse_userinfo userinfo =
     (if \<not> validUserinfo userinfo then None
      else if CHR '':'' \<notin> set userinfo then
        map_option (\<lambda>u. \<lparr>ui_username = u, ui_password = None\<rparr>) (unescape userinfo encodeUserPassword)
      else case cut_at CHR '':'' userinfo of (name, password) \<Rightarrow>
        (case (unescape name encodeUserPassword, unescape password encodeUserPassword) of
           (Some u, Some p) \<Rightarrow> Some \<lparr>ui_username = u, ui_password = Some p\<rparr>
         | _ \<Rightarrow> None))"

definition parseAuthority :: "(string \<Rightarrow> bool) \<Rightarrow> string \<Rightarrow> (Userinfo option \<times> string) option" where
  "parseAuthority is_ipv6 authority =
     (if CHR ''@'' \<notin> set authority then map_option (\<lambda>h. (None, h)) (parseHost is_ipv6 authority)
      else case parseHost is_ipv6 (after_last CHR ''@'' authority) of
        None \<Rightarrow> None
      | Some host \<Rightarrow> map_option (\<lambda>u. (Some u, host)) (parse_userinfo (before_last CHR ''@'' authority)))"

definition setPath :: "url \<Rightarrow> string \<Rightarrow> url option" where
  "setPath u p = (case unescape p encodePath of
     None \<Rightarrow> None
   | Some path \<Rightarrow> Some (u\<lparr>Path := path, RawPath := (if p = escape path encodePath then [] else p)\<rparr>))"

definition setFragment :: "url \<Rightarrow> string \<Rightarrow> url option" where
  "setFragment u f = (case unescape f encodeFragment of
     None \<Rightarrow> None
   | Some frag \<Rightarrow> Some (u\<lparr>Fragment := frag, RawFragment := (if f = escape frag encodeFragment then [] else f)\<rparr>))"

text \<open>The part of \<open>parse\<close> after the query has been cut off.\<close>

definition parse_hierarchy :: "(string \<Rightarrow> bool) \<Rightarrow> url \<Rightarrow> string \<Rightarrow> url option" where
  "parse_hierarchy is_ipv6 u rest =
     (if \<not> HasPrefix rest ''/'' \<and> Scheme u \<noteq> [] then Some (u\<lparr>Opaque := rest\<rparr>)
      else if \<not> HasPrefix rest ''/'' \<and> CHR '':'' \<in> set (fst (cut_at CHR ''/'' rest)) then None
      else if (Scheme u \<noteq> [] \<or> \<not> HasPrefix rest ''///'') \<and> HasPrefix rest ''//'' then
        (let authority = takeWhile (\<lambda>c. c \<noteq> CHR ''/'') (drop 2 rest);
             path = dropWhile (\<lambda>c. c \<noteq> CHR ''/'') (drop 2 rest)
         in case parseAuthority is_ipv6 authority of
              None \<Rightarrow> None
            | Some (user, host) \<Rightarrow> setPath (u\<lparr>url_User := user, Host := host\<rparr>) path)
      else if Scheme u \<noteq> [] \<and> HasPrefix rest ''/'' then setPath (u\<lparr>OmitHost := True\<rparr>) rest
      else setPath u rest)"

definition parse_no_fragment :: "(string \<Rightarrow> bool) \<Rightarrow> string \<Rightarrow> url option" where
  "parse_no_fragment is_ipv6 raw =
     (if list_ex (\<lambda>c. byte c < 32 \<or> byte c = 127) raw then None
      else if raw = ''*'' then Some (empty_url\<lparr>Path := ''*''\<rparr>)
      else case getScheme raw of
        None \<Rightarrow> None
      | Some (scheme, rest) \<Rightarrow>
          (let u = empty_url\<lparr>Scheme := ToLower_ascii scheme\<rparr>
           in if rest \<noteq> [] \<and> last rest = CHR ''?'' \<and> count_char CHR ''?'' rest = 1
              then parse_hierarchy is_ipv6 (u\<lparr>ForceQuery := True\<rparr>) (butlast rest)
              else (case cut_at CHR ''?'' rest of (rest, query) \<Rightarrow>
                parse_hierarchy is_ipv6 (u\<lparr>RawQuery := query\<rparr>) rest)))"

definition url_Parse :: "(string \<Rightarrow> bool) \<Rightarrow> string \<Rightarrow> url option" where
  "url_Parse is_ipv6 raw = (case cut_at CHR ''#'' raw of (u, frag) \<Rightarrow>
     (case parse_no_fragment is_ipv6 u of
        None \<Rightarrow> None
      | Some parsed \<Rightarrow> if frag = [] then Some parsed else setFragment parsed frag))"

subsection \<open>Printing\<close>

text \<open>\<open>validEncoded\<close> for a path or a fragment.\<close>

definition validEncoded :: "string \<Rightarrow> encoding \<Rightarrow> bool" where
  "validEncoded s mode = list_all (\<lambda>c. c \<in> set ''!$&()*+,;=:@'' \<or> byte c = 39 \<or> c \<in> set ''[]''
     \<or> c = CHR ''%'' \<or> \<not> shouldEscape c mode) s"

definition EscapedPath :: "url \<Rightarrow> string" where
  "EscapedPath u =
     (if RawPath u \<noteq> [] \<and> validEncoded (RawPath u) encodePath
        \<and> unescape (RawPath u) encodePath = Some (Path u) then RawPath u
      else if Path u = ''*'' then ''*''
      else escape (Path u) encodePath)"

definition EscapedFragment :: "url \<Rightarrow> string" where
  "EscapedFragment u =
     (if RawFragment u \<noteq> [] \<and> validEncoded (RawFragment u) encodeFragment
        \<and> unescape (RawFragment u) encodeFragment = Some (Fragment u) then RawFragment u
      else escape (Fragment u) encodeFragment)"

definition Userinfo_String :: "Userinfo \<Rightarrow> string" where
  "Userinfo_String u = (case ui_password u of
     None \<Rightarrow> escape (ui_username u) encodeUserPassword
   | Some p \<Rightarrow> escape (ui_username u) encodeUserPassword @ '':'' @ escape p encodeUserPassword)"

definition authority_String :: "url \<Rightarrow> string" where
  "authority_String u =
     (if Scheme u = [] \<and> Host u = [] \<and> url_User u = None then []
      else if OmitHost u \<and> Host u = [] \<and> url_User u = None then []
      else (if Host u \<noteq> [] \<or> Path u \<noteq> [] \<or> url_User u \<noteq> None then ''//'' else [])
        @ (case url_User u of None \<Rightarrow> [] | Some ui \<Rightarrow> Userinfo_String ui @ ''@'')
        @ escape (Host u) encodeHost)"

definition url_String :: "url \<Rightarrow> string" where
  "url_String u =
     (let scheme = (if Scheme u \<noteq> [] then Scheme u @ '':'' else [])
      in (if Opaque u \<noteq> [] then scheme @ Opaque u
          else let path = EscapedPath u;
                   start = scheme @ authority_String u
                     @ (if path \<noteq> [] \<and> hd path \<noteq> CHR ''/'' \<and> Host u \<noteq> [] then ''/'' else [])
               in start
                  @ (if start = [] \<and> CHR '':'' \<in> set (fst (cut_at CHR ''/'' path)) then ''./'' else []) @ path)
         @ (if ForceQuery u \<or> RawQuery u \<noteq> [] then ''?'' @ RawQuery u else [])
         @ (if Fragment u \<noteq> [] then ''#'' @ EscapedFragment u else []))"

end
