(* ===== verification/Sync_Config.thy ===== *)
theory Sync_Config
  imports Go_URL Syncenv Job_Names
begin

text \<open>
  The pure part of the sync runner \<open>sync/main.go\<close>: its configuration from the environment
  (\<open>ConfigFromEnv\<close>), the git commands of a mirror mode (\<open>BuildGitCommands\<close>), the questions it
  asks about a command line, the checks of credentials, and what it prints of a command.
\<close>

subsection \<open>The environment\<close>

type_synonym environ = "(string \<times> string) list"

definition Getenv :: "environ \<Rightarrow> string \<Rightarrow> string" where
  "Getenv env name = map_get (map_of env) name"

definition Environ :: "environ \<Rightarrow> string list" where
  "Environ env = map (\<lambda>(k, v). k @ ''='' @ v) env"

definition envDefault :: "environ \<Rightarrow> string \<Rightarrow> string \<Rightarrow> string" where
  "envDefault env name fallback = (let v = Getenv env name in if v \<noteq> [] then v else fallback)"

definition envBoolDefault :: "environ \<Rightarrow> string \<Rightarrow> bool \<Rightarrow> bool" where
  "envBoolDefault env name fallback =
     (let v = Getenv env name in
      if v = [] then fallback else case ParseBool v of None \<Rightarrow> fallback | Some b \<Rightarrow> b)"

subsection \<open>Configuration\<close>

definition defaultGitHubAPIURL :: string where
  "defaultGitHubAPIURL = ''https://api.github.com''"

definition defaultMirrorRepoPath :: string where
  "defaultMirrorRepoPath = ''/tmp/repo.git''"

definition headsRefSpec :: string where
  "headsRefSpec = ''refs/heads/*:refs/heads/*''"

definition tagsRefSpec :: string where
  "tagsRefSpec = ''refs/tags/*:refs/tags/*''"

definition forceHeadsRefSpec :: string where
  "forceHeadsRefSpec = ''+'' @ headsRefSpec"

definition forceTagsRefSpec :: string where
  "forceTagsRefSpec = ''+'' @ tagsRefSpec"

lemmas ref_spec_defs = headsRefSpec_def tagsRefSpec_def forceHeadsRefSpec_def forceTagsRefSpec_def

record EndpointAuth =
  Type :: string
  SSHKeyPath :: string
  Username :: string
  Password :: string
  GitHubAppID :: string
  GitHubAppInstallationID :: string
  GitHubAppPrivateKeyPath :: string
  GitHubAppAPIURL :: string

record Config =
  SourceURL :: string
  TargetURL :: string
  MirrorMode :: string
  cfg_IncludeTags :: bool
  SourceAuth :: EndpointAuth
  TargetAuth :: EndpointAuth
  KnownHostsPath :: string
  RepoPath :: string

definition endpointAuthFromEnv :: "environ \<Rightarrow> string \<Rightarrow> EndpointAuth" where
  "endpointAuthFromEnv env pre =
     (let authType = Getenv env (Endpoint pre SuffixAuthType);
          authType = (if authType = [] \<and> Getenv env (Endpoint pre SuffixSSHKeyPath) \<noteq> []
            then AuthTypeSSH else authType)
      in \<lparr>Type = authType,
          SSHKeyPath = Getenv env (Endpoint pre SuffixSSHKeyPath),
          Username = Getenv env (Endpoint pre SuffixAuthUsername),
          Password = Getenv env (Endpoint pre SuffixAuthPassword),
          GitHubAppID = Getenv env (Endpoint pre SuffixGitHubAppID),
          GitHubAppInstallationID = Getenv env (Endpoint pre SuffixGitHubAppInstallationID),
          GitHubAppPrivateKeyPath = Getenv env (Endpoint pre SuffixGitHubAppPrivateKeyPath),
          GitHubAppAPIURL = envDefault env (Endpoint pre SuffixGitHubAppAPIURL) defaultGitHubAPIURL\<rparr>)"

definition ConfigFromEnv :: "environ \<Rightarrow> Config" where
  "ConfigFromEnv env = \<lparr>
     SourceURL = Getenv env env_SourceURL,
     TargetURL = Getenv env env_TargetURL,
     MirrorMode = envDefault env env_MirrorMode ''exact'',
     cfg_IncludeTags = envBoolDefault env env_IncludeTags True,
     SourceAuth = endpointAuthFromEnv env SourcePrefix,
     TargetAuth = endpointAuthFromEnv env TargetPrefix,
     KnownHostsPath = Getenv env env_KnownHostsPath,
     RepoPath = []\<rparr>"

subsection \<open>The commands\<close>

definition mirrorRepoPath :: "Config \<Rightarrow> string" where
  "mirrorRepoPath cfg = (if RepoPath cfg \<noteq> [] then RepoPath cfg else defaultMirrorRepoPath)"

definition BuildGitCommands :: "Config \<Rightarrow> error + string list list" where
  "BuildGitCommands cfg =
     (if SourceURL cfg = [] then Inl (Failure ''SOURCE_URL is required'')
      else if TargetURL cfg = [] then Inl (Failure ''TARGET_URL is required'')
      else let mode = (if MirrorMode cfg = [] then ''exact'' else MirrorMode cfg);
               repoPath = mirrorRepoPath cfg;
               commands = [[''git'', ''clone'', ''--bare'', SourceURL cfg, repoPath]]
      in if mode = ''exact'' then Inr (commands @
           [[''git'', ''-C'', repoPath, ''push'', ''--prune'', TargetURL cfg, forceHeadsRefSpec],
            [''git'', ''-C'', repoPath, ''push'', ''--prune'', TargetURL cfg, forceTagsRefSpec]])
         else if mode = ''additive'' then Inr (commands
           @ [[''git'', ''-C'', repoPath, ''push'', TargetURL cfg, headsRefSpec]]
           @ (if cfg_IncludeTags cfg
              then [[''git'', ''-C'', repoPath, ''push'', TargetURL cfg, tagsRefSpec]] else []))
         else Inl (FailureQ ''unsupported MIRROR_MODE '' mode))"

definition isTagWildcardPush :: "string list \<Rightarrow> bool" where
  "isTagWildcardPush args =
     (''push'' \<in> set args \<and> (tagsRefSpec \<in> set args \<or> forceTagsRefSpec \<in> set args))"

fun commandRepoPath :: "string list \<Rightarrow> string option" where
  "commandRepoPath [] = None"
| "commandRepoPath [arg] = None"
| "commandRepoPath (arg # arg2 # args) =
     (if arg = ''-C'' then Some arg2 else commandRepoPath (arg2 # args))"

text \<open>The inner loop finds the first argument that is no option; without one the outer loop
  goes on.\<close>

fun pushTargetURL :: "string list \<Rightarrow> string option" where
  "pushTargetURL [] = None"
| "pushTargetURL (arg # args) =
     (if arg \<noteq> ''push'' then pushTargetURL args
      else case List.find (\<lambda>candidate. \<not> HasPrefix candidate ''-'') args of
        Some candidate \<Rightarrow> Some candidate
      | None \<Rightarrow> pushTargetURL args)"

definition authForCommand :: "Config \<Rightarrow> string list \<Rightarrow> EndpointAuth" where
  "authForCommand cfg args = (if ''clone'' \<in> set args then SourceAuth cfg else TargetAuth cfg)"

subsection \<open>Checks\<close>

definition isHTTPSURL :: "(string \<Rightarrow> bool) \<Rightarrow> string \<Rightarrow> bool" where
  "isHTTPSURL is_ipv6 rawURL = (case url_Parse is_ipv6 rawURL of
     None \<Rightarrow> False | Some parsed \<Rightarrow> Scheme parsed = ''https'')"

definition validateEndpointAuth ::
  "(string \<Rightarrow> bool) \<Rightarrow> string \<Rightarrow> string \<Rightarrow> EndpointAuth \<Rightarrow> error option" where
  "validateEndpointAuth is_ipv6 name rawURL auth =
     (if Type auth = AuthTypeSSH then
        (if SSHKeyPath auth = [] then Some (Failure (name @ '' SSH auth requires an SSH key path'')) else None)
      else if Type auth = AuthTypeBasic \<or> Type auth = AuthTypeGitHubApp then
        (if \<not> isHTTPSURL is_ipv6 rawURL then
           Some (Failure (name @ '' '' @ Type auth @ '' auth requires an HTTPS git URL''))
         else if Username auth = [] \<or> Password auth = [] then
           Some (Failure (name @ '' '' @ Type auth @ '' auth requires username and password credentials''))
         else None)
      else if Type auth = [] then Some (Failure (name @ '' auth is required''))
      else Some (FailureQ (''unsupported '' @ name @ '' auth type '') (Type auth)))"

definition gitSSHCommand :: "Config \<Rightarrow> string \<Rightarrow> string" where
  "gitSSHCommand cfg keyPath =
     (let parts = [''ssh'', ''-o'', ''IdentitiesOnly=yes'']
        @ (if keyPath \<noteq> [] then [''-i'', keyPath] else [])
        @ (if KnownHostsPath cfg \<noteq> [] then
             [''-o'', ''UserKnownHostsFile='' @ KnownHostsPath cfg, ''-o'', ''StrictHostKeyChecking=yes''] else [])
      in ''GIT_SSH_COMMAND='' @ Join parts '' '')"

subsection \<open>What is logged\<close>

definition redacted_user :: Userinfo where
  "redacted_user = \<lparr>ui_username = ''<redacted>'', ui_password = None\<rparr>"

definition redactURLUserinfo :: "(string \<Rightarrow> bool) \<Rightarrow> string \<Rightarrow> string" where
  "redactURLUserinfo is_ipv6 v = (case url_Parse is_ipv6 v of
     None \<Rightarrow> v
   | Some parsed \<Rightarrow> (if url_User parsed = None then v
       else url_String (parsed\<lparr>url_User := Some redacted_user\<rparr>)))"

text \<open>\<open>strings.Contains(strings.ToLower(arg), "key")\<close>, on runes.\<close>

definition mentions_key :: "string \<Rightarrow> bool" where
  "mentions_key arg = sublist (map byte ''key'') (ToLower_runes arg)"

definition safeCommand :: "(string \<Rightarrow> bool) \<Rightarrow> string list \<Rightarrow> string" where
  "safeCommand is_ipv6 args =
     Join (map (\<lambda>arg. if mentions_key arg then ''<redacted>'' else redactURLUserinfo is_ipv6 arg) args) '' ''"

end
