(* ===== verification/Env_Contract.thy ===== *)
theory Env_Contract
  imports Job_Properties Sync_Config
begin

text \<open>
  The contract between the operator and the sync runner: the environment of the Job's container,
  set by \<open>BuildSyncJob\<close>, is what \<open>ConfigFromEnv\<close> reads. Kubernetes stands between the two
  (\<open>container_env\<close>): it sets the variables of the pod in their order, each to the value of the
  secret key it refers to or to its own value, and it sets none of the runner's other variables.
  In a value of the second kind it expands references. That expansion, \<open>expand\<close>, is a parameter,
  given the variables it can see, the container's earlier ones before the service variables; what
  Kubernetes documents of it is \<open>expands_references\<close>. \<open>BuildSyncJob\<close> does not escape what it puts
  into a value, so the two programs agree on a specification without dollar signs.
\<close>

subsection \<open>Kubernetes\<close>

type_synonym expansion = "(string \<Rightarrow> string option) \<Rightarrow> string \<Rightarrow> string"

definition no_dollar :: "string \<Rightarrow> bool" where
  "no_dollar s = (CHR ''$'' \<notin> set s)"

text \<open>The documentation of \<open>EnvVar.value\<close>: a reference to a variable is replaced by its value, and is
  left as it is when there is no such variable; two dollar signs become one and start no
  reference.\<close>

definition expands_references :: "expansion \<Rightarrow> bool" where
  "expands_references expand = (\<forall>visible pre s. no_dollar pre \<longrightarrow>
       expand visible pre = pre
     \<and> expand visible (pre @ ''$$'' @ s) = pre @ ''$'' @ expand visible s
     \<and> (\<forall>name. CHR '')'' \<notin> set name \<longrightarrow> expand visible (pre @ ''$('' @ name @ '')'' @ s)
         = pre @ (case visible name of Some v \<Rightarrow> v | None \<Rightarrow> ''$('' @ name @ '')'') @ expand visible s))"

definition env_value :: "expansion \<Rightarrow> (SecretKeyRef \<Rightarrow> string) \<Rightarrow> (string \<Rightarrow> string option) \<Rightarrow> EnvVar \<Rightarrow> string" where
  "env_value expand secrets visible v = (case env_Value v of
     Value s \<Rightarrow> expand visible s | SecretValue ref \<Rightarrow> secrets ref)"

primrec set_vars :: "expansion \<Rightarrow> (string \<Rightarrow> string option) \<Rightarrow> (SecretKeyRef \<Rightarrow> string) \<Rightarrow>
    (string \<Rightarrow> string option) \<Rightarrow> EnvVar list \<Rightarrow> string \<Rightarrow> string option" where
  "set_vars expand services secrets sofar [] = sofar"
| "set_vars expand services secrets sofar (v # vars) = set_vars expand services secrets
     (sofar(env_Name v \<mapsto> env_value expand secrets (services ++ sofar) v)) vars"

text \<open>The values of the variables, when there is nothing to expand.\<close>

definition var_value :: "(SecretKeyRef \<Rightarrow> string) \<Rightarrow> EnvVar \<Rightarrow> string" where
  "var_value secrets v = (case env_Value v of Value s \<Rightarrow> s | SecretValue ref \<Rightarrow> secrets ref)"

definition auth_suffix_names :: "string list" where
  "auth_suffix_names = [SuffixAuthType, SuffixSSHKeyPath, SuffixAuthUsername, SuffixAuthPassword, SuffixGitHubAppID,
     SuffixGitHubAppInstallationID, SuffixGitHubAppPrivateKeyPath, SuffixGitHubAppAPIURL]"

definition runner_names :: "string list" where
  "runner_names = [env_SourceURL, env_TargetURL, env_MirrorMode, env_IncludeTags, env_KnownHostsPath]
     @ map (Endpoint SourcePrefix) auth_suffix_names @ map (Endpoint TargetPrefix) auth_suffix_names"

definition container_env :: "expansion \<Rightarrow> (string \<Rightarrow> string option) \<Rightarrow> (SecretKeyRef \<Rightarrow> string) \<Rightarrow>
    EnvVar list \<Rightarrow> environ \<Rightarrow> bool" where
  "container_env expand services secrets vars env =
     ((\<forall>v \<in> set vars. map_of env (env_Name v) = set_vars expand services secrets Map.empty vars (env_Name v))
      \<and> (\<forall>name \<in> set runner_names. name \<notin> env_Name ` set vars \<longrightarrow> map_of env name = None))"

definition has_values :: "(SecretKeyRef \<Rightarrow> string) \<Rightarrow> EnvVar list \<Rightarrow> environ \<Rightarrow> bool" where
  "has_values secrets vars env = ((\<forall>v \<in> set vars. map_of env (env_Name v) = Some (var_value secrets v))
     \<and> (\<forall>name \<in> set runner_names. name \<notin> env_Name ` set vars \<longrightarrow> map_of env name = None))"

lemma expand_no_dollar: "expands_references expand \<Longrightarrow> no_dollar s \<Longrightarrow> expand visible s = s"
  unfolding expands_references_def by blast

lemma set_vars_earlier:
  "name \<notin> env_Name ` set vars \<Longrightarrow> set_vars expand services secrets sofar vars name = sofar name"
  by (induction vars arbitrary: sofar) auto

definition literal_var :: "EnvVar \<Rightarrow> bool" where
  "literal_var v = (case env_Value v of Value s \<Rightarrow> no_dollar s | SecretValue _ \<Rightarrow> True)"

lemma literal_value:
  "expands_references expand \<Longrightarrow> literal_var v \<Longrightarrow> env_value expand secrets visible v = var_value secrets v"
  by (auto simp: literal_var_def env_value_def var_value_def expand_no_dollar split: EnvValue.splits)

lemma set_vars_literal:
  assumes "expands_references expand" and "distinct (map env_Name vars)" and "list_all literal_var vars"
    and "v \<in> set vars"
  shows "set_vars expand services secrets sofar vars (env_Name v) = Some (var_value secrets v)"
  using assms(2-4)
proof (induction vars arbitrary: sofar)
  case (Cons w vars)
  then show ?case by (cases "v = w") (auto simp: set_vars_earlier literal_value [OF assms(1)])
qed simp

lemma container_has_values:
  assumes "container_env expand services secrets vars env" and "expands_references expand"
    and "distinct (map env_Name vars)" and "list_all literal_var vars"
  shows "has_values secrets vars env"
  using assms(1) set_vars_literal [OF assms(2-4)] unfolding container_env_def has_values_def by simp

text \<open>What the runner should find for an endpoint.\<close>

definition runner_auth :: "(SecretKeyRef \<Rightarrow> string) \<Rightarrow> string \<Rightarrow> GitEndpointSpec \<Rightarrow> EndpointAuth" where
  "runner_auth secrets p endpoint =
     (let t = endpoint_auth_type endpoint;
          auth = \<lparr>Type = t, SSHKeyPath = [], Username = [], Password = [], GitHubAppID = [],
            GitHubAppInstallationID = [], GitHubAppPrivateKeyPath = [], GitHubAppAPIURL = defaultGitHubAPIURL\<rparr>
      in if t = AuthTypeSSH then auth\<lparr>SSHKeyPath := ''/var/run/git-mirror/'' @ p @ ''/ssh_key''\<rparr>
         else if t = AuthTypeBasic then (case map_option auth_Basic (Auth endpoint) of
             Some (Some basic) \<Rightarrow> auth\<lparr>Username := secrets (UsernameSecretRef basic),
               Password := secrets (PasswordSecretRef basic)\<rparr>
           | _ \<Rightarrow> auth)
         else (case map_option auth_GitHubApp (Auth endpoint) of
             Some (Some app) \<Rightarrow> auth\<lparr>GitHubAppID := secrets (AppIDSecretRef app),
               GitHubAppInstallationID := secrets (InstallationIDSecretRef app),
               GitHubAppPrivateKeyPath := ''/var/run/git-mirror/'' @ p @ ''-github-app/private_key'',
               GitHubAppAPIURL := or_default (APIURL app) defaultGitHubAPIURL\<rparr>
           | _ \<Rightarrow> auth))"

lemma Endpoint_inj [simp]: "Endpoint e s = Endpoint e s' \<longleftrightarrow> s = s'"
  by (simp add: Endpoint_def)

lemmas suffix_defs = SuffixAuthType_def SuffixSSHKeyPath_def SuffixAuthUsername_def SuffixAuthPassword_def
  SuffixGitHubAppID_def SuffixGitHubAppInstallationID_def SuffixGitHubAppPrivateKeyPath_def SuffixGitHubAppAPIURL_def

lemma suffixes_distinct: "distinct auth_suffix_names"
  by (simp add: auth_suffix_names_def suffix_defs)

definition reads :: "(SecretKeyRef \<Rightarrow> string) \<Rightarrow> environ \<Rightarrow> string \<Rightarrow> EnvVar list \<Rightarrow> bool" where
  "reads secrets env e vars = ((\<forall>v \<in> set vars. Getenv env (env_Name v) = var_value secrets v)
     \<and> (\<forall>s \<in> set auth_suffix_names. Endpoint e s \<notin> env_Name ` set vars \<longrightarrow> Getenv env (Endpoint e s) = []))"

lemma endpoint_vars:
  assumes "endpointAuth e p endpoint = Inr (vars, mounts, volumes)"
  obtains
    (ssh) "endpoint_auth_type endpoint = AuthTypeSSH"
      "vars = [plainEnvVar (Endpoint e SuffixAuthType) AuthTypeSSH,
        plainEnvVar (Endpoint e SuffixSSHKeyPath) (''/var/run/git-mirror/'' @ p @ ''/ssh_key'')]"
  | (basic) a b where "endpoint_auth_type endpoint = AuthTypeBasic" "Auth endpoint = Some a" "auth_Basic a = Some b"
      "vars = [plainEnvVar (Endpoint e SuffixAuthType) AuthTypeBasic,
        secretEnvVar (Endpoint e SuffixAuthUsername) (UsernameSecretRef b),
        secretEnvVar (Endpoint e SuffixAuthPassword) (PasswordSecretRef b)]"
  | (app) a g where "endpoint_auth_type endpoint = AuthTypeGitHubApp" "Auth endpoint = Some a"
      "auth_GitHubApp a = Some g"
      "vars = [plainEnvVar (Endpoint e SuffixAuthType) AuthTypeGitHubApp,
        secretEnvVar (Endpoint e SuffixGitHubAppID) (AppIDSecretRef g),
        secretEnvVar (Endpoint e SuffixGitHubAppInstallationID) (InstallationIDSecretRef g),
        plainEnvVar (Endpoint e SuffixGitHubAppPrivateKeyPath) (''/var/run/git-mirror/'' @ p @ ''-github-app/private_key'')]
        @ (if APIURL g \<noteq> [] then [plainEnvVar (Endpoint e SuffixGitHubAppAPIURL) (APIURL g)] else [])"
proof -
  consider "endpoint_auth_type endpoint = AuthTypeSSH" | "endpoint_auth_type endpoint = AuthTypeBasic"
    | "endpoint_auth_type endpoint = AuthTypeGitHubApp"
    using assms by (auto simp: endpointAuth_def Let_def split: if_split_asm)
  then show thesis
  proof cases
    case 1
    with assms show thesis by (intro ssh) (auto simp: endpointAuth_def Let_def split: sum.split_asm)
  next
    case 2
    then obtain a b where "Auth endpoint = Some a" "auth_Basic a = Some b"
      using assms by (auto simp: endpointAuth_def Let_def split: option.split_asm)
    with assms 2 show thesis by (intro basic) (auto simp: endpointAuth_def Let_def)
  next
    case 3
    then obtain a g where "Auth endpoint = Some a" "auth_GitHubApp a = Some g"
      using assms by (auto simp: endpointAuth_def Let_def split: option.split_asm)
    with assms 3 show thesis by (intro app) (auto simp: endpointAuth_def Let_def)
  qed
qed

lemmas var_simps = plainEnvVar_def secretEnvVar_def var_value_def

lemma reads_set:
  "reads secrets env e vars \<Longrightarrow> list_all (\<lambda>v. Getenv env (env_Name v) = var_value secrets v) vars"
  by (simp add: reads_def list_all_iff)

lemma reads_unset:
  "reads secrets env e vars \<Longrightarrow> s \<in> set auth_suffix_names \<Longrightarrow> list_all (\<lambda>v. env_Name v \<noteq> Endpoint e s) vars \<Longrightarrow>
    Getenv env (Endpoint e s) = []"
  by (force simp: reads_def list_all_iff)

lemma endpoint_contract:
  assumes "endpointAuth e p endpoint = Inr (vars, mounts, volumes)" and r: "reads secrets env e vars"
  shows "endpointAuthFromEnv env e = runner_auth secrets p endpoint"
proof -
  note suffixes = auth_suffix_names_def suffix_defs
  note unset = reads_unset [OF r]
  from assms(1) show ?thesis
  proof (cases rule: endpoint_vars)
    case ssh
    note g = reads_set [OF r, unfolded ssh(2)]
    have "Getenv env (Endpoint e SuffixAuthType) = AuthTypeSSH"
        "Getenv env (Endpoint e SuffixSSHKeyPath) = ''/var/run/git-mirror/'' @ p @ ''/ssh_key''"
      using g by (simp_all add: var_simps)
    moreover have "Getenv env (Endpoint e SuffixAuthUsername) = []" "Getenv env (Endpoint e SuffixAuthPassword) = []"
        "Getenv env (Endpoint e SuffixGitHubAppID) = []" "Getenv env (Endpoint e SuffixGitHubAppInstallationID) = []"
        "Getenv env (Endpoint e SuffixGitHubAppPrivateKeyPath) = []" "Getenv env (Endpoint e SuffixGitHubAppAPIURL) = []"
      by (rule unset; simp add: suffixes ssh(2) var_simps)+
    ultimately show ?thesis
      using ssh(1) by (simp add: endpointAuthFromEnv_def runner_auth_def Let_def envDefault_def)
  next
    case (basic a b)
    note g = reads_set [OF r, unfolded basic(4)]
    have "Getenv env (Endpoint e SuffixAuthType) = AuthTypeBasic"
        "Getenv env (Endpoint e SuffixAuthUsername) = secrets (UsernameSecretRef b)"
        "Getenv env (Endpoint e SuffixAuthPassword) = secrets (PasswordSecretRef b)"
      using g by (simp_all add: var_simps)
    moreover have "Getenv env (Endpoint e SuffixSSHKeyPath) = []"
        "Getenv env (Endpoint e SuffixGitHubAppID) = []" "Getenv env (Endpoint e SuffixGitHubAppInstallationID) = []"
        "Getenv env (Endpoint e SuffixGitHubAppPrivateKeyPath) = []" "Getenv env (Endpoint e SuffixGitHubAppAPIURL) = []"
      by (rule unset; simp add: suffixes basic(4) var_simps)+
    ultimately show ?thesis
      using basic(1-3) by (simp add: endpointAuthFromEnv_def runner_auth_def Let_def envDefault_def)
  next
    case (app a g)
    note gv = reads_set [OF r, unfolded app(4)]
    have "Getenv env (Endpoint e SuffixAuthType) = AuthTypeGitHubApp"
        "Getenv env (Endpoint e SuffixGitHubAppID) = secrets (AppIDSecretRef g)"
        "Getenv env (Endpoint e SuffixGitHubAppInstallationID) = secrets (InstallationIDSecretRef g)"
        "Getenv env (Endpoint e SuffixGitHubAppPrivateKeyPath)
          = ''/var/run/git-mirror/'' @ p @ ''-github-app/private_key''"
      using gv by (simp_all add: var_simps)
    moreover have "Getenv env (Endpoint e SuffixGitHubAppAPIURL) = APIURL g"
    proof (cases "APIURL g = []")
      case True
      then show ?thesis by (simp add: unset suffixes app(4) var_simps)
    next
      case False
      then show ?thesis using gv by (simp add: var_simps)
    qed
    moreover have "Getenv env (Endpoint e SuffixSSHKeyPath) = []" "Getenv env (Endpoint e SuffixAuthUsername) = []"
        "Getenv env (Endpoint e SuffixAuthPassword) = []"
      by (rule unset; simp add: suffixes app(4) var_simps)+
    ultimately show ?thesis
      using app(1-3)
      by (simp add: endpointAuthFromEnv_def runner_auth_def Let_def envDefault_def or_default_def)
  qed
qed

subsection \<open>The whole configuration\<close>

definition container :: "BatchJob \<Rightarrow> Container" where
  "container job = hd (pod_Containers (TemplateSpec (job_Spec job)))"

definition runner_config :: "(SecretKeyRef \<Rightarrow> string) \<Rightarrow> GitMirror \<Rightarrow> Config" where
  "runner_config secrets m = \<lparr>
     SourceURL = URL (Source (Spec m)), TargetURL = URL (Target (Spec m)),
     MirrorMode = or_default (Mode (Mirror (Spec m))) ''exact'',
     cfg_IncludeTags = (Mode (Mirror (Spec m)) = ''additive'' \<longrightarrow> IncludeTags (Mirror (Spec m))),
     SourceAuth = runner_auth secrets ''source'' (Source (Spec m)),
     TargetAuth = runner_auth secrets ''target'' (Target (Spec m)),
     KnownHostsPath = ''/var/run/git-mirror/known-hosts/known_hosts'', RepoPath = []\<rparr>"

lemma suffix_not_base:
  "s \<in> set auth_suffix_names \<Longrightarrow> Endpoint SourcePrefix s \<notin> env_Name ` set (base_env m mode)"
  "s \<in> set auth_suffix_names \<Longrightarrow> Endpoint TargetPrefix s \<notin> env_Name ` set (base_env m mode)"
  "Endpoint SourcePrefix s \<noteq> Endpoint TargetPrefix s'" "Endpoint TargetPrefix s \<noteq> Endpoint SourcePrefix s'"
  by (auto simp: auth_suffix_names_def base_env_def plainEnvVar_def env_name_defs)

lemma suffix_not_url: "Endpoint SourcePrefix s \<noteq> env_IncludeTags" "Endpoint TargetPrefix s \<noteq> env_IncludeTags"
  by (auto simp: env_name_defs)

lemma endpoint_names:
  "endpointAuth e p endpoint = Inr (vars, mounts, volumes) \<Longrightarrow> v \<in> set vars \<Longrightarrow> \<exists>s. env_Name v = Endpoint e s"
  by (erule endpoint_vars) (auto simp: plainEnvVar_def secretEnvVar_def split: if_splits)

lemma reads_part:
  assumes "has_values secrets vars env" and "set part \<subseteq> set vars" and "e = SourcePrefix \<or> e = TargetPrefix"
    and "\<And>s v. s \<in> set auth_suffix_names \<Longrightarrow> v \<in> set vars \<Longrightarrow> env_Name v = Endpoint e s \<Longrightarrow> v \<in> set part"
  shows "reads secrets env e part"
proof -
  have "Endpoint e s \<in> set runner_names" if "s \<in> set auth_suffix_names" for s
    using that assms(3) by (auto simp: runner_names_def)
  with assms(1,2,4) show ?thesis
    unfolding reads_def has_values_def Getenv_def map_get_def by (auto 0 3 simp: image_iff subset_iff)
qed

lemma base_contract:
  assumes "has_values secrets vars env" and "set (base_env m mode) \<subseteq> set vars"
    and "mode \<noteq> ''additive'' \<longrightarrow> env_IncludeTags \<notin> env_Name ` set vars"
  shows "Getenv env env_SourceURL = URL (Source (Spec m))" and "Getenv env env_TargetURL = URL (Target (Spec m))"
    and "Getenv env env_MirrorMode = mode"
    and "Getenv env env_KnownHostsPath = ''/var/run/git-mirror/known-hosts/known_hosts''"
    and "envBoolDefault env env_IncludeTags True = (mode = ''additive'' \<longrightarrow> IncludeTags (Mirror (Spec m)))"
proof -
  have all: "list_all (\<lambda>v. Getenv env (env_Name v) = var_value secrets v) (base_env m mode)"
    using assms(1,2) by (auto simp: list_all_iff has_values_def Getenv_def map_get_def)
  then show g: "Getenv env env_SourceURL = URL (Source (Spec m))" "Getenv env env_TargetURL = URL (Target (Spec m))"
      "Getenv env env_MirrorMode = mode"
      "Getenv env env_KnownHostsPath = ''/var/run/git-mirror/known-hosts/known_hosts''"
    by (simp_all add: base_env_def var_simps)
  show "envBoolDefault env env_IncludeTags True = (mode = ''additive'' \<longrightarrow> IncludeTags (Mirror (Spec m)))"
  proof (cases "mode = ''additive''")
    case True
    with all have "Getenv env env_IncludeTags = FormatBool (IncludeTags (Mirror (Spec m)))"
      by (simp add: base_env_def var_simps)
    moreover have "FormatBool b \<noteq> []" for b by (simp add: FormatBool_def)
    ultimately show ?thesis using True by (simp add: envBoolDefault_def Let_def)
  next
    case False
    with assms(1,3) have "Getenv env env_IncludeTags = []"
      by (simp add: has_values_def runner_names_def Getenv_def map_get_def)
    with False show ?thesis by (simp add: envBoolDefault_def Let_def)
  qed
qed

lemma include_tags_only_additive:
  assumes "mode \<noteq> ''additive''"
  shows "env_IncludeTags \<notin> env_Name ` set (base_env m mode)"
  using assms by (auto simp: base_env_def plainEnvVar_def env_name_defs)

lemma config_of_values:
  assumes "BuildSyncJob set_ref (Some m) opts = Inr sj" and "only_sets_owner set_ref"
    and "has_values secrets (ctr_Env (container (sync_Job sj))) env"
  shows "ConfigFromEnv env = runner_config secrets m"
proof -
  obtain owner src tgt where p: "endpointAuth SourcePrefix ''source'' (Source (Spec m)) = Inr src"
    "endpointAuth TargetPrefix ''target'' (Target (Spec m)) = Inr tgt"
    "sync_Job sj = (sync_job m opts (built_pod m opts src tgt))\<lparr>job_Owner := owner\<rparr>"
    using built_job [OF assms(1,2)] by blast
  obtain se sm sv te tm tv where st: "src = (se, sm, sv)" "tgt = (te, tm, tv)" by (cases src; cases tgt) auto
  note S = p(1) [unfolded st] and T = p(2) [unfolded st]
  define mode where "mode = or_default (Mode (Mirror (Spec m))) ''exact''"
  define vars where "vars = base_env m mode @ se @ te"
  have env: "has_values secrets vars env"
    using assms(3) by (simp add: p(3) container_def sync_job_def built_pod_def sync_pod_def Let_def st vars_def mode_def)
  have notS: "env_Name v \<noteq> Endpoint TargetPrefix s" "env_Name v \<noteq> env_IncludeTags" if "v \<in> set se" for v s
    using endpoint_names [OF S that] suffix_not_base(3) suffix_not_url by metis+
  have notT: "env_Name v \<noteq> Endpoint SourcePrefix s" "env_Name v \<noteq> env_IncludeTags" if "v \<in> set te" for v s
    using endpoint_names [OF T that] suffix_not_base(4) suffix_not_url by metis+
  have src: "v \<in> set se" if "s \<in> set auth_suffix_names" "v \<in> set vars" "env_Name v = Endpoint SourcePrefix s" for s v
    using that suffix_not_base(1) [OF that(1), of m mode] notT by (auto simp: vars_def image_iff)
  have tgt: "v \<in> set te" if "s \<in> set auth_suffix_names" "v \<in> set vars" "env_Name v = Endpoint TargetPrefix s" for s v
    using that suffix_not_base(2) [OF that(1), of m mode] notS by (auto simp: vars_def image_iff)
  have part: "set se \<subseteq> set vars" "set te \<subseteq> set vars" by (auto simp: vars_def)
  have "reads secrets env SourcePrefix se" by (rule reads_part [OF env part(1)]) (simp, erule (2) src)
  moreover have "reads secrets env TargetPrefix te" by (rule reads_part [OF env part(2)]) (simp, erule (2) tgt)
  ultimately have auth: "endpointAuthFromEnv env SourcePrefix = runner_auth secrets ''source'' (Source (Spec m))"
      "endpointAuthFromEnv env TargetPrefix = runner_auth secrets ''target'' (Target (Spec m))"
    using endpoint_contract [OF S] endpoint_contract [OF T] by simp_all
  have tags: "env_IncludeTags \<notin> env_Name ` set vars" if "mode \<noteq> ''additive''"
  proof
    assume "env_IncludeTags \<in> env_Name ` set vars"
    then obtain v where v: "v \<in> set vars" "env_Name v = env_IncludeTags" by (metis imageE)
    with include_tags_only_additive [OF that, of m] have "v \<notin> set (base_env m mode)" by (metis imageI)
    with v notS(2) notT(2) show False unfolding vars_def by auto
  qed
  have sub: "set (base_env m mode) \<subseteq> set vars" by (auto simp: vars_def)
  have "mode \<noteq> ''additive'' \<longrightarrow> env_IncludeTags \<notin> env_Name ` set vars" using tags by blast
  note base = base_contract [OF env sub this]
  have "mode = ''additive'' \<longleftrightarrow> Mode (Mirror (Spec m)) = ''additive''" "mode \<noteq> []"
    by (auto simp: mode_def or_default_def)
  then show ?thesis
    by (simp add: ConfigFromEnv_def runner_config_def auth base envDefault_def mode_def [symmetric])
qed

lemma built_env_distinct:
  assumes "BuildSyncJob set_ref (Some m) opts = Inr sj" and "only_sets_owner set_ref"
  shows "distinct (map env_Name (ctr_Env (container (sync_Job sj))))"
proof -
  obtain owner src tgt where p: "endpointAuth SourcePrefix ''source'' (Source (Spec m)) = Inr src"
    "endpointAuth TargetPrefix ''target'' (Target (Spec m)) = Inr tgt"
    "sync_Job sj = (sync_job m opts (built_pod m opts src tgt))\<lparr>job_Owner := owner\<rparr>"
    using built_job [OF assms] by blast
  obtain se sm sv te tm tv where st: "src = (se, sm, sv)" "tgt = (te, tm, tv)" by (cases src; cases tgt) auto
  obtain sfx sfx' where x: "sfx \<in> auth_suffixes" "map env_Name se = map (Endpoint SourcePrefix) sfx"
    "sfx' \<in> auth_suffixes" "map env_Name te = map (Endpoint TargetPrefix) sfx'"
    using endpointAuth_shape(1) [OF p(1) [unfolded st]] endpointAuth_shape(1) [OF p(2) [unfolded st]] by blast
  show ?thesis
    using distinct_env_names [OF x(1,3), of m "or_default (Mode (Mirror (Spec m))) ''exact''"] x
    by (simp add: container_def p(3) sync_job_def built_pod_def sync_pod_def Let_def st del: distinct_append)
qed

subsection \<open>Specifications without dollar signs\<close>

definition literal_endpoint :: "GitEndpointSpec \<Rightarrow> bool" where
  "literal_endpoint endpoint = (no_dollar (URL endpoint) \<and> (case map_option auth_GitHubApp (Auth endpoint) of
     Some (Some app) \<Rightarrow> no_dollar (APIURL app) | _ \<Rightarrow> True))"

definition literal_spec :: "GitMirror \<Rightarrow> bool" where
  "literal_spec m = (literal_endpoint (Source (Spec m)) \<and> literal_endpoint (Target (Spec m)))"

lemma endpoint_literal:
  assumes "endpointAuth e p endpoint = Inr (vars, mounts, volumes)" and "literal_endpoint endpoint" and "no_dollar p"
  shows "list_all literal_var vars"
  using assms(1)
proof (cases rule: endpoint_vars)
  case (app a g)
  with assms(2) have "no_dollar (APIURL g)" by (simp add: literal_endpoint_def)
  with app assms(3) show ?thesis
    by (simp add: literal_var_def plainEnvVar_def secretEnvVar_def no_dollar_def auth_type_defs)
qed (use assms(3) in \<open>simp_all add: literal_var_def plainEnvVar_def secretEnvVar_def no_dollar_def auth_type_defs\<close>)

text \<open>The variables of a Job: those of the base first, the source's URL before all.\<close>

lemma built_vars:
  assumes "BuildSyncJob set_ref (Some m) opts = Inr sj" and "only_sets_owner set_ref"
  obtains se te sx tx where "ctr_Env (container (sync_Job sj))
      = base_env m (or_default (Mode (Mirror (Spec m))) ''exact'') @ se @ te"
    and "endpointAuth SourcePrefix ''source'' (Source (Spec m)) = Inr (se, sx)"
    and "endpointAuth TargetPrefix ''target'' (Target (Spec m)) = Inr (te, tx)"
    and "Mode (Mirror (Spec m)) \<in> {[], ''exact'', ''additive''}"
proof -
  obtain owner src tgt where p: "endpointAuth SourcePrefix ''source'' (Source (Spec m)) = Inr src"
    "endpointAuth TargetPrefix ''target'' (Target (Spec m)) = Inr tgt"
    "sync_Job sj = (sync_job m opts (built_pod m opts src tgt))\<lparr>job_Owner := owner\<rparr>"
    using built_job [OF assms] by blast
  have "Mode (Mirror (Spec m)) \<in> {[], ''exact'', ''additive''}"
    using assms(1) unfolding BuildSyncJob_cases spec_ok_def by blast
  moreover have "ctr_Env (container (sync_Job sj))
      = base_env m (or_default (Mode (Mirror (Spec m))) ''exact'') @ fst src @ fst tgt"
    by (simp add: p(3) container_def sync_job_def built_pod_def sync_pod_def Let_def)
  ultimately show ?thesis using p(1,2) by (cases src; cases tgt) (auto intro: that)
qed

lemma built_literal:
  assumes "BuildSyncJob set_ref (Some m) opts = Inr sj" and "only_sets_owner set_ref" and "literal_spec m"
  shows "list_all literal_var (ctr_Env (container (sync_Job sj)))"
proof -
  obtain se te sx tx where v: "ctr_Env (container (sync_Job sj))
      = base_env m (or_default (Mode (Mirror (Spec m))) ''exact'') @ se @ te"
    and e: "endpointAuth SourcePrefix ''source'' (Source (Spec m)) = Inr (se, sx)"
      "endpointAuth TargetPrefix ''target'' (Target (Spec m)) = Inr (te, tx)"
    and mode: "Mode (Mirror (Spec m)) \<in> {[], ''exact'', ''additive''}"
    using built_vars [OF assms(1,2)] by blast
  have "list_all literal_var se" "list_all literal_var te"
    using endpoint_literal [of _ _ _ _ "fst sx" "snd sx"] endpoint_literal [of _ _ _ _ "fst tx" "snd tx"] e assms(3)
    by (simp_all add: literal_spec_def no_dollar_def)
  moreover have "no_dollar (URL (Source (Spec m)))" "no_dollar (URL (Target (Spec m)))"
    using assms(3) by (simp_all add: literal_spec_def literal_endpoint_def)
  then have "list_all literal_var (base_env m (or_default (Mode (Mirror (Spec m))) ''exact''))"
    using mode by (auto simp: base_env_def literal_var_def plainEnvVar_def no_dollar_def FormatBool_def or_default_def)
  ultimately show ?thesis unfolding v by simp
qed

lemma config_of_job_env:
  assumes "BuildSyncJob set_ref (Some m) opts = Inr sj" and "only_sets_owner set_ref"
    and "expands_references expand"
    and "container_env expand services secrets (ctr_Env (container (sync_Job sj))) env" and "literal_spec m"
  shows "ConfigFromEnv env = runner_config secrets m"
  using config_of_values [OF assms(1,2) container_has_values [OF assms(4,3)]]
    built_env_distinct [OF assms(1,2)] built_literal [OF assms(1,2,5)] by blast

text \<open>The URLs the runner reads in any case.\<close>

lemma urls_of_job_env:
  assumes "BuildSyncJob set_ref (Some m) opts = Inr sj" and "only_sets_owner set_ref"
    and "container_env expand services secrets (ctr_Env (container (sync_Job sj))) env"
  defines "source \<equiv> expand services (URL (Source (Spec m)))"
  shows "SourceURL (ConfigFromEnv env) = source"
    and "TargetURL (ConfigFromEnv env) = expand (services(env_SourceURL \<mapsto> source)) (URL (Target (Spec m)))"
proof -
  obtain rest where vars: "ctr_Env (container (sync_Job sj)) =
      plainEnvVar env_SourceURL (URL (Source (Spec m))) # plainEnvVar env_TargetURL (URL (Target (Spec m))) # rest"
    using built_vars [OF assms(1,2)] by (metis append_Cons base_env_def)
  note distinct = built_env_distinct [OF assms(1,2), unfolded vars]
  have "map_of env env_SourceURL = Some source"
      "map_of env env_TargetURL = Some (expand (services(env_SourceURL \<mapsto> source)) (URL (Target (Spec m))))"
    using assms(3) distinct unfolding container_env_def vars
    by (auto simp: set_vars_earlier plainEnvVar_def env_value_def source_def)
  then show "SourceURL (ConfigFromEnv env) = source"
      "TargetURL (ConfigFromEnv env) = expand (services(env_SourceURL \<mapsto> source)) (URL (Target (Spec m)))"
    by (simp_all add: ConfigFromEnv_def Getenv_def map_get_def)
qed

text \<open>C18. The two programs agree on the environment. For every Job the operator builds, and every
  environment in which Kubernetes runs it, expanding references in the values as documented,
  the runner reads the two URLs as Kubernetes expands them; and if neither URL nor the URL of a
  GitHub API has a dollar sign, it reads back exactly the configuration of the GitMirror: its
  URLs, its mode and tag option, the credentials of each endpoint under the right names, and
  the places where the files are mounted. The operator escapes no dollar sign, so a URL with
  \<open>$$\<close> or a reference is changed on the way.\<close>

theorem env_contract:
  assumes "BuildSyncJob set_ref (Some m) opts = Inr sj" and "only_sets_owner set_ref"
    and "expands_references expand"
    and "container_env expand services secrets (ctr_Env (container (sync_Job sj))) env"
  shows "(literal_spec m \<longrightarrow> ConfigFromEnv env = runner_config secrets m)
    \<and> SourceURL (ConfigFromEnv env) = expand services (URL (Source (Spec m)))
    \<and> TargetURL (ConfigFromEnv env) = expand (services(env_SourceURL \<mapsto> expand services (URL (Source (Spec m)))))
        (URL (Target (Spec m)))"
  using config_of_job_env [OF assms] urls_of_job_env [OF assms(1,2,4)] by blast

subsection \<open>A demonstration\<close>

text \<open>An expansion as documented.\<close>

function sample_expand :: expansion where
  "sample_expand visible [] = []"
| "sample_expand visible (c # s) =
     (if c \<noteq> CHR ''$'' \<or> s = [] then c # sample_expand visible s
      else if hd s = CHR ''$'' then CHR ''$'' # sample_expand visible (tl s)
      else if hd s = CHR ''('' \<and> CHR '')'' \<in> set s then
        (let name = takeWhile (\<lambda>c. c \<noteq> CHR '')'') (tl s) in
         (case visible name of Some v \<Rightarrow> v | None \<Rightarrow> ''$('' @ name @ '')'')
           @ sample_expand visible (drop (Suc (List.length name)) (tl s)))
      else c # sample_expand visible s)"
  by pat_completeness auto
termination by (relation "measure (\<lambda>(_, s). List.length s)") auto

lemma sample_expand_before:
  "no_dollar pre \<Longrightarrow> sample_expand visible (pre @ s) = pre @ sample_expand visible s"
  by (induction pre) (auto simp: no_dollar_def)

lemma take_before: "c \<notin> set name \<Longrightarrow> takeWhile (\<lambda>d. d \<noteq> c) (name @ c # s) = name"
  by (induction name) auto

lemma sample_expands: "expands_references sample_expand"
  unfolding expands_references_def
proof (intro allI impI conjI)
  fix visible :: "string \<Rightarrow> string option" and pre s name :: string
  assume pre: "no_dollar pre"
  show "sample_expand visible pre = pre" using sample_expand_before [OF pre, of visible "[]"] by simp
  show "sample_expand visible (pre @ ''$$'' @ s) = pre @ ''$'' @ sample_expand visible s"
    by (simp add: sample_expand_before [OF pre])
  assume "CHR '')'' \<notin> set name"
  then show "sample_expand visible (pre @ ''$('' @ name @ '')'' @ s)
      = pre @ (case visible name of Some v \<Rightarrow> v | None \<Rightarrow> ''$('' @ name @ '')'') @ sample_expand visible s"
    by (simp add: sample_expand_before [OF pre] take_before Let_def)
qed

lemma has_values_of_vars:
  assumes "distinct (map env_Name vars)"
  shows "has_values secrets vars (map (\<lambda>v. (env_Name v, var_value secrets v)) vars)"
proof -
  have "map_of (map (\<lambda>v. (env_Name v, var_value secrets v)) vars) (env_Name v) = Some (var_value secrets v)"
    if "v \<in> set vars" for v
    using assms that by (intro map_of_is_SomeI) (auto simp: comp_def)
  then show ?thesis
    unfolding has_values_def by (auto simp: map_of_eq_None_iff image_image)
qed

definition demo_secrets :: "SecretKeyRef \<Rightarrow> string" where
  "demo_secrets ref = ref_Name ref @ ref_Key ref"

definition demo_environ :: environ where
  "demo_environ = map (\<lambda>v. (env_Name v, var_value demo_secrets v)) (ctr_Env (container (demo_job demo_m ''d1'' ''abc'')))"

lemma demo_literal: "literal_spec demo_m"
  by (simp add: literal_spec_def literal_endpoint_def no_dollar_def demo_mirror_def demo_spec_def demo_endpoint_def)

lemma demo_container_env:
  "container_env sample_expand (\<lambda>_. None) demo_secrets (ctr_Env (container (demo_job demo_m ''d1'' ''abc''))) demo_environ"
proof -
  note distinct = built_env_distinct [OF demo_build_opts demo_owner_only, simplified]
  have "has_values demo_secrets (ctr_Env (container (demo_job demo_m ''d1'' ''abc''))) demo_environ"
    unfolding demo_environ_def by (rule has_values_of_vars [OF distinct])
  with set_vars_literal [OF sample_expands distinct] built_literal [OF demo_build_opts demo_owner_only demo_literal]
  show ?thesis by (simp add: has_values_def container_env_def)
qed

theorem env_contract_witness:
  "ConfigFromEnv demo_environ = runner_config demo_secrets demo_m"
  using env_contract [OF demo_build_opts demo_owner_only sample_expands] demo_container_env demo_literal by simp

end
