(* ===== verification/Go_JSON.thy ===== *)
theory Go_JSON
  imports Go_Strings
begin

text \<open>
  What the program uses of Go's \<open>encoding/json\<close> and \<open>encoding/base64\<close>. The scanner is the state
  machine of \<open>scan.go\<close>, one step per byte, with its stack of open arrays and objects and its
  nesting limit; it builds the value on the way. \<open>Unmarshal\<close> needs the whole input to be one
  value, \<open>Decoder.Decode\<close> takes the first one. Strings stay raw until a decoder unquotes them.
  Struct fields are matched to keys as the package does, exactly or by case folding, a later
  key winning over an earlier one, \<open>null\<close> leaving a field alone, and a value of another type
  giving an error while the other fields are still decoded.
\<close>

subsection \<open>Values and the scanner\<close>

datatype json =
    JNull
  | JBool bool
  | JNumber string
  | JString string
  | JArray "json list"
  | JObject "(string \<times> json) list"

text \<open>\<open>parseArrayValue\<close>, \<open>parseObjectKey\<close>, \<open>parseObjectValue\<close>, with what was read so far.\<close>

datatype frame =
    ArrayValue "json list"
  | ObjectKeyFrame "(string \<times> json) list"
  | ObjectValue "(string \<times> json) list" string

datatype number_state = Neg | Num0 | Num1 | Dot | Dot0 | NumE | ESign | E0

datatype scan_state =
    BeginValue | BeginValueOrEmpty | BeginStringOrEmpty | BeginString
  | EndValue json
  | EndTop json
  | InString string
  | InStringEsc string
  | InStringEscU nat string
  | InNumber number_state string
  | InLiteral string json
  | ScanError

type_synonym scanner = "frame list \<times> scan_state"

definition json_space :: "char \<Rightarrow> bool" where
  "json_space c = (c = CHR '' '' \<or> byte c = 9 \<or> byte c = 13 \<or> byte c = 10)"

definition backslash :: char where
  "backslash = CHR 0x5C"

definition quote :: char where
  "quote = CHR 0x22"

definition is_hex :: "char \<Rightarrow> bool" where
  "is_hex c = (is_digit c \<or> 97 \<le> byte c \<and> byte c \<le> 102 \<or> 65 \<le> byte c \<and> byte c \<le> 70)"

declare is_hex_def [char_class]

definition maxNestingDepth :: nat where
  "maxNestingDepth = 10000"

definition push_frame :: "frame list \<Rightarrow> frame \<Rightarrow> scan_state \<Rightarrow> scanner" where
  "push_frame fs f st = (if length fs \<ge> maxNestingDepth then (fs, ScanError) else (f # fs, st))"

definition pop_frame :: "frame list \<Rightarrow> json \<Rightarrow> scanner" where
  "pop_frame fs v = (fs, if fs = [] then EndTop v else EndValue v)"

definition step_begin_value :: "frame list \<Rightarrow> char \<Rightarrow> scanner" where
  "step_begin_value fs c =
     (if json_space c then (fs, BeginValue)
      else if c = CHR ''{'' then push_frame fs (ObjectKeyFrame []) BeginStringOrEmpty
      else if c = CHR ''['' then push_frame fs (ArrayValue []) BeginValueOrEmpty
      else if c = quote then (fs, InString [])
      else if c = CHR ''-'' then (fs, InNumber Neg [c])
      else if c = CHR ''0'' then (fs, InNumber Num0 [c])
      else if is_digit c then (fs, InNumber Num1 [c])
      else if c = CHR ''t'' then (fs, InLiteral ''rue'' (JBool True))
      else if c = CHR ''f'' then (fs, InLiteral ''alse'' (JBool False))
      else if c = CHR ''n'' then (fs, InLiteral ''ull'' JNull)
      else (fs, ScanError))"

definition step_begin_string :: "frame list \<Rightarrow> char \<Rightarrow> scanner" where
  "step_begin_string fs c =
     (if json_space c then (fs, BeginString)
      else if c = quote then (fs, InString []) else (fs, ScanError))"

definition step_end_top :: "json \<Rightarrow> char \<Rightarrow> scanner" where
  "step_end_top v c = ([], if json_space c then EndTop v else ScanError)"

definition step_end_value :: "frame list \<Rightarrow> json \<Rightarrow> char \<Rightarrow> scanner" where
  "step_end_value fs v c = (case fs of
     [] \<Rightarrow> step_end_top v c
   | f # fs' \<Rightarrow>
       if json_space c then (fs, EndValue v)
       else (case f of
           ObjectKeyFrame ms \<Rightarrow>
             if c = CHR '':'' then
               (case v of JString k \<Rightarrow> (ObjectValue ms k # fs', BeginValue) | _ \<Rightarrow> (fs, ScanError))
             else (fs, ScanError)
         | ObjectValue ms k \<Rightarrow>
             if c = CHR '','' then (ObjectKeyFrame (ms @ [(k, v)]) # fs', BeginString)
             else if c = CHR ''}'' then pop_frame fs' (JObject (ms @ [(k, v)]))
             else (fs, ScanError)
         | ArrayValue vs \<Rightarrow>
             if c = CHR '','' then (ArrayValue (vs @ [v]) # fs', BeginValue)
             else if c = CHR '']'' then pop_frame fs' (JArray (vs @ [v]))
             else (fs, ScanError)))"

definition step_number :: "frame list \<Rightarrow> number_state \<Rightarrow> string \<Rightarrow> char \<Rightarrow> scanner" where
  "step_number fs n raw c =
     (let go = (\<lambda>n. (fs, InNumber n (raw @ [c])));
          is_e = (c = CHR ''e'' \<or> c = CHR ''E'');
          stop = step_end_value fs (JNumber raw) c
      in case n of
        Neg \<Rightarrow> if c = CHR ''0'' then go Num0 else if is_digit c then go Num1 else (fs, ScanError)
      | Num1 \<Rightarrow> if is_digit c then go Num1 else if c = CHR ''.'' then go Dot else if is_e then go NumE else stop
      | Num0 \<Rightarrow> if c = CHR ''.'' then go Dot else if is_e then go NumE else stop
      | Dot \<Rightarrow> if is_digit c then go Dot0 else (fs, ScanError)
      | Dot0 \<Rightarrow> if is_digit c then go Dot0 else if is_e then go NumE else stop
      | NumE \<Rightarrow> if c = CHR ''+'' \<or> c = CHR ''-'' then go ESign
          else if is_digit c then go E0 else (fs, ScanError)
      | ESign \<Rightarrow> if is_digit c then go E0 else (fs, ScanError)
      | E0 \<Rightarrow> if is_digit c then go E0 else stop)"

definition step_string :: "frame list \<Rightarrow> string \<Rightarrow> char \<Rightarrow> scanner" where
  "step_string fs raw c =
     (if c = quote then (fs, EndValue (JString raw))
      else if c = backslash then (fs, InStringEsc (raw @ [c]))
      else if byte c < 32 then (fs, ScanError)
      else (fs, InString (raw @ [c])))"

definition step_escape :: "frame list \<Rightarrow> string \<Rightarrow> char \<Rightarrow> scanner" where
  "step_escape fs raw c =
     (if c = CHR ''u'' then (fs, InStringEscU 4 (raw @ [c]))
      else if c \<in> set ''bfnrt/'' \<or> c = backslash \<or> c = quote then (fs, InString (raw @ [c]))
      else (fs, ScanError))"

definition scan_step :: "scanner \<Rightarrow> char \<Rightarrow> scanner" where
  "scan_step s c = (case s of (fs, st) \<Rightarrow> (case st of
     BeginValue \<Rightarrow> step_begin_value fs c
   | BeginValueOrEmpty \<Rightarrow>
       if json_space c then (fs, BeginValueOrEmpty)
       else if c = CHR '']'' then pop_frame (tl fs) (JArray []) else step_begin_value fs c
   | BeginStringOrEmpty \<Rightarrow>
       if json_space c then (fs, BeginStringOrEmpty)
       else if c = CHR ''}'' then pop_frame (tl fs) (JObject []) else step_begin_string fs c
   | BeginString \<Rightarrow> step_begin_string fs c
   | EndValue v \<Rightarrow> step_end_value fs v c
   | EndTop v \<Rightarrow> step_end_top v c
   | InString raw \<Rightarrow> step_string fs raw c
   | InStringEsc raw \<Rightarrow> step_escape fs raw c
   | InStringEscU n raw \<Rightarrow>
       if is_hex c then (fs, if n \<le> 1 then InString (raw @ [c]) else InStringEscU (n - 1) (raw @ [c]))
       else (fs, ScanError)
   | InNumber n raw \<Rightarrow> step_number fs n raw c
   | InLiteral rest v \<Rightarrow> (case rest of
         [] \<Rightarrow> (fs, ScanError)
       | d # ds \<Rightarrow> if c = d then (fs, if ds = [] then EndValue v else InLiteral ds v) else (fs, ScanError))
   | ScanError \<Rightarrow> (fs, ScanError)))"

definition scan_start :: scanner where
  "scan_start = ([], BeginValue)"

text \<open>The value once a space has been read after the input, as \<open>eof\<close> does.\<close>

definition scan_eof :: "scanner \<Rightarrow> json option" where
  "scan_eof s = (case snd s of EndTop v \<Rightarrow> Some v
     | _ \<Rightarrow> (case snd (scan_step s CHR '' '') of EndTop v \<Rightarrow> Some v | _ \<Rightarrow> None))"

definition parse_json :: "string \<Rightarrow> json option" where
  "parse_json body = scan_eof (foldl scan_step scan_start body)"

text \<open>\<open>Decoder.Decode\<close>: the first value of a stream, what follows is left unread.\<close>

primrec decode_json_from :: "scanner \<Rightarrow> string \<Rightarrow> json option" where
  "decode_json_from s [] = scan_eof s"
| "decode_json_from s (c # cs) =
     (case snd s of
        EndTop v \<Rightarrow> Some v
      | _ \<Rightarrow> (case scan_eof s of
            Some v \<Rightarrow> (case snd (scan_step s c) of
                InNumber _ _ \<Rightarrow> decode_json_from (scan_step s c) cs
              | _ \<Rightarrow> Some v)
          | None \<Rightarrow> decode_json_from (scan_step s c) cs))"

definition decode_json :: "string \<Rightarrow> json option" where
  "decode_json body = decode_json_from scan_start body"

subsection \<open>Strings\<close>

definition encode_rune :: "nat \<Rightarrow> string" where
  "encode_rune r =
     (let r = (if r > 1114111 \<or> (55296 \<le> r \<and> r \<le> 57343) then RuneError else r) in
      if r < 128 then [char_of r]
      else if r < 2048 then [char_of (192 + r div 64), char_of (128 + r mod 64)]
      else if r < 65536 then
        [char_of (224 + r div 4096), char_of (128 + r div 64 mod 64), char_of (128 + r mod 64)]
      else [char_of (240 + r div 262144), char_of (128 + r div 4096 mod 64),
        char_of (128 + r div 64 mod 64), char_of (128 + r mod 64)])"

definition hex_nibble :: "char \<Rightarrow> nat option" where
  "hex_nibble c = (if is_digit c then Some (byte c - 48)
     else if 97 \<le> byte c \<and> byte c \<le> 102 then Some (byte c - 87)
     else if 65 \<le> byte c \<and> byte c \<le> 70 then Some (byte c - 55) else None)"

definition hex4 :: "string \<Rightarrow> nat option" where
  "hex4 s = (case map hex_nibble (take 4 s) of
     [Some a, Some b, Some c, Some d] \<Rightarrow> Some (((a * 16 + b) * 16 + c) * 16 + d)
   | _ \<Rightarrow> None)"

definition getu4 :: "string \<Rightarrow> nat option" where
  "getu4 s = (case s of
     b # u # cs \<Rightarrow> if b = backslash \<and> u = CHR ''u'' then hex4 cs else None
   | _ \<Rightarrow> None)"

definition high_surrogate :: "nat \<Rightarrow> bool" where
  "high_surrogate r = (55296 \<le> r \<and> r < 56320)"

definition low_surrogate :: "nat \<Rightarrow> bool" where
  "low_surrogate r = (56320 \<le> r \<and> r < 57344)"

definition unescape_char :: "char \<Rightarrow> char" where
  "unescape_char c =
     (if c = CHR ''b'' then char_of (8::nat) else if c = CHR ''f'' then char_of (12::nat)
      else if c = CHR ''n'' then char_of (10::nat) else if c = CHR ''r'' then char_of (13::nat)
      else if c = CHR ''t'' then char_of (9::nat) else c)"

text \<open>\<open>unquote\<close> on what the scanner let through; a bad escape does not get past it.\<close>

fun unquote :: "string \<Rightarrow> string" where
  "unquote [] = []"
| "unquote (c # cs) =
     (if c = backslash then
        (case getu4 (c # cs) of
           Some rr \<Rightarrow>
             if high_surrogate rr \<or> low_surrogate rr then
               (case getu4 (drop 5 cs) of
                  Some rr1 \<Rightarrow>
                    if high_surrogate rr \<and> low_surrogate rr1 then
                      encode_rune ((rr - 55296) * 1024 + (rr1 - 56320) + 65536) @ unquote (drop 11 cs)
                    else encode_rune RuneError @ unquote (drop 5 cs)
                | None \<Rightarrow> encode_rune RuneError @ unquote (drop 5 cs))
             else encode_rune rr @ unquote (drop 5 cs)
         | None \<Rightarrow> (case cs of [] \<Rightarrow> [] | e # es \<Rightarrow> unescape_char e # unquote es))
      else (case decode_rune c cs of (r, n) \<Rightarrow> encode_rune r @ unquote (drop (n - 1) cs)))"

definition hex_char :: "nat \<Rightarrow> char" where
  "hex_char n = (if n < 10 then char_of (48 + n) else char_of (87 + n))"

definition escape_unit :: "nat \<Rightarrow> string" where
  "escape_unit r = [backslash, CHR ''u'', hex_char (r div 4096 mod 16), hex_char (r div 256 mod 16),
     hex_char (r div 16 mod 16), hex_char (r mod 16)]"

text \<open>A string as \<open>json.Marshal\<close> prints it, between its quotes, with HTML escaping.\<close>

definition encode_ascii :: "char \<Rightarrow> string" where
  "encode_ascii c =
     (if c = backslash \<or> c = quote then [backslash, c]
      else if byte c = 8 then [backslash, CHR ''b'']
      else if byte c = 12 then [backslash, CHR ''f'']
      else if byte c = 10 then [backslash, CHR ''n'']
      else if byte c = 13 then [backslash, CHR ''r'']
      else if byte c = 9 then [backslash, CHR ''t'']
      else if byte c < 32 \<or> c = CHR ''<'' \<or> c = CHR ''>'' \<or> c = CHR ''&'' then escape_unit (byte c)
      else [c])"

fun encode_json_chars :: "string \<Rightarrow> string" where
  "encode_json_chars [] = []"
| "encode_json_chars (c # cs) =
     (if byte c < 128 then encode_ascii c @ encode_json_chars cs
      else (case decode_rune c cs of (r, n) \<Rightarrow>
        if n = 1 then escape_unit RuneError @ encode_json_chars cs
        else (if r = 8232 \<or> r = 8233 then escape_unit r else c # take (n - 1) cs)
          @ encode_json_chars (drop (n - 1) cs)))"

definition encode_json_string :: "string \<Rightarrow> string" where
  "encode_json_string s = quote # encode_json_chars s @ [quote]"

text \<open>What is printed is read back: first one character, then the string.\<close>

lemma hex_char_props [simp]:
  assumes "n < 16"
  shows "is_hex (hex_char n)" and "hex_nibble (hex_char n) = Some n"
  using assms by (auto simp: hex_char_def is_hex_def hex_nibble_def is_digit_def)

lemma encode_rune_byte [simp]: "byte c < 128 \<Longrightarrow> encode_rune (byte c) = [c]"
  by (simp add: encode_rune_def)

lemma special_chars:
  "quote \<noteq> backslash" "backslash \<noteq> quote" "CHR ''u'' \<noteq> quote" "CHR ''u'' \<noteq> backslash"
  by (simp_all add: quote_def backslash_def)

lemma short_escapes:
  "byte c = 8 \<Longrightarrow> encode_ascii c = [backslash, CHR ''b''] \<and> unescape_char CHR ''b'' = c"
  "byte c = 12 \<Longrightarrow> encode_ascii c = [backslash, CHR ''f''] \<and> unescape_char CHR ''f'' = c"
  "byte c = 10 \<Longrightarrow> encode_ascii c = [backslash, CHR ''n''] \<and> unescape_char CHR ''n'' = c"
  "byte c = 13 \<Longrightarrow> encode_ascii c = [backslash, CHR ''r''] \<and> unescape_char CHR ''r'' = c"
  "byte c = 9 \<Longrightarrow> encode_ascii c = [backslash, CHR ''t''] \<and> unescape_char CHR ''t'' = c"
  using char_of_byte [of c]
  by (auto simp: encode_ascii_def unescape_char_def backslash_def quote_def byte_def)

lemma encode_ascii_cases:
  assumes "byte c < 128"
  obtains (plain) "encode_ascii c = [c]" "c \<noteq> quote" "c \<noteq> backslash" "32 \<le> byte c"
  | (short) e where "encode_ascii c = [backslash, e]" "unescape_char e = c" "e \<noteq> CHR ''u''"
      "e \<in> set ''bfnrt/'' \<or> e = backslash \<or> e = quote"
  | (unit) "encode_ascii c = escape_unit (byte c)"
proof -
  have "c = backslash \<or> c = quote \<or> byte c \<in> {8, 12, 10, 13, 9} \<or> encode_ascii c = escape_unit (byte c)
      \<or> (encode_ascii c = [c] \<and> 32 \<le> byte c)"
    by (cases "byte c < 32") (simp_all add: encode_ascii_def)
  then consider "c = backslash \<or> c = quote" | "byte c = 8" | "byte c = 12" | "byte c = 10" | "byte c = 13"
    | "byte c = 9" | "encode_ascii c = escape_unit (byte c)"
    | "encode_ascii c = [c]" "c \<noteq> quote" "c \<noteq> backslash" "32 \<le> byte c"
    by blast
  then show thesis
  proof cases
    case 1
    then show ?thesis
      by (intro short [of c]) (auto simp: encode_ascii_def unescape_char_def backslash_def quote_def)
  next
    case 7
    then show ?thesis by (rule unit)
  next
    case 8
    then show ?thesis by (rule plain)
  qed (use short short_escapes [of c] in simp)+
qed

lemma scan_encode_ascii:
  assumes "byte c < 128"
  shows "foldl scan_step (fs, InString raw) (encode_ascii c) = (fs, InString (raw @ encode_ascii c))"
  using assms
proof (cases rule: encode_ascii_cases)
  case plain
  then show ?thesis by (simp add: scan_step_def step_string_def)
next
  case (short e)
  then show ?thesis by (simp add: scan_step_def step_string_def step_escape_def special_chars)
next
  case unit
  then show ?thesis
    by (simp add: escape_unit_def scan_step_def step_string_def step_escape_def special_chars)
qed

lemma unquote_encode_ascii:
  assumes "byte c < 128"
  shows "unquote (encode_ascii c @ s) = c # unquote s"
  using assms
proof (cases rule: encode_ascii_cases)
  case plain
  then show ?thesis using assms by simp
next
  case (short e)
  then show ?thesis by (simp add: getu4_def)
next
  case unit
  have n: "byte c div 4096 mod 16 = 0" "byte c div 256 mod 16 = 0" using assms by simp_all
  have "byte c div 16 mod 16 * 16 + byte c mod 16 = byte c" using assms by simp
  then have "hex4 (tl (tl (escape_unit (byte c))) @ s) = Some (byte c)"
    unfolding escape_unit_def n by (simp add: hex4_def n)
  then have g: "getu4 (escape_unit (byte c) @ s) = Some (byte c)"
    by (simp add: getu4_def escape_unit_def)
  have "\<not> high_surrogate (byte c)" "\<not> low_surrogate (byte c)"
    using assms by (simp_all add: high_surrogate_def low_surrogate_def)
  then show ?thesis
    using g assms unfolding unit by (simp add: escape_unit_def)
qed

lemma encode_json_chars_scan:
  "ascii s \<Longrightarrow> foldl scan_step (fs, InString raw) (encode_json_chars s) = (fs, InString (raw @ encode_json_chars s))"
  by (induction s arbitrary: raw) (simp_all add: ascii_def scan_encode_ascii)

lemma unquote_encode: "ascii s \<Longrightarrow> unquote (encode_json_chars s) = s"
  by (induction s) (simp_all add: ascii_def unquote_encode_ascii)

declare encode_json_chars.simps [simp del]
declare unquote.simps [simp del]

text \<open>The punctuation of arrays and objects.\<close>

lemma json_space_punctuation [simp]:
  "\<not> json_space CHR '':''" "\<not> json_space CHR '',''" "\<not> json_space CHR ''{''" "\<not> json_space CHR ''}''"
  by (simp_all add: json_space_def byte_def)

lemma scan_punctuation:
  "length fs < maxNestingDepth \<Longrightarrow>
     scan_step (fs, BeginValue) CHR ''{'' = (ObjectKeyFrame [] # fs, BeginStringOrEmpty)"
  "scan_step (ObjectKeyFrame ms # fs, EndValue (JString k)) CHR '':'' = (ObjectValue ms k # fs, BeginValue)"
  "scan_step (ObjectValue ms k # fs, EndValue v) CHR '','' = (ObjectKeyFrame (ms @ [(k, v)]) # fs, BeginString)"
  "scan_step (ObjectValue ms k # fs, EndValue v) CHR ''}'' = pop_frame fs (JObject (ms @ [(k, v)]))"
  "pop_frame (f # fs) v = (f # fs, EndValue v)" "pop_frame [] v = ([], EndTop v)"
  "Suc 0 < maxNestingDepth" "0 < maxNestingDepth"
  by (simp_all add: scan_step_def step_begin_value_def push_frame_def step_end_value_def pop_frame_def
      maxNestingDepth_def)

text \<open>A printed string, scanned where a value or a key begins.\<close>

lemma scan_encoded_string:
  assumes "ascii s" and "st \<in> {BeginValue, BeginString, BeginStringOrEmpty, BeginValueOrEmpty}"
  shows "foldl scan_step (fs, st) (encode_json_string s) = (fs, EndValue (JString (encode_json_chars s)))"
proof -
  have "scan_step (fs, st) quote = (fs, InString [])"
    using assms(2) by (auto simp: scan_step_def step_begin_value_def step_begin_string_def json_space_def
        quote_def byte_def)
  then show ?thesis
    using assms(1)
    by (simp add: encode_json_string_def encode_json_chars_scan scan_step_def step_string_def)
qed

subsection \<open>Decoding into struct fields\<close>

text \<open>A string field: its new value, and whether the value had another type.\<close>

definition decode_string_field :: "json \<Rightarrow> string \<Rightarrow> string \<times> bool" where
  "decode_string_field v old = (case v of
     JNull \<Rightarrow> (old, False) | JString raw \<Rightarrow> (unquote raw, False) | _ \<Rightarrow> (old, True))"

definition field_key :: "string \<Rightarrow> string \<Rightarrow> bool" where
  "field_key raw name = EqualFold (unquote raw) name"

subsection \<open>Raw URL base64\<close>

definition base64_char :: "nat \<Rightarrow> char" where
  "base64_char n = (if n < 26 then char_of (65 + n) else if n < 52 then char_of (71 + n)
     else if n < 62 then char_of (n - 4) else if n = 62 then CHR ''-'' else CHR ''_'')"

fun RawURLEncode :: "string \<Rightarrow> string" where
  "RawURLEncode [] = []"
| "RawURLEncode [a] = [base64_char (byte a div 4), base64_char (byte a mod 4 * 16)]"
| "RawURLEncode [a, b] = [base64_char (byte a div 4),
     base64_char (byte a mod 4 * 16 + byte b div 16), base64_char (byte b mod 16 * 4)]"
| "RawURLEncode (a # b # c # s) =
     [base64_char (byte a div 4), base64_char (byte a mod 4 * 16 + byte b div 16),
      base64_char (byte b mod 16 * 4 + byte c div 64), base64_char (byte c mod 64)] @ RawURLEncode s"

end
