(* ===== verification/OS_Prog.thy ===== *)
theory OS_Prog
  imports Go_JSON Sync_Config
begin

text \<open>
  The calls of the sync runner to the operating system, to git and to the GitHub API, in the
  manner of \<open>Kube_Client\<close>: a runner is the calls it makes in order with a continuation for
  each answer, and nothing is assumed of the answers. \<open>wpo ok p Q h\<close>: after the actions \<open>h\<close>,
  every action of \<open>p\<close> is one that \<open>ok\<close> allows after the actions before it, and every result
  satisfies \<open>Q\<close>.
\<close>

record HttpRequest =
  http_Method :: string
  http_URL :: string
  http_Headers :: "(string \<times> string) list"

record HttpResponse =
  resp_StatusCode :: nat
  resp_Status :: string
  resp_Body :: string

text \<open>\<open>CmdOutput\<close> collects what the command prints; its environment is the runner's when none
  is given. \<open>CmdRun\<close> runs a command with its output passed on.\<close>

datatype 'a os =
    Done 'a
  | ReadFile string "error + string \<Rightarrow> 'a os"
  | MkdirAll string nat "error option \<Rightarrow> 'a os"
  | RemoveFile string "error option \<Rightarrow> 'a os"
  | WriteFile string string nat "error option \<Rightarrow> 'a os"
  | Chmod string nat "error option \<Rightarrow> 'a os"
  | Rename string string "error option \<Rightarrow> 'a os"
  | CmdOutput "string list" "string list option" "error + string \<Rightarrow> 'a os"
  | CmdRun "string list" "string list" "error option \<Rightarrow> 'a os"
  | HttpDo HttpRequest "error + HttpResponse \<Rightarrow> 'a os"
  | TimeNow "int \<Rightarrow> 'a os"
  | Logged string "unit \<Rightarrow> 'a os"

datatype action =
    DidReadFile string "error + string"
  | DidMkdirAll string nat "error option"
  | DidRemove string "error option"
  | DidWriteFile string string nat "error option"
  | DidChmod string nat "error option"
  | DidRename string string "error option"
  | DidOutput "string list" "string list option" "error + string"
  | DidRun "string list" "string list" "error option"
  | DidHttp HttpRequest "error + HttpResponse"
  | DidTimeNow int
  | DidLog string

primrec bindo :: "'a os \<Rightarrow> ('a \<Rightarrow> 'b os) \<Rightarrow> 'b os" where
  "bindo (Done a) f = f a"
| "bindo (ReadFile p c) f = ReadFile p (\<lambda>r. bindo (c r) f)"
| "bindo (MkdirAll p m c) f = MkdirAll p m (\<lambda>r. bindo (c r) f)"
| "bindo (RemoveFile p c) f = RemoveFile p (\<lambda>r. bindo (c r) f)"
| "bindo (WriteFile p d m c) f = WriteFile p d m (\<lambda>r. bindo (c r) f)"
| "bindo (Chmod p m c) f = Chmod p m (\<lambda>r. bindo (c r) f)"
| "bindo (Rename p q c) f = Rename p q (\<lambda>r. bindo (c r) f)"
| "bindo (CmdOutput a e c) f = CmdOutput a e (\<lambda>r. bindo (c r) f)"
| "bindo (CmdRun a e c) f = CmdRun a e (\<lambda>r. bindo (c r) f)"
| "bindo (HttpDo q c) f = HttpDo q (\<lambda>r. bindo (c r) f)"
| "bindo (TimeNow c) f = TimeNow (\<lambda>r. bindo (c r) f)"
| "bindo (Logged s c) f = Logged s (\<lambda>r. bindo (c r) f)"

primrec perform :: "'a os \<Rightarrow> action \<Rightarrow> 'a os option" where
  "perform (Done a) e = None"
| "perform (ReadFile p c) e =
     (case e of DidReadFile p' r \<Rightarrow> if p' = p then Some (c r) else None | _ \<Rightarrow> None)"
| "perform (MkdirAll p m c) e =
     (case e of DidMkdirAll p' m' r \<Rightarrow> if p' = p \<and> m' = m then Some (c r) else None | _ \<Rightarrow> None)"
| "perform (RemoveFile p c) e =
     (case e of DidRemove p' r \<Rightarrow> if p' = p then Some (c r) else None | _ \<Rightarrow> None)"
| "perform (WriteFile p d m c) e =
     (case e of DidWriteFile p' d' m' r \<Rightarrow>
        if p' = p \<and> d' = d \<and> m' = m then Some (c r) else None | _ \<Rightarrow> None)"
| "perform (Chmod p m c) e =
     (case e of DidChmod p' m' r \<Rightarrow> if p' = p \<and> m' = m then Some (c r) else None | _ \<Rightarrow> None)"
| "perform (Rename p q c) e =
     (case e of DidRename p' q' r \<Rightarrow> if p' = p \<and> q' = q then Some (c r) else None | _ \<Rightarrow> None)"
| "perform (CmdOutput a v c) e =
     (case e of DidOutput a' v' r \<Rightarrow> if a' = a \<and> v' = v then Some (c r) else None | _ \<Rightarrow> None)"
| "perform (CmdRun a v c) e =
     (case e of DidRun a' v' r \<Rightarrow> if a' = a \<and> v' = v then Some (c r) else None | _ \<Rightarrow> None)"
| "perform (HttpDo q c) e =
     (case e of DidHttp q' r \<Rightarrow> if q' = q then Some (c r) else None | _ \<Rightarrow> None)"
| "perform (TimeNow c) e = (case e of DidTimeNow r \<Rightarrow> Some (c r) | _ \<Rightarrow> None)"
| "perform (Logged s c) e =
     (case e of DidLog s' \<Rightarrow> if s' = s then Some (c ()) else None | _ \<Rightarrow> None)"

primrec performs :: "'a os \<Rightarrow> action list \<Rightarrow> 'a os option" where
  "performs p [] = Some p"
| "performs p (e # es) = (case perform p e of None \<Rightarrow> None | Some p' \<Rightarrow> performs p' es)"

lemma performs_append:
  "performs p (es @ es') = (case performs p es of None \<Rightarrow> None | Some p' \<Rightarrow> performs p' es')"
  by (induction es arbitrary: p) (auto split: option.split)

text \<open>A run of the first part of a runner, with the rest to come.\<close>

lemma perform_bindo: "perform p e = Some p' \<Longrightarrow> perform (bindo p f) e = Some (bindo p' f)"
  by (cases p; cases e) (auto split: if_splits)

lemma performs_bindo: "performs p es = Some p' \<Longrightarrow> performs (bindo p f) es = Some (bindo p' f)"
  by (induction es arbitrary: p) (auto simp: perform_bindo split: option.splits)

type_synonym allowed = "action list \<Rightarrow> action \<Rightarrow> bool"

primrec wpo :: "allowed \<Rightarrow> 'a os \<Rightarrow> ('a \<Rightarrow> action list \<Rightarrow> bool) \<Rightarrow> action list \<Rightarrow> bool" where
  "wpo ok (Done a) Q h = Q a h"
| "wpo ok (ReadFile p c) Q h = (\<forall>r. ok h (DidReadFile p r) \<and> wpo ok (c r) Q (h @ [DidReadFile p r]))"
| "wpo ok (MkdirAll p m c) Q h = (\<forall>r. ok h (DidMkdirAll p m r) \<and> wpo ok (c r) Q (h @ [DidMkdirAll p m r]))"
| "wpo ok (RemoveFile p c) Q h = (\<forall>r. ok h (DidRemove p r) \<and> wpo ok (c r) Q (h @ [DidRemove p r]))"
| "wpo ok (WriteFile p d m c) Q h =
     (\<forall>r. ok h (DidWriteFile p d m r) \<and> wpo ok (c r) Q (h @ [DidWriteFile p d m r]))"
| "wpo ok (Chmod p m c) Q h = (\<forall>r. ok h (DidChmod p m r) \<and> wpo ok (c r) Q (h @ [DidChmod p m r]))"
| "wpo ok (Rename p q c) Q h = (\<forall>r. ok h (DidRename p q r) \<and> wpo ok (c r) Q (h @ [DidRename p q r]))"
| "wpo ok (CmdOutput a v c) Q h = (\<forall>r. ok h (DidOutput a v r) \<and> wpo ok (c r) Q (h @ [DidOutput a v r]))"
| "wpo ok (CmdRun a v c) Q h = (\<forall>r. ok h (DidRun a v r) \<and> wpo ok (c r) Q (h @ [DidRun a v r]))"
| "wpo ok (HttpDo q c) Q h = (\<forall>r. ok h (DidHttp q r) \<and> wpo ok (c r) Q (h @ [DidHttp q r]))"
| "wpo ok (TimeNow c) Q h = (\<forall>r. ok h (DidTimeNow r) \<and> wpo ok (c r) Q (h @ [DidTimeNow r]))"
| "wpo ok (Logged s c) Q h = (ok h (DidLog s) \<and> wpo ok (c ()) Q (h @ [DidLog s]))"

lemma wpo_bindo: "wpo ok (bindo p f) Q h = wpo ok p (\<lambda>a. wpo ok (f a) Q) h"
  by (induction p arbitrary: h) simp_all

lemma wpo_mono: "wpo ok p Q h \<Longrightarrow> (\<And>a h'. Q a h' \<Longrightarrow> R a h') \<Longrightarrow> wpo ok p R h"
  by (induction p arbitrary: h) auto

lemma wpo_perform:
  "wpo ok p Q h \<Longrightarrow> perform p e = Some p' \<Longrightarrow> ok h e \<and> wpo ok p' Q (h @ [e])"
  by (cases p; cases e) (auto split: if_split_asm)

fun actions_ok :: "allowed \<Rightarrow> action list \<Rightarrow> action list \<Rightarrow> bool" where
  "actions_ok ok h [] = True"
| "actions_ok ok h (e # es) = (ok h e \<and> actions_ok ok (h @ [e]) es)"

theorem wpo_sound:
  "wpo ok p Q h \<Longrightarrow> performs p es = Some p' \<Longrightarrow> actions_ok ok h es \<and> wpo ok p' Q (h @ es)"
proof (induction es arbitrary: p h)
  case Nil
  then show ?case by simp
next
  case (Cons e es)
  then obtain q where q: "perform p e = Some q" "performs q es = Some p'"
    by (auto split: option.splits)
  from wpo_perform [OF Cons.prems(1) q(1)] have "ok h e" "wpo ok q Q (h @ [e])" by auto
  with Cons.IH [OF this(2) q(2)] show ?case by simp
qed

lemma actions_ok_split: "actions_ok ok h (es @ e # es') \<Longrightarrow> ok (h @ es) e"
  by (induction ok h es rule: actions_ok.induct) simp_all

text \<open>What holds of one action of a run, and of the result.\<close>

lemma wpo_action: "wpo ok p Q [] \<Longrightarrow> performs p (h @ e # es) = Some p' \<Longrightarrow> ok h e"
  using wpo_sound [of ok p Q "[]" "h @ e # es" p'] actions_ok_split [of ok "[]" h e es] by simp

lemma wpo_Done: "wpo ok p Q [] \<Longrightarrow> performs p es = Some (Done a) \<Longrightarrow> Q a es"
  using wpo_sound [of ok p Q "[]" es "Done a"] by simp

end
