(* ===== verification/Sync_Runner.thy ===== *)
theory Sync_Runner
  imports OS_Prog Go_Hash
begin

text \<open>
  The effectful part of the sync runner \<open>sync/main.go\<close>: preparing credentials (private key
  files, GitHub App tokens), the askpass script, the test for an empty push of tags, and
  \<open>Run\<close>, which executes the git commands one after the other.

  RSA, PEM and X.509 are parameters (\<open>Platform\<close>), as are the environment of the process and
  \<open>netip.ParseAddr\<close> inside URL parsing. A private key is whatever text stands for it.
\<close>

record Platform =
  pf_env :: environ
  pf_is_ipv6 :: "string \<Rightarrow> bool"
  pf_pem_Decode :: "string \<Rightarrow> string option"
  pf_ParsePKCS1PrivateKey :: "string \<Rightarrow> string option"
  pf_ParsePKCS8PrivateKey :: "string \<Rightarrow> error + string option"
  pf_SignPKCS1v15 :: "string \<Rightarrow> string \<Rightarrow> error + string"

subsection \<open>Paths\<close>

definition slash :: char where
  "slash = CHR ''/''"

fun split_path :: "string \<Rightarrow> string \<Rightarrow> string list" where
  "split_path acc [] = [acc]"
| "split_path acc (c # cs) = (if c = slash then acc # split_path [] cs else split_path (acc @ [c]) cs)"

fun clean_parts :: "bool \<Rightarrow> string list \<Rightarrow> string list \<Rightarrow> string list" where
  "clean_parts rooted out [] = out"
| "clean_parts rooted out (p # ps) =
     (if p = [] \<or> p = ''.'' then clean_parts rooted out ps
      else if p = ''..'' then
        (if out \<noteq> [] \<and> last out \<noteq> ''..'' then clean_parts rooted (butlast out) ps
         else if rooted then clean_parts rooted out ps
         else clean_parts rooted (out @ [p]) ps)
      else clean_parts rooted (out @ [p]) ps)"

definition path_Clean :: "string \<Rightarrow> string" where
  "path_Clean p =
     (let rooted = (p \<noteq> [] \<and> hd p = slash);
          body = Join (clean_parts rooted [] (split_path [] p)) [slash]
      in if rooted then slash # body else if body = [] then ''.'' else body)"

definition path_Join :: "string \<Rightarrow> string \<Rightarrow> string" where
  "path_Join a b = (if a = [] \<and> b = [] then [] else if a = [] then path_Clean b
     else if b = [] then path_Clean a else path_Clean (a @ [slash] @ b))"

text \<open>Everything up to the last separator, cleaned.\<close>

definition path_Dir :: "string \<Rightarrow> string" where
  "path_Dir p = path_Clean (rev (dropWhile (\<lambda>c. c \<noteq> slash) (rev p)))"

definition TempDir :: "Platform \<Rightarrow> string" where
  "TempDir P = (let d = Getenv (pf_env P) ''TMPDIR'' in if d = [] then ''/tmp'' else d)"

definition preparedCredentialDir :: "Platform \<Rightarrow> string" where
  "preparedCredentialDir P = path_Join (TempDir P) ''git-mirror-credentials''"

text \<open>File modes, in octal.\<close>

definition mode_0700 :: nat where "mode_0700 = 448"
definition mode_0600 :: nat where "mode_0600 = 384"
definition mode_0500 :: nat where "mode_0500 = 320"
definition mode_0400 :: nat where "mode_0400 = 256"

subsection \<open>Writing a private file\<close>

text \<open>The end both file writers share: the file appears under its name complete, with its
  final mode.\<close>

definition install_file :: "string \<Rightarrow> string \<Rightarrow> nat \<Rightarrow> nat \<Rightarrow> (error + string) os" where
  "install_file path data create_mode final_mode =
     (let tmp = path @ ''.tmp'' in
      RemoveFile tmp (\<lambda>_. WriteFile tmp data create_mode (\<lambda>r. case r of
          Some err \<Rightarrow> Done (Inl err)
        | None \<Rightarrow> Chmod tmp final_mode (\<lambda>r. case r of
            Some err \<Rightarrow> Done (Inl err)
          | None \<Rightarrow> Rename tmp path (\<lambda>r. case r of
              Some err \<Rightarrow> Done (Inl err)
            | None \<Rightarrow> Done (Inr path))))))"

definition copyPrivateFile :: "string \<Rightarrow> string \<Rightarrow> (error + string) os" where
  "copyPrivateFile src dst = ReadFile src (\<lambda>r. case r of
       Inl err \<Rightarrow> Done (Inl err)
     | Inr data \<Rightarrow> MkdirAll (path_Dir dst) mode_0700 (\<lambda>r. case r of
           Some err \<Rightarrow> Done (Inl err)
         | None \<Rightarrow> install_file dst data mode_0600 mode_0400))"

definition newline :: string where
  "newline = [char_of (10::nat)]"

definition askpass_script :: string where
  "askpass_script =
     ''#!/bin/sh'' @ newline
     @ ''case '' @ [dquote] @ ''$1'' @ [dquote] @ '' in'' @ newline
     @ ''*Username*) printf '' @ [char_of (39::nat)] @ ''%s'' @ [backslash] @ ''n'' @ [char_of (39::nat)]
     @ '' '' @ [dquote] @ ''$GIT_MIRROR_USERNAME'' @ [dquote] @ '' ;;'' @ newline
     @ ''*Password*) printf '' @ [char_of (39::nat)] @ ''%s'' @ [backslash] @ ''n'' @ [char_of (39::nat)]
     @ '' '' @ [dquote] @ ''$GIT_MIRROR_PASSWORD'' @ [dquote] @ '' ;;'' @ newline
     @ ''*) printf '' @ [char_of (39::nat)] @ [backslash] @ ''n'' @ [char_of (39::nat)] @ '' ;;'' @ newline
     @ ''esac'' @ newline"

definition ensureAskPassScript :: "string \<Rightarrow> (error + string) os" where
  "ensureAskPassScript dir =
     (let path = path_Join dir ''askpass.sh'' in
      MkdirAll dir mode_0700 (\<lambda>r. case r of
          Some err \<Rightarrow> Done (Inl err)
        | None \<Rightarrow> install_file path askpass_script mode_0700 mode_0500))"

subsection \<open>GitHub App tokens\<close>

definition readRSAPrivateKey :: "Platform \<Rightarrow> string \<Rightarrow> (error + string) os" where
  "readRSAPrivateKey P path = ReadFile path (\<lambda>r. case r of
       Inl err \<Rightarrow> Done (Inl err)
     | Inr data \<Rightarrow> (case pf_pem_Decode P data of
           None \<Rightarrow> Done (Inl (Failure ''GitHub App private key must be PEM encoded''))
         | Some block \<Rightarrow> (case pf_ParsePKCS1PrivateKey P block of
               Some key \<Rightarrow> Done (Inr key)
             | None \<Rightarrow> (case pf_ParsePKCS8PrivateKey P block of
                   Inl err \<Rightarrow> Done (Inl err)
                 | Inr None \<Rightarrow> Done (Inl (Failure ''GitHub App private key must be RSA''))
                 | Inr (Some key) \<Rightarrow> Done (Inr key)))))"

definition unix_seconds :: "int \<Rightarrow> int" where
  "unix_seconds t = t div 1000000000"

definition quoted :: "string \<Rightarrow> string" where
  "quoted s = dquote # s @ [dquote]"

definition jwt_header :: string where
  "jwt_header = ''{'' @ quoted ''alg'' @ '':'' @ quoted ''RS256'' @ '','' @ quoted ''typ'' @ '':'' @ quoted ''JWT'' @ ''}''"

text \<open>\<open>json.Marshal\<close> prints the keys of a map in order.\<close>

definition jwt_payload :: "string \<Rightarrow> int \<Rightarrow> string" where
  "jwt_payload appID now =
     ''{'' @ quoted ''exp'' @ '':'' @ show_int (unix_seconds (now + 540 * 1000000000)) @ '',''
     @ quoted ''iat'' @ '':'' @ show_int (unix_seconds (now - 60 * 1000000000)) @ '',''
     @ quoted ''iss'' @ '':'' @ encode_json_string appID @ ''}''"

definition signGitHubAppJWT :: "Platform \<Rightarrow> string \<Rightarrow> string \<Rightarrow> int \<Rightarrow> error + string" where
  "signGitHubAppJWT P appID key now =
     (let signingInput = RawURLEncode jwt_header @ ''.'' @ RawURLEncode (jwt_payload appID now)
      in case pf_SignPKCS1v15 P key (sha256 signingInput) of
           Inl err \<Rightarrow> Inl err
         | Inr signature \<Rightarrow> Inr (signingInput @ ''.'' @ RawURLEncode signature))"

definition token_request :: "string \<Rightarrow> string \<Rightarrow> string \<Rightarrow> HttpRequest" where
  "token_request apiURL installationID jwt = \<lparr>
     http_Method = ''POST'',
     http_URL = trim_right (\<lambda>c. c = slash) apiURL @ ''/app/installations/'' @ PathEscape installationID
       @ ''/access_tokens'',
     http_Headers = [(''Accept'', ''application/vnd.github+json''), (''Authorization'', ''Bearer '' @ jwt),
       (''X-GitHub-Api-Version'', ''2022-11-28'')]\<rparr>"

definition decode_token_member :: "string \<times> bool \<Rightarrow> string \<times> json \<Rightarrow> string \<times> bool" where
  "decode_token_member s member = (case s of (token, bad) \<Rightarrow>
     if field_key (fst member) ''token'' then
       (case decode_string_field (snd member) token of (token', bad') \<Rightarrow> (token', bad \<or> bad'))
     else s)"

definition decode_token :: "string \<Rightarrow> error + string" where
  "decode_token body = (case decode_json body of
     None \<Rightarrow> Inl (Failure ''invalid JSON'')
   | Some v \<Rightarrow> (case (case v of
         JNull \<Rightarrow> ([], False)
       | JObject members \<Rightarrow> foldl decode_token_member ([], False) members
       | _ \<Rightarrow> ([], True)) of
       (token, bad) \<Rightarrow> if bad then Inl (Failure ''json: cannot unmarshal'') else Inr token))"

definition token_of_response :: "error + HttpResponse \<Rightarrow> error + string" where
  "token_of_response r = (case r of
     Inl err \<Rightarrow> Inl err
   | Inr resp \<Rightarrow>
       if resp_StatusCode resp < 200 \<or> resp_StatusCode resp > 299 then
         Inl (Failure (''GitHub App token request failed with status '' @ resp_Status resp))
       else (case decode_token (resp_Body resp) of
           Inl err \<Rightarrow> Inl err
         | Inr token \<Rightarrow>
             if token = [] then Inl (Failure ''GitHub App token response did not include token'')
             else Inr token))"

definition createGitHubAppInstallationToken :: "Platform \<Rightarrow> EndpointAuth \<Rightarrow> (error + string) os" where
  "createGitHubAppInstallationToken P auth =
     (if GitHubAppID auth = [] then Done (Inl (Failure ''GitHub App ID is required''))
      else if GitHubAppInstallationID auth = [] then
        Done (Inl (Failure ''GitHub App installation ID is required''))
      else if GitHubAppPrivateKeyPath auth = [] then
        Done (Inl (Failure ''GitHub App private key path is required''))
      else let apiURL = (if GitHubAppAPIURL auth = [] then defaultGitHubAPIURL else GitHubAppAPIURL auth)
      in bindo (readRSAPrivateKey P (GitHubAppPrivateKeyPath auth)) (\<lambda>r. case r of
          Inl err \<Rightarrow> Done (Inl err)
        | Inr key \<Rightarrow> TimeNow (\<lambda>now. case signGitHubAppJWT P (GitHubAppID auth) key now of
            Inl err \<Rightarrow> Done (Inl err)
          | Inr jwt \<Rightarrow>
              (let req = token_request apiURL (GitHubAppInstallationID auth) jwt in
               if url_Parse (pf_is_ipv6 P) (http_URL req) = None then Done (Inl (Failure ''parse''))
               else HttpDo req (\<lambda>r. Done (token_of_response r))))))"

subsection \<open>Credentials\<close>

definition prepareEndpointAuth ::
  "Platform \<Rightarrow> string \<Rightarrow> EndpointAuth \<Rightarrow> string \<Rightarrow> (error + EndpointAuth) os" where
  "prepareEndpointAuth P name auth dir =
     (if Type auth = [] then Done (Inr auth)
      else if Type auth = AuthTypeSSH then
        (if SSHKeyPath auth = [] then Done (Inl (Failure (name @ '' SSH auth requires an SSH key path'')))
         else bindo (copyPrivateFile (SSHKeyPath auth) (path_Join dir ''ssh_key'')) (\<lambda>r. case r of
             Inl err \<Rightarrow> Done (Inl (Wrapped (''prepare '' @ name @ '' SSH key: '') err))
           | Inr keyPath \<Rightarrow> Done (Inr (auth\<lparr>SSHKeyPath := keyPath\<rparr>))))
      else if Type auth = AuthTypeGitHubApp then
        bindo (createGitHubAppInstallationToken P auth) (\<lambda>r. case r of
            Inl err \<Rightarrow> Done (Inl (Wrapped (''create '' @ name @ '' GitHub App installation token: '') err))
          | Inr token \<Rightarrow> Done (Inr (auth\<lparr>Username := ''x-access-token'', Password := token\<rparr>)))
      else if Type auth = AuthTypeBasic then Done (Inr auth)
      else Done (Inl (FailureQ (''unsupported '' @ name @ '' auth type '') (Type auth))))"

definition prepareCredentials :: "Platform \<Rightarrow> Config \<Rightarrow> string \<Rightarrow> (error + Config) os" where
  "prepareCredentials P cfg dir =
     bindo (prepareEndpointAuth P ''source'' (SourceAuth cfg) (path_Join dir ''source'')) (\<lambda>r. case r of
         Inl err \<Rightarrow> Done (Inl err)
       | Inr src \<Rightarrow>
           bindo (prepareEndpointAuth P ''target'' (TargetAuth cfg) (path_Join dir ''target'')) (\<lambda>r. case r of
               Inl err \<Rightarrow> Done (Inl err)
             | Inr tgt \<Rightarrow> Done (Inr (cfg\<lparr>SourceAuth := src, TargetAuth := tgt\<rparr>))))"

definition gitAuthEnv :: "Platform \<Rightarrow> Config \<Rightarrow> EndpointAuth \<Rightarrow> (error + string list) os" where
  "gitAuthEnv P cfg auth =
     (if Type auth = AuthTypeSSH then Done (Inr [gitSSHCommand cfg (SSHKeyPath auth)])
      else if Type auth = AuthTypeBasic \<or> Type auth = AuthTypeGitHubApp then
        bindo (ensureAskPassScript (preparedCredentialDir P)) (\<lambda>r. case r of
            Inl err \<Rightarrow> Done (Inl err)
          | Inr askpassPath \<Rightarrow> Done (Inr [''GIT_ASKPASS='' @ askpassPath, ''GIT_TERMINAL_PROMPT=0'',
              ''GIT_MIRROR_USERNAME='' @ Username auth, ''GIT_MIRROR_PASSWORD='' @ Password auth]))
      else Done (Inl (FailureQ ''unsupported auth type '' (Type auth))))"

subsection \<open>Tags on neither side\<close>

text \<open>\<open>strings.TrimSpace(s) != ""\<close>: some rune is no white space.\<close>

definition unicode_space :: "nat \<Rightarrow> bool" where
  "unicode_space r = (r \<in> {9, 10, 11, 12, 13, 32, 133, 160, 5760, 8232, 8233, 8239, 8287, 12288}
     \<or> 8192 \<le> r \<and> r \<le> 8202)"

definition not_blank :: "string \<Rightarrow> bool" where
  "not_blank s = list_ex (\<lambda>r. \<not> unicode_space r) (runes s)"

definition hasLocalRefs :: "string \<Rightarrow> string \<Rightarrow> (error + bool) os" where
  "hasLocalRefs repoPath pre =
     CmdOutput [''git'', ''-C'', repoPath, ''for-each-ref'', ''--format=%(refname)'', ''--count=1'', pre] None
       (\<lambda>r. case r of Inl err \<Rightarrow> Done (Inl err) | Inr output \<Rightarrow> Done (Inr (not_blank output)))"

definition hasRemoteTags :: "Platform \<Rightarrow> string \<Rightarrow> string list \<Rightarrow> (error + bool) os" where
  "hasRemoteTags P targetURL env =
     CmdOutput [''git'', ''ls-remote'', ''--tags'', ''--refs'', targetURL] (Some (Environ (pf_env P) @ env))
       (\<lambda>r. case r of Inl err \<Rightarrow> Done (Inl err) | Inr output \<Rightarrow> Done (Inr (not_blank output)))"

definition shouldSkipEmptyTagPush :: "Platform \<Rightarrow> string list \<Rightarrow> string list \<Rightarrow> (error + bool) os" where
  "shouldSkipEmptyTagPush P args env =
     (if \<not> isTagWildcardPush args then Done (Inr False)
      else case commandRepoPath args of
        None \<Rightarrow> Done (Inr False)
      | Some repoPath \<Rightarrow> bindo (hasLocalRefs repoPath ''refs/tags'') (\<lambda>r. case r of
            Inl err \<Rightarrow> Done (Inl err)
          | Inr hasSourceTags \<Rightarrow>
              if hasSourceTags then Done (Inr False)
              else (case pushTargetURL args of
                  None \<Rightarrow> Done (Inr False)
                | Some targetURL \<Rightarrow> bindo (hasRemoteTags P targetURL env) (\<lambda>r. case r of
                      Inl err \<Rightarrow> Done (Inl err)
                    | Inr hasTargetTags \<Rightarrow> Done (Inr (\<not> hasTargetTags))))))"

subsection \<open>Run\<close>

primrec run_commands :: "Platform \<Rightarrow> Config \<Rightarrow> string list list \<Rightarrow> error option os" where
  "run_commands P cfg [] = Done None"
| "run_commands P cfg (args # commands) =
     bindo (gitAuthEnv P cfg (authForCommand cfg args)) (\<lambda>r. case r of
         Inl err \<Rightarrow> Done (Some err)
       | Inr authEnv \<Rightarrow> bindo (shouldSkipEmptyTagPush P args authEnv) (\<lambda>r. case r of
           Inl err \<Rightarrow> Done (Some err)
         | Inr skip \<Rightarrow>
             if skip then
               Logged (''skipping '' @ safeCommand (pf_is_ipv6 P) args @ '': source and target have no tags'')
                 (\<lambda>_. run_commands P cfg commands)
             else Logged (''running '' @ safeCommand (pf_is_ipv6 P) args)
               (\<lambda>_. CmdRun args (Environ (pf_env P) @ authEnv) (\<lambda>r. case r of
                   Some err \<Rightarrow> Done (Some err)
                 | None \<Rightarrow> run_commands P cfg commands))))"

definition Run :: "Platform \<Rightarrow> Config \<Rightarrow> error option os" where
  "Run P cfg =
     bindo (prepareCredentials P cfg (preparedCredentialDir P)) (\<lambda>r. case r of
         Inl err \<Rightarrow> Done (Some err)
       | Inr cfg \<Rightarrow> (case validateEndpointAuth (pf_is_ipv6 P) ''source'' (SourceURL cfg) (SourceAuth cfg) of
           Some err \<Rightarrow> Done (Some err)
         | None \<Rightarrow> (case validateEndpointAuth (pf_is_ipv6 P) ''target'' (TargetURL cfg) (TargetAuth cfg) of
             Some err \<Rightarrow> Done (Some err)
           | None \<Rightarrow> (case BuildGitCommands cfg of
               Inl err \<Rightarrow> Done (Some err)
             | Inr commands \<Rightarrow> run_commands P cfg commands))))"

text \<open>\<open>main\<close>: the exit status; \<open>log.Fatalf\<close> exits with 1.\<close>

definition sync_main :: "Platform \<Rightarrow> nat os" where
  "sync_main P = bindo (Run P (ConfigFromEnv (pf_env P))) (\<lambda>r. Done (if r \<noteq> None then 1 else 0))"

end
