(* ===== verification/Sync_Safety.thy ===== *)
theory Sync_Safety
  imports Sync_Runner
begin

text \<open>
  What the sync runner may do in a run, whatever the files, git and GitHub answer: the rule
  \<open>runner_rule\<close> and the proof that \<open>Run\<close> keeps it (\<open>wpo_Run\<close>), part by part. The lemmas on the
  parts have two premises for what comes after a part, one for a failure and one for a result.
\<close>

subsection \<open>The commands of a run\<close>

text \<open>The commands of a run so far, with whether they succeeded.\<close>

definition commands_run :: "action list \<Rightarrow> (string list \<times> bool) list" where
  "commands_run h = concat (map (\<lambda>e. case e of DidRun args _ r \<Rightarrow> [(args, r = None)] | _ \<Rightarrow> []) h)"

definition succeeded :: "string list list \<Rightarrow> (string list \<times> bool) list" where
  "succeeded commands = map (\<lambda>args. (args, True)) commands"

lemma succeeded_append: "succeeded cs @ [(c, True)] = succeeded (cs @ [c])"
  by (simp add: succeeded_def)

lemma commands_run_append [simp]: "commands_run (h @ h') = commands_run h @ commands_run h'"
  by (simp add: commands_run_def)

lemma commands_run_simps [simp]:
  "commands_run [] = []" "commands_run (DidReadFile p b # h) = commands_run h"
  "commands_run (DidMkdirAll p n r # h) = commands_run h" "commands_run (DidRemove p r # h) = commands_run h"
  "commands_run (DidWriteFile p d n r # h) = commands_run h"
  "commands_run (DidChmod p n r # h) = commands_run h" "commands_run (DidRename p q r # h) = commands_run h"
  "commands_run (DidOutput as e b # h) = commands_run h" "commands_run (DidHttp u c # h) = commands_run h"
  "commands_run (DidTimeNow t # h) = commands_run h" "commands_run (DidLog l # h) = commands_run h"
  "commands_run (DidRun as env r # h) = (as, r = None) # commands_run h"
  by (simp_all add: commands_run_def)

text \<open>The commands that were run, given those that were asked for: only commands of which \<open>p\<close>
  holds were left out.\<close>

fun all_but :: "(string list \<Rightarrow> bool) \<Rightarrow> string list list \<Rightarrow> string list list \<Rightarrow> bool" where
  "all_but p [] past = (past = [])"
| "all_but p (c # cs) [] = (p c \<and> all_but p cs [])"
| "all_but p (c # cs) (r # past) = (c = r \<and> all_but p cs past \<or> p c \<and> all_but p cs (r # past))"

lemma all_but_append:
  "all_but p cs past \<Longrightarrow> all_but p cs' past' \<Longrightarrow> all_but p (cs @ cs') (past @ past')"
proof (induction p cs past rule: all_but.induct)
  case (2 p c cs)
  then show ?case by (cases past') auto
qed auto

lemma all_but_mono: "all_but p cs past \<Longrightarrow> (\<And>c. p c \<Longrightarrow> q c) \<Longrightarrow> all_but q cs past"
  by (induction p cs past rule: all_but.induct) auto

text \<open>Listings of the tags: of the repository that was cloned, and of a URL.\<close>

definition no_local_tags :: "action list \<Rightarrow> string \<Rightarrow> bool" where
  "no_local_tags h repo = (\<exists>out. DidOutput [''git'', ''-C'', repo, ''for-each-ref'', ''--format=%(refname)'',
     ''--count=1'', ''refs/tags''] None (Inr out) \<in> set h \<and> \<not> not_blank out)"

definition listed_no_tags :: "action list \<Rightarrow> string \<Rightarrow> bool" where
  "listed_no_tags h url = (\<exists>env out. DidOutput [''git'', ''ls-remote'', ''--tags'', ''--refs'', url]
     (Some env) (Inr out) \<in> set h \<and> \<not> not_blank out)"

text \<open>A push of tags for which both sides were listed, and had no tags.\<close>

definition no_tags_found :: "action list \<Rightarrow> string list \<Rightarrow> bool" where
  "no_tags_found h args = (isTagWildcardPush args \<and> (\<exists>repo url. commandRepoPath args = Some repo
     \<and> pushTargetURL args = Some url \<and> no_local_tags h repo \<and> listed_no_tags h url))"

text \<open>Actions that run no command.\<close>

abbreviation quiet :: "action list \<Rightarrow> action list \<Rightarrow> bool" where
  "quiet h h' \<equiv> commands_run h' = commands_run h \<and> set h \<subseteq> set h'"

lemma no_tags_found_mono: "no_tags_found h args \<Longrightarrow> set h \<subseteq> set h' \<Longrightarrow> no_tags_found h' args"
  unfolding no_tags_found_def no_local_tags_def listed_no_tags_def by blast

lemma all_but_later:
  "all_but (no_tags_found h) cs past \<Longrightarrow> set h \<subseteq> set h' \<Longrightarrow> all_but (no_tags_found h') cs past"
  using all_but_mono no_tags_found_mono by blast

text \<open>A command is run after all those before it, none of which failed; only pushes of tags that
  neither side has were left out.\<close>

definition in_order :: "Config \<Rightarrow> action list \<Rightarrow> string list \<Rightarrow> bool" where
  "in_order cfg h args = (\<exists>earlier later past. BuildGitCommands cfg = Inr (earlier @ args # later)
     \<and> commands_run h = succeeded past \<and> all_but (no_tags_found h) earlier past)"

lemma in_order_quiet: "in_order cfg h args \<Longrightarrow> quiet h h' \<Longrightarrow> in_order cfg h' args"
  unfolding in_order_def using all_but_later by metis

subsection \<open>The rule of a run\<close>

text \<open>Credentials after preparation: a private key is a copy in the runner's directory, a GitHub
  App has become a user with a token.\<close>

definition prepared_auth :: "string \<Rightarrow> EndpointAuth \<Rightarrow> EndpointAuth \<Rightarrow> bool" where
  "prepared_auth dir a a' =
     (if Type a = AuthTypeSSH then a' = a\<lparr>SSHKeyPath := path_Join dir ''ssh_key''\<rparr>
      else if Type a = AuthTypeGitHubApp then
        (\<exists>token. token \<noteq> [] \<and> a' = a\<lparr>Username := ''x-access-token'', Password := token\<rparr>)
      else a' = a)"

definition prepared :: "Platform \<Rightarrow> Config \<Rightarrow> Config \<Rightarrow> bool" where
  "prepared P cfg cfg' = (\<exists>a b. cfg' = cfg\<lparr>SourceAuth := a, TargetAuth := b\<rparr>
     \<and> prepared_auth (path_Join (preparedCredentialDir P) ''source'') (SourceAuth cfg) a
     \<and> prepared_auth (path_Join (preparedCredentialDir P) ''target'') (TargetAuth cfg) b)"

text \<open>The variables git is given for an endpoint.\<close>

definition auth_env :: "Platform \<Rightarrow> Config \<Rightarrow> EndpointAuth \<Rightarrow> string list" where
  "auth_env P cfg a =
     (if Type a = AuthTypeSSH then [gitSSHCommand cfg (SSHKeyPath a)]
      else [''GIT_ASKPASS='' @ path_Join (preparedCredentialDir P) ''askpass.sh'', ''GIT_TERMINAL_PROMPT=0'',
        ''GIT_MIRROR_USERNAME='' @ Username a, ''GIT_MIRROR_PASSWORD='' @ Password a])"

definition validated :: "Platform \<Rightarrow> Config \<Rightarrow> bool" where
  "validated P cfg =
     (validateEndpointAuth (pf_is_ipv6 P) ''source'' (SourceURL cfg) (SourceAuth cfg) = None
      \<and> validateEndpointAuth (pf_is_ipv6 P) ''target'' (TargetURL cfg) (TargetAuth cfg) = None)"

definition git_environment :: "Platform \<Rightarrow> Config \<Rightarrow> EndpointAuth \<Rightarrow> string list" where
  "git_environment P cfg a = Environ (pf_env P) @ auth_env P cfg a"

definition no_remote_tags :: "action list \<Rightarrow> string \<Rightarrow> bool" where
  "no_remote_tags h url = (\<exists>env out. h \<noteq> [] \<and> last h = DidOutput [''git'', ''ls-remote'', ''--tags'', ''--refs'', url]
     (Some env) (Inr out) \<and> \<not> not_blank out)"

text \<open>A push is skipped only after both sides were seen to have no tags.\<close>

definition skip_seen :: "action list \<Rightarrow> string list \<Rightarrow> bool" where
  "skip_seen h args = (isTagWildcardPush args \<and> (\<exists>repo url. commandRepoPath args = Some repo
     \<and> pushTargetURL args = Some url \<and> no_local_tags h repo \<and> no_remote_tags h url))"

lemma skip_seen_found: "skip_seen h args \<Longrightarrow> no_tags_found h args"
  unfolding skip_seen_def no_tags_found_def no_remote_tags_def listed_no_tags_def by (metis last_in_set)

text \<open>Where a file is first written, with its mode.\<close>

definition private_files :: "Platform \<Rightarrow> (string \<times> nat) set" where
  "private_files P = (let dir = preparedCredentialDir P in
     {(path_Join (path_Join dir ''source'') ''ssh_key'' @ ''.tmp'', mode_0600),
      (path_Join (path_Join dir ''target'') ''ssh_key'' @ ''.tmp'', mode_0600),
      (path_Join dir ''askpass.sh'' @ ''.tmp'', mode_0700)})"

definition closed_modes :: "(string \<times> nat) set \<Rightarrow> string \<Rightarrow> nat \<Rightarrow> bool" where
  "closed_modes files path mode = ((path, mode_0600) \<in> files \<and> mode = mode_0400
     \<or> (path, mode_0700) \<in> files \<and> mode = mode_0500)"

definition command_rule :: "Platform \<Rightarrow> Config \<Rightarrow> string list \<Rightarrow> string list \<Rightarrow> bool" where
  "command_rule P cfg args env = (\<exists>cfg' commands. prepared P cfg cfg' \<and> validated P cfg'
     \<and> BuildGitCommands cfg = Inr commands \<and> args \<in> set commands
     \<and> env = git_environment P cfg' (authForCommand cfg' args))"

definition runner_rule :: "Platform \<Rightarrow> Config \<Rightarrow> allowed" where
  "runner_rule P cfg h e = (case e of
     DidRun args env _ \<Rightarrow> command_rule P cfg args env \<and> in_order cfg h args
       \<and> h \<noteq> [] \<and> last h = DidLog (''running '' @ safeCommand (pf_is_ipv6 P) args)
   | DidOutput args None _ \<Rightarrow> (\<exists>repo. args =
       [''git'', ''-C'', repo, ''for-each-ref'', ''--format=%(refname)'', ''--count=1'', ''refs/tags''])
   | DidOutput args (Some env) _ \<Rightarrow> (\<exists>push url. isTagWildcardPush push \<and> pushTargetURL push = Some url
       \<and> args = [''git'', ''ls-remote'', ''--tags'', ''--refs'', url] \<and> command_rule P cfg push env)
   | DidWriteFile path _ mode _ \<Rightarrow> (path, mode) \<in> private_files P
   | DidChmod path mode r \<Rightarrow> closed_modes (private_files P) path mode
   | DidRename path path' _ \<Rightarrow> path = path' @ ''.tmp''
       \<and> (\<exists>mode. h \<noteq> [] \<and> last h = DidChmod path mode None)
   | DidMkdirAll _ mode _ \<Rightarrow> mode = mode_0700
   | DidLog s \<Rightarrow> (\<exists>args. s = ''running '' @ safeCommand (pf_is_ipv6 P) args)
       \<or> (\<exists>args. s = ''skipping '' @ safeCommand (pf_is_ipv6 P) args @ '': source and target have no tags''
           \<and> skip_seen h args)
   | _ \<Rightarrow> True)"

subsection \<open>The parts of a run keep the rule\<close>

lemma rule_reads [simp]:
  "runner_rule P cfg h (DidReadFile p b)" "runner_rule P cfg h (DidTimeNow t)"
  "runner_rule P cfg h (DidHttp q c)" "runner_rule P cfg h (DidRemove p r)"
  "runner_rule P cfg h (DidMkdirAll p mode_0700 r)"
  by (simp_all add: runner_rule_def)

lemma wpo_install_file:
  assumes "(path @ ''.tmp'', m) \<in> private_files P" and "closed_modes (private_files P) (path @ ''.tmp'') m'"
    and err: "\<And>e h'. quiet h h' \<Longrightarrow> Q (Inl e) h'"
    and fin: "\<And>h'. quiet h h' \<Longrightarrow> Q (Inr path) h'"
  shows "wpo (runner_rule P cfg) (install_file path data m m') Q h"
  using assms(1,2)
  by (auto simp: install_file_def Let_def runner_rule_def split: option.split
      intro!: err fin)

lemma askpass_private: "(path_Join (preparedCredentialDir P) ''askpass.sh'' @ ''.tmp'', mode_0700) \<in> private_files P"
  by (simp add: private_files_def Let_def)

lemma askpass_closed:
  "closed_modes (private_files P) (path_Join (preparedCredentialDir P) ''askpass.sh'' @ ''.tmp'') mode_0500"
  using askpass_private by (simp add: closed_modes_def)

lemma wpo_ensureAskPassScript:
  assumes err: "\<And>e h'. quiet h h' \<Longrightarrow> Q (Inl e) h'"
    and fin: "\<And>h'. quiet h h' \<Longrightarrow>
      Q (Inr (path_Join (preparedCredentialDir P) ''askpass.sh'')) h'"
  shows "wpo (runner_rule P cfg) (ensureAskPassScript (preparedCredentialDir P)) Q h"
  by (auto simp: ensureAskPassScript_def Let_def split: option.split
      intro!: err fin wpo_install_file [OF askpass_private askpass_closed])

lemma wpo_gitAuthEnv:
  assumes err: "\<And>e h'. quiet h h' \<Longrightarrow> Q (Inl e) h'"
    and fin: "\<And>h'. quiet h h' \<Longrightarrow> Q (Inr (auth_env P cfg' a)) h'"
  shows "wpo (runner_rule P cfg) (gitAuthEnv P cfg' a) Q h"
  using fin
  by (auto simp: gitAuthEnv_def auth_env_def wpo_bindo auth_type_defs
      intro!: wpo_ensureAskPassScript err split: if_splits)

definition key_files :: "Platform \<Rightarrow> string \<Rightarrow> bool" where
  "key_files P dir = ((path_Join dir ''ssh_key'' @ ''.tmp'', mode_0600) \<in> private_files P)"

lemma key_files_endpoints:
  "key_files P (path_Join (preparedCredentialDir P) ''source'')"
  "key_files P (path_Join (preparedCredentialDir P) ''target'')"
  by (simp_all add: key_files_def private_files_def Let_def)

lemma wpo_copyPrivateFile:
  assumes "key_files P dir" and err: "\<And>e h'. quiet h h' \<Longrightarrow> Q (Inl e) h'"
    and fin: "\<And>h'. quiet h h' \<Longrightarrow> Q (Inr (path_Join dir ''ssh_key'')) h'"
  shows "wpo (runner_rule P cfg) (copyPrivateFile src (path_Join dir ''ssh_key'')) Q h"
proof -
  have closed: "closed_modes (private_files P) (path_Join dir ''ssh_key'' @ ''.tmp'') mode_0400"
    using assms(1) by (simp add: key_files_def closed_modes_def)
  show ?thesis
    by (auto simp: copyPrivateFile_def split: option.split sum.split
        intro!: err fin wpo_install_file [OF assms(1) [unfolded key_files_def] closed])
qed

lemma token_nonempty: "token_of_response r = Inr token \<Longrightarrow> token \<noteq> []"
  by (auto simp: token_of_response_def split: sum.splits if_splits)

lemma wpo_token:
  assumes err: "\<And>e h'. quiet h h' \<Longrightarrow> Q (Inl e) h'"
    and fin: "\<And>token h'. quiet h h' \<Longrightarrow> token \<noteq> [] \<Longrightarrow> Q (Inr token) h'"
  shows "wpo (runner_rule P cfg) (createGitHubAppInstallationToken P a) Q h"
proof -
  have "Q (token_of_response r) h'" if "quiet h h'" for r h'
    using err fin token_nonempty that by (cases "token_of_response r") auto
  then show ?thesis
    by (auto simp: createGitHubAppInstallationToken_def readRSAPrivateKey_def Let_def wpo_bindo subset_insertI2
        split: option.split sum.split intro!: err)
qed

lemma prepared_authI:
  "Type a = AuthTypeSSH \<Longrightarrow> prepared_auth dir a (a\<lparr>SSHKeyPath := path_Join dir ''ssh_key''\<rparr>)"
  "Type a = AuthTypeGitHubApp \<Longrightarrow> token \<noteq> [] \<Longrightarrow>
     prepared_auth dir a (a\<lparr>Username := ''x-access-token'', Password := token\<rparr>)"
  "Type a \<noteq> AuthTypeSSH \<Longrightarrow> Type a \<noteq> AuthTypeGitHubApp \<Longrightarrow> prepared_auth dir a a"
  by (auto simp: prepared_auth_def auth_type_defs)

lemma wpo_prepareEndpointAuth:
  assumes "key_files P dir" and err: "\<And>e h'. quiet h h' \<Longrightarrow> Q (Inl e) h'"
    and fin: "\<And>a' h'. quiet h h' \<Longrightarrow> prepared_auth dir a a' \<Longrightarrow> Q (Inr a') h'"
  shows "wpo (runner_rule P cfg) (prepareEndpointAuth P name a dir) Q h"
  by (auto simp: prepareEndpointAuth_def wpo_bindo auth_type_defs split: sum.split
      intro!: wpo_copyPrivateFile [OF assms(1)] wpo_token err fin prepared_authI)

lemma wpo_prepareCredentials:
  assumes err: "\<And>e h'. quiet h h' \<Longrightarrow> Q (Inl e) h'"
    and fin: "\<And>cfg' h'. quiet h h' \<Longrightarrow> prepared P cfg cfg' \<Longrightarrow> Q (Inr cfg') h'"
  shows "wpo (runner_rule P cfg0) (prepareCredentials P cfg (preparedCredentialDir P)) Q h"
proof -
  have p: "prepared P cfg (cfg\<lparr>SourceAuth := a, TargetAuth := b\<rparr>)"
    if "prepared_auth (path_Join (preparedCredentialDir P) ''source'') (SourceAuth cfg) a"
      "prepared_auth (path_Join (preparedCredentialDir P) ''target'') (TargetAuth cfg) b" for a b
    using that unfolding prepared_def by blast
  show ?thesis
    unfolding prepareCredentials_def wpo_bindo
    apply (rule wpo_prepareEndpointAuth [OF key_files_endpoints(1)])
     apply (simp add: err)
    apply (simp add: wpo_bindo)
    apply (rule wpo_prepareEndpointAuth [OF key_files_endpoints(2)])
     apply (simp only: sum.case wpo.simps, rule err, fastforce)
    apply (simp only: sum.case wpo.simps, rule fin, fastforce)
    apply (rule p, assumption+)
    done
qed

text \<open>The part of a run after the preparation.\<close>

lemma auth_update_fields:
  "SourceURL (cfg\<lparr>SourceAuth := a, TargetAuth := b\<rparr>) = SourceURL cfg"
  "TargetURL (cfg\<lparr>SourceAuth := a, TargetAuth := b\<rparr>) = TargetURL cfg"
  "MirrorMode (cfg\<lparr>SourceAuth := a, TargetAuth := b\<rparr>) = MirrorMode cfg"
  "cfg_IncludeTags (cfg\<lparr>SourceAuth := a, TargetAuth := b\<rparr>) = cfg_IncludeTags cfg"
  "RepoPath (cfg\<lparr>SourceAuth := a, TargetAuth := b\<rparr>) = RepoPath cfg"
  by simp_all

lemma commands_ignore_auth:
  "BuildGitCommands (cfg\<lparr>SourceAuth := a, TargetAuth := b\<rparr>) = BuildGitCommands cfg"
  by (simp only: BuildGitCommands_def mirrorRepoPath_def auth_update_fields)

lemma prepared_commands: "prepared P cfg cfg' \<Longrightarrow> BuildGitCommands cfg' = BuildGitCommands cfg"
  unfolding prepared_def by (auto simp only: commands_ignore_auth)

subsection \<open>A run keeps the rule\<close>

lemma rule_local_refs: "runner_rule P cfg h (DidOutput [''git'', ''-C'', repo, ''for-each-ref'',
    ''--format=%(refname)'', ''--count=1'', ''refs/tags''] None r)"
  unfolding runner_rule_def by simp

lemma rule_remote_tags:
  "isTagWildcardPush push \<Longrightarrow> pushTargetURL push = Some url \<Longrightarrow> command_rule P cfg push env \<Longrightarrow>
    runner_rule P cfg h (DidOutput [''git'', ''ls-remote'', ''--tags'', ''--refs'', url] (Some env) r)"
  unfolding runner_rule_def by auto

lemma wpo_shouldSkipEmptyTagPush:
  assumes cmd: "command_rule P cfg args (Environ (pf_env P) @ env)"
    and err: "\<And>e h'. quiet h h' \<Longrightarrow> Q (Inl e) h'"
    and go: "\<And>h'. quiet h h' \<Longrightarrow> Q (Inr False) h'"
    and skip: "\<And>h'. quiet h h' \<Longrightarrow> skip_seen h' args \<Longrightarrow> Q (Inr True) h'"
  shows "wpo (runner_rule P cfg) (shouldSkipEmptyTagPush P args env) Q h"
proof (cases "isTagWildcardPush args")
  case push: True
  show ?thesis
  proof (cases "commandRepoPath args")
    case repo: (Some repo)
    show ?thesis
    proof (cases "pushTargetURL args")
      case None
      with push repo show ?thesis
        by (auto simp: shouldSkipEmptyTagPush_def wpo_bindo hasLocalRefs_def rule_local_refs
            split: sum.split intro!: err go)
    next
      case url: (Some url)
      have seen: "skip_seen (h @ [DidOutput [''git'', ''-C'', repo, ''for-each-ref'',
            ''--format=%(refname)'', ''--count=1'', ''refs/tags''] None (Inr out),
          DidOutput [''git'', ''ls-remote'', ''--tags'', ''--refs'', url]
            (Some (Environ (pf_env P) @ env)) (Inr out')]) args"
        if "\<not> not_blank out" "\<not> not_blank out'" for out out'
        using push repo url that unfolding skip_seen_def no_local_tags_def no_remote_tags_def by auto
      have ends: "Q (Inr (\<not> not_blank out')) (h @ [DidOutput [''git'', ''-C'', repo, ''for-each-ref'',
            ''--format=%(refname)'', ''--count=1'', ''refs/tags''] None (Inr out),
          DidOutput [''git'', ''ls-remote'', ''--tags'', ''--refs'', url]
            (Some (Environ (pf_env P) @ env)) (Inr out')])"
        if "\<not> not_blank out" for out out'
        using go skip [OF _ seen] that by (cases "not_blank out'") (simp_all add: subset_insertI2)
      from push repo url show ?thesis
        by (auto simp: shouldSkipEmptyTagPush_def wpo_bindo hasLocalRefs_def hasRemoteTags_def
            rule_local_refs rule_remote_tags [OF push url cmd] split: sum.split intro!: err go ends)
    qed
  qed (use push in \<open>simp add: shouldSkipEmptyTagPush_def go\<close>)
qed (simp add: shouldSkipEmptyTagPush_def go)

lemma wpo_run_command:
  assumes cmd: "command_rule P cfg args (git_environment P cfg' (authForCommand cfg' args))"
    and order: "in_order cfg h args"
    and err: "\<And>e h'. Q (Some e) h'"
    and skipped: "\<And>h'. quiet h h' \<Longrightarrow> no_tags_found h' args \<Longrightarrow>
      wpo (runner_rule P cfg) (run_commands P cfg' commands) Q h'"
    and went: "\<And>h'. commands_run h' = commands_run h @ [(args, True)] \<Longrightarrow> set h \<subseteq> set h' \<Longrightarrow>
      wpo (runner_rule P cfg) (run_commands P cfg' commands) Q h'"
  shows "wpo (runner_rule P cfg) (run_commands P cfg' (args # commands)) Q h"
proof -
  let ?auth = "auth_env P cfg' (authForCommand cfg' args)"
  let ?running = "''running '' @ safeCommand (pf_is_ipv6 P) args"
  let ?skipping = "''skipping '' @ safeCommand (pf_is_ipv6 P) args @ '': source and target have no tags''"
  have run: "runner_rule P cfg (h' @ [DidLog ?running]) (DidRun args (Environ (pf_env P) @ ?auth) r)"
    if "quiet h h'" for h' r
  proof -
    have "quiet h (h' @ [DidLog ?running])" using that by auto
    with cmd in_order_quiet [OF order] show ?thesis unfolding runner_rule_def git_environment_def by simp
  qed
  have running: "runner_rule P cfg h' (DidLog ?running)" for h'
    unfolding runner_rule_def by auto
  have skipping: "runner_rule P cfg h' (DidLog ?skipping)" if "skip_seen h' args" for h'
    using that unfolding runner_rule_def by auto
  have skips: "wpo (runner_rule P cfg) (run_commands P cfg' commands) Q (h' @ [DidLog ?skipping])"
    if "quiet h h'" "skip_seen h' args" for h'
    using that by (intro skipped no_tags_found_mono [OF skip_seen_found [OF that(2)]]) auto
  have went_on: "wpo (runner_rule P cfg) (Logged ?running (\<lambda>_. CmdRun args (Environ (pf_env P) @ ?auth)
      (\<lambda>r. case r of Some err \<Rightarrow> Done (Some err) | None \<Rightarrow> run_commands P cfg' commands))) Q h'"
    if "quiet h h'" for h'
  proof -
    have "wpo (runner_rule P cfg) (run_commands P cfg' commands) Q
        ((h' @ [DidLog ?running]) @ [DidRun args (Environ (pf_env P) @ ?auth) None])"
      using that by (intro went) auto
    then show ?thesis using run [OF that] running err
      by (auto simp only: wpo.simps split: option.split)
  qed
  show ?thesis
    unfolding run_commands.simps wpo_bindo
    apply (rule wpo_gitAuthEnv)
     apply (simp add: err)
    apply (simp only: sum.case wpo_bindo)
    apply (rule wpo_shouldSkipEmptyTagPush [OF cmd [unfolded git_environment_def]])
      apply (simp add: err)
     apply (simp only: sum.case if_False)
     apply (rule went_on)
     apply blast
    apply (simp only: sum.case if_True wpo.simps skipping simp_thms)
    apply (rule skips)
     apply blast
    apply (simp only:)
    done
qed

lemma wpo_run_commands:
  assumes cfg: "prepared P cfg cfg'" "validated P cfg'"
    and all: "BuildGitCommands cfg = Inr (earlier @ commands)"
    and past: "commands_run h = succeeded past" "all_but (no_tags_found h) earlier past"
    and err: "\<And>e h'. Q (Some e) h'"
    and fin: "\<And>h' past'. commands_run h' = succeeded past' \<Longrightarrow>
      all_but (no_tags_found h') (earlier @ commands) past' \<Longrightarrow> Q None h'"
  shows "wpo (runner_rule P cfg) (run_commands P cfg' commands) Q h"
  using all past fin
proof (induction commands arbitrary: earlier past h)
  case Nil
  then show ?case by simp
next
  case (Cons args commands)
  have cmd: "command_rule P cfg args (git_environment P cfg' (authForCommand cfg' args))"
    using cfg Cons.prems(1) unfolding command_rule_def by fastforce
  have order: "in_order cfg h args"
    using Cons.prems(1-3) unfolding in_order_def by blast
  have next_cmd: "wpo (runner_rule P cfg) (run_commands P cfg' commands) Q h'"
    if "commands_run h' = succeeded past'" "all_but (no_tags_found h') (earlier @ [args]) past'" for h' past'
    using Cons.IH [of "earlier @ [args]" h' past'] Cons.prems(1,4) that by simp
  note snoc = all_but_append [OF all_but_later [OF Cons.prems(3)], of _ "[args]"]
  show ?case
  proof (rule wpo_run_command [OF cmd order])
    show "Q (Some e) h'" for e h' by (rule err)
  next
    fix h' assume "quiet h h'" "no_tags_found h' args"
    with next_cmd [of h' past] snoc [of h' "[]"] Cons.prems(2)
    show "wpo (runner_rule P cfg) (run_commands P cfg' commands) Q h'" by simp
  next
    fix h' assume "commands_run h' = commands_run h @ [(args, True)]" "set h \<subseteq> set h'"
    with next_cmd [of h' "past @ [args]"] snoc [of h' "[args]"] Cons.prems(2)
    show "wpo (runner_rule P cfg) (run_commands P cfg' commands) Q h'" by (simp add: succeeded_append)
  qed
qed

text \<open>What a run without an error has done.\<close>

definition mirrored :: "Config \<Rightarrow> action list \<Rightarrow> bool" where
  "mirrored cfg h = (\<exists>commands past. BuildGitCommands cfg = Inr commands
     \<and> commands_run h = succeeded past \<and> all_but (no_tags_found h) commands past)"

lemma wpo_Run: "wpo (runner_rule P cfg) (Run P cfg) (\<lambda>r h. r = None \<longrightarrow> mirrored cfg h) []"
  unfolding Run_def wpo_bindo
proof (rule wpo_prepareCredentials)
  fix cfg' h assume h: "quiet [] h" and p: "prepared P cfg cfg'"
  show "wpo (runner_rule P cfg) (case Inr cfg' of
      Inl err \<Rightarrow> Done (Some err)
    | Inr cfg \<Rightarrow> (case validateEndpointAuth (pf_is_ipv6 P) ''source'' (SourceURL cfg) (SourceAuth cfg) of
        Some err \<Rightarrow> Done (Some err)
      | None \<Rightarrow> (case validateEndpointAuth (pf_is_ipv6 P) ''target'' (TargetURL cfg) (TargetAuth cfg) of
          Some err \<Rightarrow> Done (Some err)
        | None \<Rightarrow> (case BuildGitCommands cfg of
            Inl err \<Rightarrow> Done (Some err)
          | Inr commands \<Rightarrow> run_commands P cfg commands))))
      (\<lambda>r h. r = None \<longrightarrow> mirrored cfg h) h"
  proof (cases "validated P cfg' \<and> (\<exists>commands. BuildGitCommands cfg = Inr commands)")
    case True
    then obtain commands where ok: "validated P cfg'" "BuildGitCommands cfg = Inr ([] @ commands)" by auto
    have "wpo (runner_rule P cfg) (run_commands P cfg' commands) (\<lambda>r h. r = None \<longrightarrow> mirrored cfg h) h"
      by (rule wpo_run_commands [OF p ok, of h "[]"])
        (use h ok in \<open>auto simp: succeeded_def mirrored_def\<close>)
    with ok show ?thesis by (simp add: validated_def prepared_commands [OF p])
  next
    case False
    then show ?thesis
      by (auto simp: validated_def prepared_commands [OF p] split: option.split sum.split)
  qed
qed simp

end
