(* ===== verification/Sync_Behaviour.thy ===== *)
theory Sync_Behaviour
  imports Sync_Safety
begin

text \<open>
  How a run of the sync runner goes when both endpoints use SSH keys and every call succeeds:
  the actions of the preparation and of each kind of command, and the state after them. The
  properties of the runner are applied to these runs.
\<close>

subsection \<open>Paths\<close>

lemma path_Clean_nonempty: "path_Clean p \<noteq> []"
  by (simp add: path_Clean_def Let_def)

lemma path_Join_nonempty: "b \<noteq> [] \<Longrightarrow> path_Join a b \<noteq> []"
  by (simp add: path_Join_def path_Clean_nonempty)

subsection \<open>The preparation\<close>

definition copy_actions :: "string \<Rightarrow> string \<Rightarrow> string \<Rightarrow> action list" where
  "copy_actions src dst data = [DidReadFile src (Inr data), DidMkdirAll (path_Dir dst) mode_0700 None,
     DidRemove (dst @ ''.tmp'') None, DidWriteFile (dst @ ''.tmp'') data mode_0600 None,
     DidChmod (dst @ ''.tmp'') mode_0400 None, DidRename (dst @ ''.tmp'') dst None]"

lemma copy_runs:
  "performs (bindo (copyPrivateFile src dst) f) (copy_actions src dst data @ es) = performs (f (Inr dst)) es"
  by (simp add: copyPrivateFile_def install_file_def copy_actions_def Let_def)

definition uses_ssh :: "EndpointAuth \<Rightarrow> bool" where
  "uses_ssh a = (Type a = AuthTypeSSH \<and> SSHKeyPath a \<noteq> [])"

definition key_copy :: "Platform \<Rightarrow> string \<Rightarrow> string" where
  "key_copy P name = path_Join (path_Join (preparedCredentialDir P) name) ''ssh_key''"

definition with_copies :: "Platform \<Rightarrow> Config \<Rightarrow> Config" where
  "with_copies P cfg = cfg\<lparr>SourceAuth := (SourceAuth cfg)\<lparr>SSHKeyPath := key_copy P ''source''\<rparr>,
     TargetAuth := (TargetAuth cfg)\<lparr>SSHKeyPath := key_copy P ''target''\<rparr>\<rparr>"

definition prepare_actions :: "Platform \<Rightarrow> Config \<Rightarrow> string \<Rightarrow> string \<Rightarrow> action list" where
  "prepare_actions P cfg key key' = copy_actions (SSHKeyPath (SourceAuth cfg)) (key_copy P ''source'') key
     @ copy_actions (SSHKeyPath (TargetAuth cfg)) (key_copy P ''target'') key'"

lemma prepare_ssh:
  "uses_ssh a \<Longrightarrow> prepareEndpointAuth P name a dir =
     bindo (copyPrivateFile (SSHKeyPath a) (path_Join dir ''ssh_key'')) (\<lambda>r. case r of
         Inl err \<Rightarrow> Done (Inl (Wrapped (''prepare '' @ name @ '' SSH key: '') err))
       | Inr keyPath \<Rightarrow> Done (Inr (a\<lparr>SSHKeyPath := keyPath\<rparr>)))"
  unfolding prepareEndpointAuth_def uses_ssh_def
  by (simp only: auth_type_defs if_True if_False list.distinct simp_thms)

lemma bindo_assoc: "bindo (bindo p f) g = bindo p (\<lambda>a. bindo (f a) g)"
  by (induction p) simp_all

lemma prepare_runs:
  "uses_ssh a \<Longrightarrow>
    performs (bindo (prepareEndpointAuth P name a dir) f)
      (copy_actions (SSHKeyPath a) (path_Join dir ''ssh_key'') key @ es)
    = performs (f (Inr (a\<lparr>SSHKeyPath := path_Join dir ''ssh_key''\<rparr>))) es"
  by (simp only: prepare_ssh bindo_assoc copy_runs sum.case bindo.simps)

lemma valid_ssh: "Type a = AuthTypeSSH \<Longrightarrow> SSHKeyPath a \<noteq> [] \<Longrightarrow> validateEndpointAuth ip name url a = None"
  by (simp add: validateEndpointAuth_def)

lemma Run_ssh:
  assumes "uses_ssh (SourceAuth cfg)" and "uses_ssh (TargetAuth cfg)" and "BuildGitCommands cfg = Inr commands"
  shows "performs (Run P cfg) (prepare_actions P cfg key key' @ es)
    = performs (run_commands P (with_copies P cfg) commands) es"
proof -
  have k: "key_copy P name \<noteq> []" for name
    unfolding key_copy_def by (rule path_Join_nonempty) simp
  have valid: "validateEndpointAuth ip n u ((SourceAuth cfg)\<lparr>SSHKeyPath := key_copy P name\<rparr>) = None"
      "validateEndpointAuth ip n u ((TargetAuth cfg)\<lparr>SSHKeyPath := key_copy P name\<rparr>) = None" for ip n u name
    using assms(1,2) k by (simp_all add: valid_ssh uses_ssh_def)
  have cmds: "BuildGitCommands (with_copies P cfg) = Inr commands"
    using assms(3) unfolding with_copies_def by (simp only: commands_ignore_auth)
  have "performs (Run P cfg) (prepare_actions P cfg key key' @ es)
    = performs (case validateEndpointAuth (pf_is_ipv6 P) ''source'' (SourceURL (with_copies P cfg))
          (SourceAuth (with_copies P cfg)) of
        Some err \<Rightarrow> Done (Some err)
      | None \<Rightarrow> (case validateEndpointAuth (pf_is_ipv6 P) ''target'' (TargetURL (with_copies P cfg))
          (TargetAuth (with_copies P cfg)) of
          Some err \<Rightarrow> Done (Some err)
        | None \<Rightarrow> (case BuildGitCommands (with_copies P cfg) of
            Inl err \<Rightarrow> Done (Some err)
          | Inr commands \<Rightarrow> run_commands P (with_copies P cfg) commands))) es"
    unfolding Run_def prepareCredentials_def prepare_actions_def key_copy_def with_copies_def bindo_assoc
      append_assoc prepare_runs [OF assms(1)] sum.case bindo.simps prepare_runs [OF assms(2)] ..
  also have "\<dots> = performs (run_commands P (with_copies P cfg) commands) es"
    unfolding cmds by (simp add: with_copies_def valid)
  finally show ?thesis .
qed

subsection \<open>The commands\<close>

definition ssh_env :: "Platform \<Rightarrow> Config \<Rightarrow> string list \<Rightarrow> string list" where
  "ssh_env P cfg args = git_environment P cfg (authForCommand cfg args)"

definition ran_actions :: "Platform \<Rightarrow> Config \<Rightarrow> string list \<Rightarrow> action list" where
  "ran_actions P cfg args =
     [DidLog (''running '' @ safeCommand (pf_is_ipv6 P) args), DidRun args (ssh_env P cfg args) None]"

definition local_tags :: "string \<Rightarrow> string \<Rightarrow> action" where
  "local_tags repo out = DidOutput [''git'', ''-C'', repo, ''for-each-ref'', ''--format=%(refname)'',
     ''--count=1'', ''refs/tags''] None (Inr out)"

definition remote_tags :: "Platform \<Rightarrow> Config \<Rightarrow> string list \<Rightarrow> string \<Rightarrow> string \<Rightarrow> action" where
  "remote_tags P cfg args url out =
     DidOutput [''git'', ''ls-remote'', ''--tags'', ''--refs'', url] (Some (ssh_env P cfg args)) (Inr out)"

lemma ssh_env_eq:
  "Type (authForCommand cfg args) = AuthTypeSSH \<Longrightarrow>
    ssh_env P cfg args = Environ (pf_env P) @ [gitSSHCommand cfg (SSHKeyPath (authForCommand cfg args))]"
  by (simp add: ssh_env_def git_environment_def auth_env_def)

lemma gitAuthEnv_ssh:
  "Type a = AuthTypeSSH \<Longrightarrow> gitAuthEnv P cfg a = Done (Inr [gitSSHCommand cfg (SSHKeyPath a)])"
  by (simp add: gitAuthEnv_def)

lemma run_plain:
  assumes "Type (authForCommand cfg args) = AuthTypeSSH" and "\<not> isTagWildcardPush args"
  shows "performs (run_commands P cfg (args # commands)) (ran_actions P cfg args @ es)
    = performs (run_commands P cfg commands) es"
  using assms
  by (simp add: gitAuthEnv_ssh shouldSkipEmptyTagPush_def ran_actions_def ssh_env_eq)

lemma run_tags:
  assumes "Type (authForCommand cfg args) = AuthTypeSSH" and "isTagWildcardPush args"
    and "commandRepoPath args = Some repo" and "not_blank out"
  shows "performs (run_commands P cfg (args # commands)) (local_tags repo out # ran_actions P cfg args @ es)
    = performs (run_commands P cfg commands) es"
  using assms
  by (simp add: gitAuthEnv_ssh shouldSkipEmptyTagPush_def ran_actions_def ssh_env_eq hasLocalRefs_def
      local_tags_def)

lemma run_skipped:
  assumes "Type (authForCommand cfg args) = AuthTypeSSH" and "isTagWildcardPush args"
    and "commandRepoPath args = Some repo" and "pushTargetURL args = Some url"
    and "\<not> not_blank out" and "\<not> not_blank out'"
  shows "performs (run_commands P cfg (args # commands)) (local_tags repo out # remote_tags P cfg args url out' #
      DidLog (''skipping '' @ safeCommand (pf_is_ipv6 P) args @ '': source and target have no tags'') # es)
    = performs (run_commands P cfg commands) es"
  using assms
  by (simp add: gitAuthEnv_ssh shouldSkipEmptyTagPush_def ssh_env_eq hasLocalRefs_def hasRemoteTags_def
      local_tags_def remote_tags_def)

subsection \<open>Password credentials\<close>

definition ask_actions :: "string \<Rightarrow> action list" where
  "ask_actions dir = (let path = path_Join dir ''askpass.sh'' in [DidMkdirAll dir mode_0700 None,
     DidRemove (path @ ''.tmp'') None, DidWriteFile (path @ ''.tmp'') askpass_script mode_0700 None,
     DidChmod (path @ ''.tmp'') mode_0500 None, DidRename (path @ ''.tmp'') path None])"

lemma askpass_runs:
  "performs (bindo (ensureAskPassScript dir) f) (ask_actions dir @ es)
    = performs (f (Inr (path_Join dir ''askpass.sh''))) es"
  by (simp add: ensureAskPassScript_def install_file_def ask_actions_def Let_def)

lemma Run_basic:
  assumes "Type (SourceAuth cfg) = AuthTypeBasic" and "Type (TargetAuth cfg) = AuthTypeBasic"
    and "validated P cfg" and "BuildGitCommands cfg = Inr commands"
  shows "Run P cfg = run_commands P cfg commands"
proof -
  have "prepareCredentials P cfg dir = Done (Inr cfg)" for dir
    using assms(1,2) by (simp add: prepareCredentials_def prepareEndpointAuth_def auth_type_defs)
  then show ?thesis using assms(3,4) by (simp add: Run_def validated_def)
qed

lemma run_plain_basic:
  assumes "Type (authForCommand cfg args) = AuthTypeBasic" and "\<not> isTagWildcardPush args"
  shows "performs (run_commands P cfg (args # commands))
      (ask_actions (preparedCredentialDir P) @ ran_actions P cfg args @ es)
    = performs (run_commands P cfg commands) es"
  using assms
  by (simp add: gitAuthEnv_def bindo_assoc askpass_runs shouldSkipEmptyTagPush_def ran_actions_def ssh_env_def
      git_environment_def auth_env_def auth_type_defs)

end
