(* ===== verification/URL_Facts.thy ===== *)
theory URL_Facts
  imports Go_URL
begin

text \<open>
  Facts on URL parsing: the bundle that evaluates it on a concrete URL, and how user
  information in an HTTPS URL is parsed (\<open>parse_with_user\<close>): it changes nothing but the user.
\<close>

subsection \<open>Evaluation\<close>

lemmas url_eval = url_Parse_def cut_at_def parse_no_fragment_def getScheme_def char_class
  count_char_def parse_hierarchy_def HasPrefix_def parseAuthority_def parseHost_def setPath_def
  empty_url_def shouldEscape_def after_last_def before_last_def parse_userinfo_def validUserinfo_def unhex_def
  Let_def

lemma ToLower_ascii_lower:
  assumes "list_all (\<lambda>c. byte c < 65 \<or> 90 < byte c) s"
  shows "ToLower_ascii s = s"
proof -
  have "char_of (lower_rune (byte c)) = c" if "c \<in> set s" for c
  proof -
    have "lower_rune (byte c) = byte c"
      using assms that byte_less_256 [of c] by (fastforce simp: lower_rune_def list_all_iff simp del: byte_less_256)
    then show ?thesis by simp
  qed
  then show ?thesis by (simp add: ToLower_ascii_def map_idI)
qed

lemma lower_empty [simp]: "ToLower_ascii [] = []"
  by (simp add: ToLower_ascii_def)

lemma lower_https [simp]: "ToLower_ascii ''https'' = ''https''"
  by (rule ToLower_ascii_lower) (simp add: byte_def)

subsection \<open>User information\<close>

text \<open>The characters of user information.\<close>

definition user_char :: "char \<Rightarrow> bool" where
  "user_char c = (is_alnum c \<or> c \<in> set ''-._:~!$&()*+,;=%@'' \<or> byte c = 39)"

lemma user_chars:
  assumes "user_char c"
  shows "c \<noteq> CHR ''/''" and "c \<noteq> CHR ''?''" and "c \<noteq> CHR ''#''" and "32 \<le> byte c" and "byte c \<noteq> 127"
  using assms by (auto simp: user_char_def char_class)

lemma parse_userinfo_chars: "parse_userinfo ui = Some w \<Longrightarrow> list_all user_char ui"
  by (auto simp: parse_userinfo_def validUserinfo_def user_char_def list_all_iff split: if_splits)

lemma cut_at_append: "d \<notin> set p \<Longrightarrow> cut_at d (p @ s) = (p @ fst (cut_at d s), snd (cut_at d s))"
  unfolding cut_at_def by (induction p) auto

lemma last_cut: "d \<notin> set s \<Longrightarrow> after_last d (p @ d # s) = s \<and> before_last d (p @ d # s) = p"
  by (simp add: after_last_def before_last_def takeWhile_append dropWhile_append)

definition with_user :: "Userinfo \<Rightarrow> url \<Rightarrow> url" where
  "with_user w u = u\<lparr>url_User := Some w\<rparr>"

lemma setPath_user:
  "setPath (u\<lparr>url_User := Some w, Host := h\<rparr>) p = map_option (with_user w) (setPath (u\<lparr>url_User := v, Host := h\<rparr>) p)"
  by (simp add: setPath_def with_user_def split: option.split)

lemma setFragment_user: "setFragment (with_user w u) f = map_option (with_user w) (setFragment u f)"
  by (simp add: setFragment_def with_user_def split: option.split)

lemma parseAuthority_user:
  assumes "parse_userinfo ui = Some w" and "CHR ''@'' \<notin> set a"
  shows "parseAuthority ip (ui @ CHR ''@'' # a) = map_option (\<lambda>(_, h). (Some w, h)) (parseAuthority ip a)"
  using assms last_cut [OF assms(2), of ui]
  by (simp add: parseAuthority_def option.map_comp comp_def split: option.split)

lemma parse_hierarchy_user:
  assumes "parse_userinfo ui = Some w" and "CHR ''@'' \<notin> set (takeWhile (\<lambda>c. c \<noteq> CHR ''/'') rest)"
    and "Scheme u \<noteq> []"
  shows "parse_hierarchy ip u (''//'' @ ui @ CHR ''@'' # rest)
    = map_option (with_user w) (parse_hierarchy ip u (''//'' @ rest))"
proof -
  have ui: "\<forall>c \<in> set ui. c \<noteq> CHR ''/''"
    using parse_userinfo_chars [OF assms(1)] user_chars(1) by (auto simp: list_all_iff)
  have split: "takeWhile (\<lambda>c. c \<noteq> CHR ''/'') (ui @ CHR ''@'' # rest)
        = ui @ CHR ''@'' # takeWhile (\<lambda>c. c \<noteq> CHR ''/'') rest"
      "dropWhile (\<lambda>c. c \<noteq> CHR ''/'') (ui @ CHR ''@'' # rest) = dropWhile (\<lambda>c. c \<noteq> CHR ''/'') rest"
    using ui by simp_all
  show ?thesis
    using assms(3)
    by (simp add: parse_hierarchy_def HasPrefix_def split parseAuthority_user [OF assms(1,2)]
        split: option.split) (auto intro: setPath_user)
qed

lemma takeWhile_prefix: "set (takeWhile P xs) \<subseteq> set (takeWhile P (xs @ ys))"
  by (induction xs) auto

text \<open>An HTTPS URL after its fragment has been cut off, with its two forms of a query.\<close>

definition has_control :: "string \<Rightarrow> bool" where
  "has_control s = list_ex (\<lambda>c. byte c < 32 \<or> byte c = 127) s"

definition forced_query :: "string \<Rightarrow> bool" where
  "forced_query s = (last s = CHR ''?'' \<and> count_char CHR ''?'' s = 1)"

lemma parse_https:
  assumes "x \<noteq> []"
  shows "parse_no_fragment ip (''https:'' @ x) = (if has_control x then None
    else if forced_query x then
      parse_hierarchy ip (empty_url\<lparr>Scheme := ''https'', ForceQuery := True\<rparr>) (butlast x)
    else parse_hierarchy ip (empty_url\<lparr>Scheme := ''https'', RawQuery := snd (cut_at CHR ''?'' x)\<rparr>)
      (fst (cut_at CHR ''?'' x)))"
proof -
  have scheme: "getScheme (''https:'' @ x) = Some (''https'', x)"
    by (simp add: getScheme_def char_class)
  have "list_ex (\<lambda>c. byte c < 32 \<or> byte c = 127) (''https:'' @ x) = has_control x"
    by (simp add: has_control_def byte_def)
  then show ?thesis
    using assms unfolding parse_no_fragment_def scheme
    by (simp add: forced_query_def Let_def split_beta)
qed

lemma parse_no_fragment_user:
  assumes w: "parse_userinfo ui = Some w" and at: "CHR ''@'' \<notin> set (takeWhile (\<lambda>c. c \<noteq> CHR ''/'') rest)"
  shows "parse_no_fragment ip (''https://'' @ ui @ CHR ''@'' # rest)
    = map_option (with_user w) (parse_no_fragment ip (''https://'' @ rest))"
proof -
  have ui: "c \<noteq> CHR ''/''" "c \<noteq> CHR ''?''" "32 \<le> byte c" "byte c \<noteq> 127" if "c \<in> set ui" for c
    using parse_userinfo_chars [OF w] user_chars that by (auto simp: list_all_iff)
  let ?U = "''//'' @ ui @ CHR ''@'' # rest" and ?R = "''//'' @ rest"
  have ctl: "has_control ?U = has_control ?R"
  proof -
    have "\<not> has_control ui" using ui(3,4) by (force simp: has_control_def list_ex_iff)
    then show ?thesis by (simp add: has_control_def byte_def)
  qed
  have count: "count_char CHR ''?'' ?U = count_char CHR ''?'' ?R"
    using ui(2) by (auto simp: count_char_def filter_empty_conv)
  have last: "last ?U = CHR ''?'' \<longleftrightarrow> last ?R = CHR ''?''"
    by (cases "rest = []") simp_all
  then have force: "forced_query ?U = forced_query ?R" by (simp only: forced_query_def count)
  have cut: "cut_at CHR ''?'' ?U = (''//'' @ ui @ CHR ''@'' # fst (cut_at CHR ''?'' rest), snd (cut_at CHR ''?'' rest))"
    using cut_at_append [of "CHR ''?''" "''//'' @ ui @ ''@''" rest] ui(2) by auto
  have cutR: "cut_at CHR ''?'' ?R = (''//'' @ fst (cut_at CHR ''?'' rest), snd (cut_at CHR ''?'' rest))"
    using cut_at_append [of "CHR ''?''" "''//''" rest] by simp
  have part: "CHR ''@'' \<notin> set (takeWhile (\<lambda>c. c \<noteq> CHR ''/'') r)" if "rest = r @ r'" for r r'
    using at takeWhile_prefix [of _ r r'] that by blast
  note hierarchy = parse_hierarchy_user [OF w part]
  have raw: "''https://'' @ ui @ CHR ''@'' # rest = ''https:'' @ ?U" "''https://'' @ rest = ''https:'' @ ?R"
    by simp_all
  have ne: "?U \<noteq> []" "?R \<noteq> []" by simp_all
  have scheme: "Scheme (empty_url\<lparr>Scheme := ''https'', ForceQuery := True\<rparr>) \<noteq> []"
      "Scheme (empty_url\<lparr>Scheme := ''https'', RawQuery := q\<rparr>) \<noteq> []" for q by simp_all
  show ?thesis
  proof (cases "forced_query ?R")
    case True
    then have "rest \<noteq> []" by (cases "rest = []") (simp_all add: forced_query_def)
    then have r: "rest = butlast rest @ [last rest]" and
      b: "butlast ?U = ''//'' @ ui @ CHR ''@'' # butlast rest" "butlast ?R = ''//'' @ butlast rest"
      by (simp_all add: butlast_append)
    show ?thesis
      by (simp only: raw parse_https [OF ne(1)] parse_https [OF ne(2)] ctl force True b hierarchy [OF r scheme(1)]
          if_True option.map if_cancel split: if_split) simp
  next
    case False
    have r: "rest = fst (cut_at CHR ''?'' rest) @ dropWhile (\<lambda>c. c \<noteq> CHR ''?'') rest" by (simp add: cut_at_def)
    show ?thesis
      by (simp only: raw parse_https [OF ne(1)] parse_https [OF ne(2)] ctl force False cut cutR fst_conv snd_conv
          hierarchy [OF r scheme(2)] if_False option.map if_cancel split: if_split) simp
  qed
qed

text \<open>User information in an HTTPS URL sets the user and nothing else.\<close>

lemma parse_with_user:
  assumes w: "parse_userinfo ui = Some w" and at: "CHR ''@'' \<notin> set (takeWhile (\<lambda>c. c \<noteq> CHR ''/'') rest)"
  shows "url_Parse ip (''https://'' @ ui @ CHR ''@'' # rest) = map_option (with_user w) (url_Parse ip (''https://'' @ rest))"
proof -
  have ui: "c \<noteq> CHR ''#''" if "c \<in> set ui" for c
    using parse_userinfo_chars [OF w] user_chars that by (auto simp: list_all_iff)
  have cut: "cut_at CHR ''#'' (''https://'' @ ui @ CHR ''@'' # rest)
      = (''https://'' @ ui @ CHR ''@'' # fst (cut_at CHR ''#'' rest), snd (cut_at CHR ''#'' rest))"
    using cut_at_append [of "CHR ''#''" "''https://'' @ ui @ ''@''" rest] ui by auto
  have cutR: "cut_at CHR ''#'' (''https://'' @ rest) = (''https://'' @ fst (cut_at CHR ''#'' rest), snd (cut_at CHR ''#'' rest))"
    using cut_at_append [of "CHR ''#''" "''https://''" rest] by simp
  have "rest = fst (cut_at CHR ''#'' rest) @ dropWhile (\<lambda>c. c \<noteq> CHR ''#'') rest" by (simp add: cut_at_def)
  then have "CHR ''@'' \<notin> set (takeWhile (\<lambda>c. c \<noteq> CHR ''/'') (fst (cut_at CHR ''#'' rest)))"
    using at takeWhile_prefix [of "\<lambda>c. c \<noteq> CHR ''/''" "fst (cut_at CHR ''#'' rest)"
        "dropWhile (\<lambda>c. c \<noteq> CHR ''#'') rest"] by auto
  from parse_no_fragment_user [OF w this] show ?thesis
    unfolding url_Parse_def cut cutR by (simp only: split) (simp add: setFragment_user split: option.split)
qed

end
