(* ===== verification/Sync_Properties.thy ===== *)
theory Sync_Properties
  imports Sync_Behaviour URL_Facts
begin

text \<open>
  The properties of the sync runner: the order of its commands and the credentials each is
  given, what a successful run has done, when a push of tags may be left out, how credentials
  are stored, and what is logged. Each property is applied to a run of one configuration.
\<close>

subsection \<open>The commands of a configuration\<close>

definition clone_command :: "Config \<Rightarrow> string list" where
  "clone_command cfg = [''git'', ''clone'', ''--bare'', SourceURL cfg, mirrorRepoPath cfg]"

definition push_command :: "Config \<Rightarrow> string list \<Rightarrow> string \<Rightarrow> string list" where
  "push_command cfg options refs = [''git'', ''-C'', mirrorRepoPath cfg, ''push''] @ options @ [TargetURL cfg, refs]"

lemma commands_start_with_clone:
  "BuildGitCommands cfg = Inr commands \<Longrightarrow> \<exists>pushes. commands = clone_command cfg # pushes"
  by (auto simp: BuildGitCommands_def clone_command_def Let_def split: if_splits)

lemma exact_commands:
  "SourceURL cfg \<noteq> [] \<Longrightarrow> TargetURL cfg \<noteq> [] \<Longrightarrow> MirrorMode cfg = ''exact'' \<Longrightarrow>
    BuildGitCommands cfg = Inr [clone_command cfg, push_command cfg [''--prune''] forceHeadsRefSpec,
      push_command cfg [''--prune''] forceTagsRefSpec]"
  by (simp add: BuildGitCommands_def clone_command_def push_command_def Let_def)

lemma additive_commands:
  "MirrorMode cfg = ''additive'' \<Longrightarrow> BuildGitCommands cfg = Inr commands \<Longrightarrow>
    commands = [clone_command cfg, push_command cfg [] headsRefSpec]
      @ (if cfg_IncludeTags cfg then [push_command cfg [] tagsRefSpec] else [])"
  by (auto simp: BuildGitCommands_def clone_command_def push_command_def Let_def split: if_splits)

lemma mirrorRepoPath_default: "RepoPath cfg = [] \<Longrightarrow> mirrorRepoPath cfg = ''/tmp/repo.git''"
  by (simp add: mirrorRepoPath_def defaultMirrorRepoPath_def)

lemma clone_is_no_push: "RepoPath cfg = [] \<Longrightarrow> \<not> isTagWildcardPush (clone_command cfg)"
  by (cases "SourceURL cfg = ''push''") (simp_all add: isTagWildcardPush_def clone_command_def mirrorRepoPath_default ref_spec_defs eq_commute)

subsection \<open>A demonstration\<close>

definition ssh_key_auth :: "string \<Rightarrow> EndpointAuth" where
  "ssh_key_auth path = \<lparr>Type = AuthTypeSSH, SSHKeyPath = path, Username = [], Password = [], GitHubAppID = [],
     GitHubAppInstallationID = [], GitHubAppPrivateKeyPath = [], GitHubAppAPIURL = []\<rparr>"

definition demo_cfg :: Config where
  "demo_cfg = \<lparr>SourceURL = ''git@src:r'', TargetURL = ''git@dst:r'', MirrorMode = ''exact'',
     cfg_IncludeTags = True, SourceAuth = ssh_key_auth ''/k/s'', TargetAuth = ssh_key_auth ''/k/t'',
     KnownHostsPath = [], RepoPath = []\<rparr>"

definition demo_P :: Platform where
  "demo_P = \<lparr>pf_env = [], pf_is_ipv6 = (\<lambda>_. False), pf_pem_Decode = (\<lambda>_. None),
     pf_ParsePKCS1PrivateKey = (\<lambda>_. None), pf_ParsePKCS8PrivateKey = (\<lambda>_. Inr None),
     pf_SignPKCS1v15 = (\<lambda>_ _. Inr [])\<rparr>"

definition demo_clone :: "string list" where "demo_clone = clone_command demo_cfg"
definition demo_heads :: "string list" where "demo_heads = push_command demo_cfg [''--prune''] forceHeadsRefSpec"
definition demo_tags :: "string list" where "demo_tags = push_command demo_cfg [''--prune''] forceTagsRefSpec"

lemmas demo_command_defs = demo_clone_def demo_heads_def demo_tags_def

lemma demo_ssh [simp]: "uses_ssh (SourceAuth demo_cfg)" "uses_ssh (TargetAuth demo_cfg)"
  by (simp_all add: uses_ssh_def demo_cfg_def ssh_key_auth_def)

lemma demo_auth [simp]: "Type (authForCommand (with_copies demo_P demo_cfg) args) = AuthTypeSSH"
  by (simp add: authForCommand_def with_copies_def demo_cfg_def ssh_key_auth_def)

lemma demo_commands: "BuildGitCommands demo_cfg = Inr [demo_clone, demo_heads, demo_tags]"
  unfolding demo_command_defs by (rule exact_commands) (simp_all add: demo_cfg_def)

lemma demo_pushes [simp]:
  "\<not> isTagWildcardPush demo_clone" "\<not> isTagWildcardPush demo_heads" "isTagWildcardPush demo_tags"
  "commandRepoPath demo_tags = Some ''/tmp/repo.git''" "pushTargetURL demo_tags = Some ''git@dst:r''"
  by code_simp+

text \<open>The actions up to the clone, the two pushes after it, and a skipped push of tags.\<close>

definition demo_start :: "action list" where
  "demo_start = prepare_actions demo_P demo_cfg ''key-1'' ''key-2''"

definition demo_ran :: "string list \<Rightarrow> action list" where
  "demo_ran args = ran_actions demo_P (with_copies demo_P demo_cfg) args"

definition demo_skip :: "action list" where
  "demo_skip = [local_tags ''/tmp/repo.git'' [],
     remote_tags demo_P (with_copies demo_P demo_cfg) demo_tags ''git@dst:r'' []]"

definition demo_skip_log :: action where
  "demo_skip_log = DidLog (''skipping '' @ safeCommand (pf_is_ipv6 demo_P) demo_tags @ '': source and target have no tags'')"

lemma demo_begins:
  "performs (Run demo_P demo_cfg) (demo_start @ es)
    = performs (run_commands demo_P (with_copies demo_P demo_cfg) [demo_clone, demo_heads, demo_tags]) es"
  unfolding demo_start_def by (rule Run_ssh) (simp_all add: demo_commands)

lemma demo_cloned:
  "performs (Run demo_P demo_cfg) (demo_start @ demo_ran demo_clone @ es)
    = performs (run_commands demo_P (with_copies demo_P demo_cfg) [demo_heads, demo_tags]) es"
  unfolding demo_begins unfolding demo_ran_def by (rule run_plain) simp_all

lemma demo_pushed:
  "performs (Run demo_P demo_cfg) (demo_start @ demo_ran demo_clone @ demo_ran demo_heads @ es)
    = performs (run_commands demo_P (with_copies demo_P demo_cfg) [demo_tags]) es"
  unfolding demo_cloned unfolding demo_ran_def by (rule run_plain) simp_all

lemma demo_skipped:
  "performs (Run demo_P demo_cfg) (demo_start @ demo_ran demo_clone @ demo_ran demo_heads @ demo_skip @ [demo_skip_log])
    = Some (Done None)"
  using run_skipped [of "with_copies demo_P demo_cfg" demo_tags "''/tmp/repo.git''" "''git@dst:r''" "[]" "[]"
      demo_P "[]" "[]"]
  unfolding demo_pushed unfolding demo_skip_def demo_skip_log_def
  by (simp add: not_blank_def)

subsection \<open>Order\<close>

text \<open>What holds of a command that is run.\<close>

lemma run_command_rules:
  assumes "performs (Run P cfg) (h @ DidRun args env r # es) = Some p"
  shows "command_rule P cfg args env" and "in_order cfg h args"
  using wpo_action [OF wpo_Run assms] by (simp_all add: runner_rule_def)

lemma clone_not_skipped:
  "RepoPath cfg = [] \<Longrightarrow> all_but (no_tags_found h) (clone_command cfg # earlier) past \<Longrightarrow>
    \<exists>past'. past = clone_command cfg # past' \<and> all_but (no_tags_found h) earlier past'"
  by (cases past) (auto simp: clone_is_no_push no_tags_found_def)

text \<open>C14. Nothing is pushed before the clone has succeeded, and nothing after a failure. A command
  other than the clone runs only when the clone and every command before it were run in their
  order and all of them succeeded, save pushes of tags for which both sides had been listed and
  had none. In particular an exact mirror, which prunes, never prunes from a repository that was
  not cloned.\<close>

theorem clone_before_push:
  assumes "RepoPath cfg = []" and "performs (Run P cfg) (h @ DidRun args env r # es) = Some p"
    and "args \<noteq> clone_command cfg"
  shows "\<exists>earlier later past. BuildGitCommands cfg = Inr (clone_command cfg # earlier @ args # later)
    \<and> commands_run h = succeeded (clone_command cfg # past) \<and> all_but (no_tags_found h) earlier past"
proof -
  from run_command_rules(2) [OF assms(2)] obtain earlier later past
    where cmds: "BuildGitCommands cfg = Inr (earlier @ args # later)"
      and h: "commands_run h = succeeded past" "all_but (no_tags_found h) earlier past"
    unfolding in_order_def by blast
  from commands_start_with_clone [OF cmds] assms(3) obtain earlier'
    where e: "earlier = clone_command cfg # earlier'" by (cases earlier) auto
  with clone_not_skipped [OF assms(1)] h obtain past' where "past = clone_command cfg # past'"
      "all_but (no_tags_found h) earlier' past'" by blast
  with cmds h e show ?thesis by auto
qed

definition demo_until_heads :: "action list" where
  "demo_until_heads = demo_start @ demo_ran demo_clone
     @ [DidLog (''running '' @ safeCommand (pf_is_ipv6 demo_P) demo_heads)]"

lemma demo_runs_heads:
  "performs (Run demo_P demo_cfg) (demo_until_heads
    @ DidRun demo_heads (ssh_env demo_P (with_copies demo_P demo_cfg) demo_heads) None # [])
    = Some (run_commands demo_P (with_copies demo_P demo_cfg) [demo_tags])"
  using demo_pushed [of "[]"] by (simp add: demo_until_heads_def demo_ran_def ran_actions_def)

lemma demo_heads_no_clone: "demo_heads \<noteq> clone_command demo_cfg"
  by (simp add: demo_heads_def push_command_def clone_command_def)

theorem clone_before_push_witness:
  "\<exists>earlier later past. BuildGitCommands demo_cfg = Inr (clone_command demo_cfg # earlier @ demo_heads # later)
    \<and> commands_run demo_until_heads = succeeded (clone_command demo_cfg # past)
    \<and> all_but (no_tags_found demo_until_heads) earlier past"
  by (rule clone_before_push [OF _ demo_runs_heads demo_heads_no_clone]) (simp add: demo_cfg_def)

text \<open>A run without an error has mirrored: every command of the mode was run in order and
  succeeded, and only pushes of tags that neither side has were left out.\<close>

lemma successful_run_mirrors:
  assumes "performs (Run P cfg) es = Some (Done None)"
  shows "\<exists>commands past. BuildGitCommands cfg = Inr commands \<and> commands_run es = succeeded past
    \<and> all_but (no_tags_found es) commands past"
  using wpo_Done [OF wpo_Run assms] by (simp add: mirrored_def)

text \<open>The two commands that list tags; they change nothing.\<close>

definition lists_tags :: "string list \<Rightarrow> bool" where
  "lists_tags args = (\<exists>repo url. args \<in> {[''git'', ''-C'', repo, ''for-each-ref'', ''--format=%(refname)'',
     ''--count=1'', ''refs/tags''], [''git'', ''ls-remote'', ''--tags'', ''--refs'', url]})"

lemma listings:
  "performs (Run P cfg) (h @ DidOutput args env r # es) = Some p \<Longrightarrow> lists_tags args"
  using wpo_action [OF wpo_Run, of P cfg h "DidOutput args env r" es p]
  by (cases env) (auto simp: runner_rule_def lists_tags_def)

text \<open>The commands of an additive mirror.\<close>

definition only_adds :: "Config \<Rightarrow> action \<Rightarrow> bool" where
  "only_adds cfg e = (case e of
     DidRun args _ _ \<Rightarrow> args = clone_command cfg \<or> args = push_command cfg [] headsRefSpec
       \<or> args = push_command cfg [] tagsRefSpec \<and> cfg_IncludeTags cfg
   | DidOutput args _ _ \<Rightarrow> lists_tags args
   | _ \<Rightarrow> True)"

text \<open>C22. The additive mode never deletes or overwrites. The commands it runs are the clone, a plain
  push of the branches and, when tags are included, a plain push of the tags; the only others
  are the two that list tags, \<open>for-each-ref\<close> and \<open>ls-remote\<close>. The runner adds no \<open>--prune\<close> and no
  forced ref specification.\<close>

theorem additive_never_deletes:
  assumes "MirrorMode cfg = ''additive''" and "performs (Run P cfg) (h @ e # es) = Some p"
  shows "only_adds cfg e"
proof (cases e)
  case (DidRun args env r)
  from run_command_rules(1) [OF assms(2) [unfolded DidRun]] obtain commands
    where "BuildGitCommands cfg = Inr commands" "args \<in> set commands"
    unfolding command_rule_def by blast
  with DidRun additive_commands [OF assms(1)] show ?thesis by (auto simp: only_adds_def split: if_splits)
next
  case (DidOutput args env r)
  from listings [OF assms(2) [unfolded DidOutput]] DidOutput show ?thesis by (simp add: only_adds_def)
qed (simp_all add: only_adds_def)

definition demo_additive :: Config where
  "demo_additive = demo_cfg\<lparr>MirrorMode := ''additive''\<rparr>"

text \<open>A whole run: the clone, the push of the branches, the listing of the tags that were cloned and
  their push.\<close>

abbreviation additive_heads :: "string list" where "additive_heads \<equiv> push_command demo_additive [] headsRefSpec"
abbreviation additive_tags :: "string list" where "additive_tags \<equiv> push_command demo_additive [] tagsRefSpec"

definition demo_additive_run :: "action list" where
  "demo_additive_run = (let cfg = with_copies demo_P demo_additive in
     prepare_actions demo_P demo_additive ''key-1'' ''key-2''
       @ ran_actions demo_P cfg (clone_command demo_additive) @ ran_actions demo_P cfg additive_heads
       @ local_tags ''/tmp/repo.git'' ''refs/tags/v1'' # ran_actions demo_P cfg additive_tags @ [])"

lemma demo_additive_runs: "performs (Run demo_P demo_additive) demo_additive_run = Some (Done None)"
proof -
  have ssh: "uses_ssh (SourceAuth demo_additive)" "uses_ssh (TargetAuth demo_additive)"
      "Type (authForCommand (with_copies demo_P demo_additive) args) = AuthTypeSSH" for args
    by (simp_all add: demo_additive_def uses_ssh_def demo_cfg_def ssh_key_auth_def authForCommand_def with_copies_def)
  have "BuildGitCommands demo_additive = Inr [clone_command demo_additive, additive_heads, additive_tags]"
    by code_simp
  note start = Run_ssh [OF ssh(1,2) this, of demo_P "''key-1''" "''key-2''"]
  have plain: "\<not> isTagWildcardPush (clone_command demo_additive)" "\<not> isTagWildcardPush additive_heads"
    and tags: "isTagWildcardPush additive_tags" "commandRepoPath additive_tags = Some ''/tmp/repo.git''"
    by (simp_all add: isTagWildcardPush_def clone_command_def push_command_def demo_additive_def demo_cfg_def
        mirrorRepoPath_def defaultMirrorRepoPath_def ref_spec_defs)
  have "ascii ''refs/tags/v1''" by (simp add: ascii_def byte_def)
  then have out: "not_blank ''refs/tags/v1''" by (simp add: not_blank_def runes_ascii unicode_space_def byte_def)
  show ?thesis
    unfolding demo_additive_run_def Let_def start run_plain [OF ssh(3) plain(1)] run_plain [OF ssh(3) plain(2)]
      run_tags [OF ssh(3) tags out] by simp
qed

theorem additive_never_deletes_witness:
  "performs (Run demo_P demo_additive) demo_additive_run = Some (Done None)
    \<and> list_all (only_adds demo_additive) demo_additive_run
    \<and> commands_run demo_additive_run
      = succeeded [clone_command demo_additive, additive_heads, additive_tags]"
proof -
  have "only_adds demo_additive e" if "e \<in> set demo_additive_run" for e
  proof -
    from split_list [OF that] obtain h es where run: "demo_additive_run = h @ e # es" by blast
    have "MirrorMode demo_additive = ''additive''" by (simp add: demo_additive_def)
    from additive_never_deletes [OF this demo_additive_runs [unfolded run]] show ?thesis .
  qed
  moreover have "commands_run demo_additive_run
      = succeeded [clone_command demo_additive, additive_heads, additive_tags]"
    by (simp add: demo_additive_run_def Let_def prepare_actions_def copy_actions_def ran_actions_def
        local_tags_def succeeded_def)
  ultimately show ?thesis using demo_additive_runs by (simp add: list_all_iff)
qed

subsection \<open>Credentials\<close>

lemma commands_cases:
  "BuildGitCommands cfg = Inr commands \<Longrightarrow>
    commands = [clone_command cfg, push_command cfg [''--prune''] forceHeadsRefSpec,
      push_command cfg [''--prune''] forceTagsRefSpec]
    \<or> commands = [clone_command cfg, push_command cfg [] headsRefSpec]
      @ (if cfg_IncludeTags cfg then [push_command cfg [] tagsRefSpec] else [])"
  by (auto simp: BuildGitCommands_def clone_command_def push_command_def Let_def split: if_splits)

text \<open>Only the clone is given the source's credentials, unless the target's URL is the word for
  which \<open>authForCommand\<close> looks among the arguments.\<close>

lemma auth_of_command:
  assumes "BuildGitCommands cfg = Inr commands" and "args \<in> set commands" and "RepoPath cfg = []"
  shows "authForCommand cfg' args
    = (if args = clone_command cfg \<or> TargetURL cfg = ''clone'' then SourceAuth cfg' else TargetAuth cfg')"
proof -
  have "''clone'' \<in> set (push_command cfg options refs) \<longleftrightarrow> TargetURL cfg = ''clone''"
    if "options \<in> {[], [''--prune'']}" "refs \<in> {forceHeadsRefSpec, forceTagsRefSpec, headsRefSpec, tagsRefSpec}"
    for options refs
    using that by (auto simp: push_command_def mirrorRepoPath_default [OF assms(3)] ref_spec_defs)
  moreover have "push_command cfg options refs \<noteq> clone_command cfg" for options refs
    by (simp add: push_command_def clone_command_def)
  moreover have "''clone'' \<in> set (clone_command cfg)" by (simp add: clone_command_def)
  ultimately show ?thesis
    using commands_cases [OF assms(1)] assms(2) by (auto simp: authForCommand_def split: if_splits)
qed

lemma rule_credentials:
  assumes "command_rule P cfg args env" and "RepoPath cfg = []"
  obtains cfg' where "prepared P cfg cfg'" and "validated P cfg'"
    and "env = Environ (pf_env P) @ auth_env P cfg'
      (if args = clone_command cfg \<or> TargetURL cfg = ''clone'' then SourceAuth cfg' else TargetAuth cfg')"
proof -
  from assms(1) obtain cfg' commands where "prepared P cfg cfg'" "validated P cfg'"
      "BuildGitCommands cfg = Inr commands" "args \<in> set commands"
      "env = git_environment P cfg' (authForCommand cfg' args)"
    unfolding command_rule_def by blast
  with auth_of_command [OF this(3,4) assms(2), of cfg'] show ?thesis
    by (intro that) (simp_all only: git_environment_def)
qed

text \<open>C15. Every git command gets the credentials of its endpoint and no others. In a run whose clone has
  the default path, as with \<open>ConfigFromEnv\<close>, a command that runs
  gets the runner's environment with the variables of the source for the clone and of the
  target for a push, and so does the listing of the target's tags, with the target's; both
  endpoints were then prepared and validated. The listing of the tags in the clone gets none.
  Here \<open>auth_env\<close> is an SSH command with the copied key, or the askpass script with the user and
  the password. The exception is a target whose URL is the word \<open>clone\<close>: since \<open>authForCommand\<close>
  looks for that word among all the arguments, every command then gets the source's.\<close>

theorem credentials_by_endpoint:
  assumes "RepoPath cfg = []" and "performs (Run P cfg) (h @ e # es) = Some p"
  shows "case e of
      DidRun args env r \<Rightarrow> (\<exists>cfg'. prepared P cfg cfg' \<and> validated P cfg' \<and> env = Environ (pf_env P)
        @ auth_env P cfg' (if args = clone_command cfg \<or> TargetURL cfg = ''clone'' then SourceAuth cfg'
            else TargetAuth cfg'))
    | DidOutput args (Some env) r \<Rightarrow> (\<exists>url. args = [''git'', ''ls-remote'', ''--tags'', ''--refs'', url])
        \<and> (\<exists>cfg'. prepared P cfg cfg' \<and> validated P cfg' \<and> env = Environ (pf_env P)
          @ auth_env P cfg' (if TargetURL cfg = ''clone'' then SourceAuth cfg' else TargetAuth cfg'))
    | DidOutput args None r \<Rightarrow> (\<exists>repo. args = [''git'', ''-C'', repo, ''for-each-ref'', ''--format=%(refname)'',
        ''--count=1'', ''refs/tags''])
    | _ \<Rightarrow> True"
proof (cases e)
  case (DidRun args env r)
  from run_command_rules(1) [OF assms(2) [unfolded DidRun]] assms(1) DidRun show ?thesis
    by (auto elim!: rule_credentials)
next
  case out: (DidOutput args env r)
  note rule = wpo_action [OF wpo_Run assms(2) [unfolded out]]
  show ?thesis
  proof (cases env)
    case (Some v)
    with rule obtain push url where push: "isTagWildcardPush push" "command_rule P cfg push v"
      and args: "args = [''git'', ''ls-remote'', ''--tags'', ''--refs'', url]" by (auto simp: runner_rule_def)
    have "push \<noteq> clone_command cfg" using push(1) clone_is_no_push [OF assms(1)] by blast
    with push(2) assms(1) args out Some show ?thesis by (auto elim!: rule_credentials)
  qed (use rule out in \<open>simp add: runner_rule_def\<close>)
qed simp_all

theorem credentials_by_endpoint_witness:
  "\<exists>cfg'. prepared demo_P demo_cfg cfg' \<and> validated demo_P cfg'
    \<and> ssh_env demo_P (with_copies demo_P demo_cfg) demo_heads = Environ (pf_env demo_P)
      @ auth_env demo_P cfg' (TargetAuth cfg')"
  using credentials_by_endpoint [OF _ demo_runs_heads] demo_heads_no_clone by (simp add: demo_cfg_def)

lemma prepared_auth_type: "prepared_auth dir a a' \<Longrightarrow> Type a' = Type a"
  unfolding prepared_auth_def
  by (cases "Type a = AuthTypeSSH"; cases "Type a = AuthTypeGitHubApp") (simp_all, (elim exE conjE, simp)+)

lemma prepared_types:
  assumes "prepared P cfg cfg'"
  shows "Type (SourceAuth cfg') = Type (SourceAuth cfg)" and "Type (TargetAuth cfg') = Type (TargetAuth cfg)"
    and "SourceURL cfg' = SourceURL cfg" and "TargetURL cfg' = TargetURL cfg"
proof -
  from assms obtain a b where "cfg' = cfg\<lparr>SourceAuth := a, TargetAuth := b\<rparr>"
      "Type a = Type (SourceAuth cfg)" "Type b = Type (TargetAuth cfg)"
    unfolding prepared_def using prepared_auth_type by blast
  then show "Type (SourceAuth cfg') = Type (SourceAuth cfg)" "Type (TargetAuth cfg') = Type (TargetAuth cfg)"
      "SourceURL cfg' = SourceURL cfg" "TargetURL cfg' = TargetURL cfg" by simp_all
qed

lemma validated_https:
  "validateEndpointAuth ip name url a = None \<Longrightarrow> Type a \<noteq> AuthTypeSSH \<Longrightarrow>
    isHTTPSURL ip url \<and> Username a \<noteq> [] \<and> Password a \<noteq> []"
  by (simp add: validateEndpointAuth_def split: if_split_asm)

lemma run_needs_https:
  "performs (Run P cfg) (h @ DidRun args env r # es) = Some p \<Longrightarrow>
    Type (SourceAuth cfg) = AuthTypeSSH \<or> isHTTPSURL (pf_is_ipv6 P) (SourceURL cfg)"
  "performs (Run P cfg) (h @ DidRun args env r # es) = Some p \<Longrightarrow>
    Type (TargetAuth cfg) = AuthTypeSSH \<or> isHTTPSURL (pf_is_ipv6 P) (TargetURL cfg)"
  using run_command_rules(1) [of P cfg h args env r es p] prepared_types [of P cfg] validated_https
  unfolding command_rule_def validated_def by metis+

text \<open>C20. A password is used only over HTTPS: no git command runs, for either endpoint, unless each
  endpoint whose credentials are not an SSH key, that is a user with a password or the token of
  a GitHub App, has an HTTPS URL.\<close>

theorem passwords_need_https:
  assumes "performs (Run P cfg) (h @ DidRun args env r # es) = Some p"
  shows "(Type (SourceAuth cfg) \<noteq> AuthTypeSSH \<longrightarrow> isHTTPSURL (pf_is_ipv6 P) (SourceURL cfg))
    \<and> (Type (TargetAuth cfg) \<noteq> AuthTypeSSH \<longrightarrow> isHTTPSURL (pf_is_ipv6 P) (TargetURL cfg))"
  using run_needs_https [OF assms] by blast

definition password_auth :: EndpointAuth where
  "password_auth = (ssh_key_auth [])\<lparr>Type := AuthTypeBasic, Username := ''u'', Password := ''p''\<rparr>"

definition demo_https :: Config where
  "demo_https = demo_cfg\<lparr>SourceURL := ''https://s/r'', TargetURL := ''https://t/r'',
     SourceAuth := password_auth, TargetAuth := password_auth\<rparr>"

lemma demo_https_validated: "validated demo_P demo_https"
  by (simp add: validated_def validateEndpointAuth_def demo_https_def password_auth_def ssh_key_auth_def demo_P_def
      auth_type_defs isHTTPSURL_def url_eval)

lemma demo_https_runs:
  "performs (Run demo_P demo_https) ((ask_actions (preparedCredentialDir demo_P)
      @ [DidLog (''running '' @ safeCommand (pf_is_ipv6 demo_P) (clone_command demo_https))])
    @ DidRun (clone_command demo_https) (ssh_env demo_P demo_https (clone_command demo_https)) None # [])
    = Some (run_commands demo_P demo_https [push_command demo_https [''--prune''] forceHeadsRefSpec,
      push_command demo_https [''--prune''] forceTagsRefSpec])"
proof -
  have basic: "Type (SourceAuth demo_https) = AuthTypeBasic" "Type (TargetAuth demo_https) = AuthTypeBasic"
      "Type (authForCommand demo_https args) = AuthTypeBasic" for args
    by (simp_all add: demo_https_def password_auth_def authForCommand_def)
  have "BuildGitCommands demo_https = Inr [clone_command demo_https,
      push_command demo_https [''--prune''] forceHeadsRefSpec, push_command demo_https [''--prune''] forceTagsRefSpec]"
    by code_simp
  note start = Run_basic [OF basic(1,2) demo_https_validated this]
  have "\<not> isTagWildcardPush (clone_command demo_https)"
    by (rule clone_is_no_push) (simp add: demo_https_def demo_cfg_def)
  from run_plain_basic [OF basic(3) this, of demo_P _ "[]"] start show ?thesis
    by (simp add: ran_actions_def)
qed

theorem passwords_need_https_witness:
  "Type (SourceAuth demo_https) \<noteq> AuthTypeSSH \<and> isHTTPSURL (pf_is_ipv6 demo_P) (SourceURL demo_https)
    \<and> isHTTPSURL (pf_is_ipv6 demo_P) (TargetURL demo_https)"
proof -
  have "Type (SourceAuth demo_https) \<noteq> AuthTypeSSH" "Type (TargetAuth demo_https) \<noteq> AuthTypeSSH"
    by (simp_all add: demo_https_def password_auth_def auth_type_defs)
  with passwords_need_https [OF demo_https_runs] show ?thesis by blast
qed

text \<open>C21. Credentials are stored privately. The runner writes only the two key copies and the
  askpass script, each under a temporary name with a mode that admits nobody else; it then
  takes the owner's write permission away, and a file gets its name only by a rename right
  after that succeeded.\<close>

theorem credentials_written_privately:
  assumes "performs (Run P cfg) (h @ e # es) = Some p"
  shows "case e of
      DidWriteFile path data mode r \<Rightarrow> (path, mode) \<in> private_files P
    | DidMkdirAll path mode r \<Rightarrow> mode = mode_0700
    | DidChmod path mode r \<Rightarrow> closed_modes (private_files P) path mode
    | DidRename path path' r \<Rightarrow> path = path' @ ''.tmp'' \<and> (\<exists>mode. h \<noteq> [] \<and> last h = DidChmod path mode None)
    | _ \<Rightarrow> True"
  using wpo_action [OF wpo_Run assms]
  by (cases e) (auto simp only: runner_rule_def action.case)

theorem credentials_written_privately_witness:
  "(key_copy demo_P ''source'' @ ''.tmp'', mode_0600) \<in> private_files demo_P"
proof -
  have "performs (Run demo_P demo_cfg) (take 3 demo_start
      @ DidWriteFile (key_copy demo_P ''source'' @ ''.tmp'') ''key-1'' mode_0600 None # drop 4 demo_start)
    = Some (run_commands demo_P (with_copies demo_P demo_cfg) [demo_clone, demo_heads, demo_tags])"
    using demo_begins [of "[]"] by (simp add: demo_start_def prepare_actions_def copy_actions_def)
  from credentials_written_privately [OF this] show ?thesis by simp
qed

text \<open>C23. A push of tags is left out only when it would do nothing: the runner says it skips a
  command only for a push of all tags, after git listed no tag in the clone and, in the call
  just before, no tag at the URL the push goes to.\<close>

theorem tag_push_skipped_only_if_empty:
  assumes "performs (Run P cfg) (h @ DidLog l # es) = Some p" and "HasPrefix l ''skipping ''"
  shows "\<exists>args. l = ''skipping '' @ safeCommand (pf_is_ipv6 P) args @ '': source and target have no tags''
    \<and> skip_seen h args"
proof -
  have "l \<noteq> ''running '' @ s" for s using assms(2) by (auto simp: HasPrefix_def)
  with wpo_action [OF wpo_Run assms(1)] show ?thesis by (auto simp only: runner_rule_def action.case)
qed

theorem tag_push_skipped_only_if_empty_witness:
  "\<exists>args. ''skipping '' @ safeCommand (pf_is_ipv6 demo_P) demo_tags @ '': source and target have no tags''
      = ''skipping '' @ safeCommand (pf_is_ipv6 demo_P) args @ '': source and target have no tags''
    \<and> skip_seen (demo_start @ demo_ran demo_clone @ demo_ran demo_heads @ demo_skip) args"
proof (rule tag_push_skipped_only_if_empty)
  show "performs (Run demo_P demo_cfg) ((demo_start @ demo_ran demo_clone @ demo_ran demo_heads @ demo_skip)
      @ DidLog (''skipping '' @ safeCommand (pf_is_ipv6 demo_P) demo_tags @ '': source and target have no tags'') # [])
    = Some (Done None)"
    using demo_skipped unfolding demo_skip_log_def append_assoc .
qed (simp add: HasPrefix_def)

subsection \<open>What is logged\<close>

lemma redact_with_user:
  "url_Parse ip s = Some u \<Longrightarrow> url_User u = Some w \<Longrightarrow>
    redactURLUserinfo ip s = url_String (with_user redacted_user u)"
  by (simp add: redactURLUserinfo_def with_user_def)

lemma ascii_mentions_key: "ascii s \<Longrightarrow> mentions_key s = sublist [107, 101, 121] (map (\<lambda>c. lower_rune (byte c)) s)"
  by (simp add: mentions_key_def ToLower_runes_def runes_ascii byte_def comp_def)

lemmas key_eval = ascii_mentions_key ascii_def lower_rune_def byte_def sublist_Cons_right

text \<open>C39. A logged command does not depend on the credentials in a URL. Take two HTTPS URLs that
  differ only in their user information, each well formed (a user, or a user with a password),
  whose rest parses, and that both or neither contain \<open>key\<close>, for which the whole argument is
  redacted: a command with the one and the same command with the other are logged as the same
  text.\<close>

theorem redaction_hides_userinfo:
  fixes ui ui' rest :: string
  defines "url \<equiv> ''https://'' @ ui @ ''@'' @ rest" and "url' \<equiv> ''https://'' @ ui' @ ''@'' @ rest"
  assumes "parse_userinfo ui = Some w" and "parse_userinfo ui' = Some w'"
    and "CHR ''@'' \<notin> set (takeWhile (\<lambda>c. c \<noteq> CHR ''/'') rest)"
    and "url_Parse ip (''https://'' @ rest) = Some u"
    and "mentions_key url = mentions_key url'"
  shows "safeCommand ip (before @ url # after) = safeCommand ip (before @ url' # after)"
proof -
  have logged: "redactURLUserinfo ip (''https://'' @ ui @ CHR ''@'' # rest) = url_String (with_user redacted_user u)"
    if "parse_userinfo ui = Some w" for ui w
    using redact_with_user [of ip "''https://'' @ ui @ CHR ''@'' # rest" "with_user w u" w]
      parse_with_user [OF that assms(5), of ip] assms(6) by (simp add: with_user_def)
  from logged [OF assms(3)] logged [OF assms(4)]
  have "redactURLUserinfo ip url = redactURLUserinfo ip url'" by (simp add: url_def url'_def)
  then show ?thesis by (simp only: safeCommand_def list.map map_append assms(7))
qed

theorem redaction_hides_userinfo_witness:
  "safeCommand (\<lambda>_. False) ([''git'', ''clone'', ''--bare''] @ (''https://'' @ ''bob:secret'' @ ''@'' @ ''h/r'') # [''/tmp/r''])
    = safeCommand (\<lambda>_. False) ([''git'', ''clone'', ''--bare''] @ (''https://'' @ ''eve'' @ ''@'' @ ''h/r'') # [''/tmp/r''])"
proof -
  have "\<exists>w. parse_userinfo ''bob:secret'' = Some w" "\<exists>w. parse_userinfo ''eve'' = Some w"
      "\<exists>u. url_Parse (\<lambda>_. False) (''https://'' @ ''h/r'') = Some u"
    by (simp_all add: url_eval)
  then obtain w w' u where "parse_userinfo ''bob:secret'' = Some w" "parse_userinfo ''eve'' = Some w'"
      "url_Parse (\<lambda>_. False) (''https://'' @ ''h/r'') = Some u" by blast
  from redaction_hides_userinfo [OF this(1,2) _ this(3), of "[''git'', ''clone'', ''--bare'']" "[''/tmp/r'']"]
  show ?thesis by (simp add: key_eval)
qed

definition leaky_url :: string where
  "leaky_url = ''https://u:5%of@h/r''"

definition demo_leaky :: Config where
  "demo_leaky = demo_cfg\<lparr>SourceURL := leaky_url\<rparr>"

lemma leaky_arguments:
  "\<not> mentions_key ''git''" "\<not> mentions_key ''clone''" "\<not> mentions_key ''--bare''"
  "\<not> mentions_key leaky_url" "\<not> mentions_key defaultMirrorRepoPath"
  by (simp_all add: key_eval leaky_url_def defaultMirrorRepoPath_def)

lemma no_userinfo: "url_Parse ip s = None \<or> (\<exists>u. url_Parse ip s = Some u \<and> url_User u = None) \<Longrightarrow> redactURLUserinfo ip s = s"
  by (auto simp: redactURLUserinfo_def)

lemma leaky_redaction:
  "redactURLUserinfo ip ''git'' = ''git''" "redactURLUserinfo ip ''clone'' = ''clone''"
  "redactURLUserinfo ip ''--bare'' = ''--bare''" "redactURLUserinfo ip leaky_url = leaky_url"
  "redactURLUserinfo ip defaultMirrorRepoPath = defaultMirrorRepoPath"
  by (rule no_userinfo; simp add: url_eval leaky_url_def defaultMirrorRepoPath_def)+

lemma leaky_args:
  "url_Parse ip (SourceURL demo_leaky) = None" "\<not> mentions_key (SourceURL demo_leaky)"
  using leaky_arguments(4) by (simp_all add: demo_leaky_def leaky_url_def url_eval)

lemma constant_arguments:
  "\<not> mentions_key ''git''" "\<not> mentions_key ''clone''" "\<not> mentions_key ''--bare''"
  "redactURLUserinfo ip ''git'' = ''git''" "redactURLUserinfo ip ''clone'' = ''clone''"
  "redactURLUserinfo ip ''--bare'' = ''--bare''"
  using leaky_arguments leaky_redaction by simp_all

text \<open>C40. The log can leak a password. A source URL that Go does not parse, for example for a percent
  sign in the password that starts no escape, is logged as it is before the clone, unless it
  contains \<open>key\<close>, for which the whole argument is redacted. Such a run gets this far only with
  an SSH key for the source, since the other kinds of credentials need a URL that parses.\<close>

theorem unparsable_url_logged:
  assumes "url_Parse (pf_is_ipv6 P) (SourceURL cfg) = None" and "\<not> mentions_key (SourceURL cfg)"
    and "performs (Run P cfg) (h @ DidRun (clone_command cfg) env r # es) = Some p"
  shows "Type (SourceAuth cfg) = AuthTypeSSH
    \<and> (\<exists>repo. last h = DidLog (''running git clone --bare '' @ SourceURL cfg @ '' '' @ repo))"
proof -
  have "redactURLUserinfo (pf_is_ipv6 P) (SourceURL cfg) = SourceURL cfg" using assms(1) by (simp add: no_userinfo)
  then have "\<exists>repo. ''running '' @ safeCommand (pf_is_ipv6 P) (clone_command cfg)
      = ''running git clone --bare '' @ SourceURL cfg @ '' '' @ repo"
    by (simp add: safeCommand_def clone_command_def constant_arguments assms(2))
  with wpo_action [OF wpo_Run assms(3)]
  have log: "\<exists>repo. last h = DidLog (''running git clone --bare '' @ SourceURL cfg @ '' '' @ repo)"
    by (auto simp: runner_rule_def)
  have "\<not> isHTTPSURL (pf_is_ipv6 P) (SourceURL cfg)" using assms(1) by (simp add: isHTTPSURL_def)
  with run_needs_https [OF assms(3)] log show ?thesis by blast
qed

theorem unparsable_url_logged_witness:
  "performs (Run demo_P demo_leaky) (prepare_actions demo_P demo_leaky ''key-1'' ''key-2''
      @ ran_actions demo_P (with_copies demo_P demo_leaky) (clone_command demo_leaky)) \<noteq> None
    \<and> (\<exists>repo. DidLog (''running '' @ safeCommand (pf_is_ipv6 demo_P) (clone_command demo_leaky))
      = DidLog (''running git clone --bare '' @ ''https://u:5%of@h/r'' @ '' '' @ repo))"
proof -
  have ssh: "uses_ssh (SourceAuth demo_leaky)" "uses_ssh (TargetAuth demo_leaky)"
      "Type (authForCommand (with_copies demo_P demo_leaky) args) = AuthTypeSSH" for args
    by (simp_all add: demo_leaky_def uses_ssh_def demo_cfg_def ssh_key_auth_def authForCommand_def with_copies_def)
  obtain pushes where "BuildGitCommands demo_leaky = Inr (clone_command demo_leaky # pushes)"
    using exact_commands [of demo_leaky] by (simp add: demo_leaky_def demo_cfg_def leaky_url_def)
  note start = Run_ssh [OF ssh(1,2) this, of demo_P "''key-1''" "''key-2''"]
  have "\<not> isTagWildcardPush (clone_command demo_leaky)"
    by (rule clone_is_no_push) (simp add: demo_leaky_def demo_cfg_def)
  from run_plain [OF ssh(3) this, of demo_P pushes "[]"] start
  have run: "performs (Run demo_P demo_leaky) ((prepare_actions demo_P demo_leaky ''key-1'' ''key-2''
      @ [DidLog (''running '' @ safeCommand (pf_is_ipv6 demo_P) (clone_command demo_leaky))])
      @ DidRun (clone_command demo_leaky)
          (ssh_env demo_P (with_copies demo_P demo_leaky) (clone_command demo_leaky)) None # [])
    = Some (run_commands demo_P (with_copies demo_P demo_leaky) pushes)"
    by (simp add: ran_actions_def)
  have url: "SourceURL demo_leaky = ''https://u:5%of@h/r''" by (simp add: demo_leaky_def leaky_url_def)
  from unparsable_url_logged [OF leaky_args run] run show ?thesis
    unfolding url by (simp add: ran_actions_def)
qed

end
