(* ===== verification/Job_Run.thy ===== *)
theory Job_Run
  imports Env_Contract Sync_Properties
begin

text \<open>
  The run of a Job: what the operator puts into the Job and what the sync runner does with it,
  put together. The git commands a GitMirror stands for are written out from its
  specification; the property says that a Job's container that ends with status 0 has run
  exactly them.
\<close>

definition mirror_pushes :: "string \<Rightarrow> bool \<Rightarrow> string \<Rightarrow> (string list) list" where
  "mirror_pushes mode tags target = map (\<lambda>args. [''git'', ''-C'', ''/tmp/repo.git'', ''push''] @ args)
     (if mode = ''additive'' then [target, ''refs/heads/*:refs/heads/*'']
        # (if tags then [[target, ''refs/tags/*:refs/tags/*'']] else [])
      else [[''--prune'', target, ''+refs/heads/*:refs/heads/*''], [''--prune'', target, ''+refs/tags/*:refs/tags/*'']])"

definition mirror_commands :: "GitMirror \<Rightarrow> (string list) list" where
  "mirror_commands m =
     [''git'', ''clone'', ''--bare'', URL (Source (Spec m)), ''/tmp/repo.git'']
     # mirror_pushes (Mode (Mirror (Spec m))) (IncludeTags (Mirror (Spec m))) (URL (Target (Spec m)))"

lemma built_commands:
  assumes "BuildGitCommands (runner_config secrets m) = Inr commands"
  shows "commands = mirror_commands m"
  using assms
  by (auto simp: BuildGitCommands_def runner_config_def mirror_commands_def mirror_pushes_def or_default_def
      mirrorRepoPath_def defaultMirrorRepoPath_def ref_spec_defs Let_def split: if_splits)

text \<open>C12. A Job whose container ends with status 0 has mirrored. For the Job the operator builds from
  a GitMirror whose URLs have no dollar sign, and every environment in which Kubernetes runs its
  container, a run of the sync runner that exits with 0 has cloned the source URL of the
  GitMirror's specification and pushed to its target URL as its mode says, every command in this
  order and with success. Only a push of all tags can have been left out, and only when the run
  listed the tags of the clone and of the target and both listings were empty. This is what a
  completed Job means to the reconciler, which then records the revision as mirrored.\<close>

theorem job_run_mirrors:
  assumes "BuildSyncJob set_ref (Some m) opts = Inr sj" and "only_sets_owner set_ref"
    and "expands_references expand" and "literal_spec m"
    and "container_env expand services secrets (ctr_Env (container (sync_Job sj))) (pf_env P)"
    and "performs (sync_main P) es = Some (Done 0)"
  shows "\<exists>past. commands_run es = succeeded past \<and> all_but (no_tags_found es) (mirror_commands m) past"
proof -
  have cfg: "ConfigFromEnv (pf_env P) = runner_config secrets m"
    using assms(1-3,5,4) by (rule config_of_job_env)
  have "wpo (runner_rule P (runner_config secrets m)) (sync_main P)
      (\<lambda>status h. status = 0 \<longrightarrow> mirrored (runner_config secrets m) h) []"
    unfolding sync_main_def cfg wpo_bindo by (rule wpo_mono [OF wpo_Run]) auto
  from wpo_Done [OF this assms(6)] obtain commands past
    where "BuildGitCommands (runner_config secrets m) = Inr commands" "commands_run es = succeeded past"
      "all_but (no_tags_found es) commands past"
    by (auto simp: mirrored_def)
  with built_commands show ?thesis by blast
qed

text \<open>The container of the demo Job: SSH keys, the clone, and both pushes.\<close>

definition demo_platform :: Platform where
  "demo_platform = demo_P\<lparr>pf_env := demo_environ\<rparr>"

definition demo_run_cfg :: Config where
  "demo_run_cfg = runner_config demo_secrets demo_m"

definition demo_run_clone :: "string list" where
  "demo_run_clone = [''git'', ''clone'', ''--bare'', ''ssh://git@src/app'', ''/tmp/repo.git'']"

definition demo_run_heads :: "string list" where
  "demo_run_heads = [''git'', ''-C'', ''/tmp/repo.git'', ''push'', ''--prune'', ''ssh://git@dst/app'',
     ''+refs/heads/*:refs/heads/*'']"

definition demo_run_tags :: "string list" where
  "demo_run_tags = [''git'', ''-C'', ''/tmp/repo.git'', ''push'', ''--prune'', ''ssh://git@dst/app'',
     ''+refs/tags/*:refs/tags/*'']"

definition demo_run :: "action list" where
  "demo_run = prepare_actions demo_platform demo_run_cfg ''key-1'' ''key-2''
     @ ran_actions demo_platform (with_copies demo_platform demo_run_cfg) demo_run_clone
     @ ran_actions demo_platform (with_copies demo_platform demo_run_cfg) demo_run_heads
     @ local_tags ''/tmp/repo.git'' ''refs/tags/v1''
       # ran_actions demo_platform (with_copies demo_platform demo_run_cfg) demo_run_tags"

lemma demo_run_ssh:
  "uses_ssh (SourceAuth demo_run_cfg)" "uses_ssh (TargetAuth demo_run_cfg)"
  "Type (authForCommand (with_copies demo_platform demo_run_cfg) args) = AuthTypeSSH"
  by (simp_all add: demo_run_cfg_def runner_config_def runner_auth_def uses_ssh_def with_copies_def
      authForCommand_def demo_mirror_def demo_spec_def demo_endpoint_def endpoint_auth_type_def Let_def auth_type_defs)

lemma demo_run_pushes:
  "\<not> isTagWildcardPush demo_run_clone" "\<not> isTagWildcardPush demo_run_heads" "isTagWildcardPush demo_run_tags"
  "commandRepoPath demo_run_tags = Some ''/tmp/repo.git''"
  by code_simp+

lemma demo_run_commands: "BuildGitCommands demo_run_cfg = Inr [demo_run_clone, demo_run_heads, demo_run_tags]"
  by (simp add: BuildGitCommands_def demo_run_cfg_def runner_config_def or_default_def demo_mirror_def demo_spec_def
      demo_endpoint_def mirrorRepoPath_def defaultMirrorRepoPath_def ref_spec_defs demo_run_clone_def demo_run_heads_def
      demo_run_tags_def Let_def)

lemma demo_run_ends: "performs (sync_main demo_platform) demo_run = Some (Done 0)"
proof -
  have "ascii ''refs/tags/v1''" by code_simp
  then have "not_blank ''refs/tags/v1''"
    by (simp add: not_blank_def runes_ascii unicode_space_def byte_def)
  note steps = Run_ssh [OF demo_run_ssh(1,2) demo_run_commands]
    run_plain [OF demo_run_ssh(3) demo_run_pushes(1)] run_plain [OF demo_run_ssh(3) demo_run_pushes(2)]
    run_tags [OF demo_run_ssh(3) demo_run_pushes(3,4) this, where es = "[]", unfolded append_Nil2]
  have "performs (Run demo_platform demo_run_cfg) demo_run = Some (Done None)"
    unfolding demo_run_def by (simp only: steps) simp
  then have run: "performs (bindo (Run demo_platform demo_run_cfg) f) demo_run = Some (f None)" for f :: "error option \<Rightarrow> nat os"
    by (simp add: performs_bindo)
  have "ConfigFromEnv (pf_env demo_platform) = demo_run_cfg"
    using config_of_job_env [OF demo_build_opts demo_owner_only sample_expands] demo_container_env demo_literal
    by (simp add: demo_run_cfg_def demo_platform_def)
  then show ?thesis by (simp add: sync_main_def run)
qed

theorem job_run_mirrors_witness:
  "\<exists>past. commands_run demo_run = succeeded past \<and> all_but (no_tags_found demo_run) (mirror_commands demo_m) past"
  by (rule job_run_mirrors [OF demo_build_opts demo_owner_only sample_expands demo_literal _ demo_run_ends])
    (use demo_container_env in \<open>simp add: demo_platform_def\<close>)

end
