(* ===== verification/Policies.thy ===== *)
theory Policies
  imports Reconciler
begin

text \<open>
  What the reconciler may do, whatever it is answered. A policy says which call is allowed
  after which events. The locale \<open>reconcile_policy\<close> lists what a policy must allow for
  \<open>Reconcile\<close> to respect it: the reads, a new Lease, a Lease taken over safely, a Lease of the
  own Job released, a Job built from a GitMirror just read and created right after its Lease
  was taken, a status patch of the copy just read. \<open>reconcile_respects\<close> is proved once; the
  interpretations are the policies the properties are about.
\<close>

subsection \<open>Facts about the events so far\<close>

definition mirror_read :: "ObjectKey \<Rightarrow> event list \<Rightarrow> GitMirror \<Rightarrow> bool" where
  "mirror_read req h m = (EvGetMirror req (Inr m) \<in> set h)"

definition just_did :: "event list \<Rightarrow> event \<Rightarrow> bool" where
  "just_did h e = (h \<noteq> [] \<and> last h = e)"

lemma just_did_append [simp]: "just_did (h @ x # xs) e \<longleftrightarrow> last (x # xs) = e"
  by (simp add: just_did_def)

lemma mirror_read_append [simp]: "mirror_read req h m \<Longrightarrow> mirror_read req (h @ xs) m"
  by (simp add: mirror_read_def)

lemma mirror_read_mono: "mirror_read req h m \<Longrightarrow> set h \<subseteq> set h' \<Longrightarrow> mirror_read req h' m"
  by (auto simp: mirror_read_def)

text \<open>The last call took the Lease of \<open>m\<close>'s repository for \<open>holder\<close>, and it was granted.\<close>

definition lease_taken :: "GitMirror \<Rightarrow> string \<Rightarrow> event list \<Rightarrow> bool" where
  "lease_taken m holder h =
     ((\<exists>now. just_did h (EvCreateLease (new_lease m holder now) None))
      \<or> (\<exists>existing now. just_did h (EvUpdateLease (take_over existing holder now) None)
           \<and> EvGetLease (lease_key m) (Inr existing) \<in> set h))"

text \<open>The Lease just read may be taken over: nobody holds it, \<open>holder\<close> itself does, or the Job
  of its holder was just looked up and is gone or not active for the generation of \<open>m\<close>.\<close>

definition holder_idle :: "GitMirror \<Rightarrow> error + BatchJob \<Rightarrow> bool" where
  "holder_idle m r = (case r of
     Inl err \<Rightarrow> IsNotFound err
   | Inr job \<Rightarrow> \<not> (JobActive (Some job) \<and> jobGenerationMatches (Some job) (gm_Generation m)))"

definition may_take_over :: "GitMirror \<Rightarrow> Lease \<Rightarrow> string \<Rightarrow> event list \<Rightarrow> bool" where
  "may_take_over m existing holder h =
     ((just_did h (EvGetLease (lease_key m) (Inr existing))
        \<and> (current_holder existing = [] \<or> current_holder existing = holder))
      \<or> (\<exists>r. just_did h (EvGetJob \<lparr>key_Namespace = gm_Namespace m, key_Name = current_holder existing\<rparr> r)
           \<and> holder_idle m r))"

text \<open>A Job of the generation read, from the list of the Jobs labelled with the GitMirror.\<close>

definition job_listed :: "ObjectKey \<Rightarrow> event list \<Rightarrow> BatchJob \<Rightarrow> bool" where
  "job_listed key h job = (\<exists>m items. mirror_read key h m
     \<and> EvListJobs (gm_Namespace m) LabelGitMirror (map_get (LabelsForMirror m) LabelGitMirror) (Inr items) \<in> set h
     \<and> job \<in> set items \<and> jobGenerationMatches (Some job) (gm_Generation m))"

lemma job_listed_mono: "job_listed key h job \<Longrightarrow> set h \<subseteq> set h' \<Longrightarrow> job_listed key h' job"
  by (fastforce simp: job_listed_def mirror_read_def)

text \<open>Why a Lease held by \<open>holder\<close> may be given up: the Job of that name was seen finished, or
  its creation failed.\<close>

definition may_release :: "ObjectKey \<Rightarrow> event list \<Rightarrow> string \<Rightarrow> bool" where
  "may_release key h holder = (\<exists>job. job_Name job = holder \<and>
     (job_listed key h job \<and> JobFinished (Some job)
      \<or> (\<exists>e. EvCreateJob job (Some e) \<in> set h \<and> \<not> IsAlreadyExists e)))"

lemma may_release_finished:
  "job_listed key h job \<Longrightarrow> JobFinished (Some job) \<Longrightarrow> may_release key h (job_Name job)"
  by (auto simp: may_release_def)

lemma may_release_failed:
  "EvCreateJob job (Some e) \<in> set h \<Longrightarrow> \<not> IsAlreadyExists e \<Longrightarrow> may_release key h (job_Name job)"
  by (auto simp: may_release_def)

lemma may_release_mono: "may_release key h holder \<Longrightarrow> set h \<subseteq> set h' \<Longrightarrow> may_release key h' holder"
  unfolding may_release_def using job_listed_mono [of key h _ h'] by blast

text \<open>Everything but the status is left alone.\<close>

definition status_only :: "GitMirror \<Rightarrow> GitMirror \<Rightarrow> bool" where
  "status_only old new = (new = old\<lparr>Status := Status new\<rparr>)"

lemma status_only_refl [simp]: "status_only m m"
  by (simp add: status_only_def)

lemma status_only_trans: "status_only a b \<Longrightarrow> status_only b c \<Longrightarrow> status_only a c"
  unfolding status_only_def by (metis GitMirror.surjective GitMirror.update_convs(6))

lemma status_only_update [simp]: "status_only m (m'\<lparr>Status := st\<rparr>) = status_only m m'"
  by (cases m; cases m') (auto simp: status_only_def)

lemma status_only_fields:
  "status_only a b \<Longrightarrow> Spec b = Spec a \<and> gm_Name b = gm_Name a \<and> gm_Namespace b = gm_Namespace a
     \<and> gm_Generation b = gm_Generation a \<and> gm_UID b = gm_UID a"
  unfolding status_only_def by (metis GitMirror.select_convs(1-5) GitMirror.surjective GitMirror.update_convs(6))

lemma status_only_setConditionForGeneration [simp]:
  "status_only m (setConditionForGeneration X m' t g s r msg) = status_only m m'"
  by (simp add: setConditionForGeneration_def)

lemma status_only_setCondition [simp]:
  "status_only m (setCondition X m' t s r msg) = status_only m m'"
  by (simp add: setCondition_def)

lemma status_only_record_outcome [simp]:
  "status_only m (record_outcome X m' job now g) = status_only m m'"
  by (simp add: record_outcome_def Let_def split: prod.split bool.split)

lemma status_only_completed [simp]:
  "status_only m (fst (applyCompletedJobStatus X m' job now u g)) = status_only m m'"
  by (simp add: applyCompletedJobStatus_def Let_def)

lemma status_only_record_completed [simp]:
  "status_only m (fst (record_completed X job now m' c)) = status_only m m'"
  by (simp add: record_completed_def ApplyCompletedJobStatusForGeneration_def
      ApplyCompletedJobStatus_def ApplyCompletedLegacyJobStatus_def Let_def split_beta)

lemma status_only_ApplySyncScheduled [simp]:
  "status_only m (ApplySyncScheduled X m' jobName now) = status_only m m'"
  by (simp add: ApplySyncScheduled_def)

lemma status_only_scheduled_for [simp]:
  "status_only m (scheduled_for X jobName g now m') = status_only m m'"
  by (simp add: scheduled_for_def ApplySyncScheduledForGeneration_def)

lemma status_only_schedule_if_generation [simp]:
  "status_only m (schedule_if_generation X jobName g now m') = status_only m m'"
  by (simp add: schedule_if_generation_def)

lemma status_only_record_fallback [simp]:
  "status_only m (record_fallback X jobName g now active m') = status_only m m'"
  by (simp add: record_fallback_def ApplyWebhookState_def Let_def)

subsection \<open>Policies for the locked creation of a Job\<close>

text \<open>A Job that \<open>createLockedSyncJob\<close> may ask for: built from \<open>m\<close>, with a name, right after
  the Lease was taken for that name.\<close>

definition built_from ::
  "External \<Rightarrow> GitMirrorReconciler \<Rightarrow> GitMirror \<Rightarrow> string \<Rightarrow> string \<Rightarrow> BatchJob \<Rightarrow> bool" where
  "built_from X R m triggerID revision job =
     (BuildSyncJob (ext_SetControllerReference X) (Some m) (sync_options R triggerID revision)
        = Inr \<lparr>sync_Job = job\<rparr> \<and> job_Name job \<noteq> [])"

text \<open>The Job \<open>jobName\<close>, built from \<open>m\<close>, was asked for, and it was created or was already there.\<close>

definition job_secured ::
  "External \<Rightarrow> GitMirrorReconciler \<Rightarrow> GitMirror \<Rightarrow> string \<Rightarrow> string \<Rightarrow> string \<Rightarrow> event list \<Rightarrow> bool" where
  "job_secured X R m triggerID revision jobName h =
     (\<exists>job r. built_from X R m triggerID revision job \<and> job_Name job = jobName
        \<and> EvCreateJob job r \<in> set h \<and> (\<forall>e. r = Some e \<longrightarrow> IsAlreadyExists e))"

lemma job_secured_None:
  "built_from X R m t v job \<Longrightarrow> EvCreateJob job None \<in> set h \<Longrightarrow> job_secured X R m t v (job_Name job) h"
  by (auto simp: job_secured_def)

lemma job_secured_exists:
  "built_from X R m t v job \<Longrightarrow> EvCreateJob job (Some e) \<in> set h \<Longrightarrow> IsAlreadyExists e
     \<Longrightarrow> job_secured X R m t v (job_Name job) h"
  by (auto simp: job_secured_def)

lemma job_secured_mono:
  "job_secured X R m t v jobName h \<Longrightarrow> set h \<subseteq> set h' \<Longrightarrow> job_secured X R m t v jobName h'"
  by (auto simp: job_secured_def)

locale lease_policy =
  fixes ok :: "event list \<Rightarrow> event \<Rightarrow> bool"
    and X :: External and R :: GitMirrorReconciler and key :: ObjectKey
  assumes ok_reads:
      "ok h (EvGetMirror k r1)" "ok h (EvListJobs n l v r2)" "ok h (EvGetJob k r3)"
      "ok h (EvGetLease k r4)" "ok h (EvClockNow t)" "ok h (EvWallNow t)"
    and ok_new_lease: "mirror_read key h m \<Longrightarrow> ok h (EvCreateLease (new_lease m holder now) r)"
    and ok_take_over: "mirror_read key h m \<Longrightarrow> may_take_over m existing holder h
      \<Longrightarrow> EvGetLease (lease_key m) (Inr existing) \<in> set h
      \<Longrightarrow> ok h (EvUpdateLease (take_over existing holder now) r)"
    and ok_release: "mirror_read key h m \<Longrightarrow> just_did h (EvGetLease (lease_key m) (Inr lease))
      \<Longrightarrow> HolderIdentity lease = Some holder \<Longrightarrow> may_release key h holder \<Longrightarrow> ok h (EvDeleteLease lease r)"
    and ok_create: "mirror_read key h m \<Longrightarrow> built_from X R m triggerID revision job
      \<Longrightarrow> lease_taken m (job_Name job) h \<Longrightarrow> ok h (EvCreateJob job r)"
begin

lemmas simps = ok_reads ok_new_lease ok_take_over ok_release ok_create

lemma wps_update_lease:
  assumes "mirror_read key h m" and "may_take_over m existing holder h"
    and "EvGetLease (lease_key m) (Inr existing) \<in> set h"
  shows "wps ok (update_lease existing holder now)
    (\<lambda>(acquired, err) h'. set h \<subseteq> set h' \<and> (acquired \<longrightarrow> err = None \<and> lease_taken m holder h')) h"
  using assms by (auto simp: update_lease_def simps lease_taken_def split: option.split)

lemma wps_acquireSyncLease:
  assumes m: "mirror_read key h m"
  shows "wps ok (acquireSyncLease m holder)
    (\<lambda>(acquired, err) h'. set h \<subseteq> set h' \<and> (acquired \<longrightarrow> err = None \<and> lease_taken m holder h')) h"
proof -
  have upd: "wps ok (update_lease existing holder' now)
      (\<lambda>(acquired, err) h'. set h \<subseteq> set h' \<and> (acquired \<longrightarrow> err = None \<and> lease_taken m holder' h')) h2"
    if "set h \<subseteq> set h2" "may_take_over m existing holder' h2"
      "EvGetLease (lease_key m) (Inr existing) \<in> set h2" for existing holder' now h2
    by (rule wps_mono [OF wps_update_lease [OF mirror_read_mono [OF m that(1)] that(2,3)]])
      (use that(1) in auto)
  have created: "lease_taken m holder (h @ [EvClockNow now, EvCreateLease (new_lease m holder now) None])"
    for now by (auto simp: lease_taken_def)
  show ?thesis
    unfolding acquireSyncLease_def jobNameActiveForGeneration_def
    using m created
    by (auto simp: wps_bindp simps may_take_over_def holder_idle_def
        split: option.split sum.split intro!: upd)
qed

lemma wps_releaseSyncLease:
  assumes "mirror_read key h m" and "may_release key h holder"
  shows "wps ok (releaseSyncLease m holder) (\<lambda>_ h'. set h \<subseteq> set h') h"
proof -
  have "ok (h @ [EvGetLease (lease_key m) (Inr lease)]) (EvDeleteLease lease r)"
    if "HolderIdentity lease = Some holder" for lease r
    by (rule ok_release [OF _ _ that may_release_mono [OF assms(2)]]) (use assms(1) in auto)
  then show ?thesis
    by (auto simp: releaseSyncLease_def ok_reads split: option.split sum.split)
qed

text \<open>A result that says \<open>acquired\<close> has no error: the Job was created or was there, under the
  Lease.\<close>

lemma wps_createLockedSyncJob:
  assumes m: "mirror_read key h m"
  shows "wps ok (createLockedSyncJob X R m triggerID revision)
    (\<lambda>(acquired, jobName, err) h'. set h \<subseteq> set h' \<and>
       (acquired \<longrightarrow> err = None \<and> job_secured X R m triggerID revision jobName h')) h"
proof (cases "BuildSyncJob (ext_SetControllerReference X) (Some m) (sync_options R triggerID revision)")
  case (Inl err)
  then show ?thesis by (simp add: createLockedSyncJob_def)
next
  case (Inr sj)
  let ?job = "sync_Job sj"
  show ?thesis
  proof (cases "job_Name ?job = []")
    case True
    with Inr show ?thesis by (simp add: createLockedSyncJob_def Let_def)
  next
    case False
    have b: "built_from X R m triggerID revision ?job" using Inr False by (simp add: built_from_def)
    have create: "ok h' (EvCreateJob ?job r)" if "set h \<subseteq> set h'" "lease_taken m (job_Name ?job) h'" for h' r
      using ok_create [OF mirror_read_mono [OF m that(1)] b that(2)] .
    have rel: "wps ok (releaseSyncLease m (job_Name ?job)) Q (h2 @ [EvCreateJob ?job (Some e)])"
      if "set h \<subseteq> set h2" "\<not> IsAlreadyExists e" "\<And>a h3. set h2 \<subseteq> set h3 \<Longrightarrow> Q a h3" for e Q h2
    proof (rule wps_mono [OF wps_releaseSyncLease])
      show "mirror_read key (h2 @ [EvCreateJob ?job (Some e)]) m"
        using mirror_read_mono [OF m that(1)] by simp
      show "may_release key (h2 @ [EvCreateJob ?job (Some e)]) (job_Name ?job)"
        by (rule may_release_failed [OF _ that(2)]) simp
    qed (use that(3) in auto)
    have sec1: "job_secured X R m triggerID revision (job_Name ?job) (h' @ [EvCreateJob ?job None])" for h'
      by (rule job_secured_None [OF b]) simp
    have sec2: "job_secured X R m triggerID revision (job_Name ?job) (h' @ [EvCreateJob ?job (Some e)])"
      if "IsAlreadyExists e" for h' e
      by (rule job_secured_exists [OF b _ that]) simp
    show ?thesis
      using False Inr
      by (simp add: createLockedSyncJob_def Let_def wps_bindp)
        (rule wps_mono [OF wps_acquireSyncLease [OF m]],
          auto simp: create wps_bindp sec1 sec2 split: option.split intro!: rel)
  qed
qed

lemma wps_locked:
  assumes "mirror_read key h m"
    and "\<And>acquired jobName err h'. set h \<subseteq> set h' \<Longrightarrow>
      (acquired \<Longrightarrow> err = None \<and> job_secured X R m triggerID revision jobName h') \<Longrightarrow>
      Q (acquired, jobName, err) h'"
  shows "wps ok (createLockedSyncJob X R m triggerID revision) Q h"
  by (rule wps_mono [OF wps_createLockedSyncJob [OF assms(1)]]) (use assms(2) in \<open>auto split: prod.splits\<close>)

end

subsection \<open>Policies for Reconcile\<close>

text \<open>
  The status patches \<open>Reconcile\<close> sends: the outcome of a finished Job, or a Job recorded as
  scheduled, by the fallback's closure or the others', after it was secured; the fallback also
  records a coalesced trigger while a Job is active.
\<close>

definition reconciler_patch ::
  "External \<Rightarrow> GitMirrorReconciler \<Rightarrow> ObjectKey \<Rightarrow> event list \<Rightarrow> GitMirror \<Rightarrow> GitMirror \<Rightarrow> bool" where
  "reconciler_patch X R key h current new =
     ((\<exists>job now c. job_listed key h job \<and> JobFinished (Some job) \<and> new = fst (record_completed X job now current c))
      \<or> (\<exists>m t v jobName now. mirror_read key h m \<and> job_secured X R m t v jobName h
           \<and> (new = scheduled_for X jobName (gm_Generation m) now current
              \<or> new = record_fallback X jobName (gm_Generation m) now False current))
      \<or> (\<exists>g now. new = record_fallback X [] g now True current))"

lemma schedule_if_generation_eq: "schedule_if_generation = scheduled_for"
  by (intro ext) (simp add: schedule_if_generation_def scheduled_for_def ApplySyncScheduledForGeneration_def)

lemma reconciler_patch_status_only: "reconciler_patch X R key h current new \<Longrightarrow> status_only current new"
  by (auto simp: reconciler_patch_def)

locale reconcile_policy = lease_policy +
  assumes ok_patch: "just_did h (EvGetMirror key (Inr current)) \<Longrightarrow> reconciler_patch X R key h current new
    \<Longrightarrow> ok h (EvPatchStatus new current r)"
begin

text \<open>A status patch whose closure always yields an allowed patch.\<close>

lemma wps_patch:
  assumes "\<And>current c new c' h'. mutate current c = (new, c') \<Longrightarrow> set h \<subseteq> set h'
      \<Longrightarrow> reconciler_patch X R key h' current new"
  shows "wps ok (PatchGitMirrorStatus retries key mutate c) (\<lambda>_ h'. set h \<subseteq> set h') h"
proof (rule wps_PatchGitMirrorStatus
    [where P = "\<lambda>_ h'. set h \<subseteq> set h'"
      and R = "\<lambda>current _ h'. set h \<subseteq> set h' \<and> just_did h' (EvGetMirror key (Inr current))"],
    goal_cases)
  case 1
  then show ?case by simp
next
  case (2 c h' r)
  then show ?case by (auto simp: ok_reads split: sum.split)
next
  case (3 current c h' r new c')
  then have "ok h' (EvPatchStatus new current r)" by (intro ok_patch assms) auto
  with 3 show ?case by (auto split: option.split)
qed

lemma wps_patch_only_mirror:
  assumes "\<And>current h'. set h \<subseteq> set h' \<Longrightarrow> reconciler_patch X R key h' current (f current)"
    and "\<And>a h'. set h \<subseteq> set h' \<Longrightarrow> Q a h'"
  shows "wps ok (PatchGitMirrorStatus retries key (only_mirror f) ()) Q h"
  by (rule wps_mono [OF wps_patch]) (use assms in auto)

lemma patch_scheduled:
  "mirror_read key h m \<Longrightarrow> job_secured X R m t v jobName h \<Longrightarrow> set h \<subseteq> set h'
     \<Longrightarrow> reconciler_patch X R key h' current (scheduled_for X jobName (gm_Generation m) now current)"
  using mirror_read_mono [of key h m h'] job_secured_mono [of X R m t v jobName h h']
  unfolding reconciler_patch_def by blast

text \<open>After a secured Job, the scheduled patch and whatever follows it.\<close>

lemma wps_scheduled:
  assumes "mirror_read key h m" and "job_secured X R m t v jobName h"
    and "\<And>err h'. set h \<subseteq> set h' \<Longrightarrow> wps ok (f (err, ())) Q h'"
  shows "wps ok (bindp (PatchGitMirrorStatus n key
      (only_mirror (scheduled_for X jobName (gm_Generation m) now)) ()) f) Q h"
  unfolding wps_bindp
  by (rule wps_patch_only_mirror) (rule patch_scheduled [OF assms(1,2)], use assms(3) in auto)

lemma patch_completed:
  "job_listed key h job \<Longrightarrow> JobFinished (Some job) \<Longrightarrow> record_completed X job now current c = (new, c')
     \<Longrightarrow> reconciler_patch X R key h current new"
  unfolding reconciler_patch_def by (metis fst_conv)

lemma wps_completed_loop:
  assumes "mirror_read key h m" and "\<And>job. job \<in> set todo \<Longrightarrow> job_listed key h job"
  shows "wps ok (completed_loop X R key m jobItems now todo) (\<lambda>_ h'. set h \<subseteq> set h') h"
  using assms
proof (induction todo arbitrary: h)
  case Nil
  then show ?case by simp
next
  case (Cons job todo)
  have loop: "wps ok (completed_loop X R key m jobItems now todo) (\<lambda>_ h'. set h \<subseteq> set h') h2"
    if "set h \<subseteq> set h2" for h2
    by (rule wps_mono [OF Cons.IH [OF mirror_read_mono [OF Cons.prems(1) that] job_listed_mono [OF Cons.prems(2) that]]]) (use that in auto)
  show ?case
  proof (cases "skip_job m jobItems job")
    case True
    then show ?thesis by (simp add: loop)
  next
    case False
    then have fin: "JobFinished (Some job)" by (simp add: skip_job_def)
    have listed: "job_listed key h job" using Cons.prems(2) by simp
    have rel: "wps ok (bindp (releaseSyncLease m n) f) Q h2"
      if "set h \<subseteq> set h2" "n = job_Name job" "\<And>a h3. set h \<subseteq> set h3 \<Longrightarrow> wps ok (f a) Q h3" for n f Q h2
      unfolding wps_bindp that(2)
      by (rule wps_mono [OF wps_releaseSyncLease [OF mirror_read_mono [OF Cons.prems(1) that(1)]
              may_release_mono [OF may_release_finished [OF listed fin] that(1)]]]) (use that in blast)
    have next_job: "wps ok (case err of Some e \<Rightarrow> Return (zero_result, False, Some e)
          | None \<Rightarrow> completed_loop X R key m jobItems now todo) (\<lambda>_ h'. set h \<subseteq> set h') h2"
      if "set h \<subseteq> set h2" for err h2
      using loop [OF that] that by (auto split: option.split)
    have step: "wps ok (bindp (createLockedSyncJob X R m t v) (\<lambda>(acquired, jobName, err).
          if (case err of Some e \<Rightarrow> \<not> IsAlreadyExists e | None \<Rightarrow> False) then Return (zero_result, False, err)
          else if \<not> acquired then Return (retry_soon, True, None)
          else bindp (PatchGitMirrorStatus n key
                 (only_mirror (scheduled_for X jobName (gm_Generation m) now)) ())
            (\<lambda>(err, _). case err of Some e \<Rightarrow> Return (zero_result, False, Some e)
               | None \<Rightarrow> completed_loop X R key m jobItems now todo))) (\<lambda>_ h'. set h \<subseteq> set h') h2"
      if "set h \<subseteq> set h2" for t v n h2
      unfolding wps_bindp
    proof (rule wps_locked [OF mirror_read_mono [OF Cons.prems(1) that]], goal_cases)
      case (1 acquired jobName err h')
      have "set h \<subseteq> set h'" using that 1(1) by blast
      then show ?case
        using 1(2) mirror_read_mono [OF Cons.prems(1), of h']
        by (auto split: option.split intro!: wps_scheduled next_job)
    qed
    show ?thesis
      using False
      apply (simp add: wps_bindp [of ok "PatchGitMirrorStatus n k f c" for n k f c])
      apply (rule wps_mono [OF wps_patch])
       apply (erule patch_completed [OF job_listed_mono [OF listed] fin], assumption)
      apply (auto split: option.split intro!: rel loop step)
      done
  qed
qed

text \<open>The common tail of two of the parts: create a Job for the copy just read, record it.\<close>

lemma wps_create_and_record:
  assumes "mirror_read key h m" and "\<And>a h'. set h \<subseteq> set h' \<Longrightarrow> Q a h'"
  shows "wps ok (bindp (createLockedSyncJob X R m t v) (\<lambda>(acquired, jobName, err). case err of
        Some e \<Rightarrow> Return (zero_result, False, Some e)
      | None \<Rightarrow>
          if \<not> acquired then Return (retry_soon, True, None)
          else bindp (PatchGitMirrorStatus n key
                 (only_mirror (scheduled_for X jobName (gm_Generation m) now)) ())
            (\<lambda>(err, _). case err of
                Some e \<Rightarrow> Return (zero_result, False, Some e)
              | None \<Rightarrow> Return (zero_result, handled, None)))) Q h"
  unfolding wps_bindp [of ok "createLockedSyncJob X R m t v"]
proof (rule wps_locked [OF assms(1)], goal_cases)
  case (1 acquired jobName err h')
  have "Q a h''" if "set h' \<subseteq> set h''" for a h'' by (rule assms(2)) (use 1(1) that in blast)
  then show ?case
    using 1 mirror_read_mono [OF assms(1) 1(1)]
    by (auto split: option.split intro!: wps_scheduled)
qed

lemma wps_reconcileUnobservedGeneration:
  "wps ok (reconcileUnobservedGeneration X R key mirror active now) (\<lambda>_ h'. set h \<subseteq> set h') h"
  unfolding reconcileUnobservedGeneration_def schedule_if_generation_eq
  by (auto simp: ok_reads Let_def mirror_read_def split: sum.split intro!: wps_create_and_record)

lemma wps_reconcilePendingResync:
  "wps ok (reconcilePendingResync X R key mirror active now) (\<lambda>_ h'. set h \<subseteq> set h') h"
  by (auto simp: reconcilePendingResync_def ok_reads Let_def mirror_read_def split: sum.split
      intro!: wps_create_and_record)

end

end
