(* ===== verification/Reconciler_Safety.thy ===== *)
theory Reconciler_Safety
  imports Policies
begin

text \<open>
  \<open>Reconcile\<close> keeps every policy of the locale \<open>reconcile_policy\<close> (\<open>reconcile_respects\<close>), and
  the policies the safety properties are about: the locale is interpreted on each of them.
\<close>

lemma patch_fallback:
  "mirror_read key h m \<Longrightarrow> job_secured X R m t v jobName h
     \<Longrightarrow> reconciler_patch X R key h current (record_fallback X jobName (gm_Generation m) now False current)"
  unfolding reconciler_patch_def by blast

lemma patch_coalesced: "reconciler_patch X R key h current (record_fallback X [] g now True current)"
  unfolding reconciler_patch_def by blast

context reconcile_policy
begin

lemma wps_finish_fallback:
  assumes "mirror_read key h mirror"
    and "(\<exists>t v. \<not> active \<and> job_secured X R mirror t v jobName h) \<or> (active \<and> jobName = [])"
  shows "wps ok (finish_fallback X key mirror active now jobName) (\<lambda>_ _. True) h"
proof -
  have patch: "reconciler_patch X R key h' current
      (record_fallback X jobName (gm_Generation mirror) now active current)" if "set h \<subseteq> set h'" for current h'
  proof (cases active)
    case True
    then show ?thesis using assms(2) patch_coalesced by auto
  next
    case False
    then obtain t v where "job_secured X R mirror t v jobName h" using assms(2) by blast
    then have "job_secured X R mirror t v jobName h'" by (rule job_secured_mono [OF _ that])
    then show ?thesis using patch_fallback mirror_read_mono [OF assms(1) that] False by auto
  qed
  show ?thesis
    unfolding finish_fallback_def wps_bindp
    by (rule wps_patch_only_mirror) (auto simp: patch ok_reads Let_def split: option.split)
qed

lemma wps_reconcileFallback:
  assumes "mirror_read key h mirror"
  shows "wps ok (reconcileFallback X R key mirror active now) (\<lambda>_ _. True) h"
proof -
  have create: "wps ok (bindp (createLockedSyncJob X R mirror t v)
      (\<lambda>(acquired, jobName, err). case err of
          Some e \<Rightarrow> Return (zero_result, Some e)
        | None \<Rightarrow> if \<not> acquired then Return (retry_soon, None)
            else finish_fallback X key mirror active now jobName)) (\<lambda>_ _. True) h'"
    if "mirror_read key h' mirror" "\<not> active" for t v h'
    unfolding wps_bindp
    by (rule wps_locked [OF that(1)]) (auto split: option.split
        intro!: wps_finish_fallback mirror_read_mono [OF that(1)] that(2))
  show ?thesis
    using assms unfolding reconcileFallback_def
    by (auto simp: ok_reads split: sum.split intro!: create wps_finish_fallback)
qed

lemma wps_or_else:
  assumes "wps ok p (\<lambda>_ h'. set h \<subseteq> set h') h"
    and "\<And>h'. set h \<subseteq> set h' \<Longrightarrow> wps ok q (\<lambda>_ _. True) h'"
  shows "wps ok (or_else p q) (\<lambda>_ _. True) h"
  unfolding or_else_def wps_bindp
  by (rule wps_mono [OF assms(1)]) (auto simp: assms(2) split: prod.split)

lemma wps_parts:
  assumes "mirror_read key h mirror" and "\<And>job. job \<in> set items \<Longrightarrow> job_listed key h job"
  shows "wps ok (or_else (reconcileCompletedJobs X R key mirror items now)
      (or_else (reconcileUnobservedGeneration X R key mirror active now)
        (or_else (reconcilePendingResync X R key mirror active now)
          (reconcileFallback X R key mirror active now)))) (\<lambda>_ _. True) h"
  unfolding reconcileCompletedJobs_def
  by (intro wps_or_else wps_completed_loop wps_reconcileUnobservedGeneration
        wps_reconcilePendingResync wps_reconcileFallback)
    (blast intro: assms(2) mirror_read_mono [OF assms(1)])+

theorem wps_Reconcile: "wps ok (Reconcile X R key) (\<lambda>_ _. True) []"
  by (auto simp: Reconcile_def Let_def ok_reads mirror_read_def job_listed_def jobsForGeneration_def
      split: sum.split intro!: wps_parts)

lemma reconcile_respects: "after (Reconcile X R key) es = Some p \<Longrightarrow> every_event ok es"
  using wps_every_event [OF wps_Reconcile] .

text \<open>The form the properties use: what the policy says of one call of a run.\<close>

lemma reconcile_call:
  assumes "after (Reconcile X R key) (h @ e # es) = Some p"
  shows "ok h e"
  by (rule every_event_split [OF reconcile_respects [OF assms]])

end

subsection \<open>The reconciler's policy\<close>

text \<open>
  What may be asked for, call by call, after the events \<open>h\<close>. This is the strongest policy
  here; \<open>reconcile_rule\<close> is the one the model is shown to keep.
\<close>

definition create_rule ::
  "External \<Rightarrow> GitMirrorReconciler \<Rightarrow> ObjectKey \<Rightarrow> event list \<Rightarrow> BatchJob \<Rightarrow> bool" where
  "create_rule X R key h job = (\<exists>m triggerID revision. mirror_read key h m
     \<and> built_from X R m triggerID revision job \<and> lease_taken m (job_Name job) h)"

definition take_over_rule :: "ObjectKey \<Rightarrow> event list \<Rightarrow> Lease \<Rightarrow> bool" where
  "take_over_rule key h lease' = (\<exists>m existing holder now. mirror_read key h m
     \<and> lease' = take_over existing holder now \<and> may_take_over m existing holder h
     \<and> EvGetLease (lease_key m) (Inr existing) \<in> set h)"

definition release_rule :: "ObjectKey \<Rightarrow> event list \<Rightarrow> Lease \<Rightarrow> bool" where
  "release_rule key h lease' = (\<exists>m holder. mirror_read key h m
     \<and> just_did h (EvGetLease (lease_key m) (Inr lease'))
     \<and> HolderIdentity lease' = Some holder \<and> may_release key h holder)"

definition patch_rule ::
  "External \<Rightarrow> GitMirrorReconciler \<Rightarrow> ObjectKey \<Rightarrow> event list \<Rightarrow> GitMirror \<Rightarrow> GitMirror \<Rightarrow> bool" where
  "patch_rule X R key h current new =
     (just_did h (EvGetMirror key (Inr current)) \<and> reconciler_patch X R key h current new)"

definition reconcile_rule ::
  "External \<Rightarrow> GitMirrorReconciler \<Rightarrow> ObjectKey \<Rightarrow> event list \<Rightarrow> event \<Rightarrow> bool" where
  "reconcile_rule X R key h e = (case e of
     EvPatchStatus new current _ \<Rightarrow> patch_rule X R key h current new
   | EvCreateJob job _ \<Rightarrow> create_rule X R key h job
   | EvCreateLease lease' _ \<Rightarrow> (\<exists>m holder now. mirror_read key h m \<and> lease' = new_lease m holder now)
   | EvUpdateLease lease' _ \<Rightarrow> take_over_rule key h lease'
   | EvDeleteLease lease' _ \<Rightarrow> release_rule key h lease'
   | EvListMirrors _ \<Rightarrow> False
   | EvGetSecret _ _ \<Rightarrow> False
   | _ \<Rightarrow> True)"

interpretation rule_kept: reconcile_policy "reconcile_rule X R key" X R key for X R key
  by unfold_locales
    (auto simp: reconcile_rule_def create_rule_def take_over_rule_def release_rule_def patch_rule_def)

end
