(* ===== verification/Reconciler_Behaviour.thy ===== *)
theory Reconciler_Behaviour
  imports Reconciler_Safety Demo
begin

text \<open>
  What a reconciliation does on given answers: the runs of its building blocks (a status patch
  that goes through, a Job created under a fresh or an existing Lease), and from these whole
  runs of \<open>Reconcile\<close>.
\<close>

subsection \<open>Runs of the building blocks\<close>

text \<open>The answers are named, call by call, as lists of events.\<close>

definition patched :: "ObjectKey \<Rightarrow> GitMirror \<Rightarrow> GitMirror \<Rightarrow> event list" where
  "patched key current new = [EvGetMirror key (Inr current), EvPatchStatus new current None]"

definition fresh_lease :: "GitMirror \<Rightarrow> BatchJob \<Rightarrow> time \<Rightarrow> error option \<Rightarrow> event list" where
  "fresh_lease m job clock r = [EvClockNow clock, EvCreateLease (new_lease m (job_Name job) clock) r]"

definition lease_gone :: "GitMirror \<Rightarrow> string \<Rightarrow> event list" where
  "lease_gone m text = [EvGetLease (lease_key m) (Inl (NotFound text))]"

text \<open>The Lease is there, held by a Job that is not; it is taken over.\<close>

definition orphan_check :: "GitMirror \<Rightarrow> BatchJob \<Rightarrow> time \<Rightarrow> Lease \<Rightarrow> event list" where
  "orphan_check m job clock existing =
     fresh_lease m job clock (Some (AlreadyExists [])) @
     [EvGetLease (lease_key m) (Inr existing),
      EvGetJob \<lparr>key_Namespace = gm_Namespace m, key_Name = current_holder existing\<rparr> (Inl (NotFound []))]"

definition orphan_lease :: "GitMirror \<Rightarrow> BatchJob \<Rightarrow> time \<Rightarrow> Lease \<Rightarrow> event list" where
  "orphan_lease m job clock existing =
     orphan_check m job clock existing @ [EvUpdateLease (take_over existing (job_Name job) clock) None]"

lemma after_patch:
  assumes "mutate current c = (new, c')"
  shows "after (bindp (PatchGitMirrorStatus n key mutate c) f) (patched key current new @ es) = after (f (None, c')) es"
    and "after (bindp (PatchGitMirrorStatus n key mutate c) f) (patched key current new) = Some (f (None, c'))"
  unfolding patched_def using assms by (subst PatchGitMirrorStatus.simps, simp)+

lemma after_create:
  assumes "built_from X R m t v job" and "\<forall>err. r = Some err \<longrightarrow> IsAlreadyExists err"
  shows "after (createLockedSyncJob X R m t v) (fresh_lease m job clock None @ [EvCreateJob job r])
    = Some (Return (True, job_Name job, None))"
  using assms unfolding fresh_lease_def
  by (cases r) (simp_all add: built_from_def createLockedSyncJob_def acquireSyncLease_def Let_def)

lemma after_create_refused:
  assumes "built_from X R m t v job" and "\<not> IsAlreadyExists err"
  shows "after (createLockedSyncJob X R m t v) (fresh_lease m job clock (Some err))
    = Some (Return (False, job_Name job, Some err))"
  using assms unfolding fresh_lease_def
  by (simp add: built_from_def createLockedSyncJob_def acquireSyncLease_def Let_def)

lemma after_create_orphan:
  assumes "built_from X R m t v job"
    and "current_holder existing \<noteq> []" and "current_holder existing \<noteq> job_Name job"
  shows "after (createLockedSyncJob X R m t v) (orphan_lease m job clock existing @ [EvCreateJob job None])
    = Some (Return (True, job_Name job, None))"
  using assms unfolding orphan_lease_def orphan_check_def fresh_lease_def
  by (simp add: built_from_def createLockedSyncJob_def acquireSyncLease_def Let_def
      jobNameActiveForGeneration_def update_lease_def)

lemma after_release_gone: "after (releaseSyncLease m holder) (lease_gone m text) = Some (Return None)"
  by (simp add: releaseSyncLease_def IgnoreNotFound_def lease_gone_def)

lemma after_release_held:
  "HolderIdentity held = Some holder \<Longrightarrow>
     after (releaseSyncLease m holder) [EvGetLease (lease_key m) (Inr held), EvDeleteLease held None]
     = Some (Return None)"
  by (simp add: releaseSyncLease_def)

lemma after_or_else:
  assumes "after p es = Some (Return (result, handled, err))"
  shows "after (or_else p q) (es @ es') =
    after (if err \<noteq> None \<or> handled then Return (result, err) else q) es'"
  unfolding or_else_def by (subst after_bindp_Return [OF assms]) simp

lemma or_else_skip [simp]: "or_else (Return (result, False, None)) q = q"
  by (simp add: or_else_def)

text \<open>The common start of every reconciliation of an existing GitMirror.\<close>

definition start_events :: "ObjectKey \<Rightarrow> GitMirror \<Rightarrow> BatchJob list \<Rightarrow> time \<Rightarrow> event list" where
  "start_events key m items now =
     [EvGetMirror key (Inr m),
      EvListJobs (gm_Namespace m) LabelGitMirror (map_get (LabelsForMirror m) LabelGitMirror) (Inr items),
      EvClockNow now]"

lemma after_start:
  "after (Reconcile X R key) (start_events key m items now @ es) =
     (let jobs = jobsForGeneration items (gm_Generation m); active = activeJobExists jobs in
      after (or_else (reconcileCompletedJobs X R key m jobs now)
        (or_else (reconcileUnobservedGeneration X R key m active now)
          (or_else (reconcilePendingResync X R key m active now)
            (reconcileFallback X R key m active now)))) es)"
  by (simp add: Reconcile_def start_events_def Let_def)

lemma completed_loop_skips:
  "(\<And>job. job \<in> set todo \<Longrightarrow> skip_job m items job) \<Longrightarrow>
     completed_loop X R key m items now todo = Return (zero_result, False, None)"
  by (induction todo) simp_all

text \<open>No finished Job of the generation waits to be recorded.\<close>

definition nothing_to_record :: "GitMirror \<Rightarrow> BatchJob list \<Rightarrow> bool" where
  "nothing_to_record m jobs = list_all (skip_job m jobs) jobs"

lemma nothing_to_record_loop:
  "nothing_to_record m jobs \<Longrightarrow> reconcileCompletedJobs X R key m jobs now = Return (zero_result, False, None)"
  unfolding reconcileCompletedJobs_def nothing_to_record_def
  by (rule completed_loop_skips) (simp add: list_all_iff)

lemma no_schedule:
  "Schedule (Fallback (Spec m)) = [] \<Longrightarrow> reconcileFallback X R key m active now = Return (zero_result, None)"
  by (simp add: reconcileFallback_def)

lemma generation_observed:
  "ObservedGeneration (Status m) = gm_Generation m \<Longrightarrow>
     reconcileUnobservedGeneration X R key m active now = Return (zero_result, False, None)"
  by (simp add: reconcileUnobservedGeneration_def)

lemma nothing_pending:
  "\<not> PendingResync (Status m) \<Longrightarrow>
     reconcilePendingResync X R key m active now = Return (zero_result, False, None)"
  by (simp add: reconcilePendingResync_def)

lemma active_waits:
  "active \<Longrightarrow> reconcileUnobservedGeneration X R key m active now = Return (zero_result, False, None)
     \<and> reconcilePendingResync X R key m active now = Return (zero_result, False, None)"
  by (simp add: reconcileUnobservedGeneration_def reconcilePendingResync_def)

subsection \<open>Whole reconciliations\<close>

text \<open>
  The Jobs of the generation are settled and nothing of the specification is outstanding:
  what is left is a pending resync. \<open>ces\<close> are the calls of a creation that succeeded.
\<close>

definition settled :: "GitMirror \<Rightarrow> BatchJob list \<Rightarrow> bool" where
  "settled m items = (let jobs = jobsForGeneration items (gm_Generation m) in
     nothing_to_record m jobs \<and> \<not> activeJobExists jobs
     \<and> ObservedGeneration (Status m) = gm_Generation m \<and> Schedule (Fallback (Spec m)) = [])"

lemma run_pending:
  assumes "settled m items" and "PendingResync (Status m)" and "PendingResync (Status current)"
    and created: "after (createLockedSyncJob X R current (pending_trigger current now)
        (LastRequestedRevision (Status current))) ces = Some (Return (True, jobName, None))"
  shows "after (Reconcile X R key) (start_events key m items now @ EvGetMirror key (Inr current) # ces
      @ patched key latest (scheduled_for X jobName (gm_Generation current) now latest))
    = Some (Return (zero_result, None))"
proof -
  have "after (reconcilePendingResync X R key m False now) (EvGetMirror key (Inr current) # ces
      @ patched key latest (scheduled_for X jobName (gm_Generation current) now latest))
    = Some (Return (zero_result, False, None))"
    using assms(2,3) by (simp add: reconcilePendingResync_def after_bindp_Return [OF created] after_patch)
  from after_or_else [OF this, of _ "[]"] assms(1) show ?thesis
    by (simp add: after_start settled_def Let_def nothing_to_record_loop generation_observed no_schedule)
qed

lemma run_quiet:
  assumes "settled m items" and "\<not> PendingResync (Status m)"
  shows "after (Reconcile X R key) (start_events key m items now) = Some (Return (zero_result, None))"
  using after_start [of X R key m items now "[]"] assms
  by (simp add: settled_def Let_def nothing_to_record_loop generation_observed no_schedule nothing_pending)

text \<open>A finished Job of the generation, the first one not yet recorded.\<close>

lemma completed_step:
  assumes "\<not> skip_job m items job"
    and "record_completed X job now current (False, []) = (new, followup, revision)"
    and released: "after (releaseSyncLease m (job_Name job)) res = Some (Return None)"
  shows "after (completed_loop X R key m items now (job # todo)) (patched key current new @ res @ es)
    = after (if \<not> followup then completed_loop X R key m items now todo
        else bindp (createLockedSyncJob X R m (resync_trigger now) revision)
          (\<lambda>(acquired, jobName, err).
             if (case err of Some e \<Rightarrow> \<not> IsAlreadyExists e | None \<Rightarrow> False) then Return (zero_result, False, err)
             else if \<not> acquired then Return (retry_soon, True, None)
             else bindp (PatchGitMirrorStatus (ext_Retries X) key
                    (only_mirror (scheduled_for X jobName (gm_Generation m) now)) ())
               (\<lambda>(err, _). case err of
                   Some e \<Rightarrow> Return (zero_result, False, Some e)
                 | None \<Rightarrow> completed_loop X R key m items now todo))) es"
  using assms(1,2) by (simp add: after_patch after_bindp_Return [OF released])

lemma run_completed_no_followup:
  assumes "jobsForGeneration items (gm_Generation m) = [job]" and "\<not> skip_job m [job] job"
    and "record_completed X job now current (False, []) = (new, True, revision)"
    and released: "after (releaseSyncLease m (job_Name job)) res = Some (Return None)"
    and refused: "after (createLockedSyncJob X R m (resync_trigger now) revision) ces
        = Some (Return (False, jobName, reason))" and "\<And>err. reason = Some err \<Longrightarrow> \<not> IsAlreadyExists err"
  shows "after (Reconcile X R key) (start_events key m items now @ patched key current new @ res @ ces)
    = Some (Return (if reason = None then retry_soon else zero_result, reason))"
proof -
  have "after (reconcileCompletedJobs X R key m [job] now) (patched key current new @ res @ ces)
      = Some (Return (if reason = None then retry_soon else zero_result, reason = None, reason))"
    unfolding reconcileCompletedJobs_def completed_step [OF assms(2,3) released]
    using assms(6) by (cases reason) (simp_all add: after_bindp [OF refused])
  from after_or_else [OF this, of _ "[]"] assms(1) show ?thesis
    by (auto simp: after_start Let_def)
qed

lemma run_completed_followup:
  assumes "jobsForGeneration items (gm_Generation m) = [job]" and "\<not> skip_job m [job] job"
    and "record_completed X job now current (False, []) = (new, True, revision)"
    and released: "after (releaseSyncLease m (job_Name job)) res = Some (Return None)"
    and created: "after (createLockedSyncJob X R m (resync_trigger now) revision) ces
        = Some (Return (True, jobName, None))"
    and "ObservedGeneration (Status m) = gm_Generation m" and "\<not> PendingResync (Status m)"
    and "Schedule (Fallback (Spec m)) = []"
  shows "after (Reconcile X R key) (start_events key m items now @ patched key current new @ res @ ces
      @ patched key latest (scheduled_for X jobName (gm_Generation m) now latest))
    = Some (Return (zero_result, None))"
proof -
  have "after (reconcileCompletedJobs X R key m [job] now) (patched key current new @ res @ ces
      @ patched key latest (scheduled_for X jobName (gm_Generation m) now latest))
      = Some (Return (zero_result, False, None))"
    unfolding reconcileCompletedJobs_def completed_step [OF assms(2,3) released]
    by (simp add: after_bindp_Return [OF created] after_patch)
  from after_or_else [OF this, of _ "[]"] assms(1,6,7,8) show ?thesis
    by (simp add: after_start Let_def generation_observed nothing_pending no_schedule)
qed

lemma run_completed:
  assumes "jobsForGeneration items (gm_Generation m) = [job]" and "\<not> skip_job m [job] job"
    and "record_completed X job now current (False, []) = (new, False, revision)"
    and released: "after (releaseSyncLease m (job_Name job)) res = Some (Return None)"
    and "ObservedGeneration (Status m) = gm_Generation m" and "\<not> PendingResync (Status m)"
    and "Schedule (Fallback (Spec m)) = []"
  shows "after (Reconcile X R key) (start_events key m items now @ patched key current new @ res)
    = Some (Return (zero_result, None))"
proof -
  have "after (reconcileCompletedJobs X R key m [job] now) (patched key current new @ res)
      = Some (Return (zero_result, False, None))"
    unfolding reconcileCompletedJobs_def
    using completed_step [OF assms(2,3) released, of R key "[]" "[]"] by simp
  from after_or_else [OF this, of _ "[]"] assms(1,5,6,7) show ?thesis
    by (simp add: after_start Let_def generation_observed nothing_pending no_schedule)
qed

lemma after_Return: "after (Return a) es = Some p \<Longrightarrow> es = [] \<and> p = Return a"
  by (cases es) auto

lemma run_complete:
  assumes "after p es = Some (Return a)" and "after p (es @ es') = Some q"
  shows "es' = [] \<and> q = Return a"
  using assms after_Return [of a es' q] by (simp add: after_append)

lemma run_active:
  assumes "nothing_to_record m (jobsForGeneration items (gm_Generation m))"
    and "activeJobExists (jobsForGeneration items (gm_Generation m))"
    and "Schedule (Fallback (Spec m)) = []"
  shows "after (Reconcile X R key) (start_events key m items now) = Some (Return (zero_result, None))"
  using after_start [of X R key m items now "[]"] assms active_waits
  by (simp add: Let_def nothing_to_record_loop no_schedule)

end
