(* ===== verification/Status_Properties.thy ===== *)
theory Status_Properties
  imports Reconciler Demo
begin

text \<open>
  What the status functions do to a GitMirror's status, field by field. The conditions are the
  library's business (\<open>meta.SetStatusCondition\<close>); the lemmas say which condition is handed to it
  and that no other field depends on it.
\<close>

lemma setCondition_fields [simp]:
  "Status (setConditionForGeneration X m t g s r msg) = (Status m)\<lparr>Conditions :=
     ext_SetStatusCondition X (Conditions (Status m)) \<lparr>cond_Type = t, cond_Status = s,
       cond_ObservedGeneration = g, cond_LastTransitionTime = None, cond_Reason = r, cond_Message = msg\<rparr>\<rparr>"
  "Spec (setConditionForGeneration X m t g s r msg) = Spec m"
  "gm_Generation (setConditionForGeneration X m t g s r msg) = gm_Generation m"
  "gm_Name (setConditionForGeneration X m t g s r msg) = gm_Name m"
  "gm_Namespace (setConditionForGeneration X m t g s r msg) = gm_Namespace m"
  by (simp_all add: setConditionForGeneration_def)

declare setCondition_def [simp]

lemma record_outcome_fields [simp]:
  "gm_Generation (record_outcome X m job now g) = gm_Generation m"
  "Spec (record_outcome X m job now g) = Spec m"
  "gm_Name (record_outcome X m job now g) = gm_Name m"
  "gm_Namespace (record_outcome X m job now g) = gm_Namespace m"
  by (simp_all add: record_outcome_def Let_def split: prod.split bool.split)

lemma record_outcome_status [simp]:
  "LastJobName (Status (record_outcome X m job now g)) = job_Name job"
  "LastCompletedJobName (Status (record_outcome X m job now g)) = job_Name job"
  "PendingResync (Status (record_outcome X m job now g)) = PendingResync (Status m)"
  "ObservedGeneration (Status (record_outcome X m job now g)) = ObservedGeneration (Status m)"
  "LastTriggeredAt (Status (record_outcome X m job now g)) = LastTriggeredAt (Status m)"
  "LastRequestedRevision (Status (record_outcome X m job now g)) = LastRequestedRevision (Status m)"
  "LastDeliveryID (Status (record_outcome X m job now g)) = LastDeliveryID (Status m)"
  by (simp_all add: record_outcome_def Let_def split: prod.split bool.split)

lemma record_outcome_result:
  "LastSuccessAt (Status (record_outcome X m job now g)) =
     (if isJobComplete job then Some now else LastSuccessAt (Status m))"
  "LastFailureAt (Status (record_outcome X m job now g)) =
     (if \<not> isJobComplete job \<and> fst (isJobFailed job) then Some now else LastFailureAt (Status m))"
  "LastError (Status (record_outcome X m job now g)) =
     (if isJobComplete job then [] else if fst (isJobFailed job) then snd (isJobFailed job)
      else LastError (Status m))"
  "LastMirroredRevision (Status (record_outcome X m job now g)) =
     (if isJobComplete job \<and> map_get (job_Annotations job) AnnotationRevision \<noteq> []
      then map_get (job_Annotations job) AnnotationRevision else LastMirroredRevision (Status m))"
  by (simp_all add: record_outcome_def Let_def split: prod.split bool.split)

lemma completed_flags:
  "snd (ApplyCompletedJobStatus X m job now) = PendingResync (Status m)"
  "LastRequestedRevision (Status (fst (ApplyCompletedJobStatus X m job now))) = LastRequestedRevision (Status m)"
  by (simp_all add: ApplyCompletedJobStatus_def applyCompletedJobStatus_def Let_def split: prod.split)

text \<open>The outcome of a finished Job is recorded completely: its name, the generation, success
  or failure with the time and the reason, the mirrored revision of a successful Job that names
  one. A pending resync is consumed, and reported as the follow-up; the requested revision and
  the delivery stay.\<close>

lemma completed_job_outcome:
  "let (m', followup) = ApplyCompletedJobStatus X m job now; st = Status m; st' = Status m';
       revision = map_get (job_Annotations job) AnnotationRevision in
   LastJobName st' = job_Name job \<and> LastCompletedJobName st' = job_Name job
   \<and> ObservedGeneration st' = gm_Generation m
   \<and> LastSuccessAt st' = (if isJobComplete job then Some now else LastSuccessAt st)
   \<and> LastFailureAt st' = (if \<not> isJobComplete job \<and> fst (isJobFailed job) then Some now else LastFailureAt st)
   \<and> LastError st' = (if isJobComplete job then [] else if fst (isJobFailed job) then snd (isJobFailed job)
        else LastError st)
   \<and> LastMirroredRevision st' = (if isJobComplete job \<and> revision \<noteq> [] then revision else LastMirroredRevision st)
   \<and> followup = PendingResync st \<and> \<not> PendingResync st'
   \<and> LastTriggeredAt st' = (if PendingResync st then Some now else LastTriggeredAt st)
   \<and> LastRequestedRevision st' = LastRequestedRevision st \<and> LastDeliveryID st' = LastDeliveryID st
   \<and> Spec m' = Spec m \<and> gm_Generation m' = gm_Generation m"
  by (simp add: ApplyCompletedJobStatus_def applyCompletedJobStatus_def Let_def record_outcome_result)

text \<open>What the closure of \<open>reconcileCompletedJobs\<close> does with a Job of the mirror's generation.\<close>

lemma record_completed_current:
  assumes "LastCompletedJobName (Status m) \<noteq> job_Name job"
    and "jobGenerationAnnotation (Some job) = (gm_Generation m, True, True)"
  shows "record_completed X job now m vars = (fst (ApplyCompletedJobStatus X m job now),
      PendingResync (Status m), LastRequestedRevision (Status m))"
  using assms completed_flags [of X m job now]
  by (auto simp: record_completed_def ApplyCompletedJobStatusForGeneration_def Let_def split: prod.splits)

lemma completed_consumes:
  "\<not> PendingResync (Status (fst (ApplyCompletedJobStatus X m job now)))"
  "LastCompletedJobName (Status (fst (ApplyCompletedJobStatus X m job now))) = job_Name job"
  "ObservedGeneration (Status (fst (ApplyCompletedJobStatus X m job now))) = gm_Generation m"
  "gm_Generation (fst (ApplyCompletedJobStatus X m job now)) = gm_Generation m"
  "Spec (fst (ApplyCompletedJobStatus X m job now)) = Spec m"
  by (simp_all add: ApplyCompletedJobStatus_def applyCompletedJobStatus_def Let_def)

lemma legacy_completed [simp]:
  "LastCompletedJobName (Status (fst (ApplyCompletedLegacyJobStatus X m job now))) = job_Name job"
  "\<not> snd (ApplyCompletedLegacyJobStatus X m job now)"
  by (simp_all add: ApplyCompletedLegacyJobStatus_def applyCompletedJobStatus_def Let_def)

lemma record_completed_fst:
  "fst (record_completed X job now m vars) =
     (case jobGenerationAnnotation (Some job) of (generation, annotated, valid) \<Rightarrow>
        if LastCompletedJobName (Status m) = job_Name job then m
        else if \<not> annotated then fst (ApplyCompletedLegacyJobStatus X m job now)
        else if valid \<and> gm_Generation m = generation then fst (ApplyCompletedJobStatus X m job now)
        else m)"
  by (simp add: record_completed_def ApplyCompletedJobStatusForGeneration_def split: prod.split)

text \<open>Recording a finished Job is idempotent: a second patch for the same Job, by a retry or
  by the next reconciliation, changes nothing more.\<close>

lemma record_completed_idempotent:
  "fst (record_completed X job now' (fst (record_completed X job now m vars)) vars')
     = fst (record_completed X job now m vars)"
  by (simp add: record_completed_fst completed_consumes split: prod.split)

text \<open>A Job of another generation, or with an unreadable generation, leaves the status alone
  and asks for no follow-up.\<close>

lemma stale_job_ignored:
  assumes "jobGenerationAnnotation (Some job) = (generation, True, valid)"
    and "\<not> valid \<or> generation \<noteq> gm_Generation m"
  shows "fst (record_completed X job now m (False, revision)) = m
    \<and> \<not> fst (snd (record_completed X job now m (False, revision)))"
  using assms by (auto simp: record_completed_def ApplyCompletedJobStatusForGeneration_def)

text \<open>A webhook only records an intent: the time, the delivery, the requested revision when
  the payload has one, and a pending resync. What was mirrored, scheduled or completed before
  stays.\<close>

lemma webhook_intent_recorded:
  "let m' = ApplyWebhookIntent X m deliveryID revision now; st = Status m; st' = Status m' in
   st' = st\<lparr>LastWebhookAt := Some now, LastDeliveryID := deliveryID,
       LastRequestedRevision := (if revision \<noteq> [] then revision else LastRequestedRevision st),
       PendingResync := True, Conditions := Conditions st'\<rparr>
   \<and> Spec m' = Spec m \<and> gm_Generation m' = gm_Generation m"
  by (simp add: ApplyWebhookIntent_def Let_def)

text \<open>A Job is recorded as scheduled exactly for the generation it was built for: then the
  generation counts as observed and the pending resync as served; otherwise nothing changes.\<close>

lemma scheduled_only_for_generation:
  "let m' = scheduled_for X jobName generation now m in
   if gm_Generation m = generation then
     Status m' = (Status m)\<lparr>ObservedGeneration := generation, LastTriggeredAt := Some now,
       LastJobName := jobName, PendingResync := False, Conditions := Conditions (Status m')\<rparr>
     \<and> Spec m' = Spec m
   else m' = m"
  by (simp add: scheduled_for_def ApplySyncScheduledForGeneration_def ApplySyncScheduled_def Let_def)

end
