(* ===== verification/Reconciler_Properties.thy ===== *)
theory Reconciler_Properties
  imports Reconciler_Behaviour Status_Properties
begin

text \<open>
  The properties of \<open>Reconcile\<close>: what it may ask for whatever it is answered (the rules of
  \<open>Reconciler_Safety\<close>), and what it does when the calls succeed or fail in the ways the code
  distinguishes. The witnesses run it on the GitMirror of \<open>Demo\<close>.
\<close>

subsection \<open>Runs of the demo GitMirror\<close>

abbreviation m0 :: GitMirror where
  "m0 \<equiv> demo_mirror [] demo_status"

abbreviation j0 :: BatchJob where
  "j0 \<equiv> demo_job m0 ''d1'' ''abc''"

lemma demo_built: "t \<noteq> [] \<Longrightarrow> built_from demo_X demo_R (demo_mirror s st) t v (demo_job (demo_mirror s st) t v)"
  using demo_build by (simp add: built_from_def demo_job_fields demo_X_def)

lemma demo_X_owner: "ext_SetControllerReference demo_X = demo_owner"
  by (simp add: demo_X_def)

lemma demo_settled: "Status m = st \<Longrightarrow> m = demo_mirror [] st \<Longrightarrow> ObservedGeneration st = 1 \<Longrightarrow> settled m []"
  by (simp add: settled_def jobsForGeneration_def nothing_to_record_def activeJobExists_def
      demo_mirror_def demo_spec_def)

lemma m0_facts:
  "settled m0 []" "PendingResync (Status m0)" "pending_trigger m0 now = ''d1''"
  "LastRequestedRevision (Status m0) = ''abc''" "gm_Generation m0 = 1"
  by (rule demo_settled [OF refl]) (simp_all add: demo_mirror_def demo_status_def pending_trigger_def)

lemma demo_create: "after (createLockedSyncJob demo_X demo_R m0 ''d1'' ''abc'')
    (fresh_lease m0 j0 0 None @ [EvCreateJob j0 None]) = Some (Return (True, job_Name j0, None))"
  by (rule after_create [OF demo_built]) simp_all

definition demo_orphan :: Lease where
  "demo_orphan = \<lparr>lease_Name = ''l'', lease_Namespace = ''ns'', lease_Labels = Map.empty,
     lease_ResourceVersion = ''7'', HolderIdentity = Some ''x'', AcquireTime = None, RenewTime = None\<rparr>"

lemma j0_not_x: "job_Name j0 \<noteq> ''x''"
proof
  assume "job_Name j0 = ''x''"
  moreover have "length (job_Name j0) > 1"
    by (simp add: demo_job_fields NameForMirrorTrigger_def Let_def)
  ultimately show False by simp
qed

lemma demo_create_orphan: "after (createLockedSyncJob demo_X demo_R m0 ''d1'' ''abc'')
    (orphan_lease m0 j0 0 demo_orphan @ [EvCreateJob j0 None]) = Some (Return (True, job_Name j0, None))"
  by (rule after_create_orphan [OF demo_built]) (use j0_not_x in \<open>simp_all add: demo_orphan_def current_holder_def\<close>)

abbreviation demo_scheduled :: GitMirror where
  "demo_scheduled \<equiv> scheduled_for demo_X (job_Name j0) 1 0 m0"

lemma demo_run_pending:
  assumes "after (createLockedSyncJob demo_X demo_R m0 ''d1'' ''abc'') ces = Some (Return (True, job_Name j0, None))"
  shows "after (Reconcile demo_X demo_R demo_key) (start_events demo_key m0 [] 0 @ EvGetMirror demo_key (Inr m0) # ces
      @ patched demo_key m0 demo_scheduled) = Some (Return (zero_result, None))"
  using run_pending [OF m0_facts(1,2,2), of demo_X demo_R 0 ces "job_Name j0" demo_key m0] assms
  by (simp add: m0_facts)

subsection \<open>Safety\<close>

text \<open>C1. Jobs are created under the Lease. In every run of \<open>Reconcile\<close>, whatever the API server
  answers, a Job is asked for only right after the call that took the Lease of the repository
  for this Job's name was granted, and the Job is the one \<open>BuildSyncJob\<close> makes of a copy of the
  GitMirror read in this run.\<close>

theorem create_under_lease:
  assumes "after (Reconcile X R key) (h @ EvCreateJob job r # es) = Some p"
  shows "\<exists>m triggerID revision. mirror_read key h m
    \<and> BuildSyncJob (ext_SetControllerReference X) (Some m) (sync_options R triggerID revision)
        = Inr \<lparr>sync_Job = job\<rparr>
    \<and> job_Name job \<noteq> [] \<and> lease_taken m (job_Name job) h"
  using rule_kept.reconcile_call [OF assms]
  by (auto simp: reconcile_rule_def create_rule_def built_from_def)

theorem create_under_lease_witness:
  "\<exists>h es m triggerID revision. mirror_read demo_key h m
    \<and> BuildSyncJob demo_owner (Some m) (sync_options demo_R triggerID revision) = Inr \<lparr>sync_Job = j0\<rparr>
    \<and> lease_taken m (job_Name j0) h
    \<and> after (Reconcile demo_X demo_R demo_key) (h @ EvCreateJob j0 None # es) = Some (Return (zero_result, None))"
proof -
  define h where "h = start_events demo_key m0 [] 0 @ EvGetMirror demo_key (Inr m0) # fresh_lease m0 j0 0 None"
  have run: "after (Reconcile demo_X demo_R demo_key) (h @ EvCreateJob j0 None # patched demo_key m0 demo_scheduled)
      = Some (Return (zero_result, None))"
    using demo_run_pending [OF demo_create] by (simp add: h_def)
  from create_under_lease [OF this] run show ?thesis unfolding demo_X_owner by blast
qed

text \<open>C2. A Lease is taken over only from nobody, from the same holder, or from a holder whose
  Job was just looked up and is gone, finished, being deleted or of another generation; the
  Lease taken over is the one read, with the holder and the times replaced.\<close>

theorem takeover_only_if_idle:
  assumes "after (Reconcile X R key) (h @ EvUpdateLease lease' r # es) = Some p"
  shows "\<exists>m existing holder now. mirror_read key h m \<and> lease' = take_over existing holder now
    \<and> EvGetLease (lease_key m) (Inr existing) \<in> set h \<and> may_take_over m existing holder h"
  using rule_kept.reconcile_call [OF assms] by (auto simp: reconcile_rule_def take_over_rule_def)

theorem takeover_only_if_idle_witness:
  "\<exists>h es. after (Reconcile demo_X demo_R demo_key)
      (h @ EvUpdateLease (take_over demo_orphan (job_Name j0) 0) None # es) = Some (Return (zero_result, None))
    \<and> (\<exists>m existing holder. mirror_read demo_key h m \<and> may_take_over m existing holder h)"
proof -
  define h where "h = start_events demo_key m0 [] 0 @ EvGetMirror demo_key (Inr m0) # orphan_check m0 j0 0 demo_orphan"
  have run: "after (Reconcile demo_X demo_R demo_key) (h @ EvUpdateLease (take_over demo_orphan (job_Name j0) 0) None
      # EvCreateJob j0 None # patched demo_key m0 demo_scheduled) = Some (Return (zero_result, None))"
    using demo_run_pending [OF demo_create_orphan] by (simp add: h_def orphan_lease_def)
  from takeover_only_if_idle [OF this] run show ?thesis by blast
qed

text \<open>C19. A Lease is deleted only right after it was read, while held by the name of a Job that
  was listed finished in this run or whose creation call in this run just returned an error; the
  second case includes a call that timed out, whose Job may have been created all the same.\<close>

theorem release_only_if_done:
  assumes "after (Reconcile X R key) (h @ EvDeleteLease lease' r # es) = Some p"
  shows "\<exists>m holder. mirror_read key h m \<and> just_did h (EvGetLease (lease_key m) (Inr lease'))
    \<and> HolderIdentity lease' = Some holder \<and> may_release key h holder"
  using rule_kept.reconcile_call [OF assms] by (auto simp: reconcile_rule_def release_rule_def)

text \<open>A finished demo Job, its mirror and its Lease.\<close>

definition demo_finished :: BatchJob where
  "demo_finished = j0\<lparr>job_Conditions :=
     [\<lparr>jc_Type = ''Complete'', jc_Status = ConditionTrue, jc_Reason = [], jc_Message = []\<rparr>]\<rparr>"

abbreviation m1 :: GitMirror where
  "m1 \<equiv> demo_mirror [] (demo_status\<lparr>PendingResync := False, LastJobName := job_Name j0\<rparr>)"

abbreviation demo_held :: Lease where
  "demo_held \<equiv> demo_orphan\<lparr>HolderIdentity := Some (job_Name j0)\<rparr>"

lemma demo_finished_facts:
  "job_Name demo_finished = job_Name j0" "JobFinished (Some demo_finished)" "isJobComplete demo_finished"
  "jobGenerationMatches (Some demo_finished) 1" "jobGenerationAnnotation (Some demo_finished) = (1, True, True)"
  using demo_generation [of "''d1''" "[]" demo_status "''abc''"]
  by (simp_all add: demo_finished_def JobFinished_Some isJobComplete_def jobGenerationMatches_def
      jobGenerationAnnotation_def)

lemma demo_skip: "Status m = st \<Longrightarrow> LastCompletedJobName st = [] \<Longrightarrow> LastJobName st = job_Name j0 \<or> LastJobName st = []
    \<Longrightarrow> \<not> skip_job m [demo_finished] demo_finished"
  using demo_finished_facts
  by (auto simp: skip_job_def demo_job_fields [of "''d1''", simplified])

lemma demo_record:
  assumes "gm_Generation m = 1" and "LastCompletedJobName (Status m) = []"
  shows "record_completed demo_X demo_finished now m vars = (fst (ApplyCompletedJobStatus demo_X m demo_finished now),
    PendingResync (Status m), LastRequestedRevision (Status m))"
  by (rule record_completed_current) (use assms demo_finished_facts in \<open>simp_all add: demo_job_fields\<close>)

lemma demo_jobs: "jobsForGeneration [demo_finished] 1 = [demo_finished]"
  by (simp add: jobsForGeneration_def demo_finished_facts)

lemma demo_run_completed:
  "after (Reconcile demo_X demo_R demo_key) (start_events demo_key m1 [demo_finished] 0
     @ patched demo_key m1 (fst (record_completed demo_X demo_finished 0 m1 (False, [])))
     @ [EvGetLease (lease_key m1) (Inr demo_held), EvDeleteLease demo_held None])
   = Some (Return (zero_result, None))"
proof (rule run_completed)
  show "record_completed demo_X demo_finished 0 m1 (False, []) =
      (fst (record_completed demo_X demo_finished 0 m1 (False, [])), False, ''abc'')"
    using demo_record [of m1] by (simp add: demo_mirror_def demo_status_def)
  show "after (releaseSyncLease m1 (job_Name demo_finished))
      [EvGetLease (lease_key m1) (Inr demo_held), EvDeleteLease demo_held None] = Some (Return None)"
    by (rule after_release_held) (simp add: demo_finished_facts)
qed (simp_all add: demo_jobs demo_skip demo_mirror_def demo_status_def demo_spec_def)

theorem release_only_if_done_witness:
  "\<exists>h. after (Reconcile demo_X demo_R demo_key) (h @ EvDeleteLease demo_held None # [])
      = Some (Return (zero_result, None)) \<and> may_release demo_key h (job_Name j0)"
proof -
  define h where "h = start_events demo_key m1 [demo_finished] 0
    @ patched demo_key m1 (fst (record_completed demo_X demo_finished 0 m1 (False, [])))
    @ [EvGetLease (lease_key m1) (Inr demo_held)]"
  have run: "after (Reconcile demo_X demo_R demo_key) (h @ EvDeleteLease demo_held None # [])
      = Some (Return (zero_result, None))"
    using demo_run_completed by (simp add: h_def)
  from release_only_if_done [OF run] show ?thesis using run by auto
qed

text \<open>C3. A status patch is sent only for the copy read by the call just before, it changes
  nothing but the status, and it records one of: the outcome of a finished Job of the current
  generation from the list of this run; a Job that was created, or found to exist, under the
  Lease; a fallback tick coalesced while a Job is active.\<close>

theorem status_patches_justified:
  assumes "after (Reconcile X R key) (h @ EvPatchStatus new current r # es) = Some p"
  shows "just_did h (EvGetMirror key (Inr current)) \<and> status_only current new
    \<and> ((\<exists>job now c. job_listed key h job \<and> JobFinished (Some job) \<and> new = fst (record_completed X job now current c))
      \<or> (\<exists>m t v jobName now. mirror_read key h m \<and> job_secured X R m t v jobName h
           \<and> (new = scheduled_for X jobName (gm_Generation m) now current
              \<or> new = record_fallback X jobName (gm_Generation m) now False current))
      \<or> (\<exists>g now. new = record_fallback X [] g now True current))"
  using rule_kept.reconcile_call [OF assms] reconciler_patch_status_only [of X R key h current new]
  by (simp add: reconcile_rule_def patch_rule_def reconciler_patch_def)

theorem status_patches_justified_witness:
  "\<exists>h es. after (Reconcile demo_X demo_R demo_key) (h @ EvPatchStatus demo_scheduled m0 None # es)
      = Some (Return (zero_result, None)) \<and> status_only m0 demo_scheduled"
proof -
  define h where "h = start_events demo_key m0 [] 0 @ EvGetMirror demo_key (Inr m0)
    # fresh_lease m0 j0 0 None @ [EvCreateJob j0 None, EvGetMirror demo_key (Inr m0)]"
  have run: "after (Reconcile demo_X demo_R demo_key) (h @ EvPatchStatus demo_scheduled m0 None # [])
      = Some (Return (zero_result, None))"
    using demo_run_pending [OF demo_create] by (simp add: h_def patched_def)
  from status_patches_justified [OF run] show ?thesis using run by blast
qed

subsection \<open>What a reconciliation achieves\<close>

text \<open>A pending resync is served. When the Jobs of the generation are settled and the locked
  creation succeeds, the reconciliation creates the Job for the delivery and the revision on
  record, ends without an error, and leaves the GitMirror with the Job's name and nothing
  pending.\<close>

lemma pending_resync_served:
  assumes "settled m items" and "PendingResync (Status m)" and "PendingResync (Status current)"
    and "after (createLockedSyncJob X R current (pending_trigger current now)
        (LastRequestedRevision (Status current))) ces = Some (Return (True, jobName, None))"
    and "gm_Generation latest = gm_Generation current"
  shows "\<exists>new. after (Reconcile X R key) (start_events key m items now @ EvGetMirror key (Inr current) # ces
        @ patched key latest new) = Some (Return (zero_result, None))
    \<and> \<not> PendingResync (Status new) \<and> LastJobName (Status new) = jobName
    \<and> LastTriggeredAt (Status new) = Some now \<and> ObservedGeneration (Status new) = gm_Generation latest
    \<and> Spec new = Spec latest"
  using run_pending [OF assms(1-4), of key latest] assms(5)
  by (auto simp: scheduled_for_def ApplySyncScheduledForGeneration_def ApplySyncScheduled_def)

text \<open>A settled GitMirror without a schedule and with nothing pending is left alone: after its reads the
  reconciliation makes no further call, whatever the clock says.\<close>

lemma settled_is_quiet:
  assumes "settled m items" and "\<not> PendingResync (Status m)"
    and "after (Reconcile X R key) (start_events key m items now @ es) = Some p"
  shows "es = [] \<and> p = Return (zero_result, None)"
  by (rule run_complete [OF run_quiet [OF assms(1,2)] assms(3)])

text \<open>A Job in flight coalesces triggers. While a Job of the generation is active and no
  finished one waits to be recorded, a reconciliation of a GitMirror without a schedule makes no
  call after its reads, even with a resync pending or a generation not yet observed.\<close>

lemma active_job_coalesces:
  assumes "nothing_to_record m (jobsForGeneration items (gm_Generation m))"
    and "activeJobExists (jobsForGeneration items (gm_Generation m))"
    and "Schedule (Fallback (Spec m)) = []"
    and "after (Reconcile X R key) (start_events key m items now @ es) = Some p"
  shows "es = [] \<and> p = Return (zero_result, None)"
  by (rule run_complete [OF run_active [OF assms(1-3)] assms(4)])

text \<open>A push that arrived while a Job was running is synced when the Job ends: the patch that
  records the outcome consumes the pending resync, and in the same reconciliation a follow-up
  Job for the requested revision is created and recorded.\<close>

lemma followup_scheduled:
  assumes "jobsForGeneration items (gm_Generation m) = [job]" and "\<not> skip_job m [job] job"
    and "jobGenerationAnnotation (Some job) = (gm_Generation current, True, True)"
    and "LastCompletedJobName (Status current) \<noteq> job_Name job" and "PendingResync (Status current)"
    and "after (releaseSyncLease m (job_Name job)) res = Some (Return None)"
    and "after (createLockedSyncJob X R m (resync_trigger now) (LastRequestedRevision (Status current))) ces
        = Some (Return (True, jobName, None))"
    and "ObservedGeneration (Status m) = gm_Generation m" and "\<not> PendingResync (Status m)"
    and "Schedule (Fallback (Spec m)) = []"
  shows "after (Reconcile X R key) (start_events key m items now
      @ patched key current (fst (ApplyCompletedJobStatus X current job now)) @ res @ ces
      @ patched key latest (scheduled_for X jobName (gm_Generation m) now latest))
    = Some (Return (zero_result, None))"
  by (rule run_completed_followup [OF assms(1,2) _ assms(6,7,8,9,10)])
    (simp add: record_completed_current [OF assms(4,3)] assms(5))

abbreviation m2 :: GitMirror where
  "m2 \<equiv> demo_mirror [] (demo_status\<lparr>LastJobName := job_Name j0\<rparr>)"

lemma resync_trigger_nonempty [simp]: "resync_trigger now \<noteq> []"
  by (simp add: resync_trigger_def)

lemma demo_followup_facts:
  "jobsForGeneration [demo_finished] (gm_Generation m1) = [demo_finished]"
  "\<not> skip_job m1 [demo_finished] demo_finished"
  "jobGenerationAnnotation (Some demo_finished) = (gm_Generation m2, True, True)"
  "LastCompletedJobName (Status m2) \<noteq> job_Name demo_finished" "PendingResync (Status m2)"
  "LastRequestedRevision (Status m2) = ''abc''"
  "ObservedGeneration (Status m1) = gm_Generation m1" "\<not> PendingResync (Status m1)"
  "Schedule (Fallback (Spec m1)) = []"
  using demo_finished_facts demo_jobs demo_skip [OF refl, of m1]
  by (simp_all add: demo_job_fields [of "''d1''", simplified])

end
