(* ===== verification/Api_Server.thy ===== *)
theory Api_Server
  imports Kube_Client
begin

text \<open>
  An API server that answers every call as documented and is used by one client at a time:
  objects are stored by key, a creation is refused when the key is taken, an update when the
  resource version is not the stored one, a merge patch of the status changes the fields in
  which its two copies differ. \<open>api_step\<close> is the world (in the sense of \<open>Kube_Client\<close>) in which
  no call fails for another reason; the clock and the order of lists are free. It is not a
  model of the real server, whose answers are arbitrary in the safety properties: it says what
  a handler achieves when nothing interferes, and which interleavings the answers allow.
\<close>

subsection \<open>The stored objects\<close>

record api =
  api_mirrors :: "ObjectKey \<rightharpoonup> GitMirror"
  api_leases :: "ObjectKey \<rightharpoonup> Lease"
  api_jobs :: "ObjectKey \<rightharpoonup> BatchJob"
  api_secrets :: "ObjectKey \<rightharpoonup> SecretData"

definition empty_api :: api where
  "empty_api = \<lparr>api_mirrors = Map.empty, api_leases = Map.empty, api_jobs = Map.empty, api_secrets = Map.empty\<rparr>"

definition stored_key :: "Lease \<Rightarrow> ObjectKey" where
  "stored_key e = \<lparr>key_Namespace = lease_Namespace e, key_Name = lease_Name e\<rparr>"

definition found :: "('k \<rightharpoonup> 'v) \<Rightarrow> 'k \<Rightarrow> error + 'v" where
  "found m k = (case m k of None \<Rightarrow> Inl (NotFound []) | Some v \<Rightarrow> Inr v)"

lemma found_simps [simp]: "m k = Some v \<Longrightarrow> found m k = Inr v" "m k = None \<Longrightarrow> found m k = Inl (NotFound [])"
  by (simp_all add: found_def)

subsection \<open>The calls that write\<close>

text \<open>A field of a merge patch: left out when both copies agree.\<close>

definition merged :: "'a \<Rightarrow> 'a \<Rightarrow> 'a \<Rightarrow> 'a" where
  "merged before new stored = (if new = before then stored else new)"

definition merge_patch :: "GitMirrorStatus \<Rightarrow> GitMirrorStatus \<Rightarrow> GitMirrorStatus \<Rightarrow> GitMirrorStatus" where
  "merge_patch b n s = \<lparr>
     ObservedGeneration = merged (ObservedGeneration b) (ObservedGeneration n) (ObservedGeneration s),
     LastWebhookAt = merged (LastWebhookAt b) (LastWebhookAt n) (LastWebhookAt s),
     LastDeliveryID = merged (LastDeliveryID b) (LastDeliveryID n) (LastDeliveryID s),
     LastTriggeredAt = merged (LastTriggeredAt b) (LastTriggeredAt n) (LastTriggeredAt s),
     LastJobName = merged (LastJobName b) (LastJobName n) (LastJobName s),
     LastCompletedJobName = merged (LastCompletedJobName b) (LastCompletedJobName n) (LastCompletedJobName s),
     LastSuccessAt = merged (LastSuccessAt b) (LastSuccessAt n) (LastSuccessAt s),
     LastFailureAt = merged (LastFailureAt b) (LastFailureAt n) (LastFailureAt s),
     LastError = merged (LastError b) (LastError n) (LastError s),
     LastRequestedRevision = merged (LastRequestedRevision b) (LastRequestedRevision n) (LastRequestedRevision s),
     LastMirroredRevision = merged (LastMirroredRevision b) (LastMirroredRevision n) (LastMirroredRevision s),
     PendingResync = merged (PendingResync b) (PendingResync n) (PendingResync s),
     Conditions = merged (Conditions b) (Conditions n) (Conditions s)\<rparr>"

definition api_patch_status :: "api \<Rightarrow> GitMirror \<Rightarrow> GitMirror \<Rightarrow> error option \<times> api" where
  "api_patch_status s new before = (case api_mirrors s (mirror_key new) of
     None \<Rightarrow> (Some (NotFound []), s)
   | Some m \<Rightarrow> (None, s\<lparr>api_mirrors := (api_mirrors s)(mirror_key new \<mapsto>
       m\<lparr>Status := merge_patch (Status before) (Status new) (Status m)\<rparr>)\<rparr>))"

definition api_create_job :: "api \<Rightarrow> BatchJob \<Rightarrow> error option \<times> api" where
  "api_create_job s job = (case api_jobs s (job_key job) of
     Some _ \<Rightarrow> (Some (AlreadyExists []), s)
   | None \<Rightarrow> (None, s\<lparr>api_jobs := (api_jobs s)(job_key job \<mapsto> job)\<rparr>))"

definition api_create_lease :: "api \<Rightarrow> Lease \<Rightarrow> error option \<times> api" where
  "api_create_lease s e = (case api_leases s (stored_key e) of
     Some _ \<Rightarrow> (Some (AlreadyExists []), s)
   | None \<Rightarrow> (None, s\<lparr>api_leases := (api_leases s)(stored_key e \<mapsto> e\<lparr>lease_ResourceVersion := ''1''\<rparr>)\<rparr>))"

definition api_update_lease :: "api \<Rightarrow> Lease \<Rightarrow> error option \<times> api" where
  "api_update_lease s e = (case api_leases s (stored_key e) of
     None \<Rightarrow> (Some (NotFound []), s)
   | Some old \<Rightarrow>
       if lease_ResourceVersion old \<noteq> lease_ResourceVersion e then (Some (Conflict []), s)
       else (None, s\<lparr>api_leases := (api_leases s)(stored_key e \<mapsto>
         e\<lparr>lease_ResourceVersion := lease_ResourceVersion old @ ''1''\<rparr>)\<rparr>))"

definition api_delete_lease :: "api \<Rightarrow> Lease \<Rightarrow> error option \<times> api" where
  "api_delete_lease s e = (case api_leases s (stored_key e) of
     None \<Rightarrow> (Some (NotFound []), s)
   | Some _ \<Rightarrow> (None, s\<lparr>api_leases := (api_leases s)(stored_key e := None)\<rparr>))"

subsection \<open>The world\<close>

definition stored_jobs :: "api \<Rightarrow> string \<Rightarrow> string \<Rightarrow> string \<Rightarrow> BatchJob set" where
  "stored_jobs s n k v = {j. api_jobs s (job_key j) = Some j \<and> job_Namespace j = n \<and> job_Labels j k = Some v}"

definition api_step :: "api world" where
  "api_step s e s' = (case e of
     EvGetMirror k r \<Rightarrow> s' = s \<and> r = found (api_mirrors s) k
   | EvListMirrors r \<Rightarrow> s' = s \<and> (\<exists>items. r = Inr items \<and> distinct items \<and> set items = ran (api_mirrors s))
   | EvPatchStatus new before r \<Rightarrow> (r, s') = api_patch_status s new before
   | EvListJobs n k v r \<Rightarrow>
       s' = s \<and> (\<exists>items. r = Inr items \<and> distinct items \<and> set items = stored_jobs s n k v)
   | EvGetJob k r \<Rightarrow> s' = s \<and> r = found (api_jobs s) k
   | EvCreateJob job r \<Rightarrow> (r, s') = api_create_job s job
   | EvGetLease k r \<Rightarrow> s' = s \<and> r = found (api_leases s) k
   | EvCreateLease l r \<Rightarrow> (r, s') = api_create_lease s l
   | EvUpdateLease l r \<Rightarrow> (r, s') = api_update_lease s l
   | EvDeleteLease l r \<Rightarrow> (r, s') = api_delete_lease s l
   | EvGetSecret k r \<Rightarrow> s' = s \<and> r = found (api_secrets s) k
   | EvClockNow t \<Rightarrow> s' = s
   | EvWallNow t \<Rightarrow> s' = s)"

text \<open>The same world when the handler's clock only shows times of \<open>T\<close>, and the clock that
  \<open>time.Until\<close> reads only times of \<open>W\<close>.\<close>

definition timed :: "time set \<Rightarrow> time set \<Rightarrow> api world" where
  "timed T W s e s' = (api_step s e s' \<and> (\<forall>now. e = EvClockNow now \<longrightarrow> now \<in> T)
     \<and> (\<forall>now. e = EvWallNow now \<longrightarrow> now \<in> W))"

lemma timed_events:
  "timed T W s (EvGetMirror k r1) t = (t = s \<and> r1 = found (api_mirrors s) k)"
  "timed T W s (EvListMirrors r2) t
     = (t = s \<and> (\<exists>items. r2 = Inr items \<and> distinct items \<and> set items = ran (api_mirrors s)))"
  "timed T W s (EvPatchStatus new before r) t = ((r, t) = api_patch_status s new before)"
  "timed T W s (EvListJobs n l v r3) t
     = (t = s \<and> (\<exists>items. r3 = Inr items \<and> distinct items \<and> set items = stored_jobs s n l v))"
  "timed T W s (EvGetJob k r4) t = (t = s \<and> r4 = found (api_jobs s) k)"
  "timed T W s (EvCreateJob job r) t = ((r, t) = api_create_job s job)"
  "timed T W s (EvGetLease k r5) t = (t = s \<and> r5 = found (api_leases s) k)"
  "timed T W s (EvCreateLease e r) t = ((r, t) = api_create_lease s e)"
  "timed T W s (EvUpdateLease e r) t = ((r, t) = api_update_lease s e)"
  "timed T W s (EvDeleteLease e r) t = ((r, t) = api_delete_lease s e)"
  "timed T W s (EvGetSecret k r6) t = (t = s \<and> r6 = found (api_secrets s) k)"
  "timed T W s (EvClockNow now) t = (t = s \<and> now \<in> T)"
  "timed T W s (EvWallNow now) t = (t = s \<and> now \<in> W)"
  by (auto simp: timed_def api_step_def)

definition wpa :: "time set \<Rightarrow> time set \<Rightarrow> 'a prog \<Rightarrow> ('a \<Rightarrow> api \<Rightarrow> bool) \<Rightarrow> api \<Rightarrow> bool" where
  "wpa T W = wp (timed T W) (\<lambda>_. True)"

text \<open>In this world a program is evaluated call by call.\<close>

lemma pair_unique: "(\<forall>r t. (r, t) = p \<longrightarrow> P r t) = P (fst p) (snd p)"
  by (cases p) auto

lemma wpa_simps [simp]:
  "wpa T W (Return a) Q s = Q a s"
  "wpa T W (GetMirror k c1) Q s = wpa T W (c1 (found (api_mirrors s) k)) Q s"
  "wpa T W (ListMirrors c2) Q s = (\<forall>items. distinct items \<and> set items = ran (api_mirrors s) \<longrightarrow> wpa T W (c2 (Inr items)) Q s)"
  "wpa T W (PatchStatus new before c) Q s
     = wpa T W (c (fst (api_patch_status s new before))) Q (snd (api_patch_status s new before))"
  "wpa T W (ListJobs n l v c3) Q s
     = (\<forall>items. distinct items \<and> set items = stored_jobs s n l v \<longrightarrow> wpa T W (c3 (Inr items)) Q s)"
  "wpa T W (GetJob k c4) Q s = wpa T W (c4 (found (api_jobs s) k)) Q s"
  "wpa T W (CreateJob j c) Q s = wpa T W (c (fst (api_create_job s j))) Q (snd (api_create_job s j))"
  "wpa T W (GetLease k c5) Q s = wpa T W (c5 (found (api_leases s) k)) Q s"
  "wpa T W (CreateLease l' c) Q s = wpa T W (c (fst (api_create_lease s l'))) Q (snd (api_create_lease s l'))"
  "wpa T W (UpdateLease l' c) Q s = wpa T W (c (fst (api_update_lease s l'))) Q (snd (api_update_lease s l'))"
  "wpa T W (DeleteLease l' c) Q s = wpa T W (c (fst (api_delete_lease s l'))) Q (snd (api_delete_lease s l'))"
  "wpa T W (GetSecret k c6) Q s = wpa T W (c6 (found (api_secrets s) k)) Q s"
  "wpa T W (ClockNow c7) Q s = (\<forall>now \<in> T. wpa T W (c7 now) Q s)"
  "wpa T W (WallNow c7) Q s = (\<forall>now \<in> W. wpa T W (c7 now) Q s)"
  by (simp_all add: wpa_def timed_events pair_unique) blast+

lemma wpa_bindp: "wpa T W (bindp p f) Q s = wpa T W p (\<lambda>a. wpa T W (f a) Q) s"
  unfolding wpa_def by (rule wp_bindp)

lemma wpa_mono: "wpa T W p Q s \<Longrightarrow> (\<And>a t. Q a t \<Longrightarrow> R a t) \<Longrightarrow> wpa T W p R s"
  unfolding wpa_def by (rule wp_mono)

text \<open>Every program runs to its end, when the Jobs and mirrors are finitely many.\<close>

definition finite_api :: "api \<Rightarrow> bool" where
  "finite_api s = (finite (dom (api_mirrors s)) \<and> finite (dom (api_jobs s)))"

lemma finite_stored_jobs:
  assumes "finite_api s"
  shows "finite (stored_jobs s n k v)"
proof (rule finite_subset)
  show "stored_jobs s n k v \<subseteq> ran (api_jobs s)" by (auto simp: stored_jobs_def ran_def)
  show "finite (ran (api_jobs s))" using assms by (simp add: finite_api_def finite_ran)
qed

lemma finite_api_step:
  assumes "api_step s e t" and "finite_api s"
  shows "finite_api t"
  using assms
  by (cases e) (auto simp: api_step_def finite_api_def api_patch_status_def api_create_job_def
      api_create_lease_def api_update_lease_def api_delete_lease_def split: option.splits if_splits)

lemma one_call:
  assumes "finite_api s" and "resume p e = Some p'" and "timed T W s e t"
    and "\<And>t. finite_api t \<Longrightarrow> \<exists>es u a. after p' es = Some (Return a) \<and> runs (timed T W) t es u"
  shows "\<exists>es u a. after p es = Some (Return a) \<and> runs (timed T W) s es u"
proof -
  have "api_step s e t" using assms(3) by (simp add: timed_def)
  then have "finite_api t" using assms(1) by (rule finite_api_step)
  with assms(4) obtain es u a where "after p' es = Some (Return a)" "runs (timed T W) t es u" by blast
  with assms(2,3) show ?thesis by (intro exI [of _ "e # es"] exI) auto
qed

lemma listed: "finite A \<Longrightarrow> \<exists>items. distinct items \<and> set items = A"
  using finite_distinct_list by blast

lemma runs_to_end:
  assumes "now \<in> T" and "wall \<in> W" and "finite_api s"
  shows "\<exists>es t a. after p es = Some (Return a) \<and> runs (timed T W) s es t"
  using assms(3)
proof (induction p arbitrary: s)
  case (Return a)
  show ?case by (rule exI [of _ "[]"]) simp
next
  case (ListMirrors c)
  have "finite (ran (api_mirrors s))" using ListMirrors.prems by (simp add: finite_api_def finite_ran)
  then obtain items where items: "distinct items" "set items = ran (api_mirrors s)" using listed by blast
  show ?case
    by (rule one_call [OF ListMirrors.prems, where e = "EvListMirrors (Inr items)" and t = "s"])
      (use ListMirrors.IH [OF rangeI] items in \<open>simp_all add: timed_events\<close>)
next
  case (ListJobs n k v c)
  obtain items where items: "distinct items" "set items = stored_jobs s n k v"
    using listed [OF finite_stored_jobs [OF ListJobs.prems]] by blast
  show ?case
    by (rule one_call [OF ListJobs.prems, where e = "EvListJobs n k v (Inr items)" and t = "s"])
      (use ListJobs.IH [OF rangeI] items in \<open>simp_all add: timed_events\<close>)
next
  case (ClockNow c)
  show ?case
    by (rule one_call [OF ClockNow.prems, where e = "EvClockNow now" and t = "s"])
      (use ClockNow.IH [OF rangeI] assms(1) in \<open>simp_all add: timed_events\<close>)
next
  case (WallNow c)
  show ?case
    by (rule one_call [OF WallNow.prems, where e = "EvWallNow wall" and t = "s"])
      (use WallNow.IH [OF rangeI] assms(2) in \<open>simp_all add: timed_events\<close>)
next
  case (GetMirror k c)
  show ?case
    by (rule one_call [OF GetMirror.prems, where e = "EvGetMirror k (found (api_mirrors s) k)" and t = "s"])
      (use GetMirror.IH [OF rangeI] in \<open>simp_all add: timed_events\<close>)
next
  case (GetJob k c)
  show ?case
    by (rule one_call [OF GetJob.prems, where e = "EvGetJob k (found (api_jobs s) k)" and t = "s"])
      (use GetJob.IH [OF rangeI] in \<open>simp_all add: timed_events\<close>)
next
  case (GetLease k c)
  show ?case
    by (rule one_call [OF GetLease.prems, where e = "EvGetLease k (found (api_leases s) k)" and t = "s"])
      (use GetLease.IH [OF rangeI] in \<open>simp_all add: timed_events\<close>)
next
  case (GetSecret k c)
  show ?case
    by (rule one_call [OF GetSecret.prems, where e = "EvGetSecret k (found (api_secrets s) k)" and t = "s"])
      (use GetSecret.IH [OF rangeI] in \<open>simp_all add: timed_events\<close>)
next
  case (PatchStatus new before c)
  show ?case
    by (rule one_call [OF PatchStatus.prems, where e = "EvPatchStatus new before (fst (api_patch_status s new before))" and t = "snd (api_patch_status s new before)"])
      (use PatchStatus.IH [OF rangeI] in \<open>simp_all add: timed_events\<close>)
next
  case (CreateJob j c)
  show ?case
    by (rule one_call [OF CreateJob.prems, where e = "EvCreateJob j (fst (api_create_job s j))" and t = "snd (api_create_job s j)"])
      (use CreateJob.IH [OF rangeI] in \<open>simp_all add: timed_events\<close>)
next
  case (CreateLease l c)
  show ?case
    by (rule one_call [OF CreateLease.prems, where e = "EvCreateLease l (fst (api_create_lease s l))" and t = "snd (api_create_lease s l)"])
      (use CreateLease.IH [OF rangeI] in \<open>simp_all add: timed_events\<close>)
next
  case (UpdateLease l c)
  show ?case
    by (rule one_call [OF UpdateLease.prems, where e = "EvUpdateLease l (fst (api_update_lease s l))" and t = "snd (api_update_lease s l)"])
      (use UpdateLease.IH [OF rangeI] in \<open>simp_all add: timed_events\<close>)
next
  case (DeleteLease l c)
  show ?case
    by (rule one_call [OF DeleteLease.prems, where e = "EvDeleteLease l (fst (api_delete_lease s l))" and t = "snd (api_delete_lease s l)"])
      (use DeleteLease.IH [OF rangeI] in \<open>simp_all add: timed_events\<close>)
qed

text \<open>A handler runs to its end, and every run that reaches its end satisfies \<open>Q\<close>.\<close>

definition ends_in :: "time set \<Rightarrow> time set \<Rightarrow> api \<Rightarrow> 'a prog \<Rightarrow> ('a \<Rightarrow> api \<Rightarrow> bool) \<Rightarrow> bool" where
  "ends_in T W s p Q = ((\<exists>es t a. after p es = Some (Return a) \<and> runs (timed T W) s es t)
     \<and> (\<forall>es t a. after p es = Some (Return a) \<longrightarrow> runs (timed T W) s es t \<longrightarrow> Q a t))"

lemma ends_inI:
  assumes "wpa T W p Q s" and "finite_api s" and "now \<in> T" and "wall \<in> W"
  shows "ends_in T W s p Q"
  unfolding ends_in_def using runs_to_end [OF assms(3,4,2)] wp_sound_Return [OF assms(1) [unfolded wpa_def]] by auto

lemma ends_in_some:
  assumes "ends_in T W s p Q"
  shows "\<exists>es t a. after p es = Some (Return a) \<and> runs (timed T W) s es t \<and> Q a t"
  using assms unfolding ends_in_def by blast

end
