(* ===== verification/Divergences.thy ===== *)
theory Divergences
  imports Reconciler_Properties Api_Server
begin

text \<open>
  Where the reconciler does not do what it is meant to, each as a theorem with a run that shows
  it: a coalesced push is lost when the follow-up Job cannot be created, a push recorded while
  a Job is being scheduled is lost, a trigger whose Job still exists counts as synced, an old
  outcome is recorded again when the newest Job is deleted, and the
  Lease does not keep two reconcilers from creating two Jobs.
\<close>

subsection \<open>A lost follow-up\<close>

text \<open>C27. A coalesced push can be lost. The patch that records a finished Job already clears the
  pending resync; when the follow-up Job is then not created, because its creation is refused
  or because the repository's Lease is held by an active Job of another GitMirror, the
  reconciliation ends with that error or asks to be run again soon, but the next one finds
  nothing to do: the push stays unsynced until another trigger.\<close>

theorem followup_lost:
  assumes "jobsForGeneration items (gm_Generation m) = [job]" and "\<not> skip_job m [job] job"
    and "jobGenerationAnnotation (Some job) = (gm_Generation m, True, True)"
    and "PendingResync (Status m)" and "Schedule (Fallback (Spec m)) = []"
    and "after (releaseSyncLease m (job_Name job)) res = Some (Return None)"
    and "after (createLockedSyncJob X R m (resync_trigger now) (LastRequestedRevision (Status m))) ces
        = Some (Return (False, jobName, reason))" and "\<And>err. reason = Some err \<Longrightarrow> \<not> IsAlreadyExists err"
  shows "let new = fst (ApplyCompletedJobStatus X m job now) in
    after (Reconcile X R key) (start_events key m items now @ patched key m new @ res @ ces)
      = Some (Return (if reason = None then retry_soon else zero_result, reason))
    \<and> \<not> PendingResync (Status new)
    \<and> after (Reconcile X R key) (start_events key new items later) = Some (Return (zero_result, None))"
proof -
  let ?new = "fst (ApplyCompletedJobStatus X m job now)"
  have fin: "JobFinished (Some job)" "LastCompletedJobName (Status m) \<noteq> job_Name job"
    using assms(2) by (simp_all add: skip_job_def)
  have "record_completed X job now m (False, []) = (?new, True, LastRequestedRevision (Status m))"
    using record_completed_current [OF fin(2) assms(3)] assms(4) by simp
  from run_completed_no_followup [OF assms(1,2) this assms(6,7,8)]
  have "after (Reconcile X R key) (start_events key m items now @ patched key m ?new @ res @ ces)
      = Some (Return (if reason = None then retry_soon else zero_result, reason))" .
  moreover have "settled ?new items"
    using assms(1,5) fin(1)
    by (simp add: settled_def completed_consumes nothing_to_record_def skip_job_def activeJobExists_def
        not_active_finished)
  ultimately show ?thesis by (simp add: run_quiet completed_consumes)
qed

lemma demo_followup_refused:
  "after (createLockedSyncJob demo_X demo_R m2 (resync_trigger 0) (LastRequestedRevision (Status m2)))
     (fresh_lease m2 (demo_job m2 (resync_trigger 0) ''abc'') 0 (Some (CallError [])))
   = Some (Return (False, job_Name (demo_job m2 (resync_trigger 0) ''abc''), Some (CallError [])))"
  unfolding demo_followup_facts by (rule after_create_refused [OF demo_built]) simp_all

text \<open>The Lease is held by an active Job \<open>x\<close> of another GitMirror.\<close>

definition demo_busy_lease :: Lease where
  "demo_busy_lease = (new_lease m2 ''x'' 0)\<lparr>lease_ResourceVersion := ''7''\<rparr>"

definition demo_busy_job :: BatchJob where
  "demo_busy_job = (demo_job m2 ''d1'' [])\<lparr>job_Name := ''x''\<rparr>"

lemma demo_followup_busy:
  "after (createLockedSyncJob demo_X demo_R m2 (resync_trigger 0) (LastRequestedRevision (Status m2)))
     (fresh_lease m2 (demo_job m2 (resync_trigger 0) ''abc'') 0 (Some (AlreadyExists [])) @
      [EvGetLease (lease_key m2) (Inr demo_busy_lease),
       EvGetJob \<lparr>key_Namespace = ''ns'', key_Name = ''x''\<rparr> (Inr demo_busy_job)])
   = Some (Return (False, job_Name (demo_job m2 (resync_trigger 0) ''abc''), None))"
proof -
  have built: "built_from demo_X demo_R m2 (resync_trigger 0) ''abc'' (demo_job m2 (resync_trigger 0) ''abc'')"
    by (rule demo_built) simp
  have "JobActive (Some demo_busy_job)"
    using demo_job_fields [of "''d1''"]
    by (simp add: JobActive_def JobFinished_def isJobComplete_def isJobFailed_def demo_busy_job_def)
  moreover have "jobGenerationMatches (Some demo_busy_job) 1"
    using demo_generation(1) [of "''d1''"]
    by (simp add: demo_busy_job_def jobGenerationMatches_def jobGenerationAnnotation_def)
  moreover have "length (NameForMirrorTrigger m2 (resync_trigger 0)) > length ''x''"
    by (simp add: NameForMirrorTrigger_def Let_def)
  then have "job_Name (demo_job m2 (resync_trigger 0) ''abc'') \<noteq> ''x''"
    by (auto simp: demo_job_fields)
  moreover have "current_holder demo_busy_lease = ''x''"
    by (simp add: demo_busy_lease_def current_holder_def new_lease_def Let_def)
  ultimately show ?thesis
    unfolding demo_followup_facts using built
    by (simp add: fresh_lease_def built_from_def createLockedSyncJob_def acquireSyncLease_def Let_def
        jobNameActiveForGeneration_def)
qed

theorem followup_lost_witness:
  "\<exists>es es' new. PendingResync (Status m2)
    \<and> after (Reconcile demo_X demo_R demo_key) es = Some (Return (zero_result, Some (CallError [])))
    \<and> after (Reconcile demo_X demo_R demo_key) es' = Some (Return (retry_soon, None))
    \<and> EvPatchStatus new m2 None \<in> set es \<inter> set es' \<and> \<not> PendingResync (Status new)
    \<and> after (Reconcile demo_X demo_R demo_key) (start_events demo_key new [demo_finished] 9)
      = Some (Return (zero_result, None))"
proof -
  have facts: "jobsForGeneration [demo_finished] (gm_Generation m2) = [demo_finished]"
    "\<not> skip_job m2 [demo_finished] demo_finished"
    "Schedule (Fallback (Spec m2)) = []" "\<And>err. Some (CallError []) = Some err \<Longrightarrow> \<not> IsAlreadyExists err"
    "\<And>err. None = Some err \<Longrightarrow> \<not> IsAlreadyExists err"
    using demo_jobs demo_skip [OF refl, of m2] by auto
  note lost = followup_lost [OF facts(1,2) demo_followup_facts(3,5) facts(3) after_release_gone [of _ _ "[]"]]
  note refused = lost [OF demo_followup_refused facts(4), of demo_key 9, unfolded Let_def]
  note busy = lost [OF demo_followup_busy facts(5), of demo_key 9, unfolded Let_def]
  show ?thesis
    by (rule exI, rule exI, rule exI [of _ "fst (ApplyCompletedJobStatus demo_X m2 demo_finished 0)"],
        rule conjI, rule demo_followup_facts(5), rule conjI, rule conjunct1 [OF refused, simplified],
        rule conjI, rule conjunct1 [OF busy, simplified])
      (use refused in \<open>simp add: patched_def\<close>)
qed

subsection \<open>A lost push\<close>

text \<open>C28. A push recorded while a Job is being scheduled can be lost. When the webhook patches the
  GitMirror between the creation of the Job for the earlier push and the status patch, that
  patch clears the pending resync of the newer push too: its revision stays requested, but
  nothing is pending, and the end of the Job asks for no follow-up.\<close>

theorem newer_push_lost:
  assumes "settled m items" and "PendingResync (Status m)" and "PendingResync (Status current)"
    and "after (createLockedSyncJob X R current (pending_trigger current now)
        (LastRequestedRevision (Status current))) ces = Some (Return (True, jobName, None))"
    and "revision \<noteq> []"
  shows "let latest = ApplyWebhookIntent X current deliveryID revision arrival;
             new = scheduled_for X jobName (gm_Generation current) now latest in
    after (Reconcile X R key) (start_events key m items now @ EvGetMirror key (Inr current) # ces
        @ patched key latest new) = Some (Return (zero_result, None))
    \<and> PendingResync (Status latest) \<and> LastRequestedRevision (Status new) = revision
    \<and> \<not> PendingResync (Status new) \<and> \<not> snd (ApplyCompletedJobStatus X new job later)"
proof -
  let ?latest = "ApplyWebhookIntent X current deliveryID revision arrival"
  have "gm_Generation ?latest = gm_Generation current" "PendingResync (Status ?latest)"
    "LastRequestedRevision (Status ?latest) = revision"
    using assms(5) by (simp_all add: ApplyWebhookIntent_def Let_def)
  then show ?thesis
    using run_pending [OF assms(1-4), of key ?latest] completed_flags [of X _ job later]
    by (simp add: Let_def scheduled_for_def ApplySyncScheduledForGeneration_def ApplySyncScheduled_def
        split_beta)
qed

theorem newer_push_lost_witness:
  "let latest = ApplyWebhookIntent demo_X m0 ''d2'' ''def'' 1; new = scheduled_for demo_X (job_Name j0) 1 0 latest in
   PendingResync (Status latest) \<and> LastRequestedRevision (Status new) = ''def''
   \<and> \<not> PendingResync (Status new)
   \<and> (\<exists>es. after (Reconcile demo_X demo_R demo_key) (es @ patched demo_key latest new)
        = Some (Return (zero_result, None)))"
proof -
  have create: "after (createLockedSyncJob demo_X demo_R m0 (pending_trigger m0 0) (LastRequestedRevision (Status m0)))
      (fresh_lease m0 j0 0 None @ [EvCreateJob j0 None]) = Some (Return (True, job_Name j0, None))"
    unfolding m0_facts by (rule demo_create)
  have rev: "''def'' \<noteq> []" by simp
  note run = newer_push_lost [OF m0_facts(1,2,2) create rev, of "''d2''" 1 demo_key j0 9,
      unfolded Let_def m0_facts(5)]
  let ?latest = "ApplyWebhookIntent demo_X m0 ''d2'' ''def'' 1"
  have "after (Reconcile demo_X demo_R demo_key) ((start_events demo_key m0 [] 0 @ EvGetMirror demo_key (Inr m0)
        # fresh_lease m0 j0 0 None @ [EvCreateJob j0 None])
        @ patched demo_key ?latest (scheduled_for demo_X (job_Name j0) 1 0 ?latest))
      = Some (Return (zero_result, None))"
    using run by (simp only: append_assoc append_Cons append_Nil)
  then have "\<exists>es. after (Reconcile demo_X demo_R demo_key)
      (es @ patched demo_key ?latest (scheduled_for demo_X (job_Name j0) 1 0 ?latest))
      = Some (Return (zero_result, None))"
    by (rule exI [of "\<lambda>es. after (Reconcile demo_X demo_R demo_key)
      (es @ patched demo_key ?latest (scheduled_for demo_X (job_Name j0) 1 0 ?latest))
      = Some (Return (zero_result, None))"])
  moreover from run have "PendingResync (Status ?latest)"
      "LastRequestedRevision (Status (scheduled_for demo_X (job_Name j0) 1 0 ?latest)) = ''def''"
      "\<not> PendingResync (Status (scheduled_for demo_X (job_Name j0) 1 0 ?latest))"
    by - (elim conjE, assumption)+
  ultimately show ?thesis unfolding Let_def by (intro conjI)
qed

subsection \<open>A trigger that is used again\<close>

text \<open>C29. A trigger whose Job is still there is not synced. The Job's name is a function of the
  GitMirror and the trigger, so a delivery that is sent again (or the trigger \<open>scheduled\<close> that a
  coalesced fallback tick leaves in the status) finds its old Job, finished or not: the answer
  AlreadyExists counts as success, no Job is created, and the pending resync is cleared.\<close>

theorem reused_trigger_not_synced:
  assumes "settled m items" and "PendingResync (Status m)" and "PendingResync (Status current)"
    and "built_from X R current (pending_trigger current now) (LastRequestedRevision (Status current)) job"
    and "gm_Generation latest = gm_Generation current"
  shows "\<exists>es new. after (Reconcile X R key) (start_events key m items now @ EvGetMirror key (Inr current) # es
        @ patched key latest new) = Some (Return (zero_result, None))
    \<and> EvCreateJob job (Some (AlreadyExists text)) \<in> set es \<and> (\<forall>job'. EvCreateJob job' None \<notin> set es)
    \<and> \<not> PendingResync (Status new) \<and> LastJobName (Status new) = job_Name job"
proof -
  let ?es = "fresh_lease current job 0 None @ [EvCreateJob job (Some (AlreadyExists text))]"
  have "after (createLockedSyncJob X R current (pending_trigger current now) (LastRequestedRevision (Status current))) ?es
      = Some (Return (True, job_Name job, None))"
    by (rule after_create [OF assms(4)]) simp
  note run = run_pending [OF assms(1-3) this, of key latest]
  show ?thesis
    by (rule exI, rule exI, rule conjI, rule run)
      (simp add: fresh_lease_def scheduled_for_def ApplySyncScheduledForGeneration_def
        ApplySyncScheduled_def assms(5))
qed

theorem reused_trigger_not_synced_witness:
  "\<exists>es new. after (Reconcile demo_X demo_R demo_key) (start_events demo_key m0 [] 0
      @ EvGetMirror demo_key (Inr m0) # es @ patched demo_key m0 new) = Some (Return (zero_result, None))
    \<and> (\<forall>job. EvCreateJob job None \<notin> set es) \<and> \<not> PendingResync (Status new)"
proof -
  have "built_from demo_X demo_R m0 (pending_trigger m0 0) (LastRequestedRevision (Status m0)) j0"
    unfolding m0_facts by (rule demo_built) simp
  from reused_trigger_not_synced [OF m0_facts(1,2,2) this refl, of demo_key "[]"] show ?thesis by blast
qed

subsection \<open>An old outcome recorded again\<close>

text \<open>C30. The status can fall back to an older revision. When the Job that was recorded last is
  deleted while an older finished Job of the generation is still there, the reconciler takes
  the older one for a Job it has not recorded: the last mirrored revision becomes the older
  one again, with a time of success that is now, although the target has the newer one.\<close>

theorem older_job_recorded_again:
  assumes "jobsForGeneration items (gm_Generation m) = [old]" and "isJobComplete old"
    and "LastCompletedJobName (Status m) = LastJobName (Status m)" and "LastJobName (Status m) \<noteq> job_Name old"
    and "jobGenerationAnnotation (Some old) = (gm_Generation m, True, True)"
    and "map_get (job_Annotations old) AnnotationRevision \<noteq> []"
    and "after (releaseSyncLease m (job_Name old)) res = Some (Return None)"
    and "ObservedGeneration (Status m) = gm_Generation m" and "\<not> PendingResync (Status m)"
    and "Schedule (Fallback (Spec m)) = []"
  shows "let new = fst (ApplyCompletedJobStatus X m old now) in
    after (Reconcile X R key) (start_events key m items now @ patched key m new @ res) = Some (Return (zero_result, None))
    \<and> LastMirroredRevision (Status new) = map_get (job_Annotations old) AnnotationRevision
    \<and> LastSuccessAt (Status new) = Some now \<and> LastCompletedJobName (Status new) = job_Name old"
proof -
  have "\<not> skip_job m [old] old"
    using assms(2-4) by (simp add: skip_job_def JobFinished_Some jobNameExists_def)
  moreover have "record_completed X old now m (False, [])
      = (fst (ApplyCompletedJobStatus X m old now), False, LastRequestedRevision (Status m))"
    using record_completed_current [OF _ assms(5), of X now "(False, [])"] assms(3,4,9) by simp
  ultimately have "after (Reconcile X R key) (start_events key m items now
      @ patched key m (fst (ApplyCompletedJobStatus X m old now)) @ res) = Some (Return (zero_result, None))"
    by (rule run_completed [OF assms(1) _ _ assms(7-10)])
  then show ?thesis
    using assms(2,6)
    by (simp add: Let_def ApplyCompletedJobStatus_def applyCompletedJobStatus_def record_outcome_result)
qed

abbreviation demo_newer :: GitMirror where
  "demo_newer \<equiv> demo_mirror [] (demo_status\<lparr>PendingResync := False, LastJobName := ''newer'',
     LastCompletedJobName := ''newer'', LastMirroredRevision := ''def''\<rparr>)"

theorem older_job_recorded_again_witness:
  "\<exists>es new. after (Reconcile demo_X demo_R demo_key) es = Some (Return (zero_result, None))
    \<and> EvPatchStatus new demo_newer None \<in> set es
    \<and> LastMirroredRevision (Status demo_newer) = ''def'' \<and> LastMirroredRevision (Status new) = ''abc''"
proof -
  have "length (NameForMirrorTrigger m0 ''d1'') > length ''newer''" by (simp add: NameForMirrorTrigger_def Let_def)
  then have "''newer'' \<noteq> NameForMirrorTrigger m0 ''d1''" by (metis less_irrefl)
  then have name: "LastJobName (Status demo_newer) \<noteq> job_Name demo_finished"
    by (simp add: demo_finished_facts demo_job_fields)
  have revision: "map_get (job_Annotations demo_finished) AnnotationRevision = ''abc''"
    by (simp add: demo_finished_def demo_job_fields sync_annotations_revision) (simp add: sync_options_def)
  have jobs: "jobsForGeneration [demo_finished] (gm_Generation demo_newer) = [demo_finished]"
    using demo_jobs by simp
  have gen: "jobGenerationAnnotation (Some demo_finished) = (gm_Generation demo_newer, True, True)"
    using demo_finished_facts by simp
  have "map_get (job_Annotations demo_finished) AnnotationRevision \<noteq> []" by (simp add: revision)
  note run = older_job_recorded_again [OF jobs demo_finished_facts(3) _ name gen this after_release_gone [of _ _ "[]"],
      of demo_X 0 demo_R demo_key, unfolded Let_def revision]
  show ?thesis
    by (rule exI, rule exI [of _ "fst (ApplyCompletedJobStatus demo_X demo_newer demo_finished 0)"],
        rule conjI, rule conjunct1 [OF run]) (use run in \<open>simp_all add: patched_def\<close>)
qed

subsection \<open>Two reconcilers\<close>

text \<open>C25. The Lease does not prevent concurrent Jobs. Two reconcilers that each want a Job under
  the same Lease (for one GitMirror and two triggers, or for two GitMirrors of one repository)
  can both create it although every call is answered as the API server documents: the second
  one finds the Lease held by a name whose Job does not exist yet, takes it for a finished
  holder, and takes the Lease over before the first one creates its Job.\<close>

theorem lease_race:
  assumes "built_from X R m t1 v1 job1" and "built_from X R m' t2 v2 job2" and "job_Name job1 \<noteq> job_Name job2"
    and "job_Namespace job1 = gm_Namespace m" and "job_Namespace job2 = gm_Namespace m'"
    and "lease_key m' = lease_key m"
  shows "\<exists>es1 es2 es s. after (createLockedSyncJob X R m t1 v1) es1 = Some (Return (True, job_Name job1, None))
    \<and> after (createLockedSyncJob X R m' t2 v2) es2 = Some (Return (True, job_Name job2, None))
    \<and> es \<in> shuffles es1 es2 \<and> runs api_step empty_api es s
    \<and> api_jobs s (job_key job1) = Some job1 \<and> api_jobs s (job_key job2) = Some job2"
proof -
  let ?held = "(new_lease m (job_Name job1) 0)\<lparr>lease_ResourceVersion := ''1''\<rparr>"
  let ?es2 = "orphan_lease m' job2 1 ?held @ [EvCreateJob job2 None]"
  have n: "job_Name job1 \<noteq> []" using assms(1) by (simp add: built_from_def)
  have h: "current_holder ?held = job_Name job1" by (simp add: current_holder_def new_lease_def Let_def)
  have r1: "after (createLockedSyncJob X R m t1 v1) (fresh_lease m job1 0 None @ [EvCreateJob job1 None])
      = Some (Return (True, job_Name job1, None))"
    by (rule after_create [OF assms(1)]) simp
  have r2: "after (createLockedSyncJob X R m' t2 v2) ?es2 = Some (Return (True, job_Name job2, None))"
    by (rule after_create_orphan [OF assms(2)]) (use n h assms(3) in simp_all)
  have sh: "fresh_lease m job1 0 None @ ?es2 @ [EvCreateJob job1 None]
      \<in> shuffles (fresh_lease m job1 0 None @ [EvCreateJob job1 None]) ?es2"
  proof -
    have "xs @ ys @ zs \<in> shuffles (xs @ zs) ys" for xs ys zs :: "event list"
    proof (induction xs)
      case Nil
      show ?case by (induction ys) (auto intro: Cons_in_shuffles_rightI)
    qed (auto intro: Cons_in_shuffles_leftI)
    then show ?thesis .
  qed
  have k: "stored_key (e\<lparr>lease_ResourceVersion := v\<rparr>) = stored_key e"
    "stored_key (e\<lparr>HolderIdentity := w\<rparr>) = stored_key e" "stored_key (e\<lparr>AcquireTime := t\<rparr>) = stored_key e"
    "stored_key (e\<lparr>RenewTime := t\<rparr>) = stored_key e" for e v w t by (simp_all add: stored_key_def)
  have ns: "gm_Namespace m' = gm_Namespace m" using assms(6) by (simp add: lease_key_def)
  have k1: "stored_key (new_lease m holder t) = lease_key m" for m :: GitMirror and holder t
    by (simp add: stored_key_def new_lease_def lease_key_def Let_def)
  have run: "runs api_step empty_api
      (fresh_lease m job1 0 None @ ?es2 @ [EvCreateJob job1 None])
      (empty_api\<lparr>api_leases := [lease_key m \<mapsto> (take_over ?held (job_Name job2) 1)\<lparr>lease_ResourceVersion := ''11''\<rparr>],
        api_jobs := [job_key job2 \<mapsto> job2, job_key job1 \<mapsto> job1]\<rparr>)"
    using assms(3-6) h ns
    by (simp add: fresh_lease_def orphan_lease_def orphan_check_def api_step_def api_create_lease_def
        api_update_lease_def api_create_job_def found_def k k1 job_key_def take_over_def empty_api_def)
  show ?thesis
    by (rule exI, rule exI, rule exI, rule exI, rule conjI, rule r1, rule conjI, rule r2, rule conjI,
        rule sh, rule conjI, rule run) (use assms(3) in \<open>simp add: job_key_def\<close>)
qed

text \<open>Two GitMirrors of one repository.\<close>

abbreviation m3 :: GitMirror where
  "m3 \<equiv> m0\<lparr>gm_Name := ''zzz''\<rparr>"

lemma demo_bases: "cut_base (dnsLabel ''gitmirror-app'') = ''gitmirror-app''"
  "cut_base (dnsLabel ''gitmirror-zzz'') = ''gitmirror-zzz''"
  using dnsLabel_keeps [of "''app''"] dnsLabel_keeps [of "''zzz''"]
  by (simp_all add: cut_base_def maxBase_def name_prefix_def is_dns_char_def is_dns_rune_def byte_def)

lemma m3_build: "\<exists>j. built_from demo_X demo_R m3 ''d2'' [] j \<and> job_Namespace j = ''ns''
    \<and> job_Name j = NameForMirrorTrigger m3 ''d2''"
  by (simp add: built_from_def BuildSyncJob_def demo_defs or_default_def endpointAuth_def
      endpoint_auth_type_def sshAuthRef_def demo_owner_def sync_options_def Let_def
      auth_type_defs sync_job_def)

theorem lease_race_witness:
  "\<exists>j es1 es2 es s. es \<in> shuffles es1 es2 \<and> runs api_step empty_api es s
    \<and> after (createLockedSyncJob demo_X demo_R m0 ''d1'' ''abc'') es1 = Some (Return (True, job_Name j0, None))
    \<and> after (createLockedSyncJob demo_X demo_R m3 ''d2'' []) es2 = Some (Return (True, job_Name j, None))
    \<and> api_jobs s (job_key j0) = Some j0 \<and> api_jobs s (job_key j) = Some j \<and> job_key j \<noteq> job_key j0"
proof -
  obtain j where j: "built_from demo_X demo_R m3 ''d2'' [] j" "job_Namespace j = ''ns''"
    "job_Name j = NameForMirrorTrigger m3 ''d2''" using m3_build by blast
  have ne: "job_Name j0 \<noteq> job_Name j"
    by (simp add: j demo_job_fields NameForMirrorTrigger_def Let_def demo_bases)
  have b: "built_from demo_X demo_R m0 ''d1'' ''abc'' j0" by (rule demo_built) simp
  have ns: "job_Namespace j0 = gm_Namespace m0" by (simp add: demo_job_namespace)
  have l: "lease_key m3 = lease_key m0"
    by (simp add: lease_key_def SyncLeaseName_def Let_def)
  have nsj: "job_Namespace j = gm_Namespace m3" by (simp add: j)
  have "job_key j \<noteq> job_key j0" using ne by (simp add: job_key_def)
  with lease_race [OF b j(1) ne ns nsj l] show ?thesis by blast
qed

end
