(* ===== verification/Sync_View.thy ===== *)
theory Sync_View
  imports Reconciler_Properties Job_Properties Api_Server
begin

text \<open>
  What the operator promises for one GitMirror, as a small state machine, and how the stored
  objects relate to it. \<open>view\<close> maps a state of the API server and a GitMirror to the revision
  that is wanted, the one the target has, whether a sync is waiting, and the Job at work.
  \<open>spec_visit\<close> is what a reconciliation does to it; \<open>orderly\<close> says which states the
  specification covers. The first part evaluates the calls of the reconciler on the API
  server of \<open>Api_Server\<close>.
\<close>

subsection \<open>Calls of the reconciler on a documented API server\<close>

lemma merge_patch_current [simp]: "merge_patch b n b = n"
  by (cases n) (simp add: merge_patch_def merged_def)

lemma wpa_patch:
  assumes "api_mirrors s key = Some m" and "mirror_key m = key" and "mutate m c = (new, c')" and "status_only m new"
  shows "wpa T W (PatchGitMirrorStatus n key mutate c) Q s
    = Q (None, c') (s\<lparr>api_mirrors := (api_mirrors s)(key \<mapsto> new)\<rparr>)"
proof -
  have k: "mirror_key new = key" using status_only_fields [OF assms(4)] assms(2) by (simp add: mirror_key_def)
  have new: "m\<lparr>Status := Status new\<rparr> = new" using assms(4) by (simp add: status_only_def)
  have "api_patch_status s new m = (None, s\<lparr>api_mirrors := (api_mirrors s)(key \<mapsto> new)\<rparr>)"
    by (simp add: api_patch_status_def k assms(1) new)
  then show ?thesis
    by (subst PatchGitMirrorStatus.simps) (simp add: assms(1,3))
qed

definition leases_keyed :: "api \<Rightarrow> bool" where
  "leases_keyed s = (\<forall>k l. api_leases s k = Some l \<longrightarrow> stored_key l = k)"

lemma wpa_release:
  assumes "leases_keyed s"
    and "Q None s" and "Q None (s\<lparr>api_leases := (api_leases s)(lease_key m := None)\<rparr>)"
  shows "wpa T W (releaseSyncLease m holder) Q s"
proof (cases "api_leases s (lease_key m)")
  case None
  then show ?thesis using assms(2) by (simp add: releaseSyncLease_def IgnoreNotFound_def)
next
  case (Some l)
  then have "stored_key l = lease_key m" using assms(1) by (simp add: leases_keyed_def)
  then show ?thesis using assms(2,3) Some
    by (simp add: releaseSyncLease_def api_delete_lease_def)
qed

text \<open>The Lease can be had: no stored Job that it names is active for the generation.\<close>

definition lease_free :: "api \<Rightarrow> GitMirror \<Rightarrow> bool" where
  "lease_free s m = (\<forall>l j. api_leases s (lease_key m) = Some l
     \<longrightarrow> api_jobs s \<lparr>key_Namespace = gm_Namespace m, key_Name = current_holder l\<rparr> = Some j
     \<longrightarrow> \<not> (JobActive (Some j) \<and> jobGenerationMatches (Some j) (gm_Generation m)))"

lemma stored_new_lease: "stored_key (new_lease m holder now) = lease_key m"
  by (simp add: new_lease_def stored_key_def lease_key_def Let_def)

lemma wpa_acquire:
  assumes "leases_keyed s" and "lease_free s m"
    and "\<And>l'. stored_key l' = lease_key m \<Longrightarrow> current_holder l' = holder
      \<Longrightarrow> Q (True, None) (s\<lparr>api_leases := (api_leases s)(lease_key m \<mapsto> l')\<rparr>)"
  shows "wpa T W (acquireSyncLease m holder) Q s"
proof (cases "api_leases s (lease_key m)")
  case None
  have "stored_key ((new_lease m holder now)\<lparr>lease_ResourceVersion := v\<rparr>) = lease_key m"
    "current_holder ((new_lease m holder now)\<lparr>lease_ResourceVersion := v\<rparr>) = holder" for now v
    by (simp_all add: new_lease_def stored_key_def lease_key_def current_holder_def Let_def)
  with assms(3) None show ?thesis
    by (simp add: acquireSyncLease_def api_create_lease_def stored_new_lease)
next
  case (Some l)
  have k: "stored_key l = lease_key m" using assms(1) Some by (simp add: leases_keyed_def)
  have t: "stored_key ((take_over l holder now)\<lparr>lease_ResourceVersion := v\<rparr>) = lease_key m"
      "current_holder ((take_over l holder now)\<lparr>lease_ResourceVersion := v\<rparr>) = holder"
      "stored_key (take_over l holder now) = lease_key m"
      "lease_ResourceVersion (take_over l holder now) = lease_ResourceVersion l" for now v
    using k by (simp_all add: take_over_def stored_key_def current_holder_def)
  have update: "wpa T W (update_lease l holder now) Q s" for now
    using assms(3) t Some by (simp add: update_lease_def api_update_lease_def)
  have free: "wpa T W (jobNameActiveForGeneration (gm_Namespace m) (current_holder l) (gm_Generation m)) P s"
    if "P (False, None) s" for P
    using assms(2) Some that
    by (cases "api_jobs s \<lparr>key_Namespace = gm_Namespace m, key_Name = current_holder l\<rparr>")
      (auto simp: jobNameActiveForGeneration_def lease_free_def)
  show ?thesis
    using Some update free
    by (simp add: acquireSyncLease_def api_create_lease_def stored_new_lease wpa_bindp)
qed

lemma createLockedSyncJob_built:
  assumes "built_from X R m t v job"
  shows "createLockedSyncJob X R m t v = bindp (acquireSyncLease m (job_Name job)) (\<lambda>(acquired, err).
      if err \<noteq> None \<or> \<not> acquired then Return (acquired, job_Name job, err)
      else CreateJob job (\<lambda>r. case r of
          None \<Rightarrow> Return (True, job_Name job, None)
        | Some err \<Rightarrow>
            if \<not> IsAlreadyExists err then
              bindp (releaseSyncLease m (job_Name job)) (\<lambda>_. Return (False, [], Some err))
            else Return (True, job_Name job, None)))"
  using assms by (simp add: built_from_def createLockedSyncJob_def Let_def)

lemma wpa_create:
  assumes "built_from X R m t v job" and "leases_keyed s" and "lease_free s m"
    and "api_jobs s (job_key job) = None"
    and "\<And>l'. stored_key l' = lease_key m \<Longrightarrow> current_holder l' = job_Name job
      \<Longrightarrow> Q (True, job_Name job, None) (s\<lparr>api_leases := (api_leases s)(lease_key m \<mapsto> l'),
            api_jobs := (api_jobs s)(job_key job \<mapsto> job)\<rparr>)"
  shows "wpa T W (createLockedSyncJob X R m t v) Q s"
  unfolding createLockedSyncJob_built [OF assms(1)] wpa_bindp
  by (rule wpa_acquire [OF assms(2,3)]) (use assms(4,5) in \<open>simp add: api_create_job_def\<close>)

subsection \<open>What a GitMirror and its Jobs amount to\<close>

text \<open>
  The specification of the operator: a GitMirror wants a revision, has one, may be waiting for
  a sync, may be stale (its specification has changed and no Job was started since), may report
  that the last Job failed, and has at most one Job at work, which runs or has ended with its
  outcome not yet recorded.
\<close>

datatype work = Idle | Running string | Ended string bool

record sync_view =
  wanted :: string
  have_rev :: string
  failed :: bool
  waiting :: bool
  stale :: bool
  work :: work

definition spec_record :: "sync_view \<Rightarrow> sync_view" where
  "spec_record v = (case work v of
     Ended revision ok \<Rightarrow> v\<lparr>have_rev := (if ok \<and> revision \<noteq> [] then revision else have_rev v),
       failed := \<not> ok, work := Idle\<rparr>
   | _ \<Rightarrow> v)"

definition spec_start :: "sync_view \<Rightarrow> sync_view" where
  "spec_start v = (if (waiting v \<or> stale v) \<and> work v = Idle
     then v\<lparr>work := Running (wanted v), waiting := False, stale := False\<rparr> else v)"

definition spec_reconcile :: "sync_view \<Rightarrow> sync_view" where
  "spec_reconcile v = spec_start (spec_record v)"

text \<open>
  With a cron schedule, whose time has come: a running Job is to be followed by another one, and
  when nothing is at work after the rest is done, a Job for no particular revision is started.
  A changed specification goes first.
\<close>

definition spec_visit :: "bool \<Rightarrow> sync_view \<Rightarrow> sync_view" where
  "spec_visit due v = (let v' = spec_reconcile v in
     if \<not> due \<or> stale v then v'
     else (case work v of
         Running _ \<Rightarrow> v'\<lparr>waiting := True\<rparr>
       | _ \<Rightarrow> if work v' = Idle then v'\<lparr>work := Running []\<rparr> else v'))"

text \<open>The Jobs of the GitMirror's generation, and the one among them its status names.\<close>

definition mirror_label :: "GitMirror \<Rightarrow> string" where
  "mirror_label m = map_get (LabelsForMirror m) LabelGitMirror"

definition its_job :: "GitMirror \<Rightarrow> BatchJob \<Rightarrow> bool" where
  "its_job m j = (job_Namespace j = gm_Namespace m \<and> job_Labels j LabelGitMirror = Some (mirror_label m)
     \<and> jobGenerationMatches (Some j) (gm_Generation m))"

definition mirror_jobs :: "api \<Rightarrow> GitMirror \<Rightarrow> BatchJob set" where
  "mirror_jobs s m = {j. api_jobs s (job_key j) = Some j \<and> its_job m j}"

definition current_job :: "api \<Rightarrow> GitMirror \<Rightarrow> BatchJob option" where
  "current_job s m = (case api_jobs s \<lparr>key_Namespace = gm_Namespace m, key_Name = LastJobName (Status m)\<rparr> of
     None \<Rightarrow> None
   | Some j \<Rightarrow> if its_job m j \<and> job_Name j = LastJobName (Status m) then Some j else None)"

definition job_revision :: "BatchJob \<Rightarrow> string" where
  "job_revision j = map_get (job_Annotations j) AnnotationRevision"

definition work_of :: "GitMirror \<Rightarrow> BatchJob option \<Rightarrow> work" where
  "work_of m c = (case c of
     None \<Rightarrow> Idle
   | Some j \<Rightarrow> if \<not> JobFinished (Some j) then Running (job_revision j)
       else if LastCompletedJobName (Status m) = job_Name j then Idle
       else Ended (job_revision j) (isJobComplete j))"

definition view :: "api \<Rightarrow> GitMirror \<Rightarrow> sync_view" where
  "view s m = \<lparr>wanted = LastRequestedRevision (Status m), have_rev = LastMirroredRevision (Status m),
     failed = (LastError (Status m) \<noteq> []), waiting = PendingResync (Status m), stale = (ObservedGeneration (Status m) \<noteq> gm_Generation m),
     work = work_of m (current_job s m)\<rparr>"

text \<open>
  The states the specification is about: there is no Job of the generation as long as the
  generation is not observed; every Job of the generation but the one the status names is
  finished, that one carries its generation, is not being deleted, and is recorded only once it
  is finished; and no Job of somebody else holds the Lease.
\<close>

definition jobs_keyed :: "api \<Rightarrow> bool" where
  "jobs_keyed s = (\<forall>k j. api_jobs s k = Some j \<longrightarrow> job_key j = k)"

definition orderly :: "ObjectKey \<Rightarrow> api \<Rightarrow> GitMirror \<Rightarrow> bool" where
  "orderly key s m = (api_mirrors s key = Some m \<and> mirror_key m = key \<and> finite_api s \<and> leases_keyed s \<and> jobs_keyed s
     \<and> (ObservedGeneration (Status m) \<noteq> gm_Generation m \<longrightarrow> mirror_jobs s m = {})
     \<and> (\<forall>j \<in> mirror_jobs s m. current_job s m = Some j \<or> JobFinished (Some j) \<and> current_job s m \<noteq> None)
     \<and> (\<forall>j. current_job s m = Some j \<longrightarrow> job_Name j \<noteq> [] \<and> job_DeletionTimestamp j = None
          \<and> jobGenerationAnnotation (Some j) = (gm_Generation m, True, True)
          \<and> (\<not> JobFinished (Some j) \<longrightarrow> LastCompletedJobName (Status m) \<noteq> job_Name j))
     \<and> (\<forall>l j. api_leases s (lease_key m) = Some l
          \<longrightarrow> api_jobs s \<lparr>key_Namespace = gm_Namespace m, key_Name = current_holder l\<rparr> = Some j
          \<longrightarrow> JobActive (Some j) \<longrightarrow> jobGenerationMatches (Some j) (gm_Generation m) \<longrightarrow> j \<in> mirror_jobs s m))"

lemma current_in_jobs:
  assumes "current_job s m = Some j"
  shows "j \<in> mirror_jobs s m" and "job_Name j = LastJobName (Status m)" and "its_job m j"
  using assms by (auto simp: current_job_def mirror_jobs_def job_key_def its_job_def split: option.splits if_splits)

lemma named_is_current:
  assumes "j \<in> mirror_jobs s m" and "job_Name j = LastJobName (Status m)"
  shows "current_job s m = Some j"
  using assms by (auto simp: current_job_def mirror_jobs_def job_key_def its_job_def)

lemma listed_jobs:
  "set items = stored_jobs s (gm_Namespace m) LabelGitMirror (map_get (LabelsForMirror m) LabelGitMirror)
     \<Longrightarrow> set (jobsForGeneration items (gm_Generation m)) = mirror_jobs s m"
  by (auto simp: jobsForGeneration_def stored_jobs_def mirror_jobs_def its_job_def mirror_label_def)

text \<open>Every Job but the current one is skipped, and it is the only one that may be active.\<close>

lemma orderly_skip:
  assumes "orderly key s m" and "set jobs = mirror_jobs s m" and "j \<in> set jobs"
  shows "skip_job m jobs j \<longleftrightarrow> current_job s m \<noteq> Some j
      \<or> \<not> JobFinished (Some j) \<or> LastCompletedJobName (Status m) = job_Name j"
proof (cases "current_job s m = Some j")
  case True
  then have "job_Name j = LastJobName (Status m)" by (rule current_in_jobs(2))
  then show ?thesis by (simp add: skip_job_def True)
next
  case False
  with assms obtain c where c: "current_job s m = Some c"
    by (auto simp: orderly_def)
  have names: "job_Name c = LastJobName (Status m)" "job_Name c \<noteq> []" "c \<in> set jobs"
    using current_in_jobs [OF c] assms(1,2) c by (auto simp: orderly_def)
  have "job_Name j \<noteq> LastJobName (Status m)" using named_is_current assms(2,3) False by blast
  with names False show ?thesis by (auto simp: skip_job_def jobNameExists_def list_ex_iff)
qed

lemma orderly_active:
  assumes "orderly key s m" and "set jobs = mirror_jobs s m"
  shows "activeJobExists jobs \<longleftrightarrow> (\<exists>revision. work (view s m) = Running revision)"
proof
  assume "activeJobExists jobs"
  then obtain j where j: "j \<in> mirror_jobs s m" "JobActive (Some j)"
    using assms(2) by (auto simp: activeJobExists_def list_ex_iff)
  then have "current_job s m = Some j" using assms(1) not_active_finished by (auto simp: orderly_def)
  with j(2) show "\<exists>revision. work (view s m) = Running revision"
    by (auto simp: view_def work_of_def dest: not_active_finished)
next
  assume "\<exists>revision. work (view s m) = Running revision"
  then obtain j where j: "current_job s m = Some j" "\<not> JobFinished (Some j)"
    by (auto simp: view_def work_of_def split: option.splits if_splits)
  then have "JobActive (Some j)" using assms(1) by (simp add: orderly_def JobActive_def)
  with current_in_jobs(1) [OF j(1)] assms(2) show "activeJobExists jobs"
    by (auto simp: activeJobExists_def list_ex_iff)
qed

lemma orderly_lease_free:
  assumes "orderly key s m" and "\<nexists>revision. work (view s m) = Running revision"
  shows "lease_free s m"
proof -
  have "\<not> JobActive (Some j)" if "j \<in> mirror_jobs s m" for j
  proof -
    have "JobFinished (Some j)"
      using assms that by (auto simp: orderly_def view_def work_of_def split: option.splits if_splits)
    then show ?thesis by (rule not_active_finished)
  qed
  with assms(1) show ?thesis unfolding orderly_def lease_free_def by blast
qed

lemma work_running:
  assumes "orderly key s m" and "work (view s m) = Running revision"
  obtains job where "current_job s m = Some job" "JobActive (Some job)"
proof -
  obtain job where "current_job s m = Some job" "\<not> JobFinished (Some job)"
    using assms(2) by (auto simp: view_def work_of_def split: option.splits if_splits)
  with assms(1) that show thesis by (auto simp: orderly_def JobActive_def)
qed

end
