(* ===== verification/Sync_Refinement.thy ===== *)
theory Sync_Refinement
  imports Sync_View
begin

text \<open>
  The parts of \<open>Reconcile\<close> before the cron schedule implement \<open>spec_reconcile\<close>: from an orderly
  state, on an API server nobody else writes to in between, they end without an error, in an
  orderly state again, and the view has changed as the specification says. \<open>Sync_Schedule\<close>
  adds the schedule.
\<close>

subsection \<open>States after a step\<close>

lemma status_only_E:
  assumes "status_only m m'"
  obtains st where "m' = m\<lparr>Status := st\<rparr>"
  using assms by (auto simp: status_only_def)

lemma Status_update_same [simp]:
  "its_job (m\<lparr>Status := st\<rparr>) = its_job m" "lease_key (m\<lparr>Status := st\<rparr>) = lease_key m"
  "mirror_key (m\<lparr>Status := st\<rparr>) = mirror_key m" "mirror_jobs s (m\<lparr>Status := st\<rparr>) = mirror_jobs s m"
  "NameForMirrorTrigger (m\<lparr>Status := st\<rparr>) t = NameForMirrorTrigger m t"
  by (auto simp: its_job_def lease_key_def mirror_key_def mirror_jobs_def mirror_label_def LabelsForMirror_def
      SyncLeaseName_def NameForMirrorTrigger_def intro!: ext)

definition can_build :: "External \<Rightarrow> GitMirrorReconciler \<Rightarrow> GitMirror \<Rightarrow> bool" where
  "can_build X R m = (\<forall>st t v. t \<noteq> [] \<longrightarrow> (\<exists>job. built_from X R (m\<lparr>Status := st\<rparr>) t v job))"

lemma built_fields:
  assumes "built_from X R m t v job" and "only_sets_owner (ext_SetControllerReference X)" and "t \<noteq> []"
  shows "job_key job = \<lparr>key_Namespace = gm_Namespace m, key_Name = NameForMirrorTrigger m t\<rparr>"
    and "its_job m job" and "job_revision job = v" and "\<not> JobFinished (Some job)"
    and "job_Name job \<noteq> []" and "job_DeletionTimestamp job = None"
    and "jobGenerationAnnotation (Some job) = (gm_Generation m, True, True)"
proof -
  have "BuildSyncJob (ext_SetControllerReference X) (Some m) (sync_options R t v) = Inr \<lparr>sync_Job = job\<rparr>"
    using assms(1) by (simp add: built_from_def)
  from built_job [OF this assms(2)] obtain owner src tgt where j: "job
      = (sync_job m (sync_options R t v) (built_pod m (sync_options R t v) src tgt))\<lparr>job_Owner := owner\<rparr>"
    by (metis SyncJob.select_convs(1))
  have opts: "opt_TriggerID (sync_options R t v) = t" "opt_Revision (sync_options R t v) = v"
    by (simp_all add: sync_options_def)
  show "job_key job = \<lparr>key_Namespace = gm_Namespace m, key_Name = NameForMirrorTrigger m t\<rparr>"
    using assms(3) by (simp add: j job_key_def sync_job_def Let_def opts)
  have annotations: "job_Annotations job = sync_annotations m (sync_options R t v)"
    by (simp add: j sync_job_def Let_def)
  then show "job_revision job = v" by (simp add: job_revision_def sync_annotations_revision opts)
  show gen: "jobGenerationAnnotation (Some job) = (gm_Generation m, True, True)"
    using annotations by (simp add: jobGenerationAnnotation_def Let_def ParseInt_FormatInt)
  have "LabelDeliveryID \<noteq> LabelGitMirror" by (simp add: label_key_defs)
  then have "job_Labels job LabelGitMirror = Some (mirror_label m)"
    by (simp add: j sync_job_def Let_def sync_labels_def mirror_label_def map_get_def)
  then show "its_job m job"
    using gen by (simp add: its_job_def jobGenerationMatches_def) (simp add: j sync_job_def Let_def)
  show "\<not> JobFinished (Some job)"
    by (simp add: JobFinished_Some isJobComplete_def isJobFailed_def) (simp add: j sync_job_def Let_def)
  show "job_Name job \<noteq> []" using assms(1) by (simp add: built_from_def)
  show "job_DeletionTimestamp job = None" by (simp add: j sync_job_def Let_def)
qed

text \<open>The state after a Job was created and recorded as scheduled.\<close>

lemma orderly_started:
  assumes "orderly key s m" and "\<nexists>revision. work (view s m) = Running revision" and "status_only m m'"
    and "ObservedGeneration (Status m') = gm_Generation m" and "LastJobName (Status m') = job_Name job"
    and "api_jobs s (job_key job) = None" and "LastCompletedJobName (Status m') \<noteq> job_Name job"
    and "job_key job = \<lparr>key_Namespace = gm_Namespace m, key_Name = n\<rparr>" and "its_job m job"
    and "\<not> JobFinished (Some job)" and "job_Name job \<noteq> []" and "job_DeletionTimestamp job = None"
    and "jobGenerationAnnotation (Some job) = (gm_Generation m, True, True)"
    and "stored_key l' = lease_key m" and "current_holder l' = job_Name job"
    and t: "t = s\<lparr>api_mirrors := (api_mirrors s)(key \<mapsto> m'), api_leases := (api_leases s)(lease_key m \<mapsto> l'),
        api_jobs := (api_jobs s)(job_key job \<mapsto> job)\<rparr>"
  shows "orderly key t m'" and "current_job t m' = Some job"
proof -
  obtain st where m': "m' = m\<lparr>Status := st\<rparr>" using assms(3) by (rule status_only_E)
  have name: "job_Name job = n" "job_Namespace job = gm_Namespace m" using assms(8) by (simp_all add: job_key_def)
  have st: "ObservedGeneration st = gm_Generation m" "LastJobName st = n" using assms(4,5) m' name by simp_all
  show c: "current_job t m' = Some job"
    using assms(8,9) st(2) name by (simp add: current_job_def t m')
  have jobs: "mirror_jobs t m' = insert job (mirror_jobs s m)"
    using assms(6,9) by (auto simp: mirror_jobs_def t m')
  have "JobFinished (Some j)" if "j \<in> mirror_jobs s m" for j
    using assms(1,2) that by (auto simp: orderly_def view_def work_of_def split: option.splits if_splits)
  then have others: "\<forall>j \<in> mirror_jobs t m'. current_job t m' = Some j \<or> JobFinished (Some j) \<and> current_job t m' \<noteq> None"
    using jobs c by auto
  have "api_leases t (lease_key m') = Some l'" by (simp add: t m')
  moreover have "api_jobs t \<lparr>key_Namespace = gm_Namespace m', key_Name = current_holder l'\<rparr> = Some job"
    using assms(8,15) name by (simp add: t m')
  ultimately have lease: "\<forall>l j. api_leases t (lease_key m') = Some l
      \<longrightarrow> api_jobs t \<lparr>key_Namespace = gm_Namespace m', key_Name = current_holder l\<rparr> = Some j \<longrightarrow> j \<in> mirror_jobs t m'"
    using jobs by auto
  have "leases_keyed t" using assms(1,14) by (auto simp: orderly_def leases_keyed_def t)
  moreover have "finite_api t" "jobs_keyed t" using assms(1) by (auto simp: orderly_def finite_api_def jobs_keyed_def t)
  moreover have "mirror_key m' = key" "gm_Generation m' = gm_Generation m"
    using assms(1) by (simp_all add: orderly_def m')
  ultimately show "orderly key t m'"
    using others lease c assms(4,7,11-13) unfolding orderly_def by (simp add: t)
qed

text \<open>The state after the current Job's outcome was recorded.\<close>

lemma orderly_recorded:
  assumes "orderly key s m" and "status_only m m'" and "\<nexists>revision. work (view s m) = Running revision"
    and "ObservedGeneration (Status m') = gm_Generation m" and "LastJobName (Status m') = LastJobName (Status m)"
    and "ls = api_leases s \<or> ls = (api_leases s)(lease_key m := None)"
    and t: "t = s\<lparr>api_mirrors := (api_mirrors s)(key \<mapsto> m'), api_leases := ls\<rparr>"
  shows "orderly key t m'" and "current_job t m' = current_job s m"
proof -
  obtain st where m': "m' = m\<lparr>Status := st\<rparr>" using assms(2) by (rule status_only_E)
  have st: "ObservedGeneration st = gm_Generation m" "LastJobName st = LastJobName (Status m)"
    using assms(4,5) m' by simp_all
  show c: "current_job t m' = current_job s m" by (auto simp: current_job_def t m' st(2) split: option.split)
  have jobs: "mirror_jobs t m' = mirror_jobs s m" by (simp add: mirror_jobs_def t m')
  have leases: "api_leases s k = Some l" if "api_leases t k = Some l" for k l
    using assms(6) that by (auto simp: t split: if_splits)
  then have "leases_keyed t" using assms(1) by (auto simp: orderly_def leases_keyed_def)
  moreover have "finite_api t" "jobs_keyed t" using assms(1) by (auto simp: orderly_def finite_api_def jobs_keyed_def t)
  moreover have "\<forall>l. api_leases t (lease_key m') = Some l \<longrightarrow> api_leases s (lease_key m) = Some l"
    using leases by (simp add: m')
  moreover have "JobFinished (Some j)" if "current_job s m = Some j" for j
    using assms(3) that by (auto simp: view_def work_of_def split: if_splits)
  ultimately show "orderly key t m'"
    using assms(1) st(1) c jobs unfolding orderly_def by (simp add: t m')
qed

text \<open>A change of the status that leaves the fields of \<open>orderly\<close> alone.\<close>

lemma orderly_status:
  assumes ord: "orderly key s m" and "status_only m m'"
    and "ObservedGeneration (Status m') = ObservedGeneration (Status m)"
    and "LastJobName (Status m') = LastJobName (Status m)"
    and "LastCompletedJobName (Status m') = LastCompletedJobName (Status m)"
    and t: "t = s\<lparr>api_mirrors := (api_mirrors s)(key \<mapsto> m')\<rparr>"
  shows "orderly key t m'" and "current_job t m' = current_job s m"
proof -
  obtain st where m': "m' = m\<lparr>Status := st\<rparr>" using assms(2) by (rule status_only_E)
  show c: "current_job t m' = current_job s m"
    using assms(4) by (auto simp: current_job_def t m' split: option.split)
  have jobs: "mirror_jobs t m' = mirror_jobs s m" by (simp add: mirror_jobs_def t m')
  have "finite_api t" "leases_keyed t" "jobs_keyed t"
    using ord by (simp_all add: orderly_def finite_api_def leases_keyed_def jobs_keyed_def t)
  then show "orderly key t m'"
    using ord assms(3,5) c jobs unfolding orderly_def by (simp add: t m')
qed

subsection \<open>A reconciliation implements the specification\<close>

lemma wpa_or_else:
  "wpa T W (or_else p q) Q s = wpa T W p (\<lambda>(result, handled, err) t.
     if err \<noteq> None \<or> handled then Q (result, err) t else wpa T W q Q t) s"
  unfolding or_else_def wpa_bindp by (rule arg_cong [where f = "\<lambda>P. wpa T W p P s"]) (auto intro!: ext split: if_splits)

lemma wpa_Reconcile:
  assumes "api_mirrors s key = Some m"
    and "\<And>jobs now. distinct jobs \<Longrightarrow> set jobs = mirror_jobs s m \<Longrightarrow> now \<in> T \<Longrightarrow>
      wpa T W (or_else (reconcileCompletedJobs X R key m jobs now)
        (or_else (reconcileUnobservedGeneration X R key m (activeJobExists jobs) now)
          (or_else (reconcilePendingResync X R key m (activeJobExists jobs) now)
            (reconcileFallback X R key m (activeJobExists jobs) now)))) Q s"
  shows "wpa T W (Reconcile X R key) Q s"
proof -
  have "distinct items \<Longrightarrow> distinct (jobsForGeneration items g)" for items g
    by (simp add: jobsForGeneration_def)
  with assms listed_jobs [of _ s m] show ?thesis by (simp add: Reconcile_def Let_def)
qed

text \<open>
  A Job that is at work and was not before is one the Job builder makes of the GitMirror, and it
  holds the Lease. Its name is that of one of the triggers below.
\<close>

definition next_trigger :: "GitMirror \<Rightarrow> time \<Rightarrow> string" where
  "next_trigger m now = (if ObservedGeneration (Status m) \<noteq> gm_Generation m
     then generation_trigger (gm_Generation m) else pending_trigger m now)"

definition new_names :: "time set \<Rightarrow> GitMirror \<Rightarrow> string set" where
  "new_names T m = (\<Union>now \<in> T. {NameForMirrorTrigger m (next_trigger m now), NameForMirrorTrigger m (resync_trigger now)})"

definition holds_lease :: "api \<Rightarrow> GitMirror \<Rightarrow> BatchJob \<Rightarrow> bool" where
  "holds_lease s m job = (\<exists>l. api_leases s (lease_key m) = Some l \<and> current_holder l = job_Name job)"

definition starts_only_built ::
  "External \<Rightarrow> GitMirrorReconciler \<Rightarrow> api \<Rightarrow> GitMirror \<Rightarrow> api \<Rightarrow> GitMirror \<Rightarrow> bool" where
  "starts_only_built X R s m t m' = (\<forall>revision. work (view t m') = Running revision
     \<longrightarrow> work (view s m) = Running revision
       \<or> (\<exists>job triggerID. current_job t m' = Some job \<and> built_from X R m triggerID revision job
            \<and> holds_lease t m job))"

text \<open>
  What the parts of \<open>Reconcile\<close> before the schedule have done: the step of the specification, with
  no Job created or one whose name is that of a trigger above.
\<close>

definition jobs_kept :: "api \<Rightarrow> GitMirror \<Rightarrow> api \<Rightarrow> GitMirror \<Rightarrow> bool" where
  "jobs_kept s m t m' = (api_jobs t = api_jobs s \<and> (LastCompletedJobName (Status m') = LastCompletedJobName (Status m)
     \<or> api_jobs s \<lparr>key_Namespace = gm_Namespace m, key_Name = LastCompletedJobName (Status m')\<rparr> \<noteq> None))"

definition implements ::
  "External \<Rightarrow> GitMirrorReconciler \<Rightarrow> time set \<Rightarrow> ObjectKey \<Rightarrow> api \<Rightarrow> GitMirror \<Rightarrow> api \<Rightarrow> bool" where
  "implements X R T key s m t = (\<exists>m'. orderly key t m' \<and> status_only m m'
     \<and> view t m' = spec_reconcile (view s m) \<and> starts_only_built X R s m t m'
     \<and> (work (view t m') = Idle \<longrightarrow> jobs_kept s m t m')
     \<and> ((\<exists>revision. work (view t m') = Running revision) \<and> (\<nexists>revision. work (view s m) = Running revision)
          \<longrightarrow> (\<exists>job. current_job t m' = Some job \<and> job_Name job \<in> new_names T m)))"

text \<open>The names the reconciliation may give to a Job are not taken, nor that of the Job recorded last.\<close>

definition free_name :: "api \<Rightarrow> GitMirror \<Rightarrow> string \<Rightarrow> bool" where
  "free_name s m n = (api_jobs s \<lparr>key_Namespace = gm_Namespace m, key_Name = n\<rparr> = None
     \<and> LastCompletedJobName (Status m) \<noteq> n)"

definition fresh_trigger :: "time set \<Rightarrow> api \<Rightarrow> GitMirror \<Rightarrow> bool" where
  "fresh_trigger T s m = (\<forall>now \<in> T. case work (view s m) of
       Running _ \<Rightarrow> True
     | Idle \<Rightarrow> (waiting (view s m) \<or> stale (view s m) \<longrightarrow> free_name s m (NameForMirrorTrigger m (next_trigger m now)))
         \<and> (Schedule (Fallback (Spec m)) \<noteq> [] \<longrightarrow> free_name s m (NameForMirrorTrigger m (scheduled_trigger now))
              \<and> (waiting (view s m) \<longrightarrow> NameForMirrorTrigger m (scheduled_trigger now) \<notin> new_names T m))
     | Ended _ _ \<Rightarrow> (waiting (view s m) \<longrightarrow> api_jobs s \<lparr>key_Namespace = gm_Namespace m,
           key_Name = NameForMirrorTrigger m (resync_trigger now)\<rparr> = None)
         \<and> (Schedule (Fallback (Spec m)) \<noteq> [] \<longrightarrow> free_name s m (NameForMirrorTrigger m (scheduled_trigger now))
              \<and> (waiting (view s m) \<longrightarrow> NameForMirrorTrigger m (scheduled_trigger now) \<notin> new_names T m)))"

lemma fresh_trigger_subset:
  assumes "fresh_trigger T s m" and "S \<subseteq> T"
  shows "fresh_trigger S s m"
proof -
  have "new_names S m \<subseteq> new_names T m" using assms(2) by (auto simp: new_names_def)
  then show ?thesis
    using assms unfolding fresh_trigger_def by (cases "work (view s m)") (simp_all, (meson subsetD)+)
qed

lemma pending_trigger_nonempty [simp]: "pending_trigger m now \<noteq> []"
  by (simp add: pending_trigger_def)

lemma generation_trigger_nonempty [simp]: "generation_trigger g \<noteq> []"
  by (simp add: generation_trigger_def)

lemma scheduled_fields:
  assumes "gm_Generation m' = g"
  shows "ObservedGeneration (Status (scheduled_for X n g now m')) = g"
    and "LastJobName (Status (scheduled_for X n g now m')) = n"
    and "\<not> PendingResync (Status (scheduled_for X n g now m'))"
    and "LastRequestedRevision (Status (scheduled_for X n g now m')) = LastRequestedRevision (Status m')"
    and "LastMirroredRevision (Status (scheduled_for X n g now m')) = LastMirroredRevision (Status m')"
    and "LastCompletedJobName (Status (scheduled_for X n g now m')) = LastCompletedJobName (Status m')"
    and "LastError (Status (scheduled_for X n g now m')) = LastError (Status m')"
  using assms
  by (simp_all add: scheduled_for_def ApplySyncScheduledForGeneration_def ApplySyncScheduled_def)

lemma stale_idle:
  assumes "orderly key s m" and "ObservedGeneration (Status m) \<noteq> gm_Generation m"
  shows "current_job s m = None" "work (view s m) = Idle" "mirror_jobs s m = {}"
proof -
  show none: "mirror_jobs s m = {}" using assms by (simp add: orderly_def)
  then show "current_job s m = None" using current_in_jobs(1) [of s m] by (cases "current_job s m") auto
  then show "work (view s m) = Idle" by (simp add: view_def work_of_def)
qed

lemma view_fields:
  "wanted (view s m) = LastRequestedRevision (Status m)" "waiting (view s m) = PendingResync (Status m)"
  "have_rev (view s m) = LastMirroredRevision (Status m)"
  "failed (view s m) = (LastError (Status m) \<noteq> [])"
  "stale (view s m) = (ObservedGeneration (Status m) \<noteq> gm_Generation m)"
  by (simp_all add: view_def)

text \<open>A patch that records a Job as started: \<open>upd n\<close> for the Job of the name \<open>n\<close>.\<close>

definition records_start :: "(string \<Rightarrow> GitMirror \<Rightarrow> GitMirror) \<Rightarrow> GitMirror \<Rightarrow> bool" where
  "records_start upd m = (\<forall>n. n \<noteq> [] \<longrightarrow> status_only m (upd n m)
     \<and> ObservedGeneration (Status (upd n m)) = gm_Generation m \<and> LastJobName (Status (upd n m)) = n
     \<and> \<not> PendingResync (Status (upd n m))
     \<and> LastRequestedRevision (Status (upd n m)) = LastRequestedRevision (Status m)
     \<and> LastMirroredRevision (Status (upd n m)) = LastMirroredRevision (Status m)
     \<and> LastCompletedJobName (Status (upd n m)) = LastCompletedJobName (Status m)
     \<and> LastError (Status (upd n m)) = LastError (Status m))"

lemma records_scheduled: "gm_Generation m = g \<Longrightarrow> records_start (\<lambda>n. scheduled_for X n g now) m"
  by (simp add: records_start_def scheduled_fields)

lemma wpa_create_and_record:
  assumes ord: "orderly key s stored" and idle: "\<nexists>revision. work (view s stored) = Running revision"
    and "status_only stored m" and "can_build X R stored" and owner: "only_sets_owner (ext_SetControllerReference X)"
    and "t \<noteq> []" and name: "free_name s stored (NameForMirrorTrigger stored t)" and upd: "records_start upd stored"
    and cont: "\<And>u m' job. orderly key u m' \<Longrightarrow> status_only stored m' \<Longrightarrow> view u m' = \<lparr>wanted = LastRequestedRevision (Status stored),
        have_rev = LastMirroredRevision (Status stored), failed = (LastError (Status stored) \<noteq> []),
        waiting = False, stale = False, work = Running v\<rparr>
        \<Longrightarrow> current_job u m' = Some job \<Longrightarrow> built_from X R m t v job \<Longrightarrow> holds_lease u m job
        \<Longrightarrow> job_Name job = NameForMirrorTrigger m t \<Longrightarrow> Q (None, ()) u"
  shows "wpa T W (createLockedSyncJob X R m t v) (\<lambda>(acquired, jobName, err) u. acquired \<and> err = None \<and> jobName \<noteq> []
    \<and> wpa T W (PatchGitMirrorStatus n key (only_mirror (upd jobName)) ()) Q u) s"
proof -
  obtain st where m: "m = stored\<lparr>Status := st\<rparr>" using assms(3) by (rule status_only_E)
  obtain job where job: "built_from X R m t v job"
    using assms(4,6) unfolding can_build_def m by blast
  note fields = built_fields [OF job owner assms(6)]
  have key: "job_key job = \<lparr>key_Namespace = gm_Namespace stored, key_Name = NameForMirrorTrigger stored t\<rparr>" "its_job stored job"
    using fields(1,2) by (simp_all add: m)
  have gen: "jobGenerationAnnotation (Some job) = (gm_Generation stored, True, True)" "gm_Generation m = gm_Generation stored"
    using fields(7) by (simp_all add: m)
  have taken: "api_jobs s (job_key job) = None" using name by (simp add: key free_name_def)
  have mirror: "api_mirrors s key = Some stored" "mirror_key stored = key" "leases_keyed s"
    using ord by (simp_all add: orderly_def)
  have free: "lease_free s m" using orderly_lease_free [OF ord idle] by (simp add: lease_free_def m)
  let ?m' = "upd (job_Name job) stored"
  have u: "status_only stored ?m'" "ObservedGeneration (Status ?m') = gm_Generation stored"
    "LastJobName (Status ?m') = job_Name job" "\<not> PendingResync (Status ?m')"
    "LastRequestedRevision (Status ?m') = LastRequestedRevision (Status stored)"
    "LastMirroredRevision (Status ?m') = LastMirroredRevision (Status stored)"
    "LastCompletedJobName (Status ?m') = LastCompletedJobName (Status stored)"
    "LastError (Status ?m') = LastError (Status stored)"
    using upd fields(5) by (simp_all add: records_start_def)
  have lease: "lease_key m = lease_key stored" by (simp add: m)
  have fin: "Q (None, ()) w" if l: "stored_key l' = lease_key stored" "current_holder l' = job_Name job"
    and w: "w = s\<lparr>api_mirrors := (api_mirrors s)(key \<mapsto> ?m'), api_leases := (api_leases s)(lease_key stored \<mapsto> l'),
        api_jobs := (api_jobs s)(job_key job \<mapsto> job)\<rparr>" for l' w
  proof -
    have "job_Name job = NameForMirrorTrigger stored t" using key(1) by (simp add: job_key_def)
    then have named: "LastCompletedJobName (Status ?m') \<noteq> job_Name job" "job_Name job = NameForMirrorTrigger m t"
      using name u(7) by (simp_all add: free_name_def m)
    note started = orderly_started [OF ord idle u(1-3) taken named(1) key(1,2) fields(4,5,6) gen(1) l w]
    have "view w ?m' = \<lparr>wanted = LastRequestedRevision (Status stored), have_rev = LastMirroredRevision (Status stored),
        failed = (LastError (Status stored) \<noteq> []), waiting = False, stale = False, work = Running v\<rparr>"
      using started(2) fields(3,4) status_only_fields [OF u(1)] u by (simp add: view_def work_of_def)
    moreover have "holds_lease w m job" using l by (simp add: holds_lease_def w lease)
    ultimately show ?thesis using started u(1) job named(2) by (intro cont)
  qed
  have patch: "wpa T W (PatchGitMirrorStatus n key (only_mirror (upd (job_Name job))) ()) Q w
      = Q (None, ()) (w\<lparr>api_mirrors := (api_mirrors w)(key \<mapsto> ?m')\<rparr>)"
    if "api_mirrors w = api_mirrors s" for w
    using wpa_patch [of w key stored "only_mirror (upd (job_Name job))" "()" ?m' "()"] mirror that u(1) by simp
  show ?thesis
    by (rule wpa_create [OF job mirror(3) free taken]) (auto simp: patch lease fields(5) intro!: fin)
qed

lemma implementsI:
  assumes "orderly key t m'" and "status_only m m'" and "view t m' = spec_reconcile (view s m)"
    and "current_job t m' = Some job" and "built_from X R m triggerID revision job" and "holds_lease t m job"
    and "job_Name job = NameForMirrorTrigger m triggerID" and "NameForMirrorTrigger m triggerID \<in> new_names T m"
    and "work (view t m') = Running revision"
  shows "implements X R T key s m t"
proof -
  have "starts_only_built X R s m t m'"
    unfolding starts_only_built_def using assms(4-6,9) by (metis work.inject(1))
  then show ?thesis unfolding implements_def using assms by (intro exI [of _ m']) auto
qed

lemma new_namesI:
  "now \<in> T \<Longrightarrow> NameForMirrorTrigger m (resync_trigger now) \<in> new_names T m"
  "now \<in> T \<Longrightarrow> ObservedGeneration (Status m) = gm_Generation m
     \<Longrightarrow> NameForMirrorTrigger m (pending_trigger m now) \<in> new_names T m"
  "now \<in> T \<Longrightarrow> ObservedGeneration (Status m) \<noteq> gm_Generation m
     \<Longrightarrow> NameForMirrorTrigger m (generation_trigger (gm_Generation m)) \<in> new_names T m"
  by (auto simp: new_names_def next_trigger_def)

text \<open>A sync that is waiting is started.\<close>

lemma run_idle:
  assumes ord: "orderly key s m" and "work (view s m) = Idle" and "PendingResync (Status m)"
    and observed: "ObservedGeneration (Status m) = gm_Generation m"
    and build: "can_build X R m" and owner: "only_sets_owner (ext_SetControllerReference X)"
    and "fresh_trigger T s m" and "now \<in> T"
  shows "wpa T W (reconcilePendingResync X R key m False now)
    (\<lambda>(result, handled, err) t. \<not> handled \<and> err = None \<and> implements X R T key s m t) s"
proof -
  have mirror: "api_mirrors s key = Some m" using ord by (simp add: orderly_def)
  have idle: "\<nexists>revision. work (view s m) = Running revision" using assms(2) by simp
  have free: "free_name s m (NameForMirrorTrigger m (pending_trigger m now))"
    using assms(2-4,7,8) by (simp add: fresh_trigger_def next_trigger_def view_fields)
  have spec: "spec_reconcile (view s m) = \<lparr>wanted = LastRequestedRevision (Status m),
      have_rev = LastMirroredRevision (Status m), failed = (LastError (Status m) \<noteq> []), waiting = False, stale = False,
      work = Running (LastRequestedRevision (Status m))\<rparr>"
    using assms(2,3) by (simp add: spec_reconcile_def spec_record_def spec_start_def view_def)
  note create = wpa_create_and_record [OF ord idle status_only_refl build owner pending_trigger_nonempty free
      records_scheduled [OF refl, where X = X and now = now],
      where n = "ext_Retries X" and v = "LastRequestedRevision (Status m)"
      and Q = "\<lambda>(err, _) t. err = None \<and> implements X R T key s m t"]
  show ?thesis
    using assms(3) mirror new_namesI(2) [OF assms(8) observed]
    by (simp add: reconcilePendingResync_def wpa_bindp)
      (rule wpa_mono [OF create], auto simp: spec wpa_bindp intro: implementsI elim!: wpa_mono)
qed

text \<open>A changed specification is synced.\<close>

lemma run_stale:
  assumes ord: "orderly key s m" and unobserved: "ObservedGeneration (Status m) \<noteq> gm_Generation m"
    and build: "can_build X R m" and owner: "only_sets_owner (ext_SetControllerReference X)"
    and "fresh_trigger T s m" and "now \<in> T"
  shows "wpa T W (reconcileUnobservedGeneration X R key m False now)
    (\<lambda>(result, handled, err) t. result = zero_result \<and> handled \<and> err = None \<and> implements X R T key s m t) s"
proof -
  have mirror: "api_mirrors s key = Some m" using ord by (simp add: orderly_def)
  have work: "work (view s m) = Idle" using stale_idle [OF ord assms(2)] by simp
  then have idle: "\<nexists>revision. work (view s m) = Running revision" by simp
  have free: "free_name s m (NameForMirrorTrigger m (generation_trigger (gm_Generation m)))"
    using work assms(2,5,6) by (auto simp: fresh_trigger_def next_trigger_def view_fields)
  have spec: "spec_reconcile (view s m) = \<lparr>wanted = LastRequestedRevision (Status m),
      have_rev = LastMirroredRevision (Status m), failed = (LastError (Status m) \<noteq> []), waiting = False, stale = False,
      work = Running (LastRequestedRevision (Status m))\<rparr>"
    using work assms(2) by (simp add: spec_reconcile_def spec_record_def spec_start_def view_def)
  note create = wpa_create_and_record [OF ord idle status_only_refl build owner generation_trigger_nonempty free
      records_scheduled [OF refl, where X = X and now = now],
      where n = "ext_Retries X" and v = "LastRequestedRevision (Status m)"
      and Q = "\<lambda>(err, _) t. err = None \<and> implements X R T key s m t"]
  show ?thesis
    using assms(2) mirror new_namesI(3) [OF assms(6) unobserved]
    by (simp add: reconcileUnobservedGeneration_def wpa_bindp Let_def schedule_if_generation_eq)
      (rule wpa_mono [OF create], auto simp: spec wpa_bindp schedule_if_generation_eq intro: implementsI elim!: wpa_mono)
qed

lemma completed_loop_prefix:
  "(\<And>j. j \<in> set xs \<Longrightarrow> skip_job m items j) \<Longrightarrow>
     completed_loop X R key m items now (xs @ ys) = completed_loop X R key m items now ys"
  by (induction xs) simp_all

lemma status_only_sym: "status_only m m' \<Longrightarrow> status_only m' m"
  unfolding status_only_def by (metis GitMirror.surjective GitMirror.update_convs(6))

lemma can_build_status_only: "status_only m m' \<Longrightarrow> can_build X R m' = can_build X R m"
  by (auto elim!: status_only_E simp: can_build_def)

lemma status_only_ApplyCompletedJobStatus [simp]:
  "status_only m (fst (ApplyCompletedJobStatus X m' job now)) = status_only m m'"
  by (simp add: ApplyCompletedJobStatus_def Let_def)

lemma failed_with_reason: "fst (isJobFailed job) \<Longrightarrow> snd (isJobFailed job) \<noteq> []"
  by (cases "isJobFailed job") (auto dest: isJobFailed_reason)

text \<open>The state and the view once the ended Job \<open>c\<close> is recorded and its Lease is released.\<close>

lemma recorded_state:
  assumes ord: "orderly key s m" and c: "current_job s m = Some c" "JobFinished (Some c)"
    and "LastCompletedJobName (Status m) \<noteq> job_Name c"
    and "ls = api_leases s \<or> ls = (api_leases s)(lease_key m := None)"
    and new: "new = fst (ApplyCompletedJobStatus X m c now)"
    and t: "t = s\<lparr>api_mirrors := (api_mirrors s)(key \<mapsto> new), api_leases := ls\<rparr>"
  shows "orderly key t new" and "view t new = (spec_record (view s m))\<lparr>waiting := False\<rparr>"
proof -
  have only: "status_only m new" by (simp add: new)
  have idle: "\<nexists>revision. work (view s m) = Running revision" using c by (simp add: view_def work_of_def)
  have name: "LastJobName (Status new) = LastJobName (Status m)"
    using current_in_jobs(2) [OF c(1)] by (simp add: new ApplyCompletedJobStatus_def applyCompletedJobStatus_def Let_def)
  have observed: "ObservedGeneration (Status new) = gm_Generation m" by (simp add: new completed_consumes)
  have fresh: "ObservedGeneration (Status m) = gm_Generation m" using stale_idle(1) [OF ord] c(1) by auto
  note recorded = orderly_recorded [OF ord only idle observed name assms(5) t]
  show "orderly key t new" by (rule recorded(1))
  have have_rev: "LastMirroredRevision (Status new)
      = (if isJobComplete c \<and> job_revision c \<noteq> [] then job_revision c else LastMirroredRevision (Status m))"
    by (simp add: new ApplyCompletedJobStatus_def applyCompletedJobStatus_def Let_def record_outcome_result job_revision_def)
  have error: "(LastError (Status new) \<noteq> []) = (\<not> isJobComplete c)"
    using c(2) by (auto simp: new ApplyCompletedJobStatus_def applyCompletedJobStatus_def Let_def record_outcome_result
        JobFinished_Some failed_with_reason)
  show "view t new = (spec_record (view s m))\<lparr>waiting := False\<rparr>"
    using recorded(2) c assms(4) have_rev error observed fresh status_only_fields [OF only]
    by (simp add: view_def work_of_def spec_record_def) (simp add: new completed_consumes completed_flags)
qed

lemma spec_ended:
  assumes "work v = Ended revision ok" and "\<not> stale v"
  shows "work (spec_record v) = Idle"
    and "\<not> waiting v \<Longrightarrow> spec_reconcile v = (spec_record v)\<lparr>waiting := False\<rparr>"
    and "waiting v \<Longrightarrow> spec_reconcile v = \<lparr>wanted = wanted v, have_rev = have_rev (spec_record v),
      failed = \<not> ok, waiting = False, stale = False, work = Running (wanted v)\<rparr>"
    and "\<not> waiting (spec_reconcile v)" and "\<not> stale (spec_reconcile v)"
  using assms by (cases v; simp add: spec_reconcile_def spec_record_def spec_start_def)+

lemma run_ended:
  assumes ord: "orderly key s m" and ended: "work (view s m) = Ended revision ok"
    and build: "can_build X R m" and owner: "only_sets_owner (ext_SetControllerReference X)"
    and fresh: "fresh_trigger T s m" and "now \<in> T" and jobs: "distinct jobs" "set jobs = mirror_jobs s m"
  shows "wpa T W (reconcileCompletedJobs X R key m jobs now)
    (\<lambda>(result, handled, err) t. \<not> handled \<and> err = None \<and> implements X R T key s m t) s"
proof -
  obtain c where c: "current_job s m = Some c" "JobFinished (Some c)" "LastCompletedJobName (Status m) \<noteq> job_Name c"
    using ended by (auto simp: view_def work_of_def split: option.splits if_splits)
  have gen: "jobGenerationAnnotation (Some c) = (gm_Generation m, True, True)"
    using ord c(1) by (simp add: orderly_def)
  have not_stale: "\<not> stale (view s m)" using stale_idle(1) [OF ord] c(1) by (auto simp: view_fields)
  note spec_ended = spec_ended [OF ended not_stale]
  define new where "new = fst (ApplyCompletedJobStatus X m c now)"
  have only: "status_only m new" by (simp add: new_def)
  have recorded: "record_completed X c now m (False, []) = (new, PendingResync (Status m), LastRequestedRevision (Status m))"
    using record_completed_current [OF c(3) gen] by (simp add: new_def)
  have mirror: "api_mirrors s key = Some m" "mirror_key m = key" "leases_keyed s" using ord by (simp_all add: orderly_def)
  have "c \<in> set jobs" using current_in_jobs(1) [OF c(1)] jobs(2) by simp
  then obtain xs ys where split: "jobs = xs @ c # ys" by (meson split_list)
  have skips: "skip_job m jobs j" if "j \<in> set xs \<union> set ys" for j
    using orderly_skip [OF ord jobs(2), of j] c(1) that jobs(1) by (auto simp: split)
  have not_skipped: "\<not> skip_job m jobs c"
    using orderly_skip [OF ord jobs(2), of c] c split by simp
  note loop = completed_loop_prefix [of xs m jobs X R key now "c # ys"] completed_loop_skips [of ys m jobs X R key now]
  let ?t = "\<lambda>ls. s\<lparr>api_mirrors := (api_mirrors s)(key \<mapsto> new), api_leases := ls\<rparr>"
  let ?Q = "\<lambda>(result, handled, err) t. \<not> handled \<and> err = None \<and> implements X R T key s m t"
  have rest: "wpa T W (if \<not> PendingResync (Status m) then completed_loop X R key m jobs now ys
      else bindp (createLockedSyncJob X R m (resync_trigger now) (LastRequestedRevision (Status m)))
        (\<lambda>(acquired, jobName, err).
           if (case err of Some e \<Rightarrow> \<not> IsAlreadyExists e | None \<Rightarrow> False) then Return (zero_result, False, err)
           else if \<not> acquired then Return (retry_soon, True, None)
           else bindp (PatchGitMirrorStatus (ext_Retries X) key
                  (only_mirror (scheduled_for X jobName (gm_Generation m) now)) ())
             (\<lambda>(err, _). case err of
                 Some e \<Rightarrow> Return (zero_result, False, Some e)
               | None \<Rightarrow> completed_loop X R key m jobs now ys))) ?Q (?t ls)"
    if ls: "ls = api_leases s \<or> ls = (api_leases s)(lease_key m := None)" for ls
  proof -
    note state = recorded_state [OF ord c ls new_def refl]
    have work: "work (view (?t ls) new) = Idle" using state(2) spec_ended(1) by simp
    have exists: "api_jobs s \<lparr>key_Namespace = gm_Namespace m, key_Name = job_Name c\<rparr> \<noteq> None"
      using current_in_jobs [OF c(1)] by (auto simp: mirror_jobs_def job_key_def its_job_def)
    have generation: "gm_Generation new = gm_Generation m" by (simp add: new_def completed_consumes)
    have ys: "completed_loop X R key m jobs now ys = Return (zero_result, False, None)"
      using skips by (intro completed_loop_skips) simp
    show ?thesis
    proof (cases "PendingResync (Status m)")
      case False
      then have "view (?t ls) new = spec_reconcile (view s m)"
        using spec_ended(2) by (simp add: state(2) view_fields)
      moreover have "jobs_kept s m (?t ls) new"
        using exists status_only_fields [OF only] by (simp add: jobs_kept_def) (simp add: new_def completed_consumes)
      ultimately have "implements X R T key s m (?t ls)"
        unfolding implements_def starts_only_built_def
        using state(1) only work by (intro exI [of _ new]) simp
      then show ?thesis using False by (simp add: ys)
    next
      case True
      have spec: "spec_reconcile (view s m) = \<lparr>wanted = LastRequestedRevision (Status new),
          have_rev = LastMirroredRevision (Status new), failed = (LastError (Status new) \<noteq> []), waiting = False, stale = False,
          work = Running (LastRequestedRevision (Status m))\<rparr>"
        using arg_cong [OF state(2), of have_rev] arg_cong [OF state(2), of failed] spec_ended(3) True ended
        by (simp add: view_fields spec_record_def) (simp add: new_def completed_flags)
      have idle: "\<nexists>revision. work (view (?t ls) new) = Running revision" by (simp add: work)
      have "api_jobs (?t ls) \<lparr>key_Namespace = gm_Namespace new,
          key_Name = NameForMirrorTrigger new (resync_trigger now)\<rparr> = None"
        using fresh True ended assms(6) only by (auto simp: fresh_trigger_def view_fields elim!: status_only_E)
      then have free: "free_name (?t ls) new (NameForMirrorTrigger new (resync_trigger now))"
        using exists status_only_fields [OF only] by (auto simp: free_name_def new_def completed_consumes)
      note create = wpa_create_and_record [OF state(1) idle status_only_sym [OF only]
          build [folded can_build_status_only [OF only]] owner resync_trigger_nonempty free
          records_scheduled [where X = X and now = now and g = "gm_Generation m"],
          where n = "ext_Retries X" and v = "LastRequestedRevision (Status m)"
          and Q = "\<lambda>(err, _) t. err = None \<and> implements X R T key s m t"]
      show ?thesis
        using new_namesI(1) [OF assms(6), of m]
        by (simp only: True not_True_eq_False if_False wpa_bindp, intro wpa_mono [OF create])
          (auto simp: spec wpa_bindp ys generation intro: implementsI status_only_trans [OF only] elim!: wpa_mono)
    qed
  qed
  have released: "wpa T W (releaseSyncLease m (job_Name c)) P (?t (api_leases s))"
    if "\<And>ls. ls = api_leases s \<or> ls = (api_leases s)(lease_key m := None) \<Longrightarrow> P None (?t ls)" for P
  proof (rule wpa_release)
    show "leases_keyed (?t (api_leases s))" using mirror(3) by (simp add: leases_keyed_def)
    show "P None (?t (api_leases s))" by (rule that) simp
    show "P None ((?t (api_leases s))\<lparr>api_leases := (api_leases (?t (api_leases s)))(lease_key m := None)\<rparr>)"
      using that [of "(api_leases s)(lease_key m := None)"] by simp
  qed
  have start: "s\<lparr>api_mirrors := (api_mirrors s)(key \<mapsto> new)\<rparr> = ?t (api_leases s)" by simp
  have "completed_loop X R key m jobs now jobs = completed_loop X R key m jobs now (c # ys)"
    using loop(1) skips split by simp
  moreover have "wpa T W (completed_loop X R key m jobs now (c # ys)) ?Q s"
    by (simp only: completed_loop.simps not_skipped if_False wpa_bindp
        wpa_patch [where mutate = "record_completed X c now", OF mirror(1,2) recorded only] prod.case option.case)
      (subst start, rule released, simp only: option.case, rule rest [unfolded wpa_bindp])
  ultimately show ?thesis unfolding reconcileCompletedJobs_def by simp
qed

lemma handled_not:
  "wpa T W p (\<lambda>(result, handled, err) t. \<not> handled \<and> err = None \<and> P t) s
     \<Longrightarrow> (\<And>t. P t \<Longrightarrow> wpa T W q Q t) \<Longrightarrow> wpa T W (or_else p q) Q s"
  unfolding wpa_or_else by (erule wpa_mono) auto

lemma nothing_to_do:
  assumes "orderly key s m" and "spec_reconcile (view s m) = view s m"
  shows "implements X R T key s m s"
  unfolding implements_def starts_only_built_def jobs_kept_def
  using assms by (intro exI [of _ m]) auto

text \<open>Everything up to the schedule, by what is at work.\<close>

lemma before_schedule_stale:
  assumes ord: "orderly key s m" and unobserved: "ObservedGeneration (Status m) \<noteq> gm_Generation m"
    and "can_build X R m" and "only_sets_owner (ext_SetControllerReference X)" and "fresh_trigger T s m"
    and "now \<in> T" and jobs: "set jobs = mirror_jobs s m"
    and changed: "\<And>t. implements X R T key s m t \<Longrightarrow> Q (zero_result, None) t"
  shows "wpa T W (or_else (reconcileCompletedJobs X R key m jobs now)
      (or_else (reconcileUnobservedGeneration X R key m (activeJobExists jobs) now) q)) Q s"
proof -
  have "set jobs = {}" using stale_idle(3) [OF ord unobserved] jobs by simp
  then have quiet: "nothing_to_record m jobs" "\<not> activeJobExists jobs"
    by (simp_all add: nothing_to_record_def activeJobExists_def)
  have "wpa T W (or_else (reconcileUnobservedGeneration X R key m False now) q) Q s"
    unfolding wpa_or_else by (rule wpa_mono [OF run_stale [OF assms(1-6)]]) (auto intro: changed)
  then show ?thesis using quiet by (simp add: nothing_to_record_loop)
qed

lemma before_schedule_ended:
  assumes ord: "orderly key s m" and ended: "work (view s m) = Ended revision ok" and "can_build X R m"
    and "only_sets_owner (ext_SetControllerReference X)" and "fresh_trigger T s m" and "now \<in> T"
    and "distinct jobs" and "set jobs = mirror_jobs s m" and stale: "\<not> stale (view s m)"
    and rest: "\<And>t. implements X R T key s m t \<Longrightarrow> wpa T W q Q t"
  shows "wpa T W (or_else (reconcileCompletedJobs X R key m jobs now)
      (or_else (reconcilePendingResync X R key m False now) q)) Q s"
proof (rule handled_not [OF run_ended [OF assms(1-8)]])
  fix t assume t: "implements X R T key s m t"
  then obtain m' where "orderly key t m'" "view t m' = spec_reconcile (view s m)"
    by (auto simp: implements_def)
  then have "api_mirrors t key = Some m'" "\<not> PendingResync (Status m')"
    using spec_ended(4) [OF ended stale] view_fields(2) [of t m'] by (simp_all add: orderly_def)
  then show "wpa T W (or_else (reconcilePendingResync X R key m False now) q) Q t"
    using rest [OF t] by (simp add: wpa_or_else reconcilePendingResync_def)
qed

lemma before_schedule_idle:
  assumes ord: "orderly key s m" and idle: "work (view s m) = Idle"
    and observed: "ObservedGeneration (Status m) = gm_Generation m"
    and "can_build X R m" and "only_sets_owner (ext_SetControllerReference X)" and "fresh_trigger T s m" and "now \<in> T"
    and rest: "\<And>t. implements X R T key s m t \<Longrightarrow> wpa T W q Q t"
  shows "wpa T W (or_else (reconcilePendingResync X R key m False now) q) Q s"
proof (cases "PendingResync (Status m)")
  case True
  then show ?thesis by (rule handled_not [OF run_idle [OF ord idle _ assms(3-7)] rest])
next
  case False
  have "implements X R T key s m s"
    using idle False observed by (intro nothing_to_do [OF ord])
      (simp add: spec_reconcile_def spec_record_def spec_start_def view_fields)
  then show ?thesis using rest by (simp add: nothing_pending [OF False])
qed

lemma orderly_quiet:
  assumes "orderly key s m" and "set jobs = mirror_jobs s m" and "\<nexists>revision ok. work (view s m) = Ended revision ok"
  shows "nothing_to_record m jobs"
  using orderly_skip [OF assms(1,2)] assms(3)
  by (auto simp: nothing_to_record_def list_all_iff view_def work_of_def split: option.splits if_splits)

lemma wpa_before_schedule:
  assumes ord: "orderly key s m" and build: "can_build X R m"
    and owner: "only_sets_owner (ext_SetControllerReference X)" and fresh: "fresh_trigger T s m"
    and changed: "\<And>t. stale (view s m) \<Longrightarrow> implements X R T key s m t \<Longrightarrow> Q (zero_result, None) t"
    and rest: "\<And>now active t. now \<in> T \<Longrightarrow> \<not> stale (view s m) \<Longrightarrow> implements X R T key s m t
      \<Longrightarrow> active \<longleftrightarrow> (\<exists>revision. work (view s m) = Running revision)
      \<Longrightarrow> wpa T W (reconcileFallback X R key m active now) Q t"
  shows "wpa T W (Reconcile X R key) Q s"
proof (rule wpa_Reconcile)
  show "api_mirrors s key = Some m" using ord by (simp add: orderly_def)
next
  fix jobs now assume jobs: "distinct jobs" "set jobs = mirror_jobs s m" and now: "now \<in> T"
  note active = orderly_active [OF ord jobs(2)]
  show "wpa T W (or_else (reconcileCompletedJobs X R key m jobs now)
      (or_else (reconcileUnobservedGeneration X R key m (activeJobExists jobs) now)
        (or_else (reconcilePendingResync X R key m (activeJobExists jobs) now)
          (reconcileFallback X R key m (activeJobExists jobs) now)))) Q s"
  proof (cases "ObservedGeneration (Status m) = gm_Generation m")
    case False
    then show ?thesis
      by (intro before_schedule_stale [OF ord _ build owner fresh now jobs(2)] changed) (simp_all add: view_fields)
  next
    case observed: True
    then have observed': "\<not> stale (view s m)" by (simp add: view_fields)
    note fallback = rest [OF now observed' _ active]
    show ?thesis
    proof (cases "work (view s m)")
      case (Ended revision ok)
      then have "\<not> activeJobExists jobs" using active by simp
      with before_schedule_ended [OF ord Ended build owner fresh now jobs observed' fallback] show ?thesis
        by (simp add: generation_observed [OF observed])
    next
      case (Running revision)
      then have "activeJobExists jobs" using active by simp
      moreover have "implements X R T key s m s"
        using Running by (intro nothing_to_do [OF ord]) (simp add: spec_reconcile_def spec_record_def spec_start_def)
      moreover have "nothing_to_record m jobs" using Running by (intro orderly_quiet [OF ord jobs(2)]) simp
      ultimately show ?thesis using fallback by (simp add: nothing_to_record_loop active_waits)
    next
      case Idle
      then have "\<not> activeJobExists jobs" using active by simp
      moreover have "nothing_to_record m jobs" using Idle by (intro orderly_quiet [OF ord jobs(2)]) simp
      ultimately show ?thesis
        using before_schedule_idle [OF ord Idle observed build owner fresh now fallback]
        by (simp add: nothing_to_record_loop generation_observed [OF observed])
    qed
  qed
qed

end
