(* ===== verification/Sync_Schedule.thy ===== *)
theory Sync_Schedule
  imports Sync_Refinement
begin

text \<open>
  The cron schedule, and with it all of \<open>Reconcile\<close>: the step of the specification is
  \<open>spec_visit\<close>, which says what a schedule that has come due adds to \<open>spec_reconcile\<close>.
\<close>

subsection \<open>The schedule\<close>

text \<open>The time of the schedule has come, or has not, whenever the clock is read.\<close>

definition schedule_due :: "External \<Rightarrow> time set \<Rightarrow> GitMirror \<Rightarrow> bool" where
  "schedule_due X T m = (Schedule (Fallback (Spec m)) \<noteq> [] \<and> T \<noteq> {} \<and> (\<forall>clock \<in> T. \<forall>later \<in> T.
     \<exists>next. NextFallbackTime X (Schedule (Fallback (Spec m))) (LastTriggeredAt (Status m)) clock = Inr next \<and> next \<le> later))"

definition schedule_waits :: "External \<Rightarrow> time set \<Rightarrow> GitMirror \<Rightarrow> bool" where
  "schedule_waits X T m = (Schedule (Fallback (Spec m)) = [] \<or> (\<forall>clock \<in> T. \<forall>later \<in> T. \<forall>next.
     NextFallbackTime X (Schedule (Fallback (Spec m))) (LastTriggeredAt (Status m)) clock = Inr next \<longrightarrow> later < next))"

text \<open>
  When the reconciliation asks to be called again. \<open>RequeueAfter\<close> is the next time of the schedule,
  for a clock that shows a time of \<open>T\<close>, less the time the wall clock shows then, one of \<open>W\<close>; a
  schedule that cannot be computed counts as Go's zero time.
\<close>

definition schedule_after :: "External \<Rightarrow> GitMirror \<Rightarrow> time option \<Rightarrow> time \<Rightarrow> error + time" where
  "schedule_after X m since clock = NextFallbackTime X (Schedule (Fallback (Spec m))) since clock"

definition waits_until :: "External \<Rightarrow> time set \<Rightarrow> time set \<Rightarrow> GitMirror \<Rightarrow> time option \<Rightarrow> Result \<Rightarrow> bool" where
  "waits_until X T W m since result = (\<exists>clock \<in> T. \<exists>wall \<in> W.
     result = \<lparr>RequeueAfter = time_Sub (ignore_error (schedule_after X m since clock)) wall\<rparr>)"

text \<open>Nothing was due: not without a schedule or with one that Go cannot parse, and otherwise only
  if the time is later than another reading of the clock.\<close>

definition waits_for_schedule :: "External \<Rightarrow> time set \<Rightarrow> time set \<Rightarrow> GitMirror \<Rightarrow> Result \<Rightarrow> bool" where
  "waits_for_schedule X T W m result = (if Schedule (Fallback (Spec m)) = [] then result = zero_result
     else \<exists>clock \<in> T. case schedule_after X m (LastTriggeredAt (Status m)) clock of
       Inl _ \<Rightarrow> result = zero_result
     | Inr next \<Rightarrow> \<exists>later \<in> T. \<exists>wall \<in> W. later < next \<and> result = \<lparr>RequeueAfter = time_Sub next wall\<rparr>)"

text \<open>The schedule was due: its next time counts from this reconciliation when a Job was started for
  it, and from the last sync while a Job was running. When a Job was started just before, which
  holds the Lease, the reconciliation is called again after five seconds.\<close>

definition waits_after_due :: "External \<Rightarrow> time set \<Rightarrow> time set \<Rightarrow> api \<Rightarrow> GitMirror \<Rightarrow> Result \<Rightarrow> bool" where
  "waits_after_due X T W s m result = (case work (view s m) of
     Running _ \<Rightarrow> waits_until X T W m (LastTriggeredAt (Status m)) result
   | _ \<Rightarrow> if work (spec_reconcile (view s m)) = Idle then \<exists>now \<in> T. waits_until X T W m (Some now) result
       else result = retry_soon)"

definition requeues ::
  "External \<Rightarrow> time set \<Rightarrow> time set \<Rightarrow> api \<Rightarrow> GitMirror \<Rightarrow> bool \<Rightarrow> Result \<Rightarrow> bool" where
  "requeues X T W s m due result = (if stale (view s m) then result = zero_result
     else if due then waits_after_due X T W s m result else waits_for_schedule X T W m result)"

text \<open>What a reconciliation has done: the step of the specification.\<close>

definition visited ::
  "External \<Rightarrow> GitMirrorReconciler \<Rightarrow> time set \<Rightarrow> time set \<Rightarrow> ObjectKey \<Rightarrow> api \<Rightarrow> GitMirror
     \<Rightarrow> Result \<times> error option \<Rightarrow> api \<Rightarrow> bool" where
  "visited X R T W key s m r t = (snd r = None
     \<and> (\<exists>m' due. orderly key t m' \<and> status_only m m' \<and> view t m' = spec_visit due (view s m)
          \<and> (schedule_due X T m \<longrightarrow> due) \<and> (schedule_waits X T m \<longrightarrow> \<not> due)
          \<and> requeues X T W s m due (fst r) \<and> starts_only_built X R s m t m'))"

lemma waits_untilI:
  "clock \<in> T \<Longrightarrow> wall \<in> W \<Longrightarrow> waits_until X T W m since
    \<lparr>RequeueAfter = time_Sub (ignore_error (NextFallbackTime X (Schedule (Fallback (Spec m))) since clock)) wall\<rparr>"
  unfolding waits_until_def schedule_after_def by blast

lemma wpa_finish_fallback:
  assumes "api_mirrors t key = Some m'" and "mirror_key m' = key" and "g = gm_Generation m"
    and "status_only m' (record_fallback X name g now active m')"
    and "\<And>result. waits_until X T W m (if name \<noteq> [] then Some now else LastTriggeredAt (Status m)) result
      \<Longrightarrow> Q (result, None) (t\<lparr>api_mirrors := (api_mirrors t)(key \<mapsto> record_fallback X name g now active m')\<rparr>)"
  shows "wpa T W (finish_fallback X key m active now name) Q t"
proof -
  have patch: "wpa T W (PatchGitMirrorStatus (ext_Retries X) key (only_mirror (record_fallback X name g now active)) ()) P t
      = P (None, ()) (t\<lparr>api_mirrors := (api_mirrors t)(key \<mapsto> record_fallback X name g now active m')\<rparr>)" for P
    by (rule wpa_patch [OF assms(1,2) _ assms(4)]) simp
  have "\<forall>clock \<in> T. \<forall>wall \<in> W. Q (\<lparr>RequeueAfter = time_Sub (ignore_error (NextFallbackTime X (Schedule (Fallback (Spec m)))
      (if name \<noteq> [] then Some now else LastTriggeredAt (Status m)) clock)) wall\<rparr>, None)
      (t\<lparr>api_mirrors := (api_mirrors t)(key \<mapsto> record_fallback X name g now active m')\<rparr>)"
    by (intro ballI assms(5) waits_untilI)
  then show ?thesis by (simp add: finish_fallback_def wpa_bindp patch assms(3) [symmetric] Let_def)
qed

lemma wpa_finish_started:
  assumes "wpa T W (PatchGitMirrorStatus (ext_Retries X) key
      (only_mirror (record_fallback X name (gm_Generation m) now active)) ())
      (\<lambda>(err, _) u. err = None \<and> (\<forall>result. waits_until X T W m (Some now) result \<longrightarrow> Q (result, None) u)) s"
    and "name \<noteq> []"
  shows "wpa T W (finish_fallback X key m active now name) Q s"
  unfolding finish_fallback_def wpa_bindp
  by (rule wpa_mono [OF assms(1)]) (use assms(2) in \<open>auto simp: Let_def waits_untilI\<close>)

lemma coalesced_fields:
  "status_only m (record_fallback X [] g now True m)"
  "PendingResync (Status (record_fallback X [] g now True m))"
  "ObservedGeneration (Status (record_fallback X [] g now True m)) = ObservedGeneration (Status m)"
  "LastJobName (Status (record_fallback X [] g now True m)) = LastJobName (Status m)"
  "LastCompletedJobName (Status (record_fallback X [] g now True m)) = LastCompletedJobName (Status m)"
  "LastRequestedRevision (Status (record_fallback X [] g now True m)) = LastRequestedRevision (Status m)"
  "LastMirroredRevision (Status (record_fallback X [] g now True m)) = LastMirroredRevision (Status m)"
  "LastError (Status (record_fallback X [] g now True m)) = LastError (Status m)"
  by simp (simp_all add: record_fallback_def ApplyWebhookState_def Let_def)

lemma records_fallback:
  "gm_Generation m = g \<Longrightarrow> records_start (\<lambda>n. record_fallback X n g now False) m"
  unfolding records_start_def
  by (intro allI impI conjI)
    (simp, simp_all add: record_fallback_def ApplyWebhookState_def Let_def scheduled_fields)

text \<open>The Lease is held by the Job just created: the schedule waits.\<close>

lemma wpa_acquire_busy:
  assumes "api_leases s (lease_key m) = Some l" and "current_holder l = job_Name j"
    and "job_Name j \<noteq> []" and "job_Name j \<noteq> holder"
    and "api_jobs s \<lparr>key_Namespace = gm_Namespace m, key_Name = job_Name j\<rparr> = Some j"
    and "JobActive (Some j)" and "jobGenerationMatches (Some j) (gm_Generation m)" and "Q (False, None) s"
  shows "wpa T W (acquireSyncLease m holder) Q s"
  using assms
  by (simp add: acquireSyncLease_def api_create_lease_def stored_new_lease wpa_bindp jobNameActiveForGeneration_def)

lemma wpa_create_busy:
  assumes "built_from X R m t v job" and "api_leases s (lease_key m) = Some l" and "current_holder l = job_Name j"
    and "job_Name j \<noteq> []" and "job_Name j \<noteq> job_Name job"
    and "api_jobs s \<lparr>key_Namespace = gm_Namespace m, key_Name = job_Name j\<rparr> = Some j"
    and "JobActive (Some j)" and "jobGenerationMatches (Some j) (gm_Generation m)" and "Q (False, job_Name job, None) s"
  shows "wpa T W (createLockedSyncJob X R m t v) Q s"
  unfolding createLockedSyncJob_built [OF assms(1)] wpa_bindp
  by (rule wpa_acquire_busy [OF assms(2-8)]) (simp add: assms(9))

lemma scheduled_trigger_nonempty [simp]: "scheduled_trigger now \<noteq> []"
  by (simp add: scheduled_trigger_def)

lemma visitedI:
  assumes "orderly key u w" and "status_only m w" and "view u w = spec_visit True (view s m)"
    and "starts_only_built X R s m u w" and "snd r = None" and "\<not> schedule_waits X T m"
    and "\<not> stale (view s m)" and "waits_after_due X T W s m (fst r)"
  shows "visited X R T W key s m r u"
  unfolding visited_def using assms by (intro conjI exI [of _ w] exI [of _ True]) (auto simp: requeues_def)

lemma visited_before:
  assumes "implements X R T key s m t" and "snd r = None" and "stale (view s m) \<or> \<not> schedule_due X T m"
    and "if stale (view s m) then fst r = zero_result else waits_for_schedule X T W m (fst r)"
  shows "visited X R T W key s m r t"
proof -
  have "spec_visit (schedule_due X T m) (view s m) = spec_reconcile (view s m)"
    using assms(3) by (auto simp: spec_visit_def Let_def)
  moreover have "schedule_waits X T m \<Longrightarrow> \<not> schedule_due X T m"
    unfolding schedule_waits_def schedule_due_def by fastforce
  moreover have "requeues X T W s m (schedule_due X T m) (fst r)"
    using assms(3,4) by (auto simp: requeues_def)
  moreover obtain m' where "orderly key t m'" "status_only m m'" "view t m' = spec_reconcile (view s m)"
    "starts_only_built X R s m t m'" using assms(1) unfolding implements_def by blast
  ultimately show ?thesis
    unfolding visited_def using assms(2) by (intro conjI exI [of _ m'] exI [of _ "schedule_due X T m"]) auto
qed

text \<open>\<open>reconcileFallback\<close> once the time of the schedule has come.\<close>

definition fallback_due ::
  "External \<Rightarrow> GitMirrorReconciler \<Rightarrow> ObjectKey \<Rightarrow> GitMirror \<Rightarrow> bool \<Rightarrow> time \<Rightarrow> (Result \<times> error option) prog" where
  "fallback_due X R key m active now =
     (if \<not> active then
        bindp (createLockedSyncJob X R m (scheduled_trigger now) [])
          (\<lambda>(acquired, jobName, err). case err of
              Some e \<Rightarrow> Return (zero_result, Some e)
            | None \<Rightarrow>
                if \<not> acquired then Return (retry_soon, None)
                else finish_fallback X key m active now jobName)
      else finish_fallback X key m active now [])"

lemma wpa_reconcileFallback:
  assumes "\<And>result. \<not> schedule_due X T m \<Longrightarrow> waits_for_schedule X T W m result \<Longrightarrow> Q (result, None) t"
    and "Schedule (Fallback (Spec m)) \<noteq> [] \<Longrightarrow> \<not> schedule_waits X T m \<Longrightarrow> wpa T W (fallback_due X R key m active now) Q t"
  shows "wpa T W (reconcileFallback X R key m active now) Q t"
proof (cases "Schedule (Fallback (Spec m)) = []")
  case True
  then show ?thesis using assms(1) by (simp add: no_schedule schedule_due_def waits_for_schedule_def)
next
  case False
  let ?next = "NextFallbackTime X (Schedule (Fallback (Spec m))) (LastTriggeredAt (Status m))"
  have never: "\<not> schedule_due X T m" if "clock \<in> T" "later \<in> T" "\<nexists>next. ?next clock = Inr next \<and> next \<le> later" for clock later
    using that unfolding schedule_due_def by blast
  have come: "\<not> schedule_waits X T m" if "clock \<in> T" "later \<in> T" "?next clock = Inr next" "\<not> next > later" for clock later "next"
    using that False unfolding schedule_waits_def by blast
  have "wpa T W (case ?next clock of
        Inl _ \<Rightarrow> Return (zero_result, None)
      | Inr next \<Rightarrow> ClockNow (\<lambda>later. if next > later then WallNow (\<lambda>wall. Return (\<lparr>RequeueAfter = time_Sub next wall\<rparr>, None))
          else fallback_due X R key m active now)) Q t" if clock: "clock \<in> T" for clock
  proof (cases "?next clock")
    case (Inl e)
    then have "waits_for_schedule X T W m zero_result"
      using clock False unfolding waits_for_schedule_def schedule_after_def by force
    then show ?thesis using never [OF clock clock] Inl by (simp add: assms(1))
  next
    case (Inr n)
    have "wpa T W (if n > later then WallNow (\<lambda>wall. Return (\<lparr>RequeueAfter = time_Sub n wall\<rparr>, None))
        else fallback_due X R key m active now) Q t" if later: "later \<in> T" for later
    proof (cases "n > later")
      case True
      have "waits_for_schedule X T W m \<lparr>RequeueAfter = time_Sub n wall\<rparr>" if "wall \<in> W" for wall
        using clock later True False Inr that unfolding waits_for_schedule_def schedule_after_def by force
      then show ?thesis using True never [OF clock later] Inr by (simp add: assms(1))
    next
      case due: False
      then show ?thesis using assms(2) [OF False come [OF clock later Inr due]] by simp
    qed
    then show ?thesis using Inr by simp
  qed
  moreover have "reconcileFallback X R key m active now = ClockNow (\<lambda>clock. case ?next clock of
        Inl _ \<Rightarrow> Return (zero_result, None)
      | Inr next \<Rightarrow> ClockNow (\<lambda>later. if next > later then WallNow (\<lambda>wall. Return (\<lparr>RequeueAfter = time_Sub next wall\<rparr>, None))
          else fallback_due X R key m active now))"
    by (simp only: reconcileFallback_def fallback_due_def False if_False)
  ultimately show ?thesis by simp
qed

text \<open>A Job is running: another one is to follow.\<close>

lemma due_active:
  assumes ord: "orderly key t m'" and only: "status_only m m'" and v: "view t m' = spec_reconcile (view s m)"
    and work: "work (view s m) = Running revision" and stale: "\<not> stale (view s m)"
    and due: "Schedule (Fallback (Spec m)) \<noteq> []" "\<not> schedule_waits X T m"
  shows "wpa T W (fallback_due X R key m True now) (visited X R T W key s m) t"
proof -
  have stored: "api_mirrors t key = Some m'" "mirror_key m' = key" using ord by (simp_all add: orderly_def)
  have same: "view t m' = view s m" using work by (simp add: v spec_reconcile_def spec_record_def spec_start_def)
  let ?new = "record_fallback X [] (gm_Generation m) now True m'"
  let ?u = "t\<lparr>api_mirrors := (api_mirrors t)(key \<mapsto> ?new)\<rparr>"
  note c = coalesced_fields [where X = X and m = m' and g = "gm_Generation m" and now = now]
  note pending = orderly_status [OF ord c(1,3,4,5) refl]
  have waits: "view ?u ?new = (view t m')\<lparr>waiting := True\<rparr>"
    using pending(2) status_only_fields [OF c(1)] by (simp add: view_def work_of_def c split: option.split)
  then have "view ?u ?new = spec_visit True (view s m)"
    using work stale v by (simp add: same spec_visit_def)
  moreover have "starts_only_built X R s m ?u ?new"
    unfolding starts_only_built_def waits using work same by simp
  ultimately have "visited X R T W key s m (result, None) ?u"
    if "waits_until X T W m (LastTriggeredAt (Status m)) result" for result
    using pending(1) status_only_trans [OF only c(1)] due stale work that
    by (intro visitedI) (simp_all add: waits_after_due_def)
  then have "wpa T W (finish_fallback X key m True now []) (visited X R T W key s m) t"
    by (intro wpa_finish_fallback [OF stored refl c(1)]) simp
  then show ?thesis by (simp add: fallback_due_def)
qed

text \<open>A Job was started just before: it holds the Lease.\<close>

lemma due_after_start:
  assumes ord: "orderly key t m'" and only: "status_only m m'" and v: "view t m' = spec_reconcile (view s m)"
    and started: "starts_only_built X R s m t m'" and running: "work (view t m') = Running revision"
    and idle: "\<nexists>revision. work (view s m) = Running revision" and stale: "\<not> stale (view s m)"
    and due: "Schedule (Fallback (Spec m)) \<noteq> []" "\<not> schedule_waits X T m"
    and job: "built_from X R m (scheduled_trigger now) [] job" "current_job t m' = Some current" "job_Name current \<noteq> job_Name job"
  shows "wpa T W (fallback_due X R key m False now) (visited X R T W key s m) t"
proof -
  obtain l where l: "api_leases t (lease_key m) = Some l" "current_holder l = job_Name current"
    using started running idle job(2) unfolding starts_only_built_def holds_lease_def by auto
  have busy: "JobActive (Some current)" using work_running [OF ord running] job(2) by auto
  have its: "job_Name current \<noteq> []" "api_jobs t \<lparr>key_Namespace = gm_Namespace m, key_Name = job_Name current\<rparr> = Some current"
    "jobGenerationMatches (Some current) (gm_Generation m)"
    using ord job(2) current_in_jobs [OF job(2)] status_only_fields [OF only]
    by (auto simp: orderly_def mirror_jobs_def its_job_def job_key_def)
  have "view t m' = spec_visit True (view s m)"
    using v idle stale running by (auto simp: spec_visit_def Let_def split: work.split)
  then have "visited X R T W key s m (retry_soon, None) t"
    using ord only started due stale idle running v
    by (intro visitedI) (auto simp: waits_after_due_def split: work.split)
  then show ?thesis
    by (simp add: fallback_due_def wpa_bindp wpa_create_busy [OF job(1) l its(1) job(3) its(2) busy its(3)])
qed

text \<open>Nothing is at work: a Job is started.\<close>

lemma due_idle:
  assumes ord: "orderly key t m'" and only: "status_only m m'" and v: "view t m' = spec_reconcile (view s m)"
    and now_idle: "work (view t m') = Idle" and idle: "\<nexists>revision. work (view s m) = Running revision"
    and stale: "\<not> stale (view s m)" and due: "Schedule (Fallback (Spec m)) \<noteq> []" "\<not> schedule_waits X T m"
    and build: "can_build X R m" and owner: "only_sets_owner (ext_SetControllerReference X)"
    and free: "free_name t m' (NameForMirrorTrigger m' (scheduled_trigger now))" and now: "now \<in> T"
  shows "wpa T W (fallback_due X R key m False now) (visited X R T W key s m) t"
proof -
  note same = status_only_fields [OF only]
  have quiet: "\<not> waiting (view t m')" "\<not> stale (view t m')"
    using stale now_idle by (auto simp: v spec_reconcile_def spec_record_def spec_start_def split: work.splits if_splits)
  have idle': "\<nexists>revision. work (view t m') = Running revision" using now_idle by simp
  note create = wpa_create_and_record [OF ord idle' status_only_sym [OF only]
      build [folded can_build_status_only [OF only]] owner scheduled_trigger_nonempty free
      records_fallback [where X = X and now = now and g = "gm_Generation m"],
      where n = "ext_Retries X" and v = "[]"
      and Q = "\<lambda>(err, _) u. err = None \<and> (\<forall>result. waits_until X T W m (Some now) result
        \<longrightarrow> visited X R T W key s m (result, None) u)"]
  have "spec_visit True (view s m) = (view t m')\<lparr>work := Running []\<rparr>"
    using idle stale now_idle v by (auto simp: spec_visit_def Let_def split: work.split)
  then have view: "spec_visit True (view s m) = \<lparr>wanted = LastRequestedRevision (Status m'),
      have_rev = LastMirroredRevision (Status m'), failed = (LastError (Status m') \<noteq> []),
      waiting = False, stale = False, work = Running []\<rparr>"
    using quiet view_fields [of t m'] by (intro sync_view.equality) simp_all
  have waits: "waits_after_due X T W s m result" if "waits_until X T W m (Some now) result" for result
    using that now idle now_idle v by (auto simp: waits_after_due_def split: work.split)
  show ?thesis
    using same
    by (simp add: fallback_due_def wpa_bindp, intro wpa_mono [OF create])
      (auto simp: view starts_only_built_def due stale
        intro!: visitedI waits wpa_finish_started intro: status_only_trans [OF only])
qed

lemma run_schedule:
  assumes ord: "orderly key s m" and build: "can_build X R m"
    and owner: "only_sets_owner (ext_SetControllerReference X)" and fresh: "fresh_trigger T s m"
    and now: "now \<in> T" and stale: "\<not> stale (view s m)" and before: "implements X R T key s m t"
    and active: "active \<longleftrightarrow> (\<exists>revision. work (view s m) = Running revision)"
  shows "wpa T W (reconcileFallback X R key m active now) (visited X R T W key s m) t"
proof (rule wpa_reconcileFallback)
  show "visited X R T W key s m (result, None) t"
    if "\<not> schedule_due X T m" "waits_for_schedule X T W m result" for result
    using before that stale by (intro visited_before) auto
next
  assume due: "Schedule (Fallback (Spec m)) \<noteq> []" "\<not> schedule_waits X T m"
  obtain m' where m': "orderly key t m'" "status_only m m'" "view t m' = spec_reconcile (view s m)"
      "starts_only_built X R s m t m'" "work (view t m') = Idle \<Longrightarrow> jobs_kept s m t m'"
    and named: "(\<exists>revision. work (view t m') = Running revision) \<and> (\<nexists>revision. work (view s m) = Running revision)
      \<Longrightarrow> \<exists>job. current_job t m' = Some job \<and> job_Name job \<in> new_names T m"
    using before unfolding implements_def by blast
  show "wpa T W (fallback_due X R key m active now) (visited X R T W key s m) t"
  proof (cases active)
    case True
    then show ?thesis using due_active [OF m'(1-3) _ stale due] active by auto
  next
    case False
    then have idle: "\<nexists>revision. work (view s m) = Running revision" using active by simp
    obtain job where job: "built_from X R m (scheduled_trigger now) [] job"
      using build scheduled_trigger_nonempty unfolding can_build_def
      by (metis GitMirror.surjective GitMirror.update_convs(6))
    have name: "job_Name job = NameForMirrorTrigger m (scheduled_trigger now)"
      using built_fields(1) [OF job owner] by (simp add: job_key_def)
    have free: "free_name s m (job_Name job)" "waiting (view s m) \<Longrightarrow> job_Name job \<notin> new_names T m"
      using fresh now idle due(1) unfolding fresh_trigger_def name by (cases "work (view s m)"; force)+
    show ?thesis
    proof (cases "work (view t m')")
      case (Running revision)
      then have "waiting (view s m)"
        using idle stale by (auto simp: m'(3) spec_reconcile_def spec_record_def spec_start_def split: work.splits if_splits)
      then obtain current where "current_job t m' = Some current" "job_Name current \<noteq> job_Name job"
        using named idle Running free(2) by metis
      then show ?thesis using due_after_start [OF m'(1-4) Running idle stale due job] False by simp
    next
      case Idle
      have "NameForMirrorTrigger m' (scheduled_trigger now) = job_Name job"
        using m'(2) by (auto simp: name elim!: status_only_E)
      then have "free_name t m' (NameForMirrorTrigger m' (scheduled_trigger now))"
        using m'(5) [OF Idle] free(1) status_only_fields [OF m'(2)] by (auto simp: free_name_def jobs_kept_def)
      then show ?thesis using due_idle [OF m'(1-3) Idle idle stale due build owner _ now] False by simp
    next
      case (Ended revision ok)
      then show ?thesis using m'(3)
        by (auto simp: spec_reconcile_def spec_record_def spec_start_def split: work.splits if_splits)
    qed
  qed
qed

lemma reconcile_visits:
  assumes ord: "orderly key s m" and build: "can_build X R m"
    and owner: "only_sets_owner (ext_SetControllerReference X)" and fresh: "fresh_trigger T s m"
  shows "wpa T W (Reconcile X R key) (visited X R T W key s m) s"
  by (rule wpa_before_schedule [OF assms])
    (auto intro: run_schedule [OF assms] visited_before)


text \<open>A GitMirror with a pending push, alone on the API server.\<close>

definition demo_api :: "GitMirror \<Rightarrow> api" where
  "demo_api m = empty_api\<lparr>api_mirrors := [demo_key \<mapsto> m]\<rparr>"

lemma demo_can_build: "can_build demo_X demo_R (demo_mirror schedule st)"
proof -
  have "(demo_mirror schedule st)\<lparr>Status := st'\<rparr> = demo_mirror schedule st'" for st'
    by (simp add: demo_mirror_def)
  then show ?thesis using demo_built unfolding can_build_def by metis
qed

lemma demo_api_orderly:
  assumes "mirror_key m = demo_key"
  shows "orderly demo_key (demo_api m) m"
  using assms by (simp add: orderly_def demo_api_def empty_api_def finite_api_def leases_keyed_def
      jobs_keyed_def mirror_jobs_def current_job_def)

lemma demo_api_fresh:
  assumes "LastCompletedJobName (Status m) = []" and "\<not> PendingResync (Status m) \<or> Schedule (Fallback (Spec m)) = []"
  shows "fresh_trigger T (demo_api m) m"
proof -
  have "current_job (demo_api m) m = None" by (simp add: current_job_def demo_api_def empty_api_def)
  then have "work (view (demo_api m) m) = Idle" by (simp add: view_def work_of_def)
  moreover have "free_name (demo_api m) m (NameForMirrorTrigger m t)" for t
    using assms(1) by (simp add: free_name_def demo_api_def empty_api_def)
  ultimately show ?thesis using assms(2) by (auto simp: fresh_trigger_def view_fields)
qed

lemma demo_owner_X: "only_sets_owner (ext_SetControllerReference demo_X)"
  by (simp add: demo_X_def demo_owner_only)

text \<open>A GitMirror with a schedule that comes due every hour, an hour after its last sync.\<close>

definition demo_hourly :: GitMirror where
  "demo_hourly = demo_mirror ''@hourly'' (demo_status\<lparr>PendingResync := False, LastTriggeredAt := Some 0\<rparr>)"

lemma demo_hourly_due: "schedule_due demo_X {seconds 3600} demo_hourly"
  by (simp add: schedule_due_def demo_hourly_def NextFallbackTime_def) (simp add: demo_X_def demo_cron_def)

lemma demo_hourly_view: "view (demo_api demo_hourly) demo_hourly
    = \<lparr>wanted = ''abc'', have_rev = [], failed = False, waiting = False, stale = False, work = Idle\<rparr>"
  by (simp add: view_def current_job_def work_of_def demo_api_def empty_api_def demo_hourly_def) (simp add: demo_status_def)

text \<open>Its next time is one hour after the sync that is started, so the delay is an hour.\<close>

lemma demo_hourly_waits:
  assumes "requeues demo_X {seconds 3600} {seconds 3600} (demo_api demo_hourly) demo_hourly True result"
  shows "result = \<lparr>RequeueAfter = seconds 3600\<rparr>"
proof -
  have "\<not> stale (view (demo_api demo_hourly) demo_hourly)" "work (view (demo_api demo_hourly) demo_hourly) = Idle"
      "work (spec_reconcile (view (demo_api demo_hourly) demo_hourly)) = Idle"
    by (simp_all add: demo_hourly_view spec_reconcile_def spec_record_def spec_start_def)
  with assms have "waits_until demo_X {seconds 3600} {seconds 3600} demo_hourly (Some (seconds 3600)) result"
    by (simp add: requeues_def waits_after_due_def)
  then have "result = \<lparr>RequeueAfter = time_Sub (ignore_error (schedule_after demo_X demo_hourly (Some (seconds 3600)) (seconds 3600)))
      (seconds 3600)\<rparr>" by (simp add: waits_until_def)
  moreover have "schedule_after demo_X demo_hourly (Some (seconds 3600)) (seconds 3600) = Inr (seconds 7200)"
    by (simp add: schedule_after_def demo_hourly_def NextFallbackTime_def)
      (simp add: demo_X_def demo_cron_def seconds_def)
  ultimately show ?thesis by (simp add: time_Sub_def seconds_def ns_per_second_def ignore_error_def)
qed


end
