(* ===== verification/Lease_Divergences.thy ===== *)
theory Lease_Divergences
  imports Divergences Sync_Schedule
begin

text \<open>
  The Lease between Jobs of different generations. Whether the holder's Job is active is asked
  for the generation of the GitMirror that wants the Lease, also when the holder's Job is
  another GitMirror's or was made for an earlier specification.
\<close>

text \<open>The Lease is held by an active Job of another generation; it is taken over all the same.\<close>

definition taken_lease :: "GitMirror \<Rightarrow> BatchJob \<Rightarrow> time \<Rightarrow> Lease \<Rightarrow> BatchJob \<Rightarrow> event list" where
  "taken_lease m job clock existing active =
     fresh_lease m job clock (Some (AlreadyExists [])) @
     [EvGetLease (lease_key m) (Inr existing),
      EvGetJob \<lparr>key_Namespace = gm_Namespace m, key_Name = current_holder existing\<rparr> (Inr active),
      EvUpdateLease (take_over existing (job_Name job) clock) None]"

lemma after_create_taken:
  assumes "built_from X R m t v job"
    and "current_holder existing \<noteq> []" and "current_holder existing \<noteq> job_Name job"
    and "\<not> jobGenerationMatches (Some active) (gm_Generation m)"
  shows "after (createLockedSyncJob X R m t v) (taken_lease m job clock existing active @ [EvCreateJob job None])
    = Some (Return (True, job_Name job, None))"
  using assms unfolding taken_lease_def fresh_lease_def
  by (simp add: built_from_def createLockedSyncJob_def acquireSyncLease_def Let_def
      jobNameActiveForGeneration_def update_lease_def)

text \<open>C26. The Lease does not keep Jobs of one repository apart when their generations differ. A
  Job created under the Lease for one GitMirror is active; afterwards, with no call interleaved,
  another GitMirror of the same repository whose generation number is another one (or the
  same GitMirror after a change of its specification) asks for its Job: the holder is not
  taken for active, the Lease is taken over, and the second Job is created beside the first.\<close>

theorem lease_of_other_generation:
  assumes "built_from X R m t1 v1 job1" and "built_from X R m' t2 v2 job2" and "t1 \<noteq> []" and "t2 \<noteq> []"
    and "only_sets_owner (ext_SetControllerReference X)"
    and "lease_key m' = lease_key m" and "gm_Generation m' \<noteq> gm_Generation m" and "job_Name job1 \<noteq> job_Name job2"
  shows "\<exists>es1 es2 s t. after (createLockedSyncJob X R m t1 v1) es1 = Some (Return (True, job_Name job1, None))
    \<and> runs api_step empty_api es1 s
    \<and> after (createLockedSyncJob X R m' t2 v2) es2 = Some (Return (True, job_Name job2, None))
    \<and> runs api_step s es2 t
    \<and> api_jobs t (job_key job1) = Some job1 \<and> JobActive (Some job1)
    \<and> api_jobs t (job_key job2) = Some job2 \<and> JobActive (Some job2)"
proof -
  note f1 = built_fields [OF assms(1,5,3)] and f2 = built_fields [OF assms(2,5,4)]
  let ?held = "(new_lease m (job_Name job1) 0)\<lparr>lease_ResourceVersion := ''1''\<rparr>"
  let ?es1 = "fresh_lease m job1 0 None @ [EvCreateJob job1 None]"
  let ?es2 = "taken_lease m' job2 1 ?held job1 @ [EvCreateJob job2 None]"
  have ns: "gm_Namespace m' = gm_Namespace m" using assms(6) by (simp add: lease_key_def)
  have k1: "job_key job1 = \<lparr>key_Namespace = gm_Namespace m, key_Name = job_Name job1\<rparr>"
    using f1(1) by (simp add: job_key_def)
  have k2: "job_key job2 = \<lparr>key_Namespace = gm_Namespace m, key_Name = job_Name job2\<rparr>"
    using f2(1) ns by (simp add: job_key_def)
  have h: "current_holder ?held = job_Name job1" by (simp add: current_holder_def new_lease_def Let_def)
  have other: "\<not> jobGenerationMatches (Some job1) (gm_Generation m')"
    using f1(7) assms(7) by (simp add: jobGenerationMatches_def)
  have active: "JobActive (Some job1)" "JobActive (Some job2)"
    using f1(4,6) f2(4,6) by (simp_all add: JobActive_def)
  have r1: "after (createLockedSyncJob X R m t1 v1) ?es1 = Some (Return (True, job_Name job1, None))"
    by (rule after_create [OF assms(1)]) simp
  have r2: "after (createLockedSyncJob X R m' t2 v2) ?es2 = Some (Return (True, job_Name job2, None))"
    by (rule after_create_taken [OF assms(2) _ _ other]) (use h f1(5) assms(8) in simp_all)
  have k: "stored_key (e\<lparr>lease_ResourceVersion := v\<rparr>) = stored_key e"
    "stored_key (e\<lparr>HolderIdentity := w\<rparr>) = stored_key e" "stored_key (e\<lparr>AcquireTime := t\<rparr>) = stored_key e"
    "stored_key (e\<lparr>RenewTime := t\<rparr>) = stored_key e" for e v w t by (simp_all add: stored_key_def)
  have kl: "stored_key (new_lease n holder t) = lease_key n" for n holder t by (rule stored_new_lease)
  let ?s = "empty_api\<lparr>api_leases := [lease_key m \<mapsto> ?held], api_jobs := [job_key job1 \<mapsto> job1]\<rparr>"
  let ?t = "empty_api\<lparr>api_leases := [lease_key m \<mapsto> (take_over ?held (job_Name job2) 1)\<lparr>lease_ResourceVersion := ''11''\<rparr>],
      api_jobs := [job_key job1 \<mapsto> job1, job_key job2 \<mapsto> job2]\<rparr>"
  have s1: "runs api_step empty_api ?es1 ?s"
    by (simp add: fresh_lease_def api_step_def api_create_lease_def api_create_job_def kl empty_api_def)
  have s2: "runs api_step ?s ?es2 ?t"
    using assms(6,8) h ns k1 k2
    by (simp add: fresh_lease_def taken_lease_def api_step_def api_create_lease_def api_update_lease_def
        api_create_job_def found_def k kl take_over_def)
  show ?thesis
    using r1 r2 s1 s2 active assms(8) k1 k2
    by (intro exI [of _ ?es1] exI [of _ ?es2] exI [of _ ?s] exI [of _ ?t]) simp
qed

text \<open>Two GitMirrors of one repository, the second one changed once.\<close>

abbreviation m3_edited :: GitMirror where
  "m3_edited \<equiv> m0\<lparr>gm_Name := ''zzz'', gm_Generation := 2\<rparr>"

lemma m3_edited_build: "\<exists>j. built_from demo_X demo_R m3_edited ''d2'' [] j \<and> job_Namespace j = ''ns''
    \<and> job_Name j = NameForMirrorTrigger m3_edited ''d2''"
  by (simp add: built_from_def BuildSyncJob_def demo_defs or_default_def endpointAuth_def
      endpoint_auth_type_def sshAuthRef_def demo_owner_def sync_options_def Let_def
      auth_type_defs sync_job_def)

theorem lease_of_other_generation_witness:
  "\<exists>j es1 es2 s t. after (createLockedSyncJob demo_X demo_R m0 ''d1'' ''abc'') es1 = Some (Return (True, job_Name j0, None))
    \<and> runs api_step empty_api es1 s
    \<and> after (createLockedSyncJob demo_X demo_R m3_edited ''d2'' []) es2 = Some (Return (True, job_Name j, None))
    \<and> runs api_step s es2 t \<and> job_key j \<noteq> job_key j0
    \<and> api_jobs t (job_key j0) = Some j0 \<and> JobActive (Some j0) \<and> api_jobs t (job_key j) = Some j \<and> JobActive (Some j)"
proof -
  obtain j where j: "built_from demo_X demo_R m3_edited ''d2'' [] j" "job_Namespace j = ''ns''"
    "job_Name j = NameForMirrorTrigger m3_edited ''d2''" using m3_edited_build by blast
  have ne: "job_Name j0 \<noteq> job_Name j"
    by (simp add: j demo_job_fields NameForMirrorTrigger_def Let_def demo_bases)
  have b: "built_from demo_X demo_R m0 ''d1'' ''abc'' j0" by (rule demo_built) simp
  have l: "lease_key m3_edited = lease_key m0"
    by (simp add: lease_key_def SyncLeaseName_def Let_def)
  have "job_key j \<noteq> job_key j0" using ne by (simp add: job_key_def)
  moreover have "''d1'' \<noteq> []" "''d2'' \<noteq> []" "gm_Generation m3_edited \<noteq> gm_Generation m0" by simp_all
  ultimately show ?thesis
    using lease_of_other_generation [OF b j(1) _ _ demo_owner_X l _ ne] by blast
qed

end
