(* ===== verification/GitHub_Payload.thy ===== *)
theory GitHub_Payload
  imports Go_JSON Go_Hash
begin

text \<open>
  \<open>internal/github/payload.go\<close>: what the webhook reads of a GitHub push payload, and the check
  of its signature. The JSON document is decoded into \<open>minimalRepositoryPayload\<close>; a key that
  occurs twice is decoded twice into the same struct. The round trip lemmas follow the scanner
  over a payload written by a JSON encoder.
\<close>

record minimalRepositoryPayload =
  Repository_FullName :: string
  After :: string

definition decode_repository_member ::
  "string \<times> bool \<Rightarrow> string \<times> json \<Rightarrow> string \<times> bool" where
  "decode_repository_member s member = (case s of (full_name, bad) \<Rightarrow>
     if field_key (fst member) ''full_name'' then
       (case decode_string_field (snd member) full_name of (full_name', bad') \<Rightarrow> (full_name', bad \<or> bad'))
     else s)"

definition decode_repository :: "json \<Rightarrow> string \<Rightarrow> string \<times> bool" where
  "decode_repository v full_name = (case v of
     JNull \<Rightarrow> (full_name, False)
   | JObject members \<Rightarrow> foldl decode_repository_member (full_name, False) members
   | _ \<Rightarrow> (full_name, True))"

definition decode_payload_member ::
  "minimalRepositoryPayload \<times> bool \<Rightarrow> string \<times> json \<Rightarrow> minimalRepositoryPayload \<times> bool" where
  "decode_payload_member s member = (case s of (p, bad) \<Rightarrow>
     if field_key (fst member) ''repository'' then
       (case decode_repository (snd member) (Repository_FullName p) of
          (full_name, bad') \<Rightarrow> (p\<lparr>Repository_FullName := full_name\<rparr>, bad \<or> bad'))
     else if field_key (fst member) ''after'' then
       (case decode_string_field (snd member) (After p) of
          (after', bad') \<Rightarrow> (p\<lparr>After := after'\<rparr>, bad \<or> bad'))
     else s)"

definition empty_payload :: minimalRepositoryPayload where
  "empty_payload = \<lparr>Repository_FullName = [], After = []\<rparr>"

definition decode_payload :: "json \<Rightarrow> minimalRepositoryPayload \<times> bool" where
  "decode_payload v = (case v of
     JNull \<Rightarrow> (empty_payload, False)
   | JObject members \<Rightarrow> foldl decode_payload_member (empty_payload, False) members
   | _ \<Rightarrow> (empty_payload, True))"

text \<open>\<open>json.Unmarshal(body, &payload)\<close>.\<close>

definition Unmarshal_payload :: "string \<Rightarrow> error + minimalRepositoryPayload" where
  "Unmarshal_payload body = (case parse_json body of
     None \<Rightarrow> Inl (Failure ''invalid JSON'')
   | Some v \<Rightarrow> (case decode_payload v of
       (p, bad) \<Rightarrow> if bad then Inl (Failure ''json: cannot unmarshal'') else Inr p))"

definition ExtractRepositoryFullName :: "string \<Rightarrow> error + string" where
  "ExtractRepositoryFullName body = (case Unmarshal_payload body of
     Inl err \<Rightarrow> Inl err
   | Inr payload \<Rightarrow>
       if Repository_FullName payload = [] then Inl (Failure ''payload missing repository.full_name'')
       else Inr (Repository_FullName payload))"

definition ExtractAfterRevision :: "string \<Rightarrow> string" where
  "ExtractAfterRevision body = (case Unmarshal_payload body of
     Inl err \<Rightarrow> [] | Inr payload \<Rightarrow> After payload)"

definition signature_prefix :: string where
  "signature_prefix = ''sha256=''"

definition VerifySignature256 :: "string \<Rightarrow> string \<Rightarrow> string \<Rightarrow> bool" where
  "VerifySignature256 body header secret =
     (if secret = [] \<or> \<not> HasPrefix header signature_prefix then False
      else case DecodeString (TrimPrefix header signature_prefix) of
        None \<Rightarrow> False
      | Some got \<Rightarrow> got = hmac_sha256 secret body)"

subsection \<open>Signatures\<close>

definition sign :: "string \<Rightarrow> string \<Rightarrow> string" where
  "sign secret body = signature_prefix @ EncodeToString (hmac_sha256 secret body)"

lemma VerifySignature256_iff:
  "VerifySignature256 body header secret \<longleftrightarrow>
     secret \<noteq> [] \<and> (\<exists>digest. header = signature_prefix @ digest
        \<and> DecodeString digest = Some (hmac_sha256 secret body))"
proof -
  have "header = signature_prefix @ drop (length signature_prefix) header"
    if "HasPrefix header signature_prefix"
    using that by (metis HasPrefix_def append_take_drop_id)
  then show ?thesis
    by (auto simp: VerifySignature256_def TrimPrefix_def HasPrefix_def split: option.split)
qed

lemma VerifySignature256_sign: "secret \<noteq> [] \<Longrightarrow> VerifySignature256 body (sign secret body) secret"
  by (simp add: VerifySignature256_iff sign_def)

subsection \<open>Payloads written by a JSON encoder\<close>

text \<open>A payload as an encoder prints it.\<close>

definition payload_text :: "string \<Rightarrow> string \<Rightarrow> string" where
  "payload_text full_name revision =
     ''{'' @ encode_json_string ''repository'' @ '':{'' @ encode_json_string ''full_name'' @ '':''
     @ encode_json_string full_name @ ''},'' @ encode_json_string ''after'' @ '':''
     @ encode_json_string revision @ ''}''"

lemma field_key_encoded: "ascii key \<Longrightarrow> field_key (encode_json_chars key) name = EqualFold key name"
  by (simp add: field_key_def unquote_encode)

lemma key_folds [simp]:
  "\<not> EqualFold ''after'' ''repository''" "\<not> EqualFold ''full_name'' ''repository''"
  by (simp_all add: EqualFold_def fold_rune_def byte_def decode_rune_def)

lemma key_ascii [simp]: "ascii ''after''" "ascii ''repository''" "ascii ''full_name''"
  by (simp_all add: ascii_def byte_def)

lemma parse_payload_text:
  assumes "ascii full_name" and "ascii revision"
  shows "parse_json (payload_text full_name revision) = Some (JObject
    [(encode_json_chars ''repository'',
      JObject [(encode_json_chars ''full_name'', JString (encode_json_chars full_name))]),
     (encode_json_chars ''after'', JString (encode_json_chars revision))])"
  using assms
  by (simp add: parse_json_def payload_text_def scan_encoded_string scan_start_def scan_punctuation
      scan_eof_def)

lemma Unmarshal_payload_text:
  assumes "ascii full_name" and "ascii revision"
  shows "Unmarshal_payload (payload_text full_name revision)
    = Inr \<lparr>Repository_FullName = full_name, After = revision\<rparr>"
  using assms
  by (simp add: Unmarshal_payload_def parse_payload_text decode_payload_def decode_payload_member_def
      decode_repository_def decode_repository_member_def field_key_encoded decode_string_field_def
      empty_payload_def unquote_encode)

text \<open>A body that is not one JSON value has no repository and no revision.\<close>

lemma payload_not_json:
  "parse_json body = None \<Longrightarrow> (\<exists>err. ExtractRepositoryFullName body = Inl err) \<and> ExtractAfterRevision body = []"
  by (simp add: ExtractRepositoryFullName_def ExtractAfterRevision_def Unmarshal_payload_def)

end
