(* ===== verification/Webhook_Server.thy ===== *)
theory Webhook_Server
  imports GitHub_Payload Status_Update
begin

text \<open>
  \<open>internal/webhook/server.go\<close>: the GitHub webhook endpoint. \<open>HandleGitHub\<close> is a \<open>prog\<close> over
  the same calls as the reconciler; it ends in the reply it writes. A request body is what can
  be read of it and whether reading on fails after that. \<open>http.Error\<close> writes a status and a
  line of text, \<open>writeJSON\<close> a status and a JSON object.
\<close>

record 'c Server =
  srv_client :: 'c
  srv_secretReader :: "'c option"
  srv_defaultSyncImage :: string
  srv_scheme :: bool

definition NewServerWithReaders :: "'c \<Rightarrow> 'c option \<Rightarrow> string \<Rightarrow> bool \<Rightarrow> 'c Server" where
  "NewServerWithReaders c secretReader defaultSyncImage hasScheme =
     \<lparr>srv_client = c,
      srv_secretReader = (if secretReader = None then Some c else secretReader),
      srv_defaultSyncImage = defaultSyncImage, srv_scheme = hasScheme\<rparr>"

definition NewServer :: "'c \<Rightarrow> string \<Rightarrow> 'c Server" where
  "NewServer c defaultSyncImage = NewServerWithReaders c (Some c) defaultSyncImage False"

definition NewServerWithScheme :: "'c \<Rightarrow> string \<Rightarrow> bool \<Rightarrow> 'c Server" where
  "NewServerWithScheme c defaultSyncImage hasScheme =
     NewServerWithReaders c (Some c) defaultSyncImage hasScheme"

definition webhook_ObjectKey :: "string \<Rightarrow> string \<Rightarrow> ObjectKey" where
  "webhook_ObjectKey namespace name = \<lparr>key_Namespace = namespace, key_Name = name\<rparr>"

subsection \<open>Requests and replies\<close>

record Request =
  req_Method :: string
  req_Header :: "string \<rightharpoonup> string"
  req_Body :: string
  req_BodyFails :: bool

text \<open>The text of an API server's error is the server's; \<open>HttpErrorOf\<close> keeps the error.\<close>

datatype Reply =
    HttpError nat string
  | HttpErrorOf nat error
  | JsonReply nat string

definition StatusAccepted :: nat where "StatusAccepted = 202"
definition StatusBadRequest :: nat where "StatusBadRequest = 400"
definition StatusUnauthorized :: nat where "StatusUnauthorized = 401"
definition StatusNotFound :: nat where "StatusNotFound = 404"
definition StatusMethodNotAllowed :: nat where "StatusMethodNotAllowed = 405"
definition StatusInternalServerError :: nat where "StatusInternalServerError = 500"

text \<open>\<open>writeJSON\<close> with a map of one entry: the encoder ends the object with a newline.\<close>

definition writeJSON :: "nat \<Rightarrow> string \<Rightarrow> string \<Rightarrow> Reply" where
  "writeJSON code k v = JsonReply code
     (''{'' @ encode_json_string k @ '':'' @ encode_json_string v @ ''}'' @ [char_of (10::nat)])"

definition body_limit :: nat where
  "body_limit = 4 * 2 ^ 20"

text \<open>\<open>io.ReadAll(io.LimitReader(r.Body, 4<<20))\<close>: at the limit the rest is never asked for.\<close>

definition read_body :: "Request \<Rightarrow> error + string" where
  "read_body r =
     (if length (req_Body r) \<ge> body_limit then Inr (take body_limit (req_Body r))
      else if req_BodyFails r then Inl (CallError ''read'')
      else Inr (req_Body r))"

definition header :: "Request \<Rightarrow> string \<Rightarrow> string" where
  "header r name = map_get (req_Header r) name"

subsection \<open>Looking up the mirror and its secret\<close>

definition serves :: "string \<Rightarrow> GitMirror \<Rightarrow> bool" where
  "serves fullName mirror =
     ((EqualFold (Provider (Spec mirror)) ''github'' \<or> Provider (Spec mirror) = [])
      \<and> fullName = Owner (GitHub (Spec mirror)) @ ''/'' @ Repo (GitHub (Spec mirror)))"

definition findMirror :: "string \<Rightarrow> (error + GitMirror) prog" where
  "findMirror fullName = ListMirrors (\<lambda>r. case r of
       Inl err \<Rightarrow> Return (Inl err)
     | Inr items \<Rightarrow> (case List.find (serves fullName) items of
           Some mirror \<Rightarrow> Return (Inr mirror)
         | None \<Rightarrow> Return (Inl (Failure (''no GitMirror configured for '' @ fullName)))))"

definition webhookSecret :: "GitMirror \<Rightarrow> (error + string) prog" where
  "webhookSecret mirror =
     (let ref = WebhookSecretRef (GitHub (Spec mirror)) in
      GetSecret \<lparr>key_Namespace = gm_Namespace mirror, key_Name = ref_Name ref\<rparr> (\<lambda>r. case r of
          Inl err \<Rightarrow> Return (Inl err)
        | Inr data \<Rightarrow> (case data (ref_Key ref) of
              None \<Rightarrow> Return (Inl (Failure (''secret '' @ ref_Name ref @ '' missing key '' @ ref_Key ref)))
            | Some v \<Rightarrow> Return (Inr v))))"

subsection \<open>The handler\<close>

text \<open>The last part: a verified push of a delivery that is not the last one recorded.\<close>

definition record_push :: "External \<Rightarrow> GitMirror \<Rightarrow> string \<Rightarrow> string \<Rightarrow> Reply prog" where
  "record_push X mirror deliveryID body =
     ClockNow (\<lambda>now.
       let revision = ExtractAfterRevision body;
           key = \<lparr>key_Namespace = gm_Namespace mirror, key_Name = gm_Name mirror\<rparr>
       in bindp (PatchGitMirrorStatus (ext_Retries X) key
              (only_mirror (\<lambda>current. ApplyWebhookIntent X current deliveryID revision now)) ())
            (\<lambda>(err, _). Return (if err \<noteq> None then HttpError StatusInternalServerError ''update status''
               else writeJSON StatusAccepted ''status'' ''queued'')))"

definition handle_push :: "External \<Rightarrow> Request \<Rightarrow> string \<Rightarrow> GitMirror \<Rightarrow> Reply prog" where
  "handle_push X r body mirror =
     bindp (webhookSecret mirror) (\<lambda>res. case res of
         Inl _ \<Rightarrow> Return (HttpError StatusInternalServerError ''webhook secret unavailable'')
       | Inr secret \<Rightarrow>
           if \<not> VerifySignature256 body (header r ''X-Hub-Signature-256'') secret then
             Return (HttpError StatusUnauthorized ''invalid signature'')
           else (let deliveryID = header r ''X-GitHub-Delivery'' in
             if deliveryID = [] then Return (HttpError StatusBadRequest ''missing X-GitHub-Delivery'')
             else if LastDeliveryID (Status mirror) = deliveryID then
               Return (writeJSON StatusAccepted ''status'' ''duplicate'')
             else record_push X mirror deliveryID body))"

definition HandleGitHub :: "External \<Rightarrow> Request \<Rightarrow> Reply prog" where
  "HandleGitHub X r =
     (if req_Method r \<noteq> ''POST'' then Return (HttpError StatusMethodNotAllowed ''method not allowed'')
      else let event = header r ''X-GitHub-Event'' in
      if event = [] then Return (HttpError StatusBadRequest ''missing X-GitHub-Event'')
      else if event = ''ping'' then Return (writeJSON StatusAccepted ''status'' ''pong'')
      else if event \<noteq> ''push'' then Return (HttpError StatusBadRequest ''unsupported GitHub event'')
      else case read_body r of
        Inl _ \<Rightarrow> Return (HttpError StatusBadRequest ''read body'')
      | Inr body \<Rightarrow> (case ExtractRepositoryFullName body of
          Inl _ \<Rightarrow> Return (HttpError StatusBadRequest ''missing repository'')
        | Inr fullName \<Rightarrow> bindp (findMirror fullName) (\<lambda>res. case res of
            Inl err \<Rightarrow> Return (HttpErrorOf StatusNotFound err)
          | Inr mirror \<Rightarrow> handle_push X r body mirror)))"

end
