(* ===== verification/Webhook_Properties.thy ===== *)
theory Webhook_Properties
  imports Webhook_Server Demo
begin

text \<open>
  The properties of the webhook endpoint: what it may ask of the API server whatever arrives and
  whatever it is answered, what its replies mean, and the payload round trip they rest on.
\<close>

subsection \<open>When a request may write\<close>

text \<open>
  The request is a push of the repository of \<open>m\<close>, the first listed GitMirror that serves it,
  its body is signed with the secret that \<open>m\<close> names, as read from the API server, and its
  delivery is new to \<open>m\<close>.
\<close>

definition authentic_push :: "Request \<Rightarrow> event list \<Rightarrow> GitMirror \<Rightarrow> string \<Rightarrow> bool" where
  "authentic_push r h m body =
     (req_Method r = ''POST'' \<and> header r ''X-GitHub-Event'' = ''push'' \<and> read_body r = Inr body
      \<and> (\<exists>fullName items. ExtractRepositoryFullName body = Inr fullName
           \<and> EvListMirrors (Inr items) \<in> set h \<and> List.find (serves fullName) items = Some m)
      \<and> (\<exists>data secret. EvGetSecret \<lparr>key_Namespace = gm_Namespace m,
             key_Name = ref_Name (WebhookSecretRef (GitHub (Spec m)))\<rparr> (Inr data) \<in> set h
           \<and> data (ref_Key (WebhookSecretRef (GitHub (Spec m)))) = Some secret
           \<and> VerifySignature256 body (header r ''X-Hub-Signature-256'') secret)
      \<and> header r ''X-GitHub-Delivery'' \<noteq> [] \<and> LastDeliveryID (Status m) \<noteq> header r ''X-GitHub-Delivery'')"

definition webhook_rule :: "External \<Rightarrow> Request \<Rightarrow> event list \<Rightarrow> event \<Rightarrow> bool" where
  "webhook_rule X r h e = (case e of
     EvPatchStatus new current _ \<Rightarrow> (\<exists>m body now. authentic_push r h m body
         \<and> h \<noteq> [] \<and> last h = EvGetMirror (mirror_key m) (Inr current)
         \<and> new = ApplyWebhookIntent X current (header r ''X-GitHub-Delivery'') (ExtractAfterRevision body) now)
   | EvGetMirror _ _ \<Rightarrow> True
   | EvListMirrors _ \<Rightarrow> True
   | EvGetSecret _ _ \<Rightarrow> True
   | EvClockNow _ \<Rightarrow> True
   | _ \<Rightarrow> False)"

text \<open>What a reply says of the calls before it.\<close>

definition reply_meaning :: "Request \<Rightarrow> Reply \<Rightarrow> event list \<Rightarrow> bool" where
  "reply_meaning r reply h =
     (reply = writeJSON StatusAccepted ''status'' ''queued'' \<longrightarrow>
        (\<exists>m body new current. authentic_push r h m body \<and> h \<noteq> [] \<and> last h = EvPatchStatus new current None
           \<and> PendingResync (Status new) \<and> LastDeliveryID (Status new) = header r ''X-GitHub-Delivery''))"

lemma authentic_push_mono: "authentic_push r h m body \<Longrightarrow> set h \<subseteq> set h' \<Longrightarrow> authentic_push r h' m body"
  unfolding authentic_push_def by blast

lemma replies_distinct:
  "writeJSON StatusAccepted ''status'' ''duplicate'' \<noteq> writeJSON StatusAccepted ''status'' ''queued''"
  "writeJSON StatusAccepted ''status'' ''pong'' \<noteq> writeJSON StatusAccepted ''status'' ''queued''"
  "HttpError n t \<noteq> writeJSON c k v" "HttpErrorOf n e \<noteq> writeJSON c k v"
  by (simp_all add: writeJSON_def encode_json_string_def encode_json_chars.simps encode_ascii_def byte_def
      backslash_def quote_def)

lemma reply_meaning_other [simp]:
  "reply_meaning r (HttpError n t) h" "reply_meaning r (HttpErrorOf n e) h"
  "reply_meaning r (writeJSON StatusAccepted ''status'' ''duplicate'') h"
  "reply_meaning r (writeJSON StatusAccepted ''status'' ''pong'') h"
  by (simp_all add: reply_meaning_def replies_distinct)

lemma webhook_rule_reads [simp]:
  "webhook_rule X r h (EvListMirrors a)" "webhook_rule X r h (EvGetSecret k b)"
  "webhook_rule X r h (EvClockNow t)" "webhook_rule X r h (EvGetMirror k c)"
  by (simp_all add: webhook_rule_def)

lemma wps_record_push:
  assumes "authentic_push r h m body"
  shows "wps (webhook_rule X r) (record_push X m (header r ''X-GitHub-Delivery'') body) (reply_meaning r) h"
proof -
  let ?f = "\<lambda>now current. ApplyWebhookIntent X current (header r ''X-GitHub-Delivery'') (ExtractAfterRevision body) now"
  have patch: "wps (webhook_rule X r) (PatchGitMirrorStatus n (mirror_key m) (only_mirror (?f now)) ())
      (\<lambda>(err, _) h'. set h \<subseteq> set h' \<and> (err = None \<longrightarrow> h' \<noteq> []
         \<and> (\<exists>current. last h' = EvPatchStatus (?f now current) current None))) h0"
    if "set h \<subseteq> set h0" for n now h0
  proof (rule wps_PatchGitMirrorStatus [where P = "\<lambda>_ h'. set h \<subseteq> set h'"
        and R = "\<lambda>current _ h'. set h \<subseteq> set h' \<and> h' \<noteq> [] \<and> last h' = EvGetMirror (mirror_key m) (Inr current)"],
      goal_cases)
    case 1
    then show ?case by (rule that)
  next
    case (2 c h' res)
    then show ?case by (auto simp: webhook_rule_def split: sum.split)
  next
    case (3 current c h' res new c')
    then have "authentic_push r h' m body" using authentic_push_mono [OF assms] by blast
    with 3 show ?case by (auto simp: webhook_rule_def split: option.split)
  qed
  have meaning: "reply_meaning r (writeJSON StatusAccepted ''status'' ''queued'') h'"
    if "set h \<subseteq> set h'" "h' \<noteq> []" "last h' = EvPatchStatus (?f now current) current None" for h' now current
    using that authentic_push_mono [OF assms that(1)]
    by (auto simp: reply_meaning_def ApplyWebhookIntent_def setCondition_def setConditionForGeneration_def Let_def)
  show ?thesis
    unfolding record_push_def mirror_key_def [symmetric]
    by (simp add: wps_bindp Let_def)
      (intro allI, rule wps_mono [OF patch], auto intro: meaning)
qed

lemma wps_handle_push:
  assumes "req_Method r = ''POST''" and "header r ''X-GitHub-Event'' = ''push''" and "read_body r = Inr body"
    and "ExtractRepositoryFullName body = Inr fullName" and "EvListMirrors (Inr items) \<in> set h"
    and "List.find (serves fullName) items = Some m"
  shows "wps (webhook_rule X r) (handle_push X r body m) (reply_meaning r) h"
proof -
  have "authentic_push r (h @ [EvGetSecret \<lparr>key_Namespace = gm_Namespace m,
        key_Name = ref_Name (WebhookSecretRef (GitHub (Spec m)))\<rparr> (Inr data)]) m body"
    if "data (ref_Key (WebhookSecretRef (GitHub (Spec m)))) = Some secret"
      "VerifySignature256 body (header r ''X-Hub-Signature-256'') secret"
      "header r ''X-GitHub-Delivery'' \<noteq> []" "LastDeliveryID (Status m) \<noteq> header r ''X-GitHub-Delivery''"
    for data secret
    using assms that unfolding authentic_push_def by fastforce
  then show ?thesis
    by (auto simp: handle_push_def webhookSecret_def wps_bindp Let_def
        split: sum.split option.split intro!: wps_record_push)
qed

theorem wps_HandleGitHub: "wps (webhook_rule X r) (HandleGitHub X r) (reply_meaning r) []"
  by (auto simp: HandleGitHub_def findMirror_def wps_bindp Let_def split: sum.split option.split
      intro!: wps_handle_push)

subsection \<open>Runs on a push\<close>

definition secret_key :: "GitMirror \<Rightarrow> ObjectKey" where
  "secret_key m = \<lparr>key_Namespace = gm_Namespace m, key_Name = ref_Name (WebhookSecretRef (GitHub (Spec m)))\<rparr>"

text \<open>A push of which everything up to the signature was found.\<close>

definition push_of ::
  "Request \<Rightarrow> string \<Rightarrow> GitMirror list \<Rightarrow> GitMirror \<Rightarrow> SecretData \<Rightarrow> string \<Rightarrow> bool" where
  "push_of r body items m data secret =
     (req_Method r = ''POST'' \<and> header r ''X-GitHub-Event'' = ''push'' \<and> read_body r = Inr body
      \<and> (\<exists>fullName. ExtractRepositoryFullName body = Inr fullName \<and> List.find (serves fullName) items = Some m)
      \<and> data (ref_Key (WebhookSecretRef (GitHub (Spec m)))) = Some secret)"

lemma after_push:
  assumes "push_of r body items m data secret"
  shows "after (HandleGitHub X r) (EvListMirrors (Inr items) # EvGetSecret (secret_key m) (Inr data) # es) =
    after (if \<not> VerifySignature256 body (header r ''X-Hub-Signature-256'') secret
        then Return (HttpError StatusUnauthorized ''invalid signature'')
      else if header r ''X-GitHub-Delivery'' = []
        then Return (HttpError StatusBadRequest ''missing X-GitHub-Delivery'')
      else if LastDeliveryID (Status m) = header r ''X-GitHub-Delivery''
        then Return (writeJSON StatusAccepted ''status'' ''duplicate'')
      else record_push X m (header r ''X-GitHub-Delivery'') body) es"
  using assms
  by (auto simp: push_of_def HandleGitHub_def findMirror_def handle_push_def webhookSecret_def
      secret_key_def Let_def split: sum.split)

lemma after_record_push:
  "after (record_push X m deliveryID body) [EvClockNow now, EvGetMirror (mirror_key m) (Inr current),
     EvPatchStatus (ApplyWebhookIntent X current deliveryID (ExtractAfterRevision body) now) current None]
   = Some (Return (writeJSON StatusAccepted ''status'' ''queued''))"
  unfolding record_push_def mirror_key_def [symmetric]
  by (subst PatchGitMirrorStatus.simps) (simp add: Let_def)

lemma after_Return_only: "after (Return a) es = Some p \<Longrightarrow> es = [] \<and> p = Return a"
  by (cases es) auto

subsection \<open>A signed demo push\<close>

definition demo_body :: string where
  "demo_body = payload_text ''acme/app'' ''abc''"

definition demo_secret :: SecretData where
  "demo_secret = [''token'' \<mapsto> ''s3cret'']"

definition demo_request :: "string \<Rightarrow> Request" where
  "demo_request signature = \<lparr>req_Method = ''POST'',
     req_Header = [''X-GitHub-Event'' \<mapsto> ''push'', ''X-GitHub-Delivery'' \<mapsto> ''d2'',
       ''X-Hub-Signature-256'' \<mapsto> signature],
     req_Body = demo_body, req_BodyFails = False\<rparr>"

lemma demo_ascii: "ascii ''acme/app''" "ascii ''abc''"
  by (simp_all add: ascii_def byte_def)

lemma demo_headers:
  "header (demo_request s) ''X-GitHub-Event'' = ''push''"
  "header (demo_request s) ''X-GitHub-Delivery'' = ''d2''"
  "header (demo_request s) ''X-Hub-Signature-256'' = s"
  by (simp_all add: header_def demo_request_def map_get_def)

lemma demo_extract: "ExtractRepositoryFullName demo_body = Inr ''acme/app''" "ExtractAfterRevision demo_body = ''abc''"
  by (simp_all add: demo_body_def ExtractRepositoryFullName_def ExtractAfterRevision_def
      Unmarshal_payload_text demo_ascii)

lemma demo_serves: "serves ''acme/app'' (demo_mirror s st)"
  by (simp add: serves_def demo_spec_def)

lemma demo_body_length: "length demo_body < body_limit"
  by (simp add: demo_body_def payload_text_def encode_json_string_def encode_json_chars.simps
      encode_ascii_def byte_def backslash_def quote_def body_limit_def)

lemma demo_push:
  "push_of (demo_request sig) demo_body [demo_mirror s st] (demo_mirror s st) demo_secret ''s3cret''"
  using demo_body_length
  by (simp add: push_of_def demo_headers read_body_def demo_extract demo_serves)
    (simp add: demo_request_def demo_secret_def demo_spec_def)

subsection \<open>Properties\<close>

text \<open>C13. Only an authentic push writes. Whatever request arrives and whatever the API server
  answers, the handler's only write is a status patch of the GitMirror the push is for, of the
  copy just read, that records the intent of this delivery; and then the request was a POST of
  a push event whose body carries a valid signature with that GitMirror's own secret, for a
  delivery it has not recorded last.\<close>

theorem only_authentic_push_writes:
  assumes "after (HandleGitHub X r) (h @ e # es) = Some p"
  shows "(\<exists>k res. e = EvGetMirror k res) \<or> (\<exists>res. e = EvListMirrors res) \<or> (\<exists>k res. e = EvGetSecret k res)
    \<or> (\<exists>t. e = EvClockNow t)
    \<or> (\<exists>m body now current res. authentic_push r h m body \<and> h \<noteq> []
         \<and> last h = EvGetMirror (mirror_key m) (Inr current)
         \<and> e = EvPatchStatus (ApplyWebhookIntent X current (header r ''X-GitHub-Delivery'')
               (ExtractAfterRevision body) now) current res)"
  using every_event_split [OF wps_every_event [OF wps_HandleGitHub assms]]
  by (auto simp: webhook_rule_def split: event.splits)

abbreviation demo_signed :: Request where
  "demo_signed \<equiv> demo_request (sign ''s3cret'' demo_body)"

abbreviation demo_intent :: GitMirror where
  "demo_intent \<equiv> ApplyWebhookIntent demo_X (demo_mirror [] demo_status) ''d2'' ''abc'' 7"

abbreviation demo_push_events :: "event list" where
  "demo_push_events \<equiv> [EvListMirrors (Inr [demo_mirror [] demo_status]),
     EvGetSecret (secret_key (demo_mirror [] demo_status)) (Inr demo_secret), EvClockNow 7,
     EvGetMirror (mirror_key (demo_mirror [] demo_status)) (Inr (demo_mirror [] demo_status))]"

lemma demo_push_run:
  "after (HandleGitHub demo_X demo_signed)
     (demo_push_events @ [EvPatchStatus demo_intent (demo_mirror [] demo_status) None])
   = Some (Return (writeJSON StatusAccepted ''status'' ''queued''))"
  using after_record_push [of demo_X "demo_mirror [] demo_status" "''d2''" demo_body 7 "demo_mirror [] demo_status"]
  by (simp del: after.simps add: after_push [OF demo_push] demo_headers VerifySignature256_sign demo_extract)

theorem only_authentic_push_writes_witness:
  "\<exists>m body. authentic_push demo_signed demo_push_events m body
    \<and> after (HandleGitHub demo_X demo_signed)
        (demo_push_events @ [EvPatchStatus demo_intent (demo_mirror [] demo_status) None])
      = Some (Return (writeJSON StatusAccepted ''status'' ''queued''))"
  using only_authentic_push_writes [OF demo_push_run] demo_push_run by blast

text \<open>C32. The reply \<open>queued\<close> is truthful: when the handler sends it, its last call was a
  successful status patch after which this delivery is on record and a resync is pending.\<close>

theorem queued_means_recorded:
  assumes "after (HandleGitHub X r) es = Some (Return (writeJSON StatusAccepted ''status'' ''queued''))"
  shows "\<exists>m body new current. authentic_push r es m body \<and> es \<noteq> [] \<and> last es = EvPatchStatus new current None
    \<and> PendingResync (Status new) \<and> LastDeliveryID (Status new) = header r ''X-GitHub-Delivery''"
  using wps_Return [OF wps_HandleGitHub assms] by (simp add: reply_meaning_def)

theorem queued_means_recorded_witness:
  "\<exists>es new current. after (HandleGitHub demo_X demo_signed) es
      = Some (Return (writeJSON StatusAccepted ''status'' ''queued''))
    \<and> last es = EvPatchStatus new current None \<and> PendingResync (Status new)"
  using queued_means_recorded [OF demo_push_run] demo_push_run by blast

text \<open>A forged or unsigned push is refused: for a push with a body the GitMirror's secret does
  not sign, the handler reads the GitMirrors and the secret, answers 401 and does nothing more.\<close>

lemma invalid_signature_refused:
  assumes "push_of r body items m data secret"
    and "\<not> VerifySignature256 body (header r ''X-Hub-Signature-256'') secret"
    and "after (HandleGitHub X r) (EvListMirrors (Inr items) # EvGetSecret (secret_key m) (Inr data) # es) = Some p"
  shows "es = [] \<and> p = Return (HttpError StatusUnauthorized ''invalid signature'')"
proof (rule after_Return_only)
  show "after (Return (HttpError StatusUnauthorized ''invalid signature'')) es = Some p"
    using assms(3) unfolding after_push [OF assms(1)] by (simp only: assms(2) if_True simp_thms)
qed

lemma invalid_signature_refused_witness:
  "after (HandleGitHub demo_X (demo_request [])) [EvListMirrors (Inr [demo_mirror [] demo_status]),
      EvGetSecret (secret_key (demo_mirror [] demo_status)) (Inr demo_secret)]
     = Some (Return (HttpError StatusUnauthorized ''invalid signature''))"
proof -
  have bad: "\<not> VerifySignature256 demo_body (header (demo_request []) ''X-Hub-Signature-256'') ''s3cret''"
    by (simp add: demo_headers VerifySignature256_def HasPrefix_def signature_prefix_def)
  obtain p where "after (HandleGitHub demo_X (demo_request [])) [EvListMirrors (Inr [demo_mirror [] demo_status]),
      EvGetSecret (secret_key (demo_mirror [] demo_status)) (Inr demo_secret)] = Some p"
    using after_push [OF demo_push, of demo_X "[]" "[]" demo_status "[]"] by simp
  then show ?thesis using invalid_signature_refused [OF demo_push bad, of demo_X "[]" demo_status "[]" p] by simp
qed

text \<open>A redelivery of the last delivery is acknowledged and changes nothing: after the reads
  the handler answers \<open>duplicate\<close> without a further call.\<close>

lemma duplicate_delivery_ignored:
  assumes "push_of r body items m data secret"
    and "VerifySignature256 body (header r ''X-Hub-Signature-256'') secret"
    and "header r ''X-GitHub-Delivery'' \<noteq> []" and "LastDeliveryID (Status m) = header r ''X-GitHub-Delivery''"
    and "after (HandleGitHub X r) (EvListMirrors (Inr items) # EvGetSecret (secret_key m) (Inr data) # es) = Some p"
  shows "es = [] \<and> p = Return (writeJSON StatusAccepted ''status'' ''duplicate'')"
proof (rule after_Return_only)
  show "after (Return (writeJSON StatusAccepted ''status'' ''duplicate'')) es = Some p"
    using assms(5) unfolding after_push [OF assms(1)] by (simp only: assms(2-4) if_True if_False simp_thms)
qed

text \<open>C34. What GitHub sends is read back: the body an encoder prints for a repository name and a
  revision (any ASCII strings, with quotes, control characters or markup to escape) yields this
  name and this revision.\<close>

theorem payload_round_trip:
  assumes "ascii full_name" and "ascii revision" and "full_name \<noteq> []"
  shows "ExtractRepositoryFullName (payload_text full_name revision) = Inr full_name
    \<and> ExtractAfterRevision (payload_text full_name revision) = revision"
  using assms
  by (simp add: ExtractRepositoryFullName_def ExtractAfterRevision_def Unmarshal_payload_text)

theorem payload_round_trip_witness:
  "ExtractAfterRevision (payload_text ''acme/app'' (quote # ''<x>'')) = quote # ''<x>''"
  using payload_round_trip [of "''acme/app''" "quote # ''<x>''"]
  by (simp add: ascii_def byte_def quote_def)

text \<open>C33. The signature check accepts exactly the HMAC: a header of the form \<open>sha256=\<close> and hex
  digits passes if and only if a secret is set and the digits spell the HMAC-SHA-256 of the body
  under it; every other header is refused.\<close>

theorem signature_exact:
  "VerifySignature256 body (''sha256='' @ EncodeToString mac) secret
     = (secret \<noteq> [] \<and> mac = hmac_sha256 secret body)
   \<and> (VerifySignature256 body h secret = (secret \<noteq> []
        \<and> (\<exists>digest. h = ''sha256='' @ digest \<and> DecodeString digest = Some (hmac_sha256 secret body))))"
  by (auto simp: VerifySignature256_iff signature_prefix_def)

end
