(* ===== verification/Push_To_Job.thy ===== *)
theory Push_To_Job
  imports Sync_Refinement Webhook_Properties
begin

text \<open>
  The path of a push through the operator: what the webhook records is what the next
  reconciliation turns into a Job, and the Job carries what the runner mirrors.
\<close>

text \<open>The patch behind the reply \<open>queued\<close>.\<close>

lemma queued_patch:
  assumes "after (HandleGitHub X r) es = Some (Return (writeJSON StatusAccepted ''status'' ''queued''))"
    and "last es = EvPatchStatus new current None" and "read_body r = Inr body"
  shows "\<exists>now. new = ApplyWebhookIntent X current (header r ''X-GitHub-Delivery'') (ExtractAfterRevision body) now
    \<and> header r ''X-GitHub-Delivery'' \<noteq> []"
proof -
  have es: "es \<noteq> []"
    using wps_Return [OF wps_HandleGitHub assms(1)] by (auto simp: reply_meaning_def)
  then have "es = butlast es @ EvPatchStatus new current None # []" using assms(2) append_butlast_last_id by metis
  with wps_sound [OF wps_HandleGitHub assms(1)]
  have "webhook_rule X r (butlast es) (EvPatchStatus new current None)" using every_event_split by metis
  then show ?thesis using assms(3) by (auto simp: webhook_rule_def authentic_push_def)
qed

lemma built_revision:
  assumes "built_from X R m t v job" and "only_sets_owner (ext_SetControllerReference X)" and "t \<noteq> []"
  shows "map_get (job_Annotations job) AnnotationRevision = v" and "job_Name job = NameForMirrorTrigger m t"
  using built_fields [OF assms] by (simp_all add: job_revision_def job_key_def)

lemma intent_fields:
  "PendingResync (Status (ApplyWebhookIntent X m d v now))"
  "LastDeliveryID (Status (ApplyWebhookIntent X m d v now)) = d"
  "LastRequestedRevision (Status (ApplyWebhookIntent X m d v now))
     = (if v \<noteq> [] then v else LastRequestedRevision (Status m))"
  by (simp_all add: ApplyWebhookIntent_def setCondition_def setConditionForGeneration_def Let_def)

text \<open>A push becomes a Job. After the webhook has answered \<open>queued\<close> to a push, the GitMirror it
  patched, when its generation is observed, it has no schedule, and no other Job of the generation
  is left to wait for or to record, is reconciled into a Job named for this delivery that carries the pushed revision; the reconciliation ends
  without an error and nothing is pending any more.\<close>

lemma push_becomes_job:
  assumes "after (HandleGitHub X r) es = Some (Return (writeJSON StatusAccepted ''status'' ''queued''))"
    and "last es = EvPatchStatus new current None" and "read_body r = Inr body"
    and "settled new items" and "only_sets_owner (ext_SetControllerReference X)"
    and "built_from X R new (header r ''X-GitHub-Delivery'') (LastRequestedRevision (Status new)) job"
  shows "\<exists>scheduled. after (Reconcile X R key) (start_events key new items now @ EvGetMirror key (Inr new)
        # (fresh_lease new job clock None @ [EvCreateJob job None]) @ patched key new scheduled)
      = Some (Return (zero_result, None))
    \<and> job_Name job = NameForMirrorTrigger new (header r ''X-GitHub-Delivery'')
    \<and> (ExtractAfterRevision body \<noteq> [] \<longrightarrow>
        map_get (job_Annotations job) AnnotationRevision = ExtractAfterRevision body)
    \<and> LastJobName (Status scheduled) = job_Name job \<and> \<not> PendingResync (Status scheduled)"
proof -
  from queued_patch [OF assms(1-3)] obtain t where
    new: "new = ApplyWebhookIntent X current (header r ''X-GitHub-Delivery'') (ExtractAfterRevision body) t"
      "header r ''X-GitHub-Delivery'' \<noteq> []" by blast
  have pending: "PendingResync (Status new)" "pending_trigger new now = header r ''X-GitHub-Delivery''"
      "ExtractAfterRevision body \<noteq> [] \<longrightarrow> LastRequestedRevision (Status new) = ExtractAfterRevision body"
    using new(2) by (simp_all add: new(1) intent_fields pending_trigger_def)
  have "after (createLockedSyncJob X R new (pending_trigger new now) (LastRequestedRevision (Status new)))
      (fresh_lease new job clock None @ [EvCreateJob job None]) = Some (Return (True, job_Name job, None))"
    unfolding pending(2) by (rule after_create [OF assms(6)]) simp
  from run_pending [OF assms(4) pending(1,1) this, of key new]
  show ?thesis
    using built_revision [OF assms(6,5) new(2)] pending(3)
    by (intro exI [of _ "scheduled_for X (job_Name job) (gm_Generation new) now new"])
      (auto simp: scheduled_for_def ApplySyncScheduledForGeneration_def ApplySyncScheduled_def)
qed

end
