(* ===== verification/Push_Mirrored.thy ===== *)
theory Push_Mirrored
  imports Sync_Schedule Webhook_Properties
begin

text \<open>
  From a push to a mirrored revision: the webhook, the reconciler and the end of Jobs, one after
  the other on the API server of \<open>Api_Server\<close>. Each step keeps the state orderly and moves the
  view as its part of the specification says; the composition reaches the pushed revision,
  whatever the operator was busy with when the push arrived.
\<close>

subsection \<open>The webhook\<close>

definition spec_push :: "string \<Rightarrow> sync_view \<Rightarrow> sync_view" where
  "spec_push revision v = v\<lparr>wanted := (if revision \<noteq> [] then revision else wanted v), waiting := True\<rparr>"

definition mirrors_keyed :: "api \<Rightarrow> bool" where
  "mirrors_keyed s = (\<forall>k m. api_mirrors s k = Some m \<longrightarrow> mirror_key m = k)"

lemma status_only_intent [simp]: "status_only m (ApplyWebhookIntent X m' d v now) = status_only m m'"
  by (simp add: ApplyWebhookIntent_def Let_def)

definition queued :: Reply where
  "queued = writeJSON StatusAccepted ''status'' ''queued''"

text \<open>A push that is answered \<open>queued\<close> is recorded in the GitMirror that serves its repository.\<close>

definition records_push :: "External \<Rightarrow> Request \<Rightarrow> string \<Rightarrow> string \<Rightarrow> api \<Rightarrow> Reply \<Rightarrow> api \<Rightarrow> bool" where
  "records_push X r body fullName s reply t = (reply = queued \<longrightarrow>
     (\<exists>m now. api_mirrors s (mirror_key m) = Some m \<and> serves fullName m
      \<and> t = s\<lparr>api_mirrors := (api_mirrors s)(mirror_key m \<mapsto>
          ApplyWebhookIntent X m (header r ''X-GitHub-Delivery'') (ExtractAfterRevision body) now)\<rparr>))"

lemma records_push_other [simp]:
  "records_push X r body fullName s (HttpError n msg) t" "records_push X r body fullName s (HttpErrorOf n err) t"
  "records_push X r body fullName s (writeJSON StatusAccepted ''status'' ''duplicate'') t"
  "records_push X r body fullName s (writeJSON StatusAccepted ''status'' ''pong'') t"
  by (simp_all add: records_push_def queued_def replies_distinct)

lemma wpa_HandleGitHub:
  assumes keyed: "mirrors_keyed s" and body: "read_body r = Inr body"
    and name: "ExtractRepositoryFullName body = Inr fullName"
  shows "wpa T W (HandleGitHub X r) (records_push X r body fullName s) s"
proof -
  let ?Q = "records_push X r body fullName s"
  have push: "wpa T W (handle_push X r body m) ?Q s" if m: "m \<in> ran (api_mirrors s)" "serves fullName m" for m
  proof -
    have stored: "api_mirrors s (mirror_key m) = Some m"
      using m(1) keyed by (auto simp: ran_def mirrors_keyed_def)
    have patch: "wpa T W (PatchGitMirrorStatus n (mirror_key m) (only_mirror (\<lambda>current. ApplyWebhookIntent X current d v now)) ()) Q s
        = Q (None, ()) (s\<lparr>api_mirrors := (api_mirrors s)(mirror_key m \<mapsto> ApplyWebhookIntent X m d v now)\<rparr>)" for n d v now Q
      by (rule wpa_patch [OF stored refl]) simp_all
    have recorded: "wpa T W (record_push X m (header r ''X-GitHub-Delivery'') body) ?Q s"
      unfolding record_push_def mirror_key_def [symmetric]
      using stored m(2) by (auto simp: wpa_bindp Let_def patch records_push_def)
    show ?thesis
      unfolding handle_push_def webhookSecret_def
      using recorded by (auto simp: wpa_bindp Let_def found_def split: option.split)
  qed
  have found: "m \<in> ran (api_mirrors s) \<and> serves fullName m"
    if "List.find (serves fullName) items = Some m" "set items = ran (api_mirrors s)" for items m
    using that by (auto simp: find_Some_iff)
  have lookup: "wpa T W (findMirror fullName) (\<lambda>res. wpa T W (case res of
      Inl err \<Rightarrow> Return (HttpErrorOf StatusNotFound err) | Inr m \<Rightarrow> handle_push X r body m) ?Q) s"
    unfolding findMirror_def using push found by (auto split: option.split)
  show ?thesis
    unfolding HandleGitHub_def Let_def using body name lookup by (simp add: wpa_bindp)
qed

lemma orderly_pushed:
  assumes "orderly key s m"
    and "t = s\<lparr>api_mirrors := (api_mirrors s)(key \<mapsto> ApplyWebhookIntent X m d revision now)\<rparr>"
  shows "orderly key t (ApplyWebhookIntent X m d revision now)"
    and "view t (ApplyWebhookIntent X m d revision now) = spec_push revision (view s m)"
proof -
  have same: "ObservedGeneration (Status (ApplyWebhookIntent X m d revision now)) = ObservedGeneration (Status m)"
    "LastJobName (Status (ApplyWebhookIntent X m d revision now)) = LastJobName (Status m)"
    "LastCompletedJobName (Status (ApplyWebhookIntent X m d revision now)) = LastCompletedJobName (Status m)"
    by (simp_all add: ApplyWebhookIntent_def Let_def)
  note pushed = orderly_status [OF assms(1) _ same assms(2)]
  show "orderly key t (ApplyWebhookIntent X m d revision now)" by (rule pushed(1)) simp
  have "current_job t (ApplyWebhookIntent X m d revision now) = current_job s m" by (rule pushed(2)) simp
  then show "view t (ApplyWebhookIntent X m d revision now) = spec_push revision (view s m)"
    by (simp add: view_def work_of_def spec_push_def same split: option.split) (simp add: ApplyWebhookIntent_def Let_def)
qed

subsection \<open>The end of a Job\<close>

text \<open>
  The Job controller sets the conditions of the Job at work, to its success or its failure;
  nothing happens without one.
\<close>

definition job_ends :: "bool \<Rightarrow> ObjectKey \<Rightarrow> api \<Rightarrow> api \<Rightarrow> bool" where
  "job_ends ok key s t = (\<exists>m. api_mirrors s key = Some m \<and> (case current_job s m of
       None \<Rightarrow> t = s
     | Some j \<Rightarrow> if JobFinished (Some j) then t = s
         else \<exists>conds. JobFinished (Some (j\<lparr>job_Conditions := conds\<rparr>)) \<and> isJobComplete (j\<lparr>job_Conditions := conds\<rparr>) = ok
           \<and> t = s\<lparr>api_jobs := (api_jobs s)(job_key j \<mapsto> j\<lparr>job_Conditions := conds\<rparr>)\<rparr>))"

abbreviation job_succeeds :: "ObjectKey \<Rightarrow> api \<Rightarrow> api \<Rightarrow> bool" where
  "job_succeeds \<equiv> job_ends True"

definition spec_end :: "bool \<Rightarrow> sync_view \<Rightarrow> sync_view" where
  "spec_end ok v = (case work v of Running revision \<Rightarrow> v\<lparr>work := Ended revision ok\<rparr> | _ \<Rightarrow> v)"

abbreviation spec_success :: "sync_view \<Rightarrow> sync_view" where
  "spec_success \<equiv> spec_end True"

lemma conditions_change [simp]:
  "its_job m (j\<lparr>job_Conditions := conds\<rparr>) = its_job m j" "job_key (j\<lparr>job_Conditions := conds\<rparr>) = job_key j"
  "jobGenerationAnnotation (Some (j\<lparr>job_Conditions := conds\<rparr>)) = jobGenerationAnnotation (Some j)"
  "job_revision (j\<lparr>job_Conditions := conds\<rparr>) = job_revision j"
  by (simp_all add: its_job_def job_key_def jobGenerationAnnotation_def jobGenerationMatches_def job_revision_def)

lemma orderly_ended:
  assumes ord: "orderly key s m" and "job_ends ok key s t"
  shows "orderly key t m" and "view t m = spec_end ok (view s m)"
proof -
  have m: "api_mirrors s key = Some m" using ord by (simp add: orderly_def)
  have "orderly key t m \<and> view t m = spec_end ok (view s m)"
  proof (cases "\<exists>j. current_job s m = Some j \<and> \<not> JobFinished (Some j)")
    case False
    then have "t = s" using assms(2) m by (auto simp: job_ends_def split: option.splits if_splits)
    moreover have "spec_end ok (view s m) = view s m"
      using False by (auto simp: spec_end_def view_def work_of_def split: option.splits)
    ultimately show ?thesis using ord by simp
  next
    case True
    then obtain j conds where j: "current_job s m = Some j" "\<not> JobFinished (Some j)"
      and j': "JobFinished (Some (j\<lparr>job_Conditions := conds\<rparr>))" "isJobComplete (j\<lparr>job_Conditions := conds\<rparr>) = ok"
        "t = s\<lparr>api_jobs := (api_jobs s)(job_key j \<mapsto> j\<lparr>job_Conditions := conds\<rparr>)\<rparr>"
      using assms(2) m by (auto simp: job_ends_def)
    define e where "e = j\<lparr>job_Conditions := conds\<rparr>"
    have e: "its_job m e" "job_key e = job_key j" "job_Name e = job_Name j" "job_DeletionTimestamp e = job_DeletionTimestamp j"
      "jobGenerationAnnotation (Some e) = jobGenerationAnnotation (Some j)" "job_revision e = job_revision j"
      "JobFinished (Some e)" "isJobComplete e = ok"
      using current_in_jobs(3) [OF j(1)] j'(1,2) by (simp_all add: e_def)
    have t: "t = s\<lparr>api_jobs := (api_jobs s)(job_key j \<mapsto> e)\<rparr>" using j'(3) by (simp add: e_def)
    have key: "job_key j = \<lparr>key_Namespace = gm_Namespace m, key_Name = LastJobName (Status m)\<rparr>"
      using current_in_jobs(2,3) [OF j(1)] by (simp add: job_key_def its_job_def)
    have current: "current_job t m = Some e"
      using e(1,3) current_in_jobs(2) [OF j(1)] by (simp add: current_job_def t key)
    have jobs: "mirror_jobs t m = insert e (mirror_jobs s m - {j})"
      using e(1,2) current_in_jobs(1) [OF j(1)] by (auto simp: mirror_jobs_def t)
    have observed: "ObservedGeneration (Status m) = gm_Generation m" using stale_idle(1) [OF ord] j(1) by auto
    have fields: "job_Name j \<noteq> []" "job_DeletionTimestamp j = None"
      "jobGenerationAnnotation (Some j) = (gm_Generation m, True, True)" "LastCompletedJobName (Status m) \<noteq> job_Name j"
      using ord j by (auto simp: orderly_def)
    have others: "\<forall>i \<in> mirror_jobs t m. current_job t m = Some i \<or> JobFinished (Some i) \<and> current_job t m \<noteq> None"
      using ord j(1) current jobs by (auto simp: orderly_def)
    have lease: "i \<in> mirror_jobs t m" if "api_leases t (lease_key m) = Some l"
      "api_jobs t \<lparr>key_Namespace = gm_Namespace m, key_Name = current_holder l\<rparr> = Some i"
      "JobActive (Some i)" "jobGenerationMatches (Some i) (gm_Generation m)" for l i
    proof -
      have "i \<noteq> e" using that(3) e(7) not_active_finished by blast
      then have "api_jobs s \<lparr>key_Namespace = gm_Namespace m, key_Name = current_holder l\<rparr> = Some i"
        and "job_key j \<noteq> \<lparr>key_Namespace = gm_Namespace m, key_Name = current_holder l\<rparr>"
        using that(2) by (auto simp: t split: if_splits)
      then have i: "i \<in> mirror_jobs s m" "api_jobs s \<lparr>key_Namespace = gm_Namespace m, key_Name = current_holder l\<rparr> = Some i"
        using ord that(1,3,4) by (auto simp: orderly_def t)
      have "job_key i = \<lparr>key_Namespace = gm_Namespace m, key_Name = current_holder l\<rparr>"
        using ord i(2) by (simp add: orderly_def jobs_keyed_def)
      then have "i \<noteq> j" using \<open>job_key j \<noteq> _\<close> by auto
      with i(1) jobs show ?thesis by simp
    qed
    have "finite_api t" "leases_keyed t" "jobs_keyed t"
      using ord e(2) by (auto simp: orderly_def finite_api_def leases_keyed_def jobs_keyed_def t)
    moreover have "api_mirrors t key = Some m" using m by (simp add: t)
    ultimately have "orderly key t m"
      using ord others lease current e fields observed unfolding orderly_def by simp
    moreover have "view t m = spec_end ok (view s m)"
      using j current e fields(4) by (simp add: view_def work_of_def spec_end_def)
    ultimately show ?thesis by simp
  qed
  then show "orderly key t m" "view t m = spec_end ok (view s m)" by simp_all
qed

subsection \<open>Reconciliations one after the other\<close>

text \<open>A whole reconciliation that gives its Job, if it creates one, a name not yet taken.\<close>

definition reconciled :: "External \<Rightarrow> GitMirrorReconciler \<Rightarrow> ObjectKey \<Rightarrow> api \<Rightarrow> api \<Rightarrow> bool" where
  "reconciled X R key s t = (\<exists>m es a. api_mirrors s key = Some m
     \<and> fresh_trigger {now. EvClockNow now \<in> set es} s m
     \<and> after (Reconcile X R key) es = Some (Return a) \<and> runs api_step s es t)"

lemma runs_timed:
  "runs api_step s es t \<Longrightarrow> (\<And>now. EvClockNow now \<in> set es \<Longrightarrow> now \<in> T) \<Longrightarrow> runs (timed T UNIV) s es t"
  by (induction rule: runs.induct) (auto simp: timed_def)

lemma timed_runs:
  "runs (timed T W) s es t \<Longrightarrow> runs api_step s es t \<and> {now. EvClockNow now \<in> set es} \<subseteq> T"
  by (induction rule: runs.induct) (auto simp: timed_def)

lemma reconciled_view:
  assumes "orderly key s m" and "can_build X R m" and "only_sets_owner (ext_SetControllerReference X)"
    and "reconciled X R key s t"
  shows "\<exists>m' due. orderly key t m' \<and> can_build X R m' \<and> view t m' = spec_visit due (view s m)
    \<and> (Schedule (Fallback (Spec m)) = [] \<longrightarrow> \<not> due) \<and> status_only m m' \<and> starts_only_built X R s m t m'"
proof -
  from assms(1,4) obtain es a where es: "fresh_trigger {now. EvClockNow now \<in> set es} s m"
    "after (Reconcile X R key) es = Some (Return a)" "runs api_step s es t"
    by (auto simp: reconciled_def orderly_def)
  from wp_sound_Return [OF reconcile_visits [OF assms(1-3) es(1), unfolded wpa_def] TrueI
      runs_timed [OF es(3)] es(2)]
  have "visited X R {now. EvClockNow now \<in> set es} UNIV key s m a t" by simp
  then obtain m' due where "orderly key t m'" "status_only m m'" "view t m' = spec_visit due (view s m)"
    "schedule_waits X {now. EvClockNow now \<in> set es} m \<longrightarrow> \<not> due" "starts_only_built X R s m t m'"
    unfolding visited_def by (elim conjE exE) (rule that; assumption)
  moreover from this have "can_build X R m'" using assms(2) can_build_status_only by blast
  ultimately show ?thesis by (intro exI [of _ m'] exI [of _ due]) (simp add: schedule_waits_def)
qed

lemma reconciled_exists:
  assumes "orderly key s m" and "fresh_trigger {now} s m"
  shows "\<exists>t. reconciled X R key s t"
proof -
  have "finite_api s" using assms(1) by (simp add: orderly_def)
  then obtain es t a where run: "after (Reconcile X R key) es = Some (Return a)" "runs (timed {now} UNIV) s es t"
    using runs_to_end [OF singletonI UNIV_I, where p = "Reconcile X R key"] by blast
  have "fresh_trigger {now. EvClockNow now \<in> set es} s m"
    using assms(2) timed_runs [OF run(2)] fresh_trigger_subset by blast
  moreover have "api_mirrors s key = Some m" using assms(1) by (simp add: orderly_def)
  ultimately show ?thesis using run(1) timed_runs [OF run(2)] unfolding reconciled_def by blast
qed

text \<open>A waiting sync is done after at most two successful Jobs, whatever the schedule does.\<close>

lemma spec_converges:
  assumes "waiting v" and "wanted v \<noteq> []"
    and "w = spec_visit d3 (spec_success (spec_visit d2 (spec_success (spec_visit d1 v))))"
  shows "have_rev w = wanted v" and "\<not> waiting w" and "\<not> d3 \<Longrightarrow> work w = Idle"
proof -
  note defs = spec_visit_def spec_reconcile_def spec_record_def spec_start_def spec_end_def Let_def
  have sync: "have_rev (spec_visit d (spec_success u)) = r \<and> \<not> waiting (spec_visit d (spec_success u))
      \<and> \<not> stale (spec_visit d (spec_success u)) \<and> work (spec_visit d (spec_success u)) \<in> {Idle, Running []}
      \<and> (\<not> d \<longrightarrow> work (spec_visit d (spec_success u)) = Idle)"
    if "\<not> waiting u" "\<not> stale u" "work u = Running r \<and> r \<noteq> [] \<or> have_rev u = r \<and> work u \<in> {Idle, Running []}" for u d r
    using that by (cases u; cases d; auto simp: defs)
  have start: "wanted (spec_visit d u) = wanted u \<and> (if (\<exists>r. work u = Running r) then waiting (spec_visit d u) \<and> work (spec_visit d u) = work u
      else \<not> waiting (spec_visit d u) \<and> \<not> stale (spec_visit d u) \<and> work (spec_visit d u) = Running (wanted u))"
    if "waiting u" for u d
    using that by (cases u; cases "work u"; cases d; simp add: defs)
  have success: "waiting (spec_success u) = waiting u" "wanted (spec_success u) = wanted u"
    "work u = Running r \<Longrightarrow> work (spec_success u) = Ended r True" for u r
    by (cases u; simp add: spec_end_def split: work.split)+
  let ?v1 = "spec_visit d1 v" and ?v3 = "spec_visit d2 (spec_success (spec_visit d1 v))"
  have third: "\<not> waiting ?v3 \<and> \<not> stale ?v3
      \<and> (work ?v3 = Running (wanted v) \<or> have_rev ?v3 = wanted v \<and> work ?v3 \<in> {Idle, Running []})"
  proof (cases "\<exists>r. work v = Running r")
    case True
    then obtain r where r: "work v = Running r" by blast
    have v1: "waiting ?v1" "wanted ?v1 = wanted v" "work ?v1 = Running r" using start [OF assms(1), of d1] r by simp_all
    then have "waiting (spec_success ?v1)" "work (spec_success ?v1) = Ended r True" by (simp_all add: success)
    then show ?thesis using start [of "spec_success ?v1" d2] by (simp add: success(2) v1(2))
  next
    case False
    then have "\<not> waiting ?v1" "\<not> stale ?v1" "work ?v1 = Running (wanted v)" using start [OF assms(1), of d1] by simp_all
    then show ?thesis using sync [of ?v1 "wanted v" d2] assms(2) by simp
  qed
  show "have_rev w = wanted v" "\<not> waiting w" "\<not> d3 \<Longrightarrow> work w = Idle"
    using sync [of ?v3 "wanted v" d3] third assms(2) by (auto simp: assms(3))
qed

lemma waiting_sync_done:
  assumes ord: "orderly key s0 start" and build: "can_build X R start"
    and owner: "only_sets_owner (ext_SetControllerReference X)"
    and wait: "PendingResync (Status start)" "LastRequestedRevision (Status start) \<noteq> []"
    and steps: "reconciled X R key s0 s1" "job_succeeds key s1 s2" "reconciled X R key s2 s3"
      "job_succeeds key s3 s4" "reconciled X R key s4 s5"
  shows "\<exists>m. orderly key s5 m \<and> LastMirroredRevision (Status m) = LastRequestedRevision (Status start)
    \<and> \<not> PendingResync (Status m) \<and> (Schedule (Fallback (Spec start)) = [] \<longrightarrow> work (view s5 m) = Idle)"
proof -
  obtain a d1 where a: "orderly key s1 a" "can_build X R a" "view s1 a = spec_visit d1 (view s0 start)" "status_only start a"
    using reconciled_view [OF ord build owner steps(1)] by blast
  note a' = orderly_ended [OF a(1) steps(2)]
  obtain b d2 where b: "orderly key s3 b" "can_build X R b" "view s3 b = spec_visit d2 (view s2 a)" "status_only a b"
    using reconciled_view [OF a'(1) a(2) owner steps(3)] by blast
  note b' = orderly_ended [OF b(1) steps(4)]
  obtain c d3 where c: "orderly key s5 c" "view s5 c = spec_visit d3 (view s4 b)" "Schedule (Fallback (Spec b)) = [] \<longrightarrow> \<not> d3"
    using reconciled_view [OF b'(1) b(2) owner steps(5)] by blast
  have "Spec b = Spec start" using status_only_fields [OF a(4)] status_only_fields [OF b(4)] by simp
  moreover have "view s5 c = spec_visit d3 (spec_success (spec_visit d2 (spec_success (spec_visit d1 (view s0 start)))))"
    by (simp add: a(3) a'(2) b(3) b'(2) c(2))
  moreover have "waiting (view s0 start)" "wanted (view s0 start) \<noteq> []" using wait by (simp_all add: view_fields)
  ultimately have "have_rev (view s5 c) = wanted (view s0 start)" "\<not> waiting (view s5 c)" "\<not> d3 \<Longrightarrow> work (view s5 c) = Idle"
    and "Schedule (Fallback (Spec start)) = [] \<longrightarrow> \<not> d3"
    using spec_converges [of "view s0 start" "view s5 c" d3 d2 d1] c(3) by simp_all
  with c(1) show ?thesis by (auto simp: view_fields)
qed

text \<open>C4. A push is mirrored in the end, whatever Job of the GitMirror is at work when it arrives.
  From an orderly start (at most one active Job, which the status names, and none of another
  GitMirror with the same generation on the Lease) of a GitMirror for which Jobs can be built, when the webhook has
  answered \<open>queued\<close> to a push of the one GitMirror that serves the repository, then after three
  reconciliations and the success of the Jobs they start, the last mirrored revision is
  the pushed one and nothing is pending, even when a Job for an older push was running or had
  just ended, and whatever a cron schedule has started in between; without a schedule no Job is
  at work any more. The reconciliations are \<open>reconciled\<close>: no call fails, nobody else writes in
  between, and the names of new Jobs are not taken. Runs on which one of these does not hold
  lose pushes (\<open>Divergences\<close>).\<close>

theorem push_is_mirrored:
  assumes "orderly key s m" and "can_build X R m" and "only_sets_owner (ext_SetControllerReference X)"
    and "after (HandleGitHub X r) es = Some (Return (writeJSON StatusAccepted ''status'' ''queued''))"
    and "runs api_step s es s0" and "mirrors_keyed s" and "read_body r = Inr body"
    and "ExtractRepositoryFullName body = Inr fullName" and "ExtractAfterRevision body \<noteq> []"
    and "\<And>k other. api_mirrors s k = Some other \<Longrightarrow> serves fullName other \<Longrightarrow> k = key"
    and "reconciled X R key s0 s1" and "job_succeeds key s1 s2" and "reconciled X R key s2 s3"
    and "job_succeeds key s3 s4" and "reconciled X R key s4 s5"
  shows "\<exists>mirrored. api_mirrors s5 key = Some mirrored
    \<and> LastMirroredRevision (Status mirrored) = ExtractAfterRevision body
    \<and> \<not> PendingResync (Status mirrored) \<and> (Schedule (Fallback (Spec m)) = [] \<longrightarrow> work (view s5 mirrored) = Idle)"
proof -
  have "runs (timed UNIV UNIV) s es s0" by (rule runs_timed [OF assms(5)]) simp
  from wp_sound_Return [OF wpa_HandleGitHub [OF assms(6-8), unfolded wpa_def] TrueI this assms(4)]
  have "records_push X r body fullName s queued s0" unfolding queued_def .
  then obtain m' now where m': "api_mirrors s (mirror_key m') = Some m'" "serves fullName m'"
    "s0 = s\<lparr>api_mirrors := (api_mirrors s)(mirror_key m' \<mapsto>
        ApplyWebhookIntent X m' (header r ''X-GitHub-Delivery'') (ExtractAfterRevision body) now)\<rparr>"
    unfolding records_push_def by blast
  have key: "mirror_key m' = key" by (rule assms(10) [OF m'(1,2)])
  moreover have "api_mirrors s key = Some m" using assms(1) by (simp add: orderly_def)
  ultimately have same: "mirror_key m' = key" "m' = m" using m'(1) by simp_all
  let ?m0 = "ApplyWebhookIntent X m (header r ''X-GitHub-Delivery'') (ExtractAfterRevision body) now"
  note pushed = orderly_pushed [OF assms(1) m'(3) [unfolded key, unfolded same(2)]]
  have "can_build X R ?m0" using assms(2) can_build_status_only [of m ?m0] by simp
  moreover have "PendingResync (Status ?m0)" "LastRequestedRevision (Status ?m0) = ExtractAfterRevision body"
    using assms(9) by (simp_all add: ApplyWebhookIntent_def Let_def)
  moreover have "Spec ?m0 = Spec m" using status_only_fields [of m ?m0] by simp
  ultimately obtain c where "orderly key s5 c" "LastMirroredRevision (Status c) = ExtractAfterRevision body"
      "\<not> PendingResync (Status c)" "Schedule (Fallback (Spec m)) = [] \<longrightarrow> work (view s5 c) = Idle"
    using waiting_sync_done [OF pushed(1) _ assms(3) _ _ assms(11-15)] assms(9) by auto
  then show ?thesis by (intro exI [of _ c]) (simp add: orderly_def)
qed

subsection \<open>A push, mirrored\<close>

lemma fresh_not_waiting:
  "\<not> waiting (view s m) \<Longrightarrow> \<not> stale (view s m) \<Longrightarrow> Schedule (Fallback (Spec m)) = [] \<Longrightarrow> fresh_trigger T s m"
  by (simp add: fresh_trigger_def split: work.split)

lemma job_succeeds_exists:
  assumes "orderly key s m"
  shows "\<exists>t. job_succeeds key s t"
proof -
  have m: "api_mirrors s key = Some m" using assms by (simp add: orderly_def)
  show ?thesis
  proof (cases "current_job s m")
    case None
    then show ?thesis unfolding job_ends_def by (intro exI [of _ s] exI [of _ m]) (simp add: m)
  next
    case (Some j)
    define conds where "conds = [\<lparr>jc_Type = ''Complete'', jc_Status = ConditionTrue, jc_Reason = [], jc_Message = []\<rparr>]"
    have complete: "isJobComplete (j\<lparr>job_Conditions := conds\<rparr>)" "JobFinished (Some (j\<lparr>job_Conditions := conds\<rparr>))"
      by (simp_all add: isJobComplete_def JobFinished_Some conds_def)
    show ?thesis
    proof (cases "JobFinished (Some j)")
      case True
      then show ?thesis unfolding job_ends_def by (intro exI [of _ s] exI [of _ m]) (simp add: m Some)
    next
      case False
      then show ?thesis
        unfolding job_ends_def using complete m Some
        by (intro exI [of _ "s\<lparr>api_jobs := (api_jobs s)(job_key j \<mapsto> j\<lparr>job_Conditions := conds\<rparr>)\<rparr>"] exI [of _ m]) auto
    qed
  qed
qed

text \<open>Once a waiting sync is started, the rest can happen whatever the clock shows.\<close>

lemma rounds_exist:
  assumes ord: "orderly key s0 start" and build: "can_build X R start"
    and owner: "only_sets_owner (ext_SetControllerReference X)" and schedule: "Schedule (Fallback (Spec start)) = []"
    and "work (view s0 start) = Idle" and "fresh_trigger {0} s0 start"
  shows "\<exists>s1 s2 s3 s4 s5. reconciled X R key s0 s1 \<and> job_succeeds key s1 s2 \<and> reconciled X R key s2 s3
    \<and> job_succeeds key s3 s4 \<and> reconciled X R key s4 s5"
proof -
  have quiet: "\<not> waiting (spec_visit False v)" "\<not> stale (spec_visit False v)"
    if "\<not> waiting v \<and> \<not> stale v \<or> work v = Idle" for v
    using that by (auto simp: spec_visit_def spec_reconcile_def spec_record_def spec_start_def split: work.splits)
  have success: "waiting (spec_success v) = waiting v" "stale (spec_success v) = stale v" for v
    by (simp_all add: spec_end_def split: work.split)
  obtain s1 where s1: "reconciled X R key s0 s1" using reconciled_exists [OF ord assms(6)] by blast
  obtain a d1 where a: "orderly key s1 a" "can_build X R a" "view s1 a = spec_visit d1 (view s0 start)" "\<not> d1" "status_only start a"
    using reconciled_view [OF ord build owner s1] schedule by blast
  obtain s2 where s2: "job_succeeds key s1 s2" using job_succeeds_exists [OF a(1)] by blast
  note a' = orderly_ended [OF a(1) s2]
  have spec_a: "Schedule (Fallback (Spec a)) = []" using schedule status_only_fields [OF a(5)] by simp
  have quiet2: "\<not> waiting (view s2 a)" "\<not> stale (view s2 a)"
    using quiet [of "view s0 start"] assms(5) a(4) by (simp_all add: a'(2) a(3) success)
  then obtain s3 where s3: "reconciled X R key s2 s3"
    using reconciled_exists [OF a'(1) fresh_not_waiting] spec_a by blast
  obtain b d2 where b: "orderly key s3 b" "view s3 b = spec_visit d2 (view s2 a)" "\<not> d2" "status_only a b"
    using reconciled_view [OF a'(1) a(2) owner s3] spec_a by blast
  obtain s4 where s4: "job_succeeds key s3 s4" using job_succeeds_exists [OF b(1)] by blast
  note b' = orderly_ended [OF b(1) s4]
  have "Schedule (Fallback (Spec b)) = []" using spec_a status_only_fields [OF b(4)] by simp
  moreover have "\<not> waiting (view s4 b)" "\<not> stale (view s4 b)"
    using quiet [of "view s2 a"] quiet2 b(3) by (simp_all add: b'(2) b(2) success)
  ultimately obtain s5 where "reconciled X R key s4 s5"
    using reconciled_exists [OF b'(1) fresh_not_waiting] by blast
  with s1 s2 s3 s4 show ?thesis by blast
qed

text \<open>The demo GitMirror, alone with its webhook secret.\<close>

definition demo_push_api :: api where
  "demo_push_api = (demo_api m0)\<lparr>api_secrets := [secret_key m0 \<mapsto> demo_secret]\<rparr>"

abbreviation demo_pushed_api :: api where
  "demo_pushed_api \<equiv> demo_push_api\<lparr>api_mirrors := (api_mirrors demo_push_api)(demo_key \<mapsto> demo_intent)\<rparr>"

lemma demo_push_orderly: "orderly demo_key demo_push_api m0"
  by (simp add: orderly_def demo_push_api_def demo_api_def empty_api_def mirror_key_def demo_key_def finite_api_def
      leases_keyed_def jobs_keyed_def mirror_jobs_def current_job_def)

lemma demo_push_steps:
  "runs api_step demo_push_api (demo_push_events @ [EvPatchStatus demo_intent (demo_mirror [] demo_status) None])
     demo_pushed_api"
proof -
  have k: "mirror_key m0 = demo_key" "mirror_key demo_intent = demo_key"
    by (simp_all add: mirror_key_def demo_key_def ApplyWebhookIntent_def Let_def)
  have mirrors: "api_mirrors demo_push_api = [demo_key \<mapsto> m0]" and secrets: "api_secrets demo_push_api = [secret_key m0 \<mapsto> demo_secret]"
    by (simp_all add: demo_push_api_def demo_api_def)
  have "m0\<lparr>Status := Status demo_intent\<rparr> = demo_intent"
    using status_only_intent [of m0 demo_X m0] by (simp add: status_only_def)
  then have "api_patch_status demo_push_api demo_intent m0 = (None, demo_pushed_api)"
    by (simp add: api_patch_status_def k mirrors)
  then show ?thesis by (simp add: api_step_def k mirrors secrets)
qed

lemma demo_push_keyed: "mirrors_keyed demo_push_api"
  by (simp add: mirrors_keyed_def demo_push_api_def demo_api_def mirror_key_def demo_key_def)

lemma demo_rounds:
  "\<exists>s1 s2 s3 s4 s5. reconciled demo_X demo_R demo_key demo_pushed_api s1 \<and> job_succeeds demo_key s1 s2
    \<and> reconciled demo_X demo_R demo_key s2 s3 \<and> job_succeeds demo_key s3 s4 \<and> reconciled demo_X demo_R demo_key s4 s5"
proof -
  note pushed = orderly_pushed [OF demo_push_orderly, where X = demo_X and d = "''d2''" and revision = "''abc''" and now = 7, OF refl]
  have "current_job demo_push_api m0 = None"
    by (simp add: current_job_def demo_push_api_def demo_api_def empty_api_def)
  then have "work (view demo_push_api m0) = Idle" by (simp add: view_def work_of_def)
  then have idle: "work (view demo_pushed_api demo_intent) = Idle" by (subst pushed(2)) (simp add: spec_push_def)
  have "Schedule (Fallback (Spec demo_intent)) = []" using status_only_fields [of m0 demo_intent] by simp
  moreover have "free_name demo_pushed_api demo_intent (NameForMirrorTrigger demo_intent t)" for t
    by (simp add: free_name_def demo_push_api_def demo_api_def empty_api_def) (simp add: ApplyWebhookIntent_def Let_def)
  ultimately have fresh: "fresh_trigger {0} demo_pushed_api demo_intent"
    using idle by (simp add: fresh_trigger_def)
  have "Schedule (Fallback (Spec demo_intent)) = []" using status_only_fields [of m0 demo_intent] by simp
  moreover have "can_build demo_X demo_R demo_intent" using demo_can_build can_build_status_only [of m0 demo_intent] by simp
  ultimately show ?thesis
    using rounds_exist [OF pushed(1) _ demo_owner_X _ idle fresh] by blast
qed

theorem push_is_mirrored_witness:
  "\<exists>s1 s2 s3 s4 s5 mirrored. reconciled demo_X demo_R demo_key demo_pushed_api s1 \<and> job_succeeds demo_key s1 s2
    \<and> reconciled demo_X demo_R demo_key s2 s3 \<and> job_succeeds demo_key s3 s4 \<and> reconciled demo_X demo_R demo_key s4 s5
    \<and> api_mirrors s5 demo_key = Some mirrored \<and> LastMirroredRevision (Status mirrored) = ''abc''
    \<and> \<not> PendingResync (Status mirrored)"
proof -
  have build: "can_build demo_X demo_R m0" by (rule demo_can_build)
  have body: "read_body demo_signed = Inr demo_body"
    using demo_push [of "sign ''s3cret'' demo_body"] by (simp add: push_of_def)
  have one: "api_mirrors demo_push_api k = Some other \<Longrightarrow> serves ''acme/app'' other \<Longrightarrow> k = demo_key" for k other
    by (simp add: demo_push_api_def demo_api_def split: if_splits)
  obtain s1 s2 s3 s4 s5 where steps:
    "reconciled demo_X demo_R demo_key demo_pushed_api s1" "job_succeeds demo_key s1 s2"
    "reconciled demo_X demo_R demo_key s2 s3" "job_succeeds demo_key s3 s4" "reconciled demo_X demo_R demo_key s4 s5"
    using demo_rounds by blast
  have "\<exists>mirrored. api_mirrors s5 demo_key = Some mirrored
      \<and> LastMirroredRevision (Status mirrored) = ExtractAfterRevision demo_body
      \<and> \<not> PendingResync (Status mirrored) \<and> (Schedule (Fallback (Spec m0)) = [] \<longrightarrow> work (view s5 mirrored) = Idle)"
    by (rule push_is_mirrored [OF demo_push_orderly build demo_owner_X demo_push_run demo_push_steps demo_push_keyed body
        demo_extract(1) _ _ steps]) (simp add: demo_extract(2), rule one)
  with steps show ?thesis unfolding demo_extract(2) by blast
qed

end
