(* ===== verification/Spec_Change.thy ===== *)
theory Spec_Change
  imports Push_Mirrored
begin

text \<open>
  A change of a GitMirror's specification: the API server raises the generation, and the
  operator syncs the new specification, whatever Jobs of earlier generations are doing.
\<close>

definition edited :: "GitMirror \<Rightarrow> GitMirrorSpec \<Rightarrow> int64 \<Rightarrow> GitMirror" where
  "edited m sp g = m\<lparr>Spec := sp, gm_Generation := g\<rparr>"

definition spec_edit :: "sync_view \<Rightarrow> sync_view" where
  "spec_edit v = v\<lparr>stale := True, work := Idle\<rparr>"

lemma orderly_edited:
  assumes ord: "orderly key s m" and g: "g \<noteq> ObservedGeneration (Status m)"
    and t: "t = s\<lparr>api_mirrors := (api_mirrors s)(key \<mapsto> edited m sp g)\<rparr>"
    and none: "mirror_jobs s (edited m sp g) = {}" and free: "lease_free s (edited m sp g)"
  shows "orderly key t (edited m sp g)" and "view t (edited m sp g) = spec_edit (view s m)"
proof -
  let ?m = "edited m sp g"
  have jobs: "mirror_jobs t ?m = {}" using none by (simp add: mirror_jobs_def t)
  then have current: "current_job t ?m = None"
    using current_in_jobs(1) [of t ?m] by (cases "current_job t ?m") auto
  have fields: "mirror_key ?m = mirror_key m" "Status ?m = Status m" "gm_Generation ?m = g" "Spec ?m = sp"
    by (simp_all add: edited_def mirror_key_def)
  have "finite_api t" "leases_keyed t" "jobs_keyed t" "mirror_key m = key"
    using ord by (simp_all add: orderly_def finite_api_def leases_keyed_def jobs_keyed_def t)
  moreover have "lease_free t ?m" using free by (simp add: lease_free_def t)
  ultimately show "orderly key t ?m"
    using jobs current unfolding orderly_def lease_free_def by (auto simp: fields t)
  show "view t ?m = spec_edit (view s m)"
    using g by (simp add: view_def spec_edit_def work_of_def current fields)
qed

text \<open>C10. A change of the specification is synced. When the specification of an orderly GitMirror is
  replaced by one for which Jobs can be built, and its generation raised to one that has no Job
  yet, also while a Job of the old specification still runs or waits to be recorded, then the
  next reconciliation starts an active Job, built from the new specification for the requested
  revision, and marks the generation as observed; when that Job has succeeded, the next
  reconciliation records it: the requested revision is mirrored and nothing is pending; without
  a schedule no Job is at work any more. The Lease must not be held by an active Job of the new
  generation (of another GitMirror of the repository), and in the reconciliations no call fails,
  nobody else writes in between and the names of new Jobs are not taken.\<close>

theorem spec_change_is_synced:
  assumes "orderly key s m" and "g \<noteq> ObservedGeneration (Status m)"
    and "mirror_jobs s (edited m sp g) = {}" and "lease_free s (edited m sp g)"
    and "can_build X R (edited m sp g)" and "only_sets_owner (ext_SetControllerReference X)"
    and "s0 = s\<lparr>api_mirrors := (api_mirrors s)(key \<mapsto> edited m sp g)\<rparr>"
    and "reconciled X R key s0 s1" and "job_succeeds key s1 s2" and "reconciled X R key s2 s3"
  shows "\<exists>synced job triggerID mirrored. api_mirrors s1 key = Some synced
    \<and> api_jobs s1 (job_key job) = Some job \<and> JobActive (Some job)
    \<and> built_from X R (edited m sp g) triggerID (LastRequestedRevision (Status m)) job
    \<and> Spec synced = sp \<and> ObservedGeneration (Status synced) = g \<and> LastJobName (Status synced) = job_Name job
    \<and> api_mirrors s3 key = Some mirrored \<and> ObservedGeneration (Status mirrored) = g
    \<and> (LastRequestedRevision (Status m) \<noteq> []
        \<longrightarrow> LastMirroredRevision (Status mirrored) = LastRequestedRevision (Status m))
    \<and> \<not> PendingResync (Status mirrored) \<and> (Schedule (Fallback sp) = [] \<longrightarrow> work (view s3 mirrored) = Idle)"
proof -
  let ?m = "edited m sp g"
  note start = orderly_edited [OF assms(1,2,7,3,4)]
  have v: "spec_visit due (view s0 ?m) = \<lparr>wanted = LastRequestedRevision (Status m),
      have_rev = LastMirroredRevision (Status m), failed = (LastError (Status m) \<noteq> []), waiting = False, stale = False,
      work = Running (LastRequestedRevision (Status m))\<rparr>" for due
    by (simp add: start(2) spec_visit_def spec_reconcile_def spec_record_def spec_start_def spec_edit_def Let_def)
      (simp add: view_def)
  obtain a where a: "orderly key s1 a" "can_build X R a" "view s1 a = spec_visit False (view s0 ?m)"
      "status_only ?m a" "starts_only_built X R s0 ?m s1 a"
    using reconciled_view [OF start(1) assms(5,6,8)] by (metis v)
  have run: "work (view s1 a) = Running (LastRequestedRevision (Status m))" by (simp add: a(3) v)
  obtain job where job: "current_job s1 a = Some job" "JobActive (Some job)"
    using work_running [OF a(1) run] .
  have "work (view s0 ?m) = Idle" by (simp add: start(2) spec_edit_def)
  with a(5) run job(1) obtain triggerID
    where built: "built_from X R ?m triggerID (LastRequestedRevision (Status m)) job"
    by (auto simp: starts_only_built_def)
  have sa: "Spec a = sp" "gm_Generation a = g" using status_only_fields [OF a(4)] by (simp_all add: edited_def)
  note a' = orderly_ended [OF a(1) assms(9)]
  obtain b due where b: "orderly key s3 b" "view s3 b = spec_visit due (view s2 a)" "status_only a b"
      "Schedule (Fallback (Spec a)) = [] \<longrightarrow> \<not> due"
    using reconciled_view [OF a'(1) a(2) assms(6,10)] by blast
  have last: "wanted (view s3 b) = LastRequestedRevision (Status m)" "\<not> waiting (view s3 b)" "\<not> stale (view s3 b)"
      "have_rev (view s3 b) = (if LastRequestedRevision (Status m) \<noteq> [] then LastRequestedRevision (Status m)
        else LastMirroredRevision (Status m))"
      "\<not> due \<longrightarrow> work (view s3 b) = Idle"
  proof -
    have "view s2 a = (spec_visit False (view s0 ?m))\<lparr>work := Ended (LastRequestedRevision (Status m)) True\<rparr>"
      unfolding a'(2) a(3) v by (simp add: spec_end_def)
    then show "wanted (view s3 b) = LastRequestedRevision (Status m)" "\<not> waiting (view s3 b)" "\<not> stale (view s3 b)"
      "have_rev (view s3 b) = (if LastRequestedRevision (Status m) \<noteq> [] then LastRequestedRevision (Status m)
        else LastMirroredRevision (Status m))" "\<not> due \<longrightarrow> work (view s3 b) = Idle"
      unfolding b(2) v by (simp_all add: spec_visit_def spec_reconcile_def spec_record_def spec_start_def Let_def)
  qed
  have stored: "api_mirrors s1 key = Some a" "api_jobs s1 (job_key job) = Some job" "LastJobName (Status a) = job_Name job"
      "api_mirrors s3 key = Some b"
    using a(1) b(1) current_in_jobs [OF job(1)] by (simp_all add: orderly_def mirror_jobs_def)
  have "\<not> stale (view s1 a)" by (simp add: a(3) v)
  then have "ObservedGeneration (Status a) = g" by (simp add: view_fields sa)
  moreover have "ObservedGeneration (Status b) = g" "\<not> PendingResync (Status b)"
      "LastRequestedRevision (Status m) \<noteq> [] \<longrightarrow> LastMirroredRevision (Status b) = LastRequestedRevision (Status m)"
    using last(2-4) status_only_fields [OF b(3)] by (auto simp: view_fields sa split: if_splits)
  moreover have "Schedule (Fallback sp) = [] \<longrightarrow> work (view s3 b) = Idle" using last(5) b(4) by (simp add: sa)
  ultimately show ?thesis using stored job(2) built sa(1) by blast
qed

text \<open>The demo GitMirror with another target, its generation 2.\<close>

definition demo_new_spec :: GitMirrorSpec where
  "demo_new_spec = (demo_spec [])\<lparr>Target := demo_endpoint ''ssh://git@new/app'' ''dst''\<rparr>"

lemma demo_new_build: "can_build demo_X demo_R (edited (demo_mirror schedule st) demo_new_spec 2)"
  by (auto simp: can_build_def edited_def demo_new_spec_def built_from_def BuildSyncJob_def demo_defs
      or_default_def endpointAuth_def endpoint_auth_type_def sshAuthRef_def demo_owner_def sync_options_def Let_def
      auth_type_defs sync_job_def)

text \<open>A Job of its first generation is at work when the specification changes.\<close>

definition demo_first :: BatchJob where
  "demo_first = j0\<lparr>job_Name := ''first''\<rparr>"

definition demo_busy :: GitMirror where
  "demo_busy = demo_mirror [] (demo_status\<lparr>PendingResync := False, LastJobName := ''first''\<rparr>)"

definition demo_busy_api :: api where
  "demo_busy_api = (demo_api demo_busy)\<lparr>api_jobs := [job_key demo_first \<mapsto> demo_first]\<rparr>"

lemma demo_first_facts:
  "job_key demo_first = \<lparr>key_Namespace = ''ns'', key_Name = ''first''\<rparr>" "its_job demo_busy demo_first"
  "job_revision demo_first = ''abc''" "\<not> JobFinished (Some demo_first)" "job_DeletionTimestamp demo_first = None"
  "jobGenerationAnnotation (Some demo_first) = (1, True, True)" "job_Name demo_first = ''first''"
proof -
  have b: "built_from demo_X demo_R m0 ''d1'' ''abc'' j0" by (rule demo_built) simp
  note f = built_fields [OF b demo_owner_X]
  have same: "jobGenerationAnnotation (Some demo_first) = jobGenerationAnnotation (Some j0)"
    "JobFinished (Some demo_first) = JobFinished (Some j0)" "job_revision demo_first = job_revision j0"
    using demo_job_fields(3) [of "''d1''"]
    by (simp_all add: demo_first_def jobGenerationAnnotation_def JobFinished_Some isJobComplete_def isJobFailed_def job_revision_def)
  moreover have "its_job demo_busy demo_first = its_job m0 j0"
    using same(1) by (simp add: its_job_def demo_first_def mirror_label_def LabelsForMirror_def demo_busy_def demo_mirror_def
        jobGenerationMatches_def)
  ultimately show "its_job demo_busy demo_first" "job_revision demo_first = ''abc''" "\<not> JobFinished (Some demo_first)"
    "jobGenerationAnnotation (Some demo_first) = (1, True, True)"
    using f(2-4,7) by simp_all
  show "job_key demo_first = \<lparr>key_Namespace = ''ns'', key_Name = ''first''\<rparr>" "job_Name demo_first = ''first''"
    "job_DeletionTimestamp demo_first = None"
    using f(1,6) by (simp_all add: demo_first_def job_key_def)
qed

lemma demo_busy_states:
  "orderly demo_key demo_busy_api demo_busy" "mirror_jobs demo_busy_api (edited demo_busy demo_new_spec 2) = {}"
  "current_job demo_busy_api demo_busy = Some demo_first"
proof -
  note f = demo_first_facts
  have st: "api_mirrors demo_busy_api = [demo_key \<mapsto> demo_busy]" "api_leases demo_busy_api = Map.empty"
    "api_jobs demo_busy_api = [\<lparr>key_Namespace = ''ns'', key_Name = ''first''\<rparr> \<mapsto> demo_first]"
    by (simp_all add: demo_busy_api_def demo_api_def empty_api_def f(1))
  have m: "gm_Namespace demo_busy = ''ns''" "gm_Name demo_busy = ''app''" "LastJobName (Status demo_busy) = ''first''"
    "gm_Generation demo_busy = 1" "ObservedGeneration (Status demo_busy) = 1" "LastCompletedJobName (Status demo_busy) = []"
    by (simp_all add: demo_busy_def)
  show cur: "current_job demo_busy_api demo_busy = Some demo_first"
    by (simp add: current_job_def st m f)
  have jobs: "mirror_jobs demo_busy_api demo_busy = {demo_first}"
    using f by (auto simp: mirror_jobs_def st)
  show "orderly demo_key demo_busy_api demo_busy"
    unfolding orderly_def cur jobs using f
    by (simp add: st m mirror_key_def demo_key_def finite_api_def leases_keyed_def jobs_keyed_def cur)
  show "mirror_jobs demo_busy_api (edited demo_busy demo_new_spec 2) = {}"
    using f(6) by (auto simp: mirror_jobs_def st its_job_def edited_def jobGenerationMatches_def split: if_splits)
qed

theorem spec_change_is_synced_witness:
  "\<exists>s1 s2 s3 synced job mirrored.
    reconciled demo_X demo_R demo_key (demo_busy_api\<lparr>api_mirrors := (api_mirrors demo_busy_api)(demo_key \<mapsto>
        edited demo_busy demo_new_spec 2)\<rparr>) s1
    \<and> job_succeeds demo_key s1 s2 \<and> reconciled demo_X demo_R demo_key s2 s3
    \<and> JobActive (Some demo_first) \<and> api_mirrors s1 demo_key = Some synced \<and> Spec synced = demo_new_spec
    \<and> api_jobs s1 (job_key job) = Some job \<and> JobActive (Some job)
    \<and> api_mirrors s3 demo_key = Some mirrored \<and> ObservedGeneration (Status mirrored) = 2
    \<and> LastMirroredRevision (Status mirrored) = ''abc''"
proof -
  let ?m = "edited demo_busy demo_new_spec 2"
  let ?s0 = "demo_busy_api\<lparr>api_mirrors := (api_mirrors demo_busy_api)(demo_key \<mapsto> ?m)\<rparr>"
  have g: "2 \<noteq> ObservedGeneration (Status demo_busy)" "Schedule (Fallback (Spec ?m)) = []"
    "LastRequestedRevision (Status demo_busy) = ''abc''"
    by (simp_all add: edited_def demo_busy_def demo_new_spec_def)
  have free: "lease_free demo_busy_api ?m"
    by (simp add: lease_free_def demo_busy_api_def demo_api_def empty_api_def)
  have build: "can_build demo_X demo_R ?m" unfolding demo_busy_def by (rule demo_new_build)
  note start = orderly_edited [OF demo_busy_states(1) g(1) refl demo_busy_states(2) free]
  have idle: "work (view ?s0 ?m) = Idle" by (simp add: start(2) spec_edit_def)
  have other: "''first'' \<noteq> NameForMirrorTrigger ?m t" for t
  proof
    assume "''first'' = NameForMirrorTrigger ?m t"
    then have "length ''first'' = length (NameForMirrorTrigger ?m t)" by (rule arg_cong)
    then show False by (simp add: NameForMirrorTrigger_def Let_def)
  qed
  have "api_jobs ?s0 \<lparr>key_Namespace = n, key_Name = NameForMirrorTrigger ?m t\<rparr> = None"
      "LastCompletedJobName (Status ?m) = []" for n t
    using other [of t] other [of t, symmetric]
    by (simp_all add: demo_busy_api_def demo_first_facts(1)) (simp_all add: demo_api_def empty_api_def edited_def demo_busy_def)
  then have "fresh_trigger {0} ?s0 ?m" using g(2) unfolding fresh_trigger_def idle by (simp add: free_name_def)
  then obtain s1 s2 s3 where steps: "reconciled demo_X demo_R demo_key ?s0 s1" "job_succeeds demo_key s1 s2"
      "reconciled demo_X demo_R demo_key s2 s3"
    using rounds_exist [OF start(1) build demo_owner_X g(2) idle] by blast
  have active: "JobActive (Some demo_first)" using demo_first_facts(4,5) by (simp add: JobActive_def)
  from spec_change_is_synced [OF demo_busy_states(1) g(1) demo_busy_states(2) free build demo_owner_X refl steps, unfolded g(3)]
  obtain synced job mirrored where "api_mirrors s1 demo_key = Some synced" "Spec synced = demo_new_spec"
    "api_jobs s1 (job_key job) = Some job" "JobActive (Some job)" "api_mirrors s3 demo_key = Some mirrored"
    "ObservedGeneration (Status mirrored) = 2" "LastMirroredRevision (Status mirrored) = ''abc''" by auto
  with steps active show ?thesis by blast
qed

end
