(* ===== verification/System_Runs.thy ===== *)
theory System_Runs
  imports Spec_Change
begin

text \<open>
  All that can happen to a GitMirror, one thing after the other: requests to the webhook,
  reconciliations, the end of Jobs, changes of the specification, the removal of old Jobs, and
  the Jobs of others. Every run of this system is a run of the specification, so what holds in
  every reachable state of the small state machine holds of the operator.
\<close>

subsection \<open>Any request to the webhook\<close>

definition webhook_effect :: "External \<Rightarrow> api \<Rightarrow> api \<Rightarrow> bool" where
  "webhook_effect X s t = (t = s \<or> (\<exists>m delivery revision now. api_mirrors s (mirror_key m) = Some m
     \<and> t = s\<lparr>api_mirrors := (api_mirrors s)(mirror_key m \<mapsto> ApplyWebhookIntent X m delivery revision now)\<rparr>))"

lemma wpa_any_request:
  assumes keyed: "mirrors_keyed s"
  shows "wpa T W (HandleGitHub X r) (\<lambda>_. webhook_effect X s) s"
proof -
  let ?Q = "\<lambda>_. webhook_effect X s"
  have same: "webhook_effect X s s" by (simp add: webhook_effect_def)
  have push: "wpa T W (handle_push X r body m) ?Q s" if "m \<in> ran (api_mirrors s)" for body m
  proof -
    have stored: "api_mirrors s (mirror_key m) = Some m"
      using that keyed by (auto simp: ran_def mirrors_keyed_def)
    have patch: "wpa T W (PatchGitMirrorStatus n (mirror_key m) (only_mirror (\<lambda>current. ApplyWebhookIntent X current d v now)) ()) Q s
        = Q (None, ()) (s\<lparr>api_mirrors := (api_mirrors s)(mirror_key m \<mapsto> ApplyWebhookIntent X m d v now)\<rparr>)" for n d v now Q
      by (rule wpa_patch [OF stored refl]) simp_all
    have "wpa T W (record_push X m d body) ?Q s" for d
      unfolding record_push_def mirror_key_def [symmetric]
      using stored by (auto simp: wpa_bindp Let_def patch webhook_effect_def)
    then show ?thesis
      unfolding handle_push_def webhookSecret_def
      using same by (auto simp: wpa_bindp Let_def found_def split: option.split)
  qed
  have "wpa T W (findMirror fullName) (\<lambda>res. wpa T W (case res of
      Inl err \<Rightarrow> Return (HttpErrorOf StatusNotFound err) | Inr m \<Rightarrow> handle_push X r body m) ?Q) s" for fullName body
    unfolding findMirror_def using push same by (auto simp: find_Some_iff split: option.split) (metis nth_mem push)
  then show ?thesis
    unfolding HandleGitHub_def Let_def using same by (auto simp: wpa_bindp split: sum.split)
qed

lemma api_step_mirrors:
  assumes "api_step s e t"
  shows "(\<exists>new before r. e = EvPatchStatus new before r) \<or> api_mirrors t = api_mirrors s"
  using assms
  by (cases e) (simp_all add: api_step_def api_create_job_def api_create_lease_def api_update_lease_def
      api_delete_lease_def split: option.splits if_splits)

lemma mirrors_keyed_step: "api_step s e t \<Longrightarrow> mirrors_keyed s \<Longrightarrow> mirrors_keyed t"
proof -
  assume e: "api_step s e t" and keyed: "mirrors_keyed s"
  have status: "mirror_key (m\<lparr>Status := st\<rparr>) = mirror_key m" for m st by (simp add: mirror_key_def)
  from api_step_mirrors [OF e] show ?thesis
  proof
    assume "\<exists>new before r. e = EvPatchStatus new before r"
    then obtain new before r where "e = EvPatchStatus new before r" by blast
    then have "(r, t) = api_patch_status s new before" using e by (simp add: api_step_def)
    then show ?thesis
      using keyed by (auto simp: api_patch_status_def mirrors_keyed_def status split: option.splits)
  next
    assume "api_mirrors t = api_mirrors s"
    then show ?thesis using keyed by (simp add: mirrors_keyed_def)
  qed
qed

lemma mirrors_keyed_runs: "runs api_step s es t \<Longrightarrow> mirrors_keyed s \<Longrightarrow> mirrors_keyed t"
  by (induction rule: runs.induct) (auto intro: mirrors_keyed_step)

lemma finite_api_runs: "runs api_step s es t \<Longrightarrow> finite_api s \<Longrightarrow> finite_api t"
  by (induction rule: runs.induct) (auto intro: finite_api_step)

subsection \<open>The other steps\<close>

text \<open>The specification is replaced and the generation raised to one no Job has.\<close>

definition spec_changes :: "External \<Rightarrow> GitMirrorReconciler \<Rightarrow> bool \<Rightarrow> ObjectKey \<Rightarrow> api \<Rightarrow> api \<Rightarrow> bool" where
  "spec_changes X R scheduled key s t = (\<exists>m sp g. api_mirrors s key = Some m \<and> g \<noteq> ObservedGeneration (Status m)
     \<and> mirror_jobs s (edited m sp g) = {} \<and> lease_free s (edited m sp g) \<and> can_build X R (edited m sp g)
     \<and> (Schedule (Fallback sp) \<noteq> [] \<longrightarrow> scheduled)
     \<and> t = s\<lparr>api_mirrors := (api_mirrors s)(key \<mapsto> edited m sp g)\<rparr>)"

text \<open>
  A finished Job is removed: one that the status no longer names, or the last one of all, once
  it is recorded.
\<close>

definition job_expires :: "ObjectKey \<Rightarrow> api \<Rightarrow> api \<Rightarrow> bool" where
  "job_expires key s t = (\<exists>m j. api_mirrors s key = Some m \<and> j \<in> mirror_jobs s m \<and> JobFinished (Some j)
     \<and> (current_job s m \<noteq> Some j \<or> mirror_jobs s m = {j} \<and> LastCompletedJobName (Status m) = job_Name j)
     \<and> t = s\<lparr>api_jobs := (api_jobs s)(job_key j := None)\<rparr>)"

text \<open>
  Jobs of other GitMirrors or other generations come, change and go; the Lease names no active
  one of them that has the generation of the GitMirror.
\<close>

definition others_act :: "ObjectKey \<Rightarrow> api \<Rightarrow> api \<Rightarrow> bool" where
  "others_act key s t = (\<exists>m jobs. api_mirrors s key = Some m \<and> t = s\<lparr>api_jobs := jobs\<rparr> \<and> finite (dom jobs) \<and> jobs_keyed t
     \<and> (\<forall>k. jobs k = api_jobs s k \<or> (\<forall>j. api_jobs s k = Some j \<or> jobs k = Some j \<longrightarrow> \<not> its_job m j
          \<and> (JobActive (Some j) \<and> jobGenerationMatches (Some j) (gm_Generation m) \<longrightarrow> (\<forall>l. api_leases s (lease_key m) = Some l
               \<longrightarrow> k \<noteq> \<lparr>key_Namespace = gm_Namespace m, key_Name = current_holder l\<rparr>)))))"

text \<open>With \<open>scheduled\<close> false, no specification has a schedule.\<close>

inductive system_step :: "External \<Rightarrow> GitMirrorReconciler \<Rightarrow> bool \<Rightarrow> ObjectKey \<Rightarrow> api \<Rightarrow> api \<Rightarrow> bool"
  for X R scheduled key where
  request: "after (HandleGitHub X r) es = Some (Return reply) \<Longrightarrow> runs api_step s es t \<Longrightarrow> system_step X R scheduled key s t"
| reconciliation: "reconciled X R key s t \<Longrightarrow> system_step X R scheduled key s t"
| job_end: "job_ends ok key s t \<Longrightarrow> system_step X R scheduled key s t"
| spec_change: "spec_changes X R scheduled key s t \<Longrightarrow> system_step X R scheduled key s t"
| job_removal: "job_expires key s t \<Longrightarrow> system_step X R scheduled key s t"
| other_jobs: "others_act key s t \<Longrightarrow> system_step X R scheduled key s t"

inductive spec_step :: "bool \<Rightarrow> sync_view \<Rightarrow> sync_view \<Rightarrow> bool" for scheduled where
  step_push: "spec_step scheduled v (spec_push revision v)"
| step_visit: "(due \<longrightarrow> scheduled) \<Longrightarrow> spec_step scheduled v (spec_visit due v)"
| step_end: "spec_step scheduled v (spec_end ok v)"
| step_edit: "spec_step scheduled v (spec_edit v)"

subsection \<open>Every step keeps the state orderly\<close>

lemma orderly_other_mirrors:
  assumes "orderly key s m" and "api_jobs t = api_jobs s" and "api_leases t = api_leases s"
    and "api_mirrors t key = api_mirrors s key" and "finite_api t"
  shows "orderly key t m" and "view t m = view s m"
proof -
  have "mirror_jobs t m = mirror_jobs s m" "current_job t m = current_job s m"
    by (simp_all add: mirror_jobs_def current_job_def assms(2))
  then show "orderly key t m" "view t m = view s m"
    using assms by (simp_all add: orderly_def view_def leases_keyed_def jobs_keyed_def)
qed

lemma orderly_expired:
  assumes ord: "orderly key s m" and "job_expires key s t"
  shows "orderly key t m" and "view t m = view s m"
proof -
  have m: "api_mirrors s key = Some m" using ord by (simp add: orderly_def)
  obtain j where j: "j \<in> mirror_jobs s m" "JobFinished (Some j)"
    and gone: "current_job s m \<noteq> Some j \<or> mirror_jobs s m = {j} \<and> LastCompletedJobName (Status m) = job_Name j"
    and t: "t = s\<lparr>api_jobs := (api_jobs s)(job_key j := None)\<rparr>"
    using assms(2) m by (auto simp: job_expires_def)
  have jobs: "mirror_jobs t m = mirror_jobs s m - {j}" using j(1) by (auto simp: mirror_jobs_def t)
  have current: "current_job t m = (if current_job s m = Some j then None else current_job s m)"
  proof (cases "job_key j = \<lparr>key_Namespace = gm_Namespace m, key_Name = LastJobName (Status m)\<rparr>")
    case True
    then have "current_job s m = Some j" using j(1) by (intro named_is_current) (simp_all add: job_key_def)
    then show ?thesis by (simp add: current_job_def t True)
  next
    case False
    then have "current_job s m \<noteq> Some j"
      using current_in_jobs(2,3) [of s m j] by (auto simp: job_key_def its_job_def)
    then show ?thesis using False by (simp add: current_job_def t)
  qed
  have "finite_api t" "leases_keyed t" "jobs_keyed t"
    using ord by (auto simp: orderly_def finite_api_def leases_keyed_def jobs_keyed_def t dom_fun_upd)
  moreover have "api_jobs t k = Some i \<Longrightarrow> i \<noteq> j \<and> api_jobs s k = Some i" for k i
    using ord by (auto simp: orderly_def jobs_keyed_def t split: if_splits)
  ultimately show "orderly key t m"
    using ord gone unfolding orderly_def jobs current by (auto simp: t)
  show "view t m = view s m"
    using gone j(2) by (auto simp: view_def work_of_def current)
qed

lemma orderly_others:
  assumes ord: "orderly key s m" and "others_act key s t"
  shows "orderly key t m" and "view t m = view s m"
proof -
  have m: "api_mirrors s key = Some m" using ord by (simp add: orderly_def)
  obtain jobs where t: "t = s\<lparr>api_jobs := jobs\<rparr>" "finite (dom jobs)" "jobs_keyed t"
    and others: "\<And>k. jobs k = api_jobs s k \<or> (\<forall>j. api_jobs s k = Some j \<or> jobs k = Some j \<longrightarrow> \<not> its_job m j
          \<and> (JobActive (Some j) \<and> jobGenerationMatches (Some j) (gm_Generation m) \<longrightarrow> (\<forall>l. api_leases s (lease_key m) = Some l
               \<longrightarrow> k \<noteq> \<lparr>key_Namespace = gm_Namespace m, key_Name = current_holder l\<rparr>)))"
    using assms(2) m unfolding others_act_def by force
  have its: "jobs k = Some j \<longleftrightarrow> api_jobs s k = Some j" if "its_job m j" for k j
    using others [of k] that by auto
  have same: "mirror_jobs t m = mirror_jobs s m" using its by (auto simp: mirror_jobs_def t(1))
  have current: "current_job t m = current_job s m"
    unfolding current_job_def t(1) using its
    by (auto split: option.splits) (metis option.distinct(1) option.inject)+
  have lease: "j \<in> mirror_jobs s m" if "api_leases t (lease_key m) = Some l"
      "api_jobs t \<lparr>key_Namespace = gm_Namespace m, key_Name = current_holder l\<rparr> = Some j"
      "JobActive (Some j)" "jobGenerationMatches (Some j) (gm_Generation m)" for l j
  proof -
    have "api_jobs s \<lparr>key_Namespace = gm_Namespace m, key_Name = current_holder l\<rparr> = Some j"
      using others [of "\<lparr>key_Namespace = gm_Namespace m, key_Name = current_holder l\<rparr>"] that by (auto simp: t(1))
    then show ?thesis using ord that by (auto simp: orderly_def t(1))
  qed
  have "finite_api t" "leases_keyed t"
    using ord t(2) by (simp_all add: orderly_def finite_api_def leases_keyed_def t(1))
  then show "orderly key t m"
    using ord lease t(3) unfolding orderly_def same current by (simp add: t(1))
  show "view t m = view s m" by (simp add: view_def current)
qed

subsection \<open>Runs of the system\<close>

definition in_good_state :: "External \<Rightarrow> GitMirrorReconciler \<Rightarrow> bool \<Rightarrow> ObjectKey \<Rightarrow> api \<Rightarrow> GitMirror \<Rightarrow> bool" where
  "in_good_state X R scheduled key s m = (orderly key s m \<and> mirrors_keyed s \<and> can_build X R m
     \<and> (Schedule (Fallback (Spec m)) \<noteq> [] \<longrightarrow> scheduled))"

lemma good_request:
  assumes good: "in_good_state X R scheduled key s m"
    and run: "after (HandleGitHub X r) es = Some (Return reply)" "runs api_step s es t"
  shows "\<exists>m'. in_good_state X R scheduled key t m' \<and> (view t m' = view s m \<or> (\<exists>revision. view t m' = spec_push revision (view s m)))"
proof -
  have ord: "orderly key s m" and keyed: "mirrors_keyed s" using good by (simp_all add: in_good_state_def)
  have keyed_t: "mirrors_keyed t" using run(2) keyed by (rule mirrors_keyed_runs)
  have finite: "finite_api t" using finite_api_runs [OF run(2)] ord by (simp add: orderly_def)
  have "runs (timed UNIV UNIV) s es t" by (rule runs_timed [OF run(2)]) simp
  from wp_sound_Return [OF wpa_any_request [OF keyed, unfolded wpa_def] TrueI this run(1)]
  consider "t = s" | m2 delivery revision now where "api_mirrors s (mirror_key m2) = Some m2"
      "t = s\<lparr>api_mirrors := (api_mirrors s)(mirror_key m2 \<mapsto> ApplyWebhookIntent X m2 delivery revision now)\<rparr>"
    by (auto simp: webhook_effect_def)
  then show ?thesis
  proof cases
    case 1
    then show ?thesis using good by blast
  next
    case (2 m2 delivery revision now)
    show ?thesis
    proof (cases "mirror_key m2 = key")
      case True
      then have "m2 = m" using 2(1) ord by (simp add: orderly_def)
      then have t: "t = s\<lparr>api_mirrors := (api_mirrors s)(key \<mapsto> ApplyWebhookIntent X m delivery revision now)\<rparr>"
        using 2(2) True by simp
      have "can_build X R (ApplyWebhookIntent X m delivery revision now)"
        using good can_build_status_only [of m "ApplyWebhookIntent X m delivery revision now"] by (simp add: in_good_state_def)
      moreover have "Spec (ApplyWebhookIntent X m delivery revision now) = Spec m"
        using status_only_fields [of m "ApplyWebhookIntent X m delivery revision now"] by simp
      ultimately show ?thesis
        using orderly_pushed [OF ord t] keyed_t good
        by (intro exI [of _ "ApplyWebhookIntent X m delivery revision now"]) (auto simp: in_good_state_def)
    next
      case False
      then have "api_mirrors t key = api_mirrors s key" "api_jobs t = api_jobs s" "api_leases t = api_leases s"
        by (simp_all add: 2(2))
      then show ?thesis
        using orderly_other_mirrors [OF ord _ _ _ finite] keyed_t good by (auto simp: in_good_state_def)
    qed
  qed
qed

lemma good_step:
  assumes step: "system_step X R scheduled key s t" and good: "in_good_state X R scheduled key s m"
    and owner: "only_sets_owner (ext_SetControllerReference X)"
  shows "\<exists>m'. in_good_state X R scheduled key t m' \<and> (view t m' = view s m \<or> spec_step scheduled (view s m) (view t m'))"
proof -
  have ord: "orderly key s m" and keyed: "mirrors_keyed s" and build: "can_build X R m"
    and schedule: "Schedule (Fallback (Spec m)) \<noteq> [] \<longrightarrow> scheduled"
    using good by (simp_all add: in_good_state_def)
  have m: "api_mirrors s key = Some m" using ord by (simp add: orderly_def)
  from step show ?thesis
  proof cases
    case (request r es reply)
    then show ?thesis using good_request [OF good] spec_step.step_push by metis
  next
    case reconciliation
    then obtain m' due where m': "orderly key t m'" "can_build X R m'" "view t m' = spec_visit due (view s m)"
      "Schedule (Fallback (Spec m)) = [] \<longrightarrow> \<not> due" "status_only m m'"
      using reconciled_view [OF ord build owner] by blast
    have "mirrors_keyed t" using reconciliation mirrors_keyed_runs keyed unfolding reconciled_def by blast
    moreover have "spec_step scheduled (view s m) (view t m')"
      unfolding m'(3) by (rule step_visit) (use m'(4) schedule in blast)
    ultimately show ?thesis
      using m' schedule status_only_fields [OF m'(5)] by (intro exI [of _ m']) (simp add: in_good_state_def)
  next
    case (job_end ok)
    have "api_mirrors t = api_mirrors s"
      using job_end by (auto simp: job_ends_def split: option.splits if_splits)
    then show ?thesis
      using orderly_ended [OF ord job_end] good step_end [of scheduled "view s m" ok]
      by (intro exI [of _ m]) (simp add: in_good_state_def mirrors_keyed_def)
  next
    case spec_change
    then obtain sp g where new: "g \<noteq> ObservedGeneration (Status m)" "mirror_jobs s (edited m sp g) = {}"
      "lease_free s (edited m sp g)" "can_build X R (edited m sp g)" "Schedule (Fallback sp) \<noteq> [] \<longrightarrow> scheduled"
      "t = s\<lparr>api_mirrors := (api_mirrors s)(key \<mapsto> edited m sp g)\<rparr>"
      using m by (auto simp: spec_changes_def)
    note edited = orderly_edited [OF ord new(1,6,2,3)]
    have "mirror_key (edited m sp g) = key" using edited(1) by (simp add: orderly_def)
    then have "mirrors_keyed t" using keyed by (simp add: mirrors_keyed_def new(6))
    moreover have "Spec (edited m sp g) = sp" by (simp add: edited_def)
    ultimately show ?thesis
      using edited new(4,5) step_edit [of scheduled "view s m"]
      by (intro exI [of _ "edited m sp g"]) (simp add: in_good_state_def)
  next
    case job_removal
    have "api_mirrors t = api_mirrors s" using job_removal by (auto simp: job_expires_def)
    then show ?thesis
      using orderly_expired [OF ord job_removal] good by (intro exI [of _ m]) (simp add: in_good_state_def mirrors_keyed_def)
  next
    case other_jobs
    have "api_mirrors t = api_mirrors s" using other_jobs by (auto simp: others_act_def)
    then show ?thesis
      using orderly_others [OF ord other_jobs] good by (intro exI [of _ m]) (simp add: in_good_state_def mirrors_keyed_def)
  qed
qed

lemma good_runs:
  assumes "(system_step X R scheduled key)\<^sup>*\<^sup>* s t" and "in_good_state X R scheduled key s m"
    and "only_sets_owner (ext_SetControllerReference X)"
  shows "\<exists>m'. in_good_state X R scheduled key t m' \<and> (spec_step scheduled)\<^sup>*\<^sup>* (view s m) (view t m')"
  using assms(1)
proof (induction rule: rtranclp_induct)
  case base
  then show ?case using assms(2) by blast
next
  case (step u t)
  then obtain m' where "in_good_state X R scheduled key u m'" "(spec_step scheduled)\<^sup>*\<^sup>* (view s m) (view u m')" by blast
  moreover from good_step [OF step(2) this(1) assms(3)] obtain m2 where
    "in_good_state X R scheduled key t m2" "view t m2 = view u m' \<or> spec_step scheduled (view u m') (view t m2)" by blast
  ultimately show ?case by (metis rtranclp.rtrancl_into_rtrancl)
qed

lemma one_active:
  assumes "orderly key s m" and "i \<in> mirror_jobs s m" and "j \<in> mirror_jobs s m"
    and "JobActive (Some i)" and "JobActive (Some j)"
  shows "i = j"
proof -
  have "current_job s m = Some i'" if "i' \<in> mirror_jobs s m" "JobActive (Some i')" for i'
    using assms(1) that not_active_finished by (auto simp: orderly_def)
  from this [OF assms(2,4)] this [OF assms(3,5)] show ?thesis by simp
qed


subsection \<open>No push is forgotten\<close>

text \<open>
  An invariant of the specification without schedules. A Job is for the wanted revision, or
  another sync is to come; and the wanted revision is there, or a sync for it is to come or at
  work, or the failure of the last one is reported.
\<close>

definition on_course :: "sync_view \<Rightarrow> bool" where
  "on_course v = ((case work v of
       Idle \<Rightarrow> True
     | Running r \<Rightarrow> r = wanted v \<or> waiting v \<or> stale v
     | Ended r _ \<Rightarrow> r = wanted v \<or> waiting v \<or> stale v)
   \<and> (wanted v = [] \<or> have_rev v = wanted v \<or> waiting v \<or> stale v \<or> failed v \<or> work v \<noteq> Idle))"

lemma on_course_step:
  assumes "spec_step False v w" and "on_course v"
  shows "on_course w"
  using assms
proof cases
  case (step_push revision)
  then show ?thesis by (simp add: on_course_def spec_push_def split: work.split)
next
  case (step_visit due)
  then show ?thesis using assms(2)
    by (cases v; cases "work v") (auto simp: on_course_def spec_visit_def spec_reconcile_def spec_record_def spec_start_def)
next
  case (step_end ok)
  then show ?thesis using assms(2) by (cases "work v") (auto simp: on_course_def spec_end_def)
next
  case step_edit
  then show ?thesis by (simp add: on_course_def spec_edit_def)
qed

lemma on_course_runs: "(spec_step False)\<^sup>*\<^sup>* v w \<Longrightarrow> on_course v \<Longrightarrow> on_course w"
  by (induction rule: rtranclp_induct) (auto intro: on_course_step)

lemma new_mirror_on_course: "LastRequestedRevision (Status m) = [] \<Longrightarrow> mirror_jobs s m = {} \<Longrightarrow> on_course (view s m)"
  using current_in_jobs(1) [of s m] by (cases "current_job s m") (auto simp: on_course_def view_def work_of_def)


subsection \<open>A run\<close>

lemma demo_system_run:
  "\<exists>s1 s5. reconciled demo_X demo_R demo_key demo_pushed_api s1
    \<and> (system_step demo_X demo_R False demo_key)\<^sup>*\<^sup>* demo_push_api s1
    \<and> (system_step demo_X demo_R False demo_key)\<^sup>*\<^sup>* s1 s5"
proof -
  obtain s1 s2 s3 s4 s5 where steps: "reconciled demo_X demo_R demo_key demo_pushed_api s1" "job_succeeds demo_key s1 s2"
    "reconciled demo_X demo_R demo_key s2 s3" "job_succeeds demo_key s3 s4" "reconciled demo_X demo_R demo_key s4 s5"
    using demo_rounds by blast
  have "system_step demo_X demo_R False demo_key demo_push_api demo_pushed_api"
    by (rule request [OF demo_push_run demo_push_steps])
  then have "(system_step demo_X demo_R False demo_key)\<^sup>*\<^sup>* demo_push_api s1"
    using reconciliation [OF steps(1)] by (blast intro: rtranclp.intros)
  moreover have "(system_step demo_X demo_R False demo_key)\<^sup>*\<^sup>* s1 s5"
    using job_end [OF steps(2)] reconciliation [OF steps(3)] job_end [OF steps(4)] reconciliation [OF steps(5)]
    by (meson converse_rtranclp_into_rtranclp rtranclp.rtrancl_refl)
  ultimately show ?thesis using steps(1) by blast
qed

lemma demo_schedule: "Schedule (Fallback (Spec m0)) = []"
  by simp



end
