(* ===== verification/Operator_Main.thy ===== *)
theory Operator_Main
  imports Webhook_Server Sync_Config Sync_Lease
begin

text \<open>
  \<open>cmd/main.go\<close>: the operator's start-up. Flag parsing and the manager are libraries; the
  flags are a record, and what \<open>main\<close> builds from them is a list of start-up steps, each of
  which may fail, in the order the code tries them. A failed step ends the process with exit
  status 1. \<open>httpServer\<close> is the server of the GitHub webhook and its routes.
\<close>

subsection \<open>Flags\<close>

record Flags =
  metricsAddr :: string
  probeAddr :: string
  enableLeaderElection :: bool
  secureMetrics :: bool
  webhookCertPath :: string
  webhookCertName :: string
  webhookCertKey :: string
  metricsCertPath :: string
  metricsCertName :: string
  metricsCertKey :: string
  enableHTTP2 :: bool
  githubWebhookAddr :: string
  syncImage :: string

text \<open>\<open>getenv\<close> and the values of the flags that are not given.\<close>

definition getenv :: "environ \<Rightarrow> string \<Rightarrow> string \<Rightarrow> string" where
  "getenv env name fallback = (let v = Getenv env name in if v \<noteq> [] then v else fallback)"

definition default_flags :: "environ \<Rightarrow> Flags" where
  "default_flags env = \<lparr>
     metricsAddr = ''0'',
     probeAddr = '':8081'',
     enableLeaderElection = False,
     secureMetrics = True,
     webhookCertPath = [], webhookCertName = ''tls.crt'', webhookCertKey = ''tls.key'',
     metricsCertPath = [], metricsCertName = ''tls.crt'', metricsCertKey = ''tls.key'',
     enableHTTP2 = False,
     githubWebhookAddr = '':8082'',
     syncImage = getenv env ''SYNC_IMAGE'' ''ghcr.io/shamubernetes/git-mirror-sync:latest''\<rparr>"

subsection \<open>The webhook's HTTP server\<close>

datatype route = GitHubRoute | HealthRoute | ReadyRoute | NoRoute

definition mux :: "string \<Rightarrow> route" where
  "mux path = (if path = ''/webhooks/github'' then GitHubRoute
     else if path = ''/healthz'' then HealthRoute
     else if path = ''/readyz'' then ReadyRoute else NoRoute)"

text \<open>\<open>http.Server\<close>, as far as the program sets it, and \<open>httpServer\<close>.\<close>

record http_Server =
  hs_Addr :: string
  hs_Handler :: "string \<Rightarrow> route"
  hs_ReadHeaderTimeout :: int
  hs_ReadTimeout :: int
  hs_WriteTimeout :: int
  hs_IdleTimeout :: int

record httpServer =
  srv_addr :: string
  srv_handler :: "string \<Rightarrow> route"
  srv_server :: "http_Server option"

definition github_server :: "Flags \<Rightarrow> httpServer" where
  "github_server f = \<lparr>srv_addr = githubWebhookAddr f, srv_handler = mux, srv_server = None\<rparr>"

definition webhookReadHeaderTimeout :: int where
  "webhookReadHeaderTimeout = seconds 5"

definition webhookReadTimeout :: int where
  "webhookReadTimeout = seconds 15"

definition webhookWriteTimeout :: int where
  "webhookWriteTimeout = seconds 15"

definition webhookIdleTimeout :: int where
  "webhookIdleTimeout = seconds 60"

definition newServer :: "httpServer \<Rightarrow> http_Server" where
  "newServer s = \<lparr>hs_Addr = srv_addr s, hs_Handler = srv_handler s,
     hs_ReadHeaderTimeout = webhookReadHeaderTimeout, hs_ReadTimeout = webhookReadTimeout,
     hs_WriteTimeout = webhookWriteTimeout, hs_IdleTimeout = webhookIdleTimeout\<rparr>"

text \<open>
  \<open>Start\<close> keeps the new server and returns when its context ends, with what \<open>Shutdown\<close> returns,
  or when serving ends; \<open>serve\<close> tells which happens first to the server it is given.
\<close>

datatype serve_end = ContextDone "error option" | ServerClosed | ServeFailed error

definition httpServer_Start :: "(http_Server \<Rightarrow> serve_end) \<Rightarrow> httpServer \<Rightarrow> error option \<times> httpServer" where
  "httpServer_Start serve s = (let server = newServer s in
     (case serve server of ContextDone r \<Rightarrow> r | ServerClosed \<Rightarrow> None | ServeFailed err \<Rightarrow> Some err,
      s\<lparr>srv_server := Some server\<rparr>))"

subsection \<open>Start-up\<close>

text \<open>A function that configures a TLS server.\<close>

datatype tls_opt = DisableHTTP2 | WebhookCertificate | MetricsCertificate

record ManagerOptions =
  mo_MetricsBindAddress :: string
  mo_MetricsSecureServing :: bool
  mo_MetricsTLSOpts :: "tls_opt list"
  mo_MetricsAuthFilter :: bool
  mo_WebhookTLSOpts :: "tls_opt list"
  mo_HealthProbeBindAddress :: string
  mo_LeaderElection :: bool
  mo_LeaderElectionID :: string

datatype startup =
    WatchWebhookCertificate string string string
  | WatchMetricsCertificate string string string
  | NewManager ManagerOptions
  | SetupReconciler GitMirrorReconciler
  | AddGitHubServer httpServer
  | AddMetricsWatcher
  | AddWebhookWatcher
  | AddHealthz
  | AddReadyz
  | StartManager

definition tls_opts :: "Flags \<Rightarrow> tls_opt list" where
  "tls_opts f = (if enableHTTP2 f then [] else [DisableHTTP2])"

definition manager_options :: "Flags \<Rightarrow> ManagerOptions" where
  "manager_options f = \<lparr>
     mo_MetricsBindAddress = metricsAddr f,
     mo_MetricsSecureServing = secureMetrics f,
     mo_MetricsTLSOpts = tls_opts f @ (if metricsCertPath f \<noteq> [] then [MetricsCertificate] else []),
     mo_MetricsAuthFilter = secureMetrics f,
     mo_WebhookTLSOpts = tls_opts f @ (if webhookCertPath f \<noteq> [] then [WebhookCertificate] else []),
     mo_HealthProbeBindAddress = probeAddr f,
     mo_LeaderElection = enableLeaderElection f,
     mo_LeaderElectionID = ''git-mirror-operator.shamubernetes.com''\<rparr>"

definition main_reconciler :: "Flags \<Rightarrow> GitMirrorReconciler" where
  "main_reconciler f = \<lparr>DefaultSyncImage = syncImage f, HasScheme = True\<rparr>"

definition main_steps :: "Flags \<Rightarrow> startup list" where
  "main_steps f =
     (if webhookCertPath f \<noteq> []
      then [WatchWebhookCertificate (webhookCertPath f) (webhookCertName f) (webhookCertKey f)] else [])
     @ (if metricsCertPath f \<noteq> []
        then [WatchMetricsCertificate (metricsCertPath f) (metricsCertName f) (metricsCertKey f)] else [])
     @ [NewManager (manager_options f), SetupReconciler (main_reconciler f), AddGitHubServer (github_server f)]
     @ (if metricsCertPath f \<noteq> [] then [AddMetricsWatcher] else [])
     @ (if webhookCertPath f \<noteq> [] then [AddWebhookWatcher] else [])
     @ [AddHealthz, AddReadyz, StartManager]"

text \<open>The steps tried and the exit status, when \<open>fails\<close> says which steps fail.\<close>

primrec run_steps :: "(startup \<Rightarrow> bool) \<Rightarrow> startup list \<Rightarrow> startup list \<times> nat" where
  "run_steps fails [] = ([], 0)"
| "run_steps fails (s # steps) =
     (if fails s then ([s], 1) else case run_steps fails steps of (tried, status) \<Rightarrow> (s # tried, status))"

definition operator_main :: "(startup \<Rightarrow> bool) \<Rightarrow> Flags \<Rightarrow> startup list \<times> nat" where
  "operator_main fails f = run_steps fails (main_steps f)"

subsection \<open>Lemmas\<close>

lemma run_steps_ok: "snd (run_steps fails steps) = 0 \<longleftrightarrow> (\<forall>s \<in> set steps. \<not> fails s)"
  by (induction steps) (auto split: prod.split)

lemma run_steps_tried:
  "\<exists>rest. steps = fst (run_steps fails steps) @ rest
     \<and> (\<forall>s \<in> set (butlast (fst (run_steps fails steps))). \<not> fails s)
     \<and> (snd (run_steps fails steps) = 0 \<longrightarrow> rest = [])"
  by (induction steps) (auto split: prod.split)

end
