(* ===== verification/Controller_Setup.thy ===== *)
theory Controller_Setup
  imports Operator_Main Job_Properties
begin

text \<open>
  How the reconciler is wired to the cluster: the API group of GitMirror
  (\<open>api/v1alpha1/groupversion_info.go\<close>, the \<open>init\<close> of \<open>gitmirror_types.go\<close>), the scheme the
  operator fills before \<open>main\<close> (the \<open>init\<close> of \<open>cmd/main.go\<close>) and the controller that
  \<open>SetupWithManager\<close> describes. The scheme, the builder and the watches belong to
  apimachinery and controller-runtime: they are parameters, a \<open>runtime_library\<close>, and
  \<open>runtime_ok\<close> says what is documented of them.
\<close>

subsection \<open>What the source registers\<close>

record schema_GroupVersion =
  gv_Group :: string
  gv_Version :: string

text \<open>\<open>GroupVersion.String()\<close>, as it stands in the \<open>apiVersion\<close> of objects.\<close>

definition gv_String :: "schema_GroupVersion \<Rightarrow> string" where
  "gv_String gv = (if gv_Group gv = [] then gv_Version gv else gv_Group gv @ ''/'' @ gv_Version gv)"

definition GroupVersion :: schema_GroupVersion where
  "GroupVersion = \<lparr>gv_Group = ''mirror.shamubernetes.com'', gv_Version = ''v1alpha1''\<rparr>"

text \<open>The Go types that are handed to the libraries.\<close>

datatype go_type = GitMirrorType | GitMirrorListType | BatchJobType

text \<open>A \<open>scheme.Builder\<close>: its group version and the objects registered with it so far.\<close>

record Builder =
  b_GroupVersion :: schema_GroupVersion
  b_Objects :: "go_type list"

definition SchemeBuilder :: Builder where
  "SchemeBuilder = \<lparr>b_GroupVersion = GroupVersion, b_Objects = []\<rparr>"

text \<open>The builder once \<open>init\<close> of \<open>gitmirror_types.go\<close> has called \<open>Register\<close>.\<close>

definition registered_types :: "Builder \<Rightarrow> Builder" where
  "registered_types b = b\<lparr>b_Objects := b_Objects b @ [GitMirrorType, GitMirrorListType]\<rparr>"

text \<open>
  What \<open>SetupWithManager\<close> tells \<open>ctrl.NewControllerManagedBy\<close> before it completes the controller
  with the reconciler; that this may fail is the step \<open>SetupReconciler\<close> of \<open>Operator_Main\<close>.
\<close>

record Controller =
  ctl_For :: go_type
  ctl_Owns :: "go_type list"
  ctl_Named :: string

definition gitmirror_controller :: Controller where
  "gitmirror_controller = \<lparr>ctl_For = GitMirrorType, ctl_Owns = [BatchJobType], ctl_Named = ''gitmirror''\<rparr>"

subsection \<open>The libraries\<close>

text \<open>An object the controller is notified of.\<close>

datatype watched = WatchedMirror GitMirror | WatchedJob BatchJob

text \<open>
  \<open>'sc\<close> stands for \<open>runtime.Scheme\<close>. \<open>lib_Requests\<close> gives the requests that a notification about
  an object puts into the work queue of a controller.
\<close>

record 'sc runtime_library =
  lib_NewScheme :: 'sc
  lib_ClientGoAddToScheme :: "'sc \<Rightarrow> error + 'sc"
  lib_BuilderAddToScheme :: "Builder \<Rightarrow> 'sc \<Rightarrow> error + 'sc"
  lib_ObjectKind :: "'sc \<Rightarrow> go_type \<Rightarrow> (schema_GroupVersion \<times> string) option"
  lib_SetControllerReference :: "'sc \<Rightarrow> set_reference"
  lib_Requests :: "'sc \<Rightarrow> Controller \<Rightarrow> watched \<Rightarrow> ObjectKey set"

text \<open>
  \<open>AddToScheme\<close> of the API package, and the scheme of the operator: \<open>init\<close> panics (\<open>None\<close>) when a
  registration fails, before \<open>main\<close> runs.
\<close>

definition AddToScheme :: "'sc runtime_library \<Rightarrow> 'sc \<Rightarrow> error + 'sc" where
  "AddToScheme L = lib_BuilderAddToScheme L (registered_types SchemeBuilder)"

definition Must :: "error + 'a \<Rightarrow> 'a option" where
  "Must r = (case r of Inl err \<Rightarrow> None | Inr x \<Rightarrow> Some x)"

definition main_init :: "'sc runtime_library \<Rightarrow> 'sc option" where
  "main_init L = (case Must (lib_ClientGoAddToScheme L (lib_NewScheme L)) of
     None \<Rightarrow> None
   | Some scheme \<Rightarrow> Must (AddToScheme L scheme))"

text \<open>
  What is documented: a type added to the scheme has the group version it was added with, and
  its Go name as its kind; \<open>SetControllerReference\<close> makes the owner's group version, kind, name
  and UID the controller reference; a notification about an object of the type that the
  controller is \<open>For\<close> asks for that object, one about an object of an owned type asks for its
  controller, when that has the type the controller is \<open>For\<close>, in the namespace of the object.
\<close>

primrec type_name :: "go_type \<Rightarrow> string" where
  "type_name GitMirrorType = ''GitMirror''"
| "type_name GitMirrorListType = ''GitMirrorList''"
| "type_name BatchJobType = ''Job''"

definition scheme_documented :: "'sc runtime_library \<Rightarrow> bool" where
  "scheme_documented L = (\<forall>b scheme scheme' t. lib_BuilderAddToScheme L b scheme = Inr scheme' \<longrightarrow> t \<in> set (b_Objects b)
     \<longrightarrow> lib_ObjectKind L scheme' t = Some (b_GroupVersion b, type_name t))"

definition owner_reference :: "schema_GroupVersion \<Rightarrow> string \<Rightarrow> GitMirror \<Rightarrow> OwnerReference" where
  "owner_reference gv kind m = \<lparr>owner_APIVersion = gv_String gv, owner_Kind = kind, owner_Name = gm_Name m, owner_UID = gm_UID m\<rparr>"

definition references_documented :: "'sc runtime_library \<Rightarrow> bool" where
  "references_documented L = (\<forall>scheme m job job' gv kind. lib_SetControllerReference L scheme m job = Inr job'
     \<longrightarrow> lib_ObjectKind L scheme GitMirrorType = Some (gv, kind) \<longrightarrow> job' = job\<lparr>job_Owner := Some (owner_reference gv kind m)\<rparr>)"

definition watches_documented :: "'sc runtime_library \<Rightarrow> bool" where
  "watches_documented L = (\<forall>scheme c.
     (\<forall>m. ctl_For c = GitMirrorType \<longrightarrow> lib_Requests L scheme c (WatchedMirror m) = {mirror_key m})
     \<and> (\<forall>j gv kind m. BatchJobType \<in> set (ctl_Owns c) \<longrightarrow> lib_ObjectKind L scheme (ctl_For c) = Some (gv, kind)
          \<longrightarrow> job_Owner j = Some (owner_reference gv kind m)
          \<longrightarrow> lib_Requests L scheme c (WatchedJob j) = {\<lparr>key_Namespace = job_Namespace j, key_Name = gm_Name m\<rparr>}))"

definition runtime_ok :: "'sc runtime_library \<Rightarrow> bool" where
  "runtime_ok L = (scheme_documented L \<and> references_documented L \<and> watches_documented L)"

subsection \<open>The reconciler is woken for what it is to look at\<close>

lemma main_init_kind:
  assumes "runtime_ok L" and "main_init L = Some scheme"
  shows "lib_ObjectKind L scheme GitMirrorType = Some (GroupVersion, ''GitMirror'')"
proof -
  obtain before where "lib_BuilderAddToScheme L (registered_types SchemeBuilder) before = Inr scheme"
    using assms(2) by (auto simp: main_init_def Must_def AddToScheme_def split: sum.splits option.splits)
  moreover have "GitMirrorType \<in> set (b_Objects (registered_types SchemeBuilder))"
    "b_GroupVersion (registered_types SchemeBuilder) = GroupVersion"
    by (simp_all add: registered_types_def SchemeBuilder_def)
  ultimately show ?thesis
    using assms(1) unfolding runtime_ok_def scheme_documented_def by (metis type_name.simps(1))
qed

text \<open>The requests of the operator's controller, with the scheme \<open>main\<close> has filled.\<close>

abbreviation requests :: "'sc runtime_library \<Rightarrow> 'sc \<Rightarrow> watched \<Rightarrow> ObjectKey set" where
  "requests L scheme \<equiv> lib_Requests L scheme gitmirror_controller"

lemma mirror_requests: "runtime_ok L \<Longrightarrow> requests L scheme (WatchedMirror m) = {mirror_key m}"
  by (simp add: runtime_ok_def watches_documented_def gitmirror_controller_def)

lemma owned_requests:
  assumes "runtime_ok L" and "main_init L = Some scheme"
    and "job_Owner j = Some (owner_reference GroupVersion ''GitMirror'' m)" and "job_Namespace j = gm_Namespace m"
  shows "requests L scheme (WatchedJob j) = {mirror_key m}"
  using assms main_init_kind [OF assms(1,2)]
  by (simp add: runtime_ok_def watches_documented_def gitmirror_controller_def mirror_key_def)

lemma built_owner:
  assumes "runtime_ok L" and "main_init L = Some scheme" and "opt_Scheme opts"
    and "BuildSyncJob (lib_SetControllerReference L scheme) (Some m) opts = Inr sj"
  shows "job_Owner (sync_Job sj) = Some (owner_reference GroupVersion ''GitMirror'' m)"
    and "job_Namespace (sync_Job sj) = gm_Namespace m"
proof -
  obtain job where "lib_SetControllerReference L scheme m job = Inr (sync_Job sj)" "job_Namespace job = gm_Namespace m"
    using assms(3,4) unfolding BuildSyncJob_cases by (auto simp: Let_def sync_job_def)
  moreover from this have "sync_Job sj = job\<lparr>job_Owner := Some (owner_reference GroupVersion ''GitMirror'' m)\<rparr>"
    using assms(1) main_init_kind [OF assms(1,2)] unfolding runtime_ok_def references_documented_def by metis
  ultimately show "job_Owner (sync_Job sj) = Some (owner_reference GroupVersion ''GitMirror'' m)"
    "job_Namespace (sync_Job sj) = gm_Namespace m" by simp_all
qed

text \<open>C11. The controller that \<open>SetupWithManager\<close> describes is woken for the right GitMirror. Once
  \<open>init\<close> has filled the scheme, a notification about a GitMirror asks for this GitMirror, and
  one about a Job that \<open>BuildSyncJob\<close> made of a GitMirror, whatever has become of the Job's
  conditions, asks for exactly the GitMirror it was made of: the owner reference carries the
  group version and the kind under which the API package registers the type.\<close>

theorem jobs_wake_their_mirror:
  assumes "runtime_ok L" and "main_init L = Some scheme" and "HasScheme R"
    and "BuildSyncJob (lib_SetControllerReference L scheme) (Some m) (sync_options R triggerID revision) = Inr sj"
  shows "lib_Requests L scheme gitmirror_controller (WatchedMirror m) = {mirror_key m}
    \<and> lib_Requests L scheme gitmirror_controller (WatchedJob ((sync_Job sj)\<lparr>job_Conditions := conds\<rparr>)) = {mirror_key m}"
proof -
  have "opt_Scheme (sync_options R triggerID revision)" using assms(3) by (simp add: sync_options_def)
  from built_owner [OF assms(1,2) this assms(4)] show ?thesis
    using assms(1,2) by (simp add: mirror_requests owned_requests)
qed

subsection \<open>Concrete libraries\<close>

text \<open>A scheme is a list of what was added to it.\<close>

type_synonym demo_scheme = "(go_type \<times> schema_GroupVersion) list"

definition demo_kind :: "demo_scheme \<Rightarrow> go_type \<Rightarrow> (schema_GroupVersion \<times> string) option" where
  "demo_kind scheme t = (case map_of scheme t of None \<Rightarrow> None | Some gv \<Rightarrow> Some (gv, type_name t))"

definition demo_reference :: "demo_scheme \<Rightarrow> set_reference" where
  "demo_reference scheme m job = (case demo_kind scheme GitMirrorType of
     None \<Rightarrow> Inl (Failure ''no kind is registered'')
   | Some (gv, kind) \<Rightarrow> Inr (job\<lparr>job_Owner := Some (owner_reference gv kind m)\<rparr>))"

definition demo_requests :: "demo_scheme \<Rightarrow> Controller \<Rightarrow> watched \<Rightarrow> ObjectKey set" where
  "demo_requests scheme c w = (case w of
     WatchedMirror m \<Rightarrow> if ctl_For c = GitMirrorType then {mirror_key m} else {}
   | WatchedJob j \<Rightarrow> (case (job_Owner j, demo_kind scheme (ctl_For c)) of
       (Some owner, Some (gv, kind)) \<Rightarrow>
         if BatchJobType \<in> set (ctl_Owns c) \<and> owner_APIVersion owner = gv_String gv \<and> owner_Kind owner = kind
         then {\<lparr>key_Namespace = job_Namespace j, key_Name = owner_Name owner\<rparr>} else {}
     | _ \<Rightarrow> {}))"

definition demo_L :: "demo_scheme runtime_library" where
  "demo_L = \<lparr>lib_NewScheme = [],
     lib_ClientGoAddToScheme = (\<lambda>scheme. Inr ((BatchJobType, \<lparr>gv_Group = ''batch'', gv_Version = ''v1''\<rparr>) # scheme)),
     lib_BuilderAddToScheme = (\<lambda>b scheme. Inr (map (\<lambda>t. (t, b_GroupVersion b)) (b_Objects b) @ scheme)),
     lib_ObjectKind = demo_kind, lib_SetControllerReference = demo_reference, lib_Requests = demo_requests\<rparr>"

definition demo_filled :: demo_scheme where
  "demo_filled = [(GitMirrorType, GroupVersion), (GitMirrorListType, GroupVersion),
     (BatchJobType, \<lparr>gv_Group = ''batch'', gv_Version = ''v1''\<rparr>)]"

lemma map_of_registered: "t \<in> set ts \<Longrightarrow> map_of (map (\<lambda>t. (t, gv)) ts @ scheme) t = Some gv"
  by (induction ts) auto

lemma demo_scheme_documented: "scheme_documented demo_L"
  unfolding scheme_documented_def demo_L_def demo_kind_def
  by (auto simp only: runtime_library.simps sum.inject map_of_registered option.case)

lemma demo_runtime_ok: "runtime_ok demo_L"
  using demo_scheme_documented
  by (auto simp: runtime_ok_def references_documented_def watches_documented_def demo_L_def
      demo_reference_def demo_requests_def owner_reference_def)

lemma demo_init: "main_init demo_L = Some demo_filled"
  by (simp add: main_init_def Must_def AddToScheme_def demo_L_def registered_types_def SchemeBuilder_def demo_filled_def)

lemma demo_reference_owner: "demo_reference demo_filled = demo_owner"
  by (intro ext) (simp add: demo_reference_def demo_kind_def demo_filled_def demo_owner_def owner_reference_def
      gv_String_def GroupVersion_def)

lemma demo_L_reference: "lib_SetControllerReference demo_L demo_filled = demo_owner"
  by (simp add: demo_L_def demo_reference_owner)

theorem jobs_wake_their_mirror_witness:
  "\<exists>sj. BuildSyncJob (lib_SetControllerReference demo_L demo_filled) (Some (demo_mirror [] demo_status))
        (sync_options demo_R ''d1'' ''abc'') = Inr sj
    \<and> lib_Requests demo_L demo_filled gitmirror_controller (WatchedJob ((sync_Job sj)\<lparr>job_Conditions := []\<rparr>)) = {demo_key}"
proof -
  obtain sj where sj: "BuildSyncJob (lib_SetControllerReference demo_L demo_filled) (Some (demo_mirror [] demo_status))
        (sync_options demo_R ''d1'' ''abc'') = Inr sj"
    unfolding demo_L_reference using demo_build by blast
  have "HasScheme demo_R" by (simp add: demo_R_def)
  from jobs_wake_their_mirror [OF demo_runtime_ok demo_init this sj] sj show ?thesis
    by (auto simp: mirror_key_def demo_mirror_def demo_key_def)
qed

end
