(* ===== verification/Work_Queue.thy ===== *)
theory Work_Queue
  imports System_Runs Controller_Setup
begin

text \<open>
  The work queue of the controller. A reconciliation only happens for a GitMirror that the queue
  holds: because a watched object has changed (\<open>Controller_Setup\<close>), because the last
  reconciliation asked to be called again, or because everything is looked at again. The steps
  of \<open>System_Runs\<close> are taken with such a queue; the invariant is that a GitMirror in which
  something is left to do is always in the queue, so that the operator never waits for an
  event that does not come.
\<close>

subsection \<open>What puts a GitMirror into the queue\<close>

text \<open>The watched objects that differ in two states, as they were and as they are.\<close>

definition notified :: "api \<Rightarrow> api \<Rightarrow> watched set" where
  "notified s t =
     {WatchedMirror m | m k. api_mirrors t k \<noteq> api_mirrors s k \<and> (api_mirrors t k = Some m \<or> api_mirrors s k = Some m)}
     \<union> {WatchedJob j | j k. api_jobs t k \<noteq> api_jobs s k \<and> (api_jobs t k = Some j \<or> api_jobs s k = Some j)}"

definition woken :: "(watched \<Rightarrow> ObjectKey set) \<Rightarrow> api \<Rightarrow> api \<Rightarrow> ObjectKey set" where
  "woken req s t = (\<Union>w \<in> notified s t. req w)"

text \<open>
  controller-runtime calls the reconciler again after an error, and after \<open>RequeueAfter\<close> when
  that is greater than zero.
\<close>

definition asks_again :: "Result \<times> error option \<Rightarrow> bool" where
  "asks_again r = (snd r \<noteq> None \<or> 0 < RequeueAfter (fst r))"

text \<open>A whole reconciliation with its result; \<open>reconciled\<close> forgets the result.\<close>

definition reconciles ::
  "External \<Rightarrow> GitMirrorReconciler \<Rightarrow> ObjectKey \<Rightarrow> api \<Rightarrow> Result \<times> error option \<Rightarrow> api \<Rightarrow> bool" where
  "reconciles X R key s r t = (\<exists>m es. api_mirrors s key = Some m
     \<and> fresh_trigger {now. EvClockNow now \<in> set es} s m
     \<and> after (Reconcile X R key) es = Some (Return r) \<and> runs api_step s es t)"

lemma reconciled_iff: "reconciled X R key s t \<longleftrightarrow> (\<exists>r. reconciles X R key s r t)"
  by (auto simp: reconciled_def reconciles_def)

text \<open>
  What the operator and the Jobs it has started do for one GitMirror, on states with the queue:
  a reconciliation takes the GitMirror out of the queue, a Job ends.
\<close>

inductive own_step ::
  "(watched \<Rightarrow> ObjectKey set) \<Rightarrow> External \<Rightarrow> GitMirrorReconciler \<Rightarrow> ObjectKey \<Rightarrow> api \<times> ObjectKey set \<Rightarrow> api \<times> ObjectKey set \<Rightarrow> bool"
  for req X R key where
  visit: "key \<in> q \<Longrightarrow> reconciles X R key s r t
    \<Longrightarrow> own_step req X R key (s, q) (t, q - {key} \<union> woken req s t \<union> (if asks_again r then {key} else {}))"
| job_over: "job_ends ok key s t \<Longrightarrow> t \<noteq> s \<Longrightarrow> own_step req X R key (s, q) (t, q \<union> woken req s t)"

inductive_cases own_stepE: "own_step req X R key x y"

text \<open>What others do: the steps of \<open>system_step\<close> that are not the operator's.\<close>

inductive outside_step :: "External \<Rightarrow> GitMirrorReconciler \<Rightarrow> bool \<Rightarrow> ObjectKey \<Rightarrow> api \<Rightarrow> api \<Rightarrow> bool"
  for X R scheduled key where
  out_request: "after (HandleGitHub X r) es = Some (Return reply) \<Longrightarrow> runs api_step s es t
    \<Longrightarrow> outside_step X R scheduled key s t"
| out_edit: "spec_changes X R scheduled key s t \<Longrightarrow> outside_step X R scheduled key s t"
| out_removal: "job_expires key s t \<Longrightarrow> outside_step X R scheduled key s t"
| out_others: "others_act key s t \<Longrightarrow> outside_step X R scheduled key s t"

lemma outside_is_system_step: "outside_step X R scheduled key s t \<Longrightarrow> system_step X R scheduled key s t"
  by (induction rule: outside_step.induct) (auto intro: system_step.intros)

text \<open>The whole: own steps, the steps of others, looking at something again, work for other GitMirrors.\<close>

inductive queue_step ::
  "(watched \<Rightarrow> ObjectKey set) \<Rightarrow> External \<Rightarrow> GitMirrorReconciler \<Rightarrow> bool \<Rightarrow> ObjectKey
     \<Rightarrow> api \<times> ObjectKey set \<Rightarrow> api \<times> ObjectKey set \<Rightarrow> bool"
  for req X R scheduled key where
  own: "own_step req X R key x y \<Longrightarrow> queue_step req X R scheduled key x y"
| outside: "outside_step X R scheduled key s t \<Longrightarrow> queue_step req X R scheduled key (s, q) (t, q \<union> woken req s t)"
| again: "queue_step req X R scheduled key (s, q) (s, insert k q)"
| elsewhere: "k \<noteq> key \<Longrightarrow> queue_step req X R scheduled key (s, q) (s, q - {k})"

subsection \<open>Nothing is left to do, or the queue holds the GitMirror\<close>

text \<open>A sync is to be started, or the outcome of a Job is to be recorded.\<close>

definition needs_visit :: "sync_view \<Rightarrow> bool" where
  "needs_visit v = (case work v of Running _ \<Rightarrow> False | Ended _ _ \<Rightarrow> True | Idle \<Rightarrow> waiting v \<or> stale v)"

lemma visit_serves: "\<not> needs_visit (spec_visit due v)"
  by (cases v; cases "work v")
    (auto simp: needs_visit_def spec_visit_def spec_reconcile_def spec_record_def spec_start_def Let_def)

text \<open>Whatever becomes of a Job of the GitMirror, its watch asks for the GitMirror.\<close>

definition owned :: "(watched \<Rightarrow> ObjectKey set) \<Rightarrow> ObjectKey \<Rightarrow> api \<Rightarrow> GitMirror \<Rightarrow> bool" where
  "owned req key s m = (\<forall>j \<in> mirror_jobs s m. \<forall>conds. key \<in> req (WatchedJob (j\<lparr>job_Conditions := conds\<rparr>)))"

text \<open>The libraries are as documented, and the reconciler and its parameters use them.\<close>

definition wired :: "'sc runtime_library \<Rightarrow> 'sc \<Rightarrow> External \<Rightarrow> GitMirrorReconciler \<Rightarrow> bool" where
  "wired L scheme X R = (runtime_ok L \<and> main_init L = Some scheme \<and> HasScheme R
     \<and> ext_SetControllerReference X = lib_SetControllerReference L scheme)"

lemma wired_owner: "wired L scheme X R \<Longrightarrow> only_sets_owner (ext_SetControllerReference X)"
  unfolding only_sets_owner_def wired_def
  using main_init_kind [of L scheme] by (metis references_documented_def runtime_ok_def)

text \<open>The reconciler that \<open>main\<close> sets up is wired.\<close>

lemma main_is_wired:
  assumes "runtime_ok L" and "main_init L = Some scheme" and "ext_SetControllerReference X = lib_SetControllerReference L scheme"
  shows "wired L scheme X (main_reconciler f)"
  using assms by (simp add: wired_def main_reconciler_def)

lemma woken_mirror:
  assumes "runtime_ok L" and "api_mirrors t key = Some m" and "mirror_key m = key" and "api_mirrors s key \<noteq> Some m"
  shows "key \<in> woken (requests L scheme) s t"
proof -
  have "WatchedMirror m \<in> notified s t" using assms(2,4) by (auto simp: notified_def intro!: exI [of _ key])
  moreover have "key \<in> requests L scheme (WatchedMirror m)" using mirror_requests [OF assms(1)] assms(3) by simp
  ultimately show ?thesis unfolding woken_def by blast
qed

lemma woken_job:
  assumes "api_jobs t k = Some j" and "api_jobs s k \<noteq> Some j" and "key \<in> req (WatchedJob j)"
  shows "key \<in> woken req s t"
proof -
  have "WatchedJob j \<in> notified s t" using assms(1,2) by (auto simp: notified_def intro!: exI [of _ k])
  then show ?thesis using assms(3) unfolding woken_def by blast
qed

subsection \<open>The Jobs of a reconciliation are owned\<close>

lemma runs_jobs:
  assumes "runs api_step s es t" and "api_jobs t k = Some j"
  shows "api_jobs s k = Some j \<or> (\<exists>r. EvCreateJob j r \<in> set es)"
  using assms
proof (induction rule: runs.induct)
  case (runs_Cons s e u es t)
  have "api_jobs u k = Some j \<longrightarrow> api_jobs s k = Some j \<or> (\<exists>r. e = EvCreateJob j r)"
    using runs_Cons.hyps(1)
    by (cases e) (auto simp: api_step_def api_patch_status_def api_create_job_def api_create_lease_def
        api_update_lease_def api_delete_lease_def split: option.splits if_splits)
  then show ?case using runs_Cons by auto
qed simp

lemma read_keyed:
  assumes "runs api_step s es t" and "mirrors_keyed s" and "EvGetMirror k (Inr m) \<in> set es"
  shows "mirror_key m = k"
  using assms
proof (induction rule: runs.induct)
  case (runs_Cons s e u es t)
  then have "mirrors_keyed u" using mirrors_keyed_step by blast
  moreover have "mirror_key m = k" if "e = EvGetMirror k (Inr m)"
    using that runs_Cons.hyps(1) runs_Cons.prems(1)
    by (auto simp: api_step_def found_def mirrors_keyed_def split: option.splits)
  ultimately show ?case using runs_Cons by auto
qed simp

lemma created_is_owned:
  assumes wired: "wired L scheme X R" and run: "after (Reconcile X R key) es = Some p" "runs api_step s es t"
    and keyed: "mirrors_keyed s" and "EvCreateJob j r \<in> set es"
  shows "requests L scheme (WatchedJob (j\<lparr>job_Conditions := conds\<rparr>)) = {key}"
proof -
  obtain h rest where es: "es = h @ EvCreateJob j r # rest" using assms(5) by (auto simp: in_set_conv_decomp)
  have "create_rule X R key h j"
    using rule_kept.reconcile_call [OF run(1) [unfolded es]] by (simp add: reconcile_rule_def)
  then obtain m triggerID revision where m: "mirror_read key h m" "built_from X R m triggerID revision j"
    unfolding create_rule_def by blast
  have "EvGetMirror key (Inr m) \<in> set es" using m(1) by (simp add: mirror_read_def es)
  then have "mirror_key m = key" using read_keyed [OF run(2) keyed] by blast
  moreover have "BuildSyncJob (lib_SetControllerReference L scheme) (Some m) (sync_options R triggerID revision)
      = Inr \<lparr>sync_Job = j\<rparr>" "opt_Scheme (sync_options R triggerID revision)"
    using m(2) wired by (simp_all add: built_from_def wired_def sync_options_def)
  ultimately show ?thesis
    using wired built_owner [of L scheme "sync_options R triggerID revision" m "\<lparr>sync_Job = j\<rparr>"]
    by (simp add: wired_def owned_requests)
qed

lemma owned_visit:
  assumes wired: "wired L scheme X R" and "after (Reconcile X R key) es = Some p" and "runs api_step s es t"
    and "mirrors_keyed s" and owned: "owned (requests L scheme) key s m" and "status_only m m'"
  shows "owned (requests L scheme) key t m'"
proof -
  have its: "its_job m' = its_job m"
    using assms(6) by (auto elim: status_only_E)
  have "key \<in> requests L scheme (WatchedJob (j\<lparr>job_Conditions := conds\<rparr>))" if "j \<in> mirror_jobs t m'" for j conds
  proof -
    from that have "api_jobs t (job_key j) = Some j" "its_job m j" by (simp_all add: mirror_jobs_def its)
    from runs_jobs [OF assms(3) this(1)] show ?thesis
    proof
      assume "api_jobs s (job_key j) = Some j"
      then show ?thesis using owned \<open>its_job m j\<close> by (simp add: owned_def mirror_jobs_def)
    next
      assume "\<exists>r. EvCreateJob j r \<in> set es"
      then show ?thesis using created_is_owned [OF assms(1-4)] by blast
    qed
  qed
  then show ?thesis by (simp add: owned_def)
qed

subsection \<open>The invariant\<close>

definition attended ::
  "(watched \<Rightarrow> ObjectKey set) \<Rightarrow> External \<Rightarrow> GitMirrorReconciler \<Rightarrow> bool \<Rightarrow> ObjectKey \<Rightarrow> api \<times> ObjectKey set \<Rightarrow> GitMirror \<Rightarrow> bool" where
  "attended req X R scheduled key x m = (in_good_state X R scheduled key (fst x) m \<and> owned req key (fst x) m
     \<and> (needs_visit (view (fst x) m) \<longrightarrow> key \<in> snd x))"

lemma attended_stored: "attended req X R scheduled key x m \<Longrightarrow> api_mirrors (fst x) key = Some m \<and> mirror_key m = key"
  by (simp add: attended_def in_good_state_def orderly_def)

text \<open>When the Jobs are as before, an unchanged GitMirror has its old view and a changed one is queued.\<close>

lemma attended_after:
  assumes "wired L scheme X R" and att: "attended (requests L scheme) X R scheduled key (s, q) m"
    and "in_good_state X R scheduled key t m'" and "owned (requests L scheme) key t m'" and view: "m' = m \<Longrightarrow> view t m' = view s m"
  shows "attended (requests L scheme) X R scheduled key (t, q \<union> woken (requests L scheme) s t) m'"
proof (cases "m' = m")
  case True
  then show ?thesis using assms by (auto simp: attended_def)
next
  case False
  have "api_mirrors t key = Some m'" "mirror_key m' = key" "api_mirrors s key = Some m"
    using assms(3) attended_stored [OF att] by (auto simp: in_good_state_def orderly_def)
  then have "key \<in> woken (requests L scheme) s t"
    using assms(1) False by (intro woken_mirror) (auto simp: wired_def)
  then show ?thesis using assms by (simp add: attended_def)
qed

lemma same_jobs:
  assumes "api_jobs t = api_jobs s"
  shows "view t m = view s m" and "mirror_jobs t m = mirror_jobs s m"
  by (simp_all add: view_def current_job_def mirror_jobs_def assms)

lemma its_job_status_only: "status_only m m' \<Longrightarrow> its_job m' = its_job m"
  by (auto elim: status_only_E)

lemma owned_same_jobs:
  assumes "api_jobs t = api_jobs s" and "its_job m' = its_job m"
  shows "owned req key t m' = owned req key s m"
  by (simp add: owned_def mirror_jobs_def assms)

lemma attended_request:
  assumes wired: "wired L scheme X R" and att: "attended (requests L scheme) X R scheduled key (s, q) m"
    and run: "after (HandleGitHub X r) es = Some (Return reply)" "runs api_step s es t"
  shows "\<exists>m'. attended (requests L scheme) X R scheduled key (t, q \<union> woken (requests L scheme) s t) m'"
proof -
  have good: "in_good_state X R scheduled key s m" using att by (simp add: attended_def)
  then have keyed: "mirrors_keyed s" and stored: "api_mirrors s key = Some m" "mirror_key m = key"
    by (simp_all add: in_good_state_def orderly_def)
  have "runs (timed UNIV UNIV) s es t" by (rule runs_timed [OF run(2)]) simp
  from wp_sound_Return [OF wpa_any_request [OF keyed, unfolded wpa_def] TrueI this run(1)]
  have effect: "webhook_effect X s t" by simp
  then have jobs: "api_jobs t = api_jobs s" by (auto simp: webhook_effect_def)
  have its: "its_job m' = its_job m" if now: "api_mirrors t key = Some m'" for m'
  proof (cases "t = s")
    case False
    then obtain m2 d v time where m2: "api_mirrors s (mirror_key m2) = Some m2"
      "t = s\<lparr>api_mirrors := (api_mirrors s)(mirror_key m2 \<mapsto> ApplyWebhookIntent X m2 d v time)\<rparr>"
      using effect unfolding webhook_effect_def by blast
    show ?thesis
    proof (cases "mirror_key m2 = key")
      case True
      then have "m' = ApplyWebhookIntent X m d v time" using now m2 stored(1) by simp
      then show ?thesis by (intro its_job_status_only) simp
    qed (use now m2(2) stored(1) in simp)
  qed (use now stored(1) in simp)
  obtain m' where m': "in_good_state X R scheduled key t m'" using good_request [OF good run] by blast
  then have "its_job m' = its_job m" using its by (simp add: in_good_state_def orderly_def)
  then have "owned (requests L scheme) key t m'"
    using att owned_same_jobs [OF jobs] by (simp add: attended_def)
  from attended_after [OF wired att m' this] same_jobs(1) [OF jobs] show ?thesis by blast
qed

lemma owned_subset:
  assumes "owned req key s m" and "mirror_jobs t m' \<subseteq> mirror_jobs s m"
  shows "owned req key t m'"
  using assms by (auto simp: owned_def)

lemma attended_outside:
  assumes wired: "wired L scheme X R" and att: "attended (requests L scheme) X R scheduled key (s, q) m"
    and step: "outside_step X R scheduled key s t"
  shows "\<exists>m'. attended (requests L scheme) X R scheduled key (t, q \<union> woken (requests L scheme) s t) m'"
proof -
  have good: "in_good_state X R scheduled key s m" and owned: "owned (requests L scheme) key s m"
    using att by (simp_all add: attended_def)
  have ord: "orderly key s m" and m: "api_mirrors s key = Some m" using good by (simp_all add: in_good_state_def orderly_def)
  obtain m' where m': "in_good_state X R scheduled key t m'"
    using good_step [OF outside_is_system_step [OF step] good wired_owner [OF wired]] by blast
  then have stored: "api_mirrors t key = Some m'" by (simp add: in_good_state_def orderly_def)
  note done_with = attended_after [OF wired att m']
  from step show ?thesis
  proof cases
    case (out_request r es reply)
    then show ?thesis by (rule attended_request [OF wired att])
  next
    case out_edit
    then obtain sp g where edit: "mirror_jobs s (edited m sp g) = {}" "t = s\<lparr>api_mirrors := (api_mirrors s)(key \<mapsto> edited m sp g)\<rparr>"
      using m by (auto simp: spec_changes_def)
    then have "m' = edited m sp g" using stored by simp
    then have "mirror_jobs t m' = {}" using edit by (simp add: mirror_jobs_def)
    moreover have "view t m' = view s m" if "m' = m" using that edit(2) same_jobs(1) [of t s m] by simp
    ultimately show ?thesis using done_with by (auto simp: owned_def)
  next
    case out_removal
    then obtain j where "t = s\<lparr>api_jobs := (api_jobs s)(job_key j := None)\<rparr>" unfolding job_expires_def by blast
    then have t: "api_mirrors t = api_mirrors s" "mirror_jobs t m \<subseteq> mirror_jobs s m"
      by (simp_all add: mirror_jobs_def) (simp add: Collect_mono_iff split: if_split)
    then have "m' = m" using m stored by simp
    then show ?thesis
      using done_with owned_subset [OF owned t(2)] orderly_expired(2) [OF ord out_removal] by blast
  next
    case out_others
    then obtain jobs where "t = s\<lparr>api_jobs := jobs\<rparr>"
      "\<And>k j. jobs k = Some j \<Longrightarrow> its_job m j \<Longrightarrow> api_jobs s k = Some j"
      using m unfolding others_act_def by force
    then have t: "api_mirrors t = api_mirrors s" "mirror_jobs t m \<subseteq> mirror_jobs s m"
      by (simp_all add: mirror_jobs_def Collect_mono_iff)
    then have "m' = m" using m stored by simp
    then show ?thesis
      using done_with owned_subset [OF owned t(2)] orderly_others(2) [OF ord out_others] by blast
  qed
qed

lemma visit_result:
  assumes wired: "wired L scheme X R" and att: "attended (requests L scheme) X R scheduled key (s, q) m"
    and run: "reconciles X R key s r t"
  shows "\<exists>m' due. attended (requests L scheme) X R scheduled key (t, q') m' \<and> view t m' = spec_visit due (view s m)
    \<and> (\<not> scheduled \<longrightarrow> \<not> due)"
proof -
  have good: "in_good_state X R scheduled key s m" and owned: "owned (requests L scheme) key s m"
    using att by (simp_all add: attended_def)
  then have ord: "orderly key s m" and keyed: "mirrors_keyed s" and build: "can_build X R m"
    and schedule: "Schedule (Fallback (Spec m)) \<noteq> [] \<longrightarrow> scheduled"
    by (simp_all add: in_good_state_def)
  have "reconciled X R key s t" using run reconciled_iff by blast
  then obtain m' due where m': "orderly key t m'" "can_build X R m'" "view t m' = spec_visit due (view s m)"
    "Schedule (Fallback (Spec m)) = [] \<longrightarrow> \<not> due" "status_only m m'"
    using reconciled_view [OF ord build wired_owner [OF wired]] by blast
  obtain es where es: "after (Reconcile X R key) es = Some (Return r)" "runs api_step s es t"
    using run by (auto simp: reconciles_def)
  have "owned (requests L scheme) key t m'" by (rule owned_visit [OF wired es keyed owned m'(5)])
  moreover have "mirrors_keyed t" by (rule mirrors_keyed_runs [OF es(2) keyed])
  ultimately have "attended (requests L scheme) X R scheduled key (t, q') m'"
    using m' schedule visit_serves [of due "view s m"] status_only_fields [OF m'(5)]
    by (simp add: attended_def in_good_state_def)
  then show ?thesis using m'(3,4) schedule by blast
qed

lemma job_over_result:
  assumes att: "attended req X R scheduled key (s, q) m" and over: "job_ends ok key s t" "t \<noteq> s"
  shows "attended req X R scheduled key (t, q \<union> woken req s t) m \<and> view t m = spec_end ok (view s m)
    \<and> (\<exists>revision. work (view s m) = Running revision)"
proof -
  have good: "in_good_state X R scheduled key s m" and owned: "owned req key s m" using att by (simp_all add: attended_def)
  then have ord: "orderly key s m" and m: "api_mirrors s key = Some m" by (simp_all add: in_good_state_def orderly_def)
  obtain j conds where j: "current_job s m = Some j" "\<not> JobFinished (Some j)" "JobFinished (Some (j\<lparr>job_Conditions := conds\<rparr>))"
    and t: "t = s\<lparr>api_jobs := (api_jobs s)(job_key j \<mapsto> j\<lparr>job_Conditions := conds\<rparr>)\<rparr>"
    using over m by (auto simp: job_ends_def split: option.splits if_splits)
  note jm = current_in_jobs(1) [OF j(1)]
  have changed: "j\<lparr>job_Conditions := conds\<rparr> \<noteq> j" using j(2,3) by auto
  have "key \<in> req (WatchedJob (j\<lparr>job_Conditions := conds\<rparr>))" using owned jm by (simp add: owned_def)
  then have "key \<in> woken req s t"
    using jm changed by (intro woken_job [where k = "job_key j"]) (auto simp: t mirror_jobs_def)
  moreover have "owned req key t m"
    using owned jm by (auto simp: owned_def mirror_jobs_def t split: if_splits)
  moreover have "in_good_state X R scheduled key t m"
    using good orderly_ended(1) [OF ord over(1)] by (simp add: in_good_state_def mirrors_keyed_def t)
  moreover have "work (view s m) = Running (job_revision j)" using j(1,2) by (simp add: view_def work_of_def)
  ultimately show ?thesis using orderly_ended(2) [OF ord over(1)] by (simp add: attended_def)
qed

lemma attended_step:
  assumes "queue_step (requests L scheme) X R scheduled key x y" and wired: "wired L scheme X R"
    and "attended (requests L scheme) X R scheduled key x m"
  shows "\<exists>m'. attended (requests L scheme) X R scheduled key y m'"
  using assms(1,3)
proof (induction arbitrary: m rule: queue_step.induct)
  case (own x y)
  from own.hyps show ?case
  proof cases
    case (visit q s r t)
    with visit_result [OF wired own.prems [unfolded visit(1)] visit(4)] show ?thesis by blast
  next
    case (job_over ok s t q)
    with job_over_result [OF own.prems [unfolded job_over(1)] job_over(3,4)] show ?thesis by blast
  qed
next
  case (outside s t q)
  then show ?case using attended_outside [OF wired] by blast
next
  case (again s q k)
  then show ?case by (auto simp: attended_def)
next
  case (elsewhere k s q)
  then show ?case by (auto simp: attended_def)
qed

lemma attended_steps:
  assumes "(queue_step (requests L scheme) X R scheduled key)\<^sup>*\<^sup>* x y" and "wired L scheme X R"
    and "attended (requests L scheme) X R scheduled key x m"
  shows "\<exists>m'. attended (requests L scheme) X R scheduled key y m'"
  using assms(1,3)
proof (induction arbitrary: m rule: converse_rtranclp_induct)
  case (step x z)
  from attended_step [OF step.hyps(1) assms(2) step.prems] step.IH show ?case by blast
qed blast

end
