(* ===== verification/Coming_To_Rest.thy ===== *)
theory Coming_To_Rest
  imports Work_Queue
begin

text \<open>
  What the work queue adds to the runs of the system: a GitMirror that is not in the queue and
  has no Job at work has got what it asked for, the operator gets there in a bounded number of
  steps when it is left alone, and a schedule may be missed for good.
\<close>

subsection \<open>At rest\<close>

text \<open>No sync is to be started, no outcome to be recorded, no Job is at work.\<close>

definition at_rest :: "api \<Rightarrow> GitMirror \<Rightarrow> bool" where
  "at_rest s m = (\<not> PendingResync (Status m) \<and> ObservedGeneration (Status m) = gm_Generation m
     \<and> (\<forall>job \<in> mirror_jobs s m. JobFinished (Some job)))"

text \<open>The revision requested last is mirrored, or the status reports why not.\<close>

definition served :: "GitMirror \<Rightarrow> bool" where
  "served m = (LastRequestedRevision (Status m) = [] \<or> LastMirroredRevision (Status m) = LastRequestedRevision (Status m)
     \<or> LastError (Status m) \<noteq> [])"

lemma rests_when_idle:
  assumes "orderly key s m" and "work (view s m) = Idle" and "\<not> needs_visit (view s m)"
  shows "at_rest s m"
proof -
  have "JobFinished (Some j)" if "j \<in> mirror_jobs s m" for j
    using assms(1,2) that by (auto simp: orderly_def view_def work_of_def split: option.splits if_splits)
  then show ?thesis using assms(2,3) by (simp add: at_rest_def needs_visit_def view_fields)
qed

lemma queue_step_system:
  assumes "queue_step req X R scheduled key x y"
  shows "fst y = fst x \<or> system_step X R scheduled key (fst x) (fst y)"
  using assms
proof (induction rule: queue_step.induct)
  case (own x y)
  from own show ?case
  proof cases
    case (visit q s r t)
    then have "reconciled X R key s t" using reconciled_iff by blast
    then show ?thesis using visit(1,2) system_step.reconciliation by simp
  next
    case (job_over ok s t q)
    then show ?thesis using system_step.job_end by simp
  qed
qed (auto intro: outside_is_system_step)

lemma queue_steps_system:
  "(queue_step req X R scheduled key)\<^sup>*\<^sup>* x y \<Longrightarrow> (system_step X R scheduled key)\<^sup>*\<^sup>* (fst x) (fst y)"
  by (induction rule: rtranclp_induct) (auto dest!: queue_step_system intro: rtranclp.rtrancl_into_rtrancl)

text \<open>The GitMirror reached: attended, and on course as the one the run started with.\<close>

lemma reached:
  assumes "wired L scheme X R" and "attended (requests L scheme) X R False key x m" and "on_course (view (fst x) m)"
    and "(queue_step (requests L scheme) X R False key)\<^sup>*\<^sup>* x y"
  obtains m' where "attended (requests L scheme) X R False key y m'" "on_course (view (fst y) m')"
proof -
  obtain m' where m': "attended (requests L scheme) X R False key y m'"
    using attended_steps [OF assms(4,1,2)] by blast
  obtain m2 where m2: "in_good_state X R False key (fst y) m2" "(spec_step False)\<^sup>*\<^sup>* (view (fst x) m) (view (fst y) m2)"
    using good_runs [OF queue_steps_system [OF assms(4)] _ wired_owner [OF assms(1)]] assms(2)
    by (auto simp: attended_def)
  have "m2 = m'" using m2(1) attended_stored [OF m'] by (simp add: in_good_state_def orderly_def)
  then show thesis using that m' on_course_runs [OF m2(2) assms(3)] by blast
qed

lemma rest_is_served:
  assumes "attended req X R False key y m" and "on_course (view (fst y) m)" and "key \<notin> snd y"
  shows "(\<exists>job \<in> mirror_jobs (fst y) m. JobActive (Some job)) \<or> at_rest (fst y) m \<and> served m"
proof (cases "\<exists>revision. work (view (fst y) m) = Running revision")
  case True
  have ord: "orderly key (fst y) m" using assms(1) by (simp add: attended_def in_good_state_def)
  from True obtain job where "current_job (fst y) m = Some job" "JobActive (Some job)" using work_running [OF ord] by blast
  then show ?thesis using current_in_jobs(1) by blast
next
  case False
  have ord: "orderly key (fst y) m" and quiet: "\<not> needs_visit (view (fst y) m)"
    using assms(1,3) by (auto simp: attended_def in_good_state_def)
  then have idle: "work (view (fst y) m) = Idle" using False by (cases "work (view (fst y) m)") (auto simp: needs_visit_def)
  then have "served m"
    using assms(2) quiet by (auto simp: on_course_def needs_visit_def served_def view_fields)
  then show ?thesis using rests_when_idle [OF ord idle quiet] by blast
qed


subsection \<open>A visit with nothing to do\<close>

lemma wpa_quiet:
  assumes ord: "orderly key s m" and quiet: "\<not> needs_visit (view s m)" and "Schedule (Fallback (Spec m)) = []"
    and "Q (zero_result, None) s"
  shows "wpa T W (Reconcile X R key) Q s"
proof (rule wpa_Reconcile)
  show "api_mirrors s key = Some m" using ord by (simp add: orderly_def)
next
  fix jobs now assume jobs: "distinct jobs" "set jobs = mirror_jobs s m"
  have recorded: "nothing_to_record m jobs"
    using quiet by (intro orderly_quiet [OF ord jobs(2)]) (auto simp: needs_visit_def)
  show "wpa T W (or_else (reconcileCompletedJobs X R key m jobs now)
      (or_else (reconcileUnobservedGeneration X R key m (activeJobExists jobs) now)
        (or_else (reconcilePendingResync X R key m (activeJobExists jobs) now)
          (reconcileFallback X R key m (activeJobExists jobs) now)))) Q s"
  proof (cases "activeJobExists jobs")
    case True
    then show ?thesis using recorded assms(3,4)
      by (simp add: nothing_to_record_loop active_waits no_schedule wpa_or_else)
  next
    case False
    then have "work (view s m) = Idle"
      using quiet orderly_active [OF ord jobs(2)] by (cases "work (view s m)") (auto simp: needs_visit_def)
    then have "ObservedGeneration (Status m) = gm_Generation m" "\<not> PendingResync (Status m)"
      using quiet by (simp_all add: needs_visit_def view_fields)
    then show ?thesis using recorded assms(3,4) False
      by (simp add: nothing_to_record_loop generation_observed nothing_pending no_schedule wpa_or_else)
  qed
qed

lemma quiet_visit:
  assumes "orderly key s m" and "\<not> needs_visit (view s m)" and "Schedule (Fallback (Spec m)) = []"
    and "reconciles X R key s r t"
  shows "t = s" and "r = (zero_result, None)"
proof -
  obtain es where es: "after (Reconcile X R key) es = Some (Return r)" "runs api_step s es t"
    using assms(4) by (auto simp: reconciles_def)
  have timed: "runs (timed UNIV UNIV) s es t" by (rule runs_timed [OF es(2)]) simp
  have "wpa UNIV UNIV (Reconcile X R key) (\<lambda>r t. t = s \<and> r = (zero_result, None)) s"
    by (rule wpa_quiet [OF assms(1-3)]) simp
  from wp_sound_Return [OF this [unfolded wpa_def] TrueI timed es(1)]
  show "t = s" "r = (zero_result, None)" by simp_all
qed

subsection \<open>The steps that are left\<close>

definition rank :: "sync_view \<Rightarrow> nat" where
  "rank v = (if waiting v \<or> stale v then 3 else 0)
     + (case work v of Running _ \<Rightarrow> 2 | Ended _ _ \<Rightarrow> 1 | Idle \<Rightarrow> 0)"

definition steps_left :: "ObjectKey \<Rightarrow> api \<times> ObjectKey set \<Rightarrow> GitMirror \<Rightarrow> nat" where
  "steps_left key x m = 2 * rank (view (fst x) m) + (if key \<in> snd x then 1 else 0)"

lemma steps_left_bound: "steps_left key x m \<le> 11"
  by (auto simp: steps_left_def rank_def split: work.split)

lemma rank_visit: "needs_visit v \<Longrightarrow> rank (spec_visit False v) < rank v"
  by (cases v; cases "work v")
    (auto simp: needs_visit_def rank_def spec_visit_def spec_reconcile_def spec_record_def spec_start_def Let_def)

lemma visit_keeps_quiet:
  "\<not> waiting v \<Longrightarrow> \<not> stale v \<Longrightarrow> \<not> waiting (spec_visit False v) \<and> \<not> stale (spec_visit False v)"
  by (cases v; cases "work v") (auto simp: spec_visit_def spec_reconcile_def spec_record_def spec_start_def Let_def)

lemma end_keeps: "waiting (spec_end ok v) = waiting v \<and> stale (spec_end ok v) = stale v"
  by (simp add: spec_end_def split: work.split)

lemma rank_end: "work v = Running revision \<Longrightarrow> rank (spec_end ok v) < rank v"
  by (cases v) (simp add: rank_def spec_end_def)

lemma woken_same [simp]: "woken req s s = {}"
  by (simp add: woken_def notified_def)

lemma own_step_left:
  assumes step: "own_step (requests L scheme) X R key x y" and wired: "wired L scheme X R"
    and att: "attended (requests L scheme) X R False key x m"
  shows "\<exists>m'. attended (requests L scheme) X R False key y m' \<and> steps_left key y m' < steps_left key x m
    \<and> (\<not> waiting (view (fst x) m) \<and> \<not> stale (view (fst x) m)
         \<longrightarrow> \<not> waiting (view (fst y) m') \<and> \<not> stale (view (fst y) m'))"
  using step
proof cases
  case (visit q s r t)
  note att' = att [unfolded visit(1)]
  have good: "orderly key s m" "Schedule (Fallback (Spec m)) = []"
    using att' by (auto simp: attended_def in_good_state_def)
  show ?thesis
  proof (cases "needs_visit (view s m)")
    case True
    obtain m' due where m': "attended (requests L scheme) X R False key (t, snd y) m'"
      "view t m' = spec_visit due (view s m)" "\<not> due"
      using visit_result [OF wired att' visit(4), of "snd y"] by auto
    moreover have "fst y = t" using visit(2) by simp
    ultimately have "attended (requests L scheme) X R False key y m'" "view (fst y) m' = spec_visit False (view s m)"
      by (metis prod.collapse, simp)
    then show ?thesis
      using rank_visit [OF True] visit(1,3) visit_keeps_quiet [of "view s m"] by (intro exI [of _ m']) (auto simp: steps_left_def)
  next
    case False
    from quiet_visit [OF good(1) False good(2) visit(4)]
    have y: "y = (s, q - {key})" using visit(2) by (simp add: asks_again_def zero_result_def)
    have "attended (requests L scheme) X R False key y m" using att' False by (simp add: attended_def y)
    then show ?thesis using visit(1,3) y by (intro exI [of _ m]) (simp add: steps_left_def)
  qed
next
  case (job_over ok s t q)
  obtain revision where over: "attended (requests L scheme) X R False key y m" "view t m = spec_end ok (view s m)"
    "work (view s m) = Running revision"
    using job_over_result [OF att [unfolded job_over(1)] job_over(3,4)] job_over(2) by blast
  from rank_end [OF over(3), of ok] end_keeps [of ok "view s m"] over(1,2) job_over(1,2) show ?thesis
    by (intro exI [of _ m]) (simp add: steps_left_def)
qed

lemma own_steps_left:
  assumes "(own_step (requests L scheme) X R key ^^ n) x y" and "wired L scheme X R"
    and "attended (requests L scheme) X R False key x m"
  shows "\<exists>m'. attended (requests L scheme) X R False key y m' \<and> n + steps_left key y m' \<le> steps_left key x m"
  using assms(1)
proof (induction n arbitrary: y)
  case 0
  then show ?case using assms(3) by auto
next
  case (Suc n)
  then obtain z where z: "(own_step (requests L scheme) X R key ^^ n) x z" "own_step (requests L scheme) X R key z y" by auto
  from Suc.IH [OF z(1)] obtain m1 where m1: "attended (requests L scheme) X R False key z m1"
    "n + steps_left key z m1 \<le> steps_left key x m" by blast
  from own_step_left [OF z(2) assms(2) m1(1)] m1(2) show ?case by fastforce
qed

subsection \<open>Left alone, the operator comes to rest\<close>

lemma own_steps_queue:
  "(own_step req X R key)\<^sup>*\<^sup>* x y \<Longrightarrow> (queue_step req X R scheduled key)\<^sup>*\<^sup>* x y"
  by (induction rule: rtranclp_induct) (auto intro: queue_step.own rtranclp.rtrancl_into_rtrancl)

lemma visit_possible:
  assumes "attended req X R scheduled key (t, q) m" and "key \<in> q" and "fresh_trigger {now} t m"
  shows "\<exists>r u. reconciles X R key t r u"
  using reconciled_exists [OF _ assms(3)] assms(1) reconciled_iff
  by (fastforce simp: attended_def in_good_state_def)

lemma end_possible:
  assumes att: "attended req X R scheduled key (t, q) m" and j: "j \<in> mirror_jobs t m" "JobActive (Some j)"
  shows "\<exists>u. job_ends True key t u \<and> u \<noteq> t"
proof -
  have ord: "orderly key t m" and m: "api_mirrors t key = Some m"
    using att by (auto simp: attended_def in_good_state_def orderly_def)
  have running: "\<not> JobFinished (Some j)" using j(2) not_active_finished by blast
  then have current: "current_job t m = Some j" using ord j(1) by (auto simp: orderly_def)
  obtain u where u: "job_ends True key t u" using job_succeeds_exists [OF ord] by blast
  then obtain conds where "JobFinished (Some (j\<lparr>job_Conditions := conds\<rparr>))"
    "api_jobs u (job_key j) = Some (j\<lparr>job_Conditions := conds\<rparr>)"
    using m current running by (auto simp: job_ends_def)
  moreover have "api_jobs t (job_key j) = Some j" using j(1) by (simp add: mirror_jobs_def)
  ultimately have "u \<noteq> t" using running by auto
  with u show ?thesis by blast
qed

text \<open>C9. Left alone, the operator comes to rest. From an attended start on course, when only whole
  reconciliations without failing calls and ends of Jobs happen, a GitMirror without a schedule
  is reconciled, and its Jobs end, at most eleven times in all, in whatever order and however the
  Jobs end: no reconciliation wakes itself for ever. When no further step is possible although
  the names of new Jobs are free, the GitMirror is at rest and served.\<close>

theorem left_alone_comes_to_rest:
  assumes "wired L scheme X R" and "attended (requests L scheme) X R False key (s, q) m" and "on_course (view s m)"
    and "(own_step (requests L scheme) X R key ^^ n) (s, q) (t, q')"
  shows "n \<le> 11 \<and> (\<exists>m'. api_mirrors t key = Some m'
    \<and> (fresh_trigger {now} t m' \<and> (\<nexists>y. own_step (requests L scheme) X R key (t, q') y) \<longrightarrow> at_rest t m' \<and> served m'))"
proof -
  have "n \<le> 11"
    using own_steps_left [OF assms(4,1,2)] steps_left_bound [of key "(s, q)" m] by fastforce
  have "(queue_step (requests L scheme) X R False key)\<^sup>*\<^sup>* (s, q) (t, q')"
    using assms(4) by (blast intro: own_steps_queue relpowp_imp_rtranclp)
  then obtain m' where m': "attended (requests L scheme) X R False key (t, q') m'" "on_course (view t m')"
    using reached [OF assms(1,2)] assms(3) by (metis fst_conv)
  have "at_rest t m' \<and> served m'"
    if fresh: "fresh_trigger {now} t m'" and stuck: "\<nexists>y. own_step (requests L scheme) X R key (t, q') y"
  proof -
    have "key \<notin> q'" using visit_possible [OF m'(1) _ fresh] stuck own_step.visit by blast
    moreover have "\<not> (\<exists>job \<in> mirror_jobs t m'. JobActive (Some job))"
      using end_possible [OF m'(1)] stuck own_step.job_over by blast
    ultimately show ?thesis using rest_is_served [OF m'(1)] m'(2) by auto
  qed
  then show ?thesis using \<open>n \<le> 11\<close> attended_stored [OF m'(1)] by auto
qed

text \<open>It gets there: once nothing waits any more, no name is needed.\<close>

lemma runs_to_rest:
  assumes "wired L scheme X R" and "attended (requests L scheme) X R False key x m"
    and "\<not> waiting (view (fst x) m)" and "\<not> stale (view (fst x) m)"
  shows "\<exists>y m'. (own_step (requests L scheme) X R key)\<^sup>*\<^sup>* x y \<and> attended (requests L scheme) X R False key y m'
    \<and> key \<notin> snd y \<and> work (view (fst y) m') = Idle \<and> \<not> waiting (view (fst y) m') \<and> \<not> stale (view (fst y) m')"
  using assms(2-4)
proof (induction "steps_left key x m" arbitrary: x m rule: less_induct)
  case less
  obtain s q where x: "x = (s, q)" by (cases x)
  have ord: "orderly key s m" and plain: "Schedule (Fallback (Spec m)) = []"
    using less.prems(1) by (auto simp: x attended_def in_good_state_def)
  have next_step: ?case if step: "own_step (requests L scheme) X R key x z" for z
  proof -
    obtain m1 where "attended (requests L scheme) X R False key z m1" "steps_left key z m1 < steps_left key x m"
      "\<not> waiting (view (fst z) m1)" "\<not> stale (view (fst z) m1)"
      using own_step_left [OF step assms(1) less.prems(1)] less.prems(2,3) by blast
    from less.hyps [OF this(2,1,3,4)] show ?thesis using step by (meson converse_rtranclp_into_rtranclp)
  qed
  have idle: ?case if "key \<notin> q" "\<nexists>revision. work (view s m) = Running revision"
  proof -
    have "\<not> needs_visit (view s m)" using that(1) less.prems(1) by (simp add: attended_def x)
    then have "work (view s m) = Idle" using that(2) by (cases "work (view s m)") (auto simp: needs_visit_def)
    then show ?thesis using less.prems that(1) by (intro exI [of _ x] exI [of _ m]) (simp add: x)
  qed
  show ?case
  proof (cases "key \<in> q")
    case True
    have "fresh_trigger {0} s m" by (rule fresh_not_waiting) (use less.prems(2,3) plain in \<open>simp_all add: x\<close>)
    then obtain r u where "reconciles X R key s r u"
      using visit_possible [OF less.prems(1) [unfolded x] True] by blast
    from own_step.visit [OF True this, folded x] show ?thesis by (rule next_step)
  next
    case False
    show ?thesis
    proof (cases "\<exists>revision. work (view s m) = Running revision")
      case True
      then obtain revision where "work (view s m) = Running revision" by blast
      from work_running [OF ord this] obtain j where "current_job s m = Some j" "JobActive (Some j)" by auto
      then have "j \<in> mirror_jobs s m" "JobActive (Some j)" by (simp_all add: current_in_jobs(1))
      then obtain u where "job_ends True key s u" "u \<noteq> s"
        using end_possible [OF less.prems(1) [unfolded x]] by blast
      from own_step.job_over [OF this, of "requests L scheme" X R q, folded x] show ?thesis by (rule next_step)
    qed (rule idle [OF False])
  qed
qed

subsection \<open>A schedule that is missed\<close>

text \<open>What is left of a reconciliation when nothing but the schedule is outstanding.\<close>

lemma run_up_to_schedule:
  assumes ord: "orderly key s m" and idle: "work (view s m) = Idle" and quiet: "\<not> needs_visit (view s m)"
  obtains es where "runs api_step s es s" and "{now. EvClockNow now \<in> set es} \<subseteq> {clock}"
    and "\<And>es'. after (Reconcile X R key) (es @ es') = after (reconcileFallback X R key m False clock) es'"
proof -
  have m: "api_mirrors s key = Some m" using ord by (simp add: orderly_def)
  have "finite (stored_jobs s (gm_Namespace m) LabelGitMirror (map_get (LabelsForMirror m) LabelGitMirror))"
    using ord by (intro finite_stored_jobs) (simp add: orderly_def)
  then obtain items where items: "distinct items"
    "set items = stored_jobs s (gm_Namespace m) LabelGitMirror (map_get (LabelsForMirror m) LabelGitMirror)"
    using listed by blast
  note jobs = listed_jobs [OF items(2)]
  have recorded: "nothing_to_record m (jobsForGeneration items (gm_Generation m))"
    using idle by (intro orderly_quiet [OF ord jobs]) simp
  have inactive: "\<not> activeJobExists (jobsForGeneration items (gm_Generation m))"
    using idle orderly_active [OF ord jobs] by simp
  have "ObservedGeneration (Status m) = gm_Generation m" "\<not> PendingResync (Status m)"
    using quiet idle by (simp_all add: needs_visit_def view_fields)
  then have "after (Reconcile X R key) (start_events key m items clock @ es')
      = after (reconcileFallback X R key m False clock) es'" for es'
    using recorded inactive
    by (simp add: after_start Let_def nothing_to_record_loop generation_observed nothing_pending or_else_def)
  moreover have "runs api_step s (start_events key m items clock) s"
    using m items by (simp add: start_events_def api_step_def)
  ultimately show thesis by (intro that [of "start_events key m items clock"]) (auto simp: start_events_def)
qed

text \<open>C31. A schedule may be missed for good. \<open>reconcileFallback\<close> compares the next time with one
  reading of the clock and computes the delay from another one. When the next time lies between
  the two readings, the delay is not positive, so the reconciler is not called again: nothing is
  at work or pending, the step takes the GitMirror out of the work queue and writes nothing
  that would wake it, and from then on the schedule is due at any time without a Job being started.\<close>

theorem schedule_missed:
  assumes "orderly key s m" and "work (view s m) = Idle" and "\<not> needs_visit (view s m)"
    and "Schedule (Fallback (Spec m)) \<noteq> []" and "fresh_trigger {clock} s m" and "key \<in> q"
    and "NextFallbackTime X (Schedule (Fallback (Spec m))) (LastTriggeredAt (Status m)) clock = Inr next"
    and "clock < next" and "next \<le> wall"
  shows "own_step req X R key (s, q) (s, q - {key})
    \<and> (\<exists>es. after (Reconcile X R key) es = Some (Return (\<lparr>RequeueAfter = time_Sub next wall\<rparr>, None)) \<and> runs api_step s es s)
    \<and> \<not> asks_again (\<lparr>RequeueAfter = time_Sub next wall\<rparr>, None)
    \<and> (\<forall>later \<ge> wall. schedule_due X {later} m)"
proof -
  obtain es where es: "runs api_step s es s" "{now. EvClockNow now \<in> set es} \<subseteq> {clock}"
    "\<And>es'. after (Reconcile X R key) (es @ es') = after (reconcileFallback X R key m False clock) es'"
    by (rule run_up_to_schedule [OF assms(1-3), of clock X R]) blast
  let ?es = "es @ [EvClockNow clock, EvClockNow clock, EvWallNow wall]"
  let ?r = "(\<lparr>RequeueAfter = time_Sub next wall\<rparr>, None)"
  have run: "after (Reconcile X R key) ?es = Some (Return ?r)"
    unfolding es(3) using assms(4,7,8) by (simp add: reconcileFallback_def)
  have steps: "runs api_step s ?es s" using es(1) by (auto simp: runs_append api_step_def)
  have "{now. EvClockNow now \<in> set ?es} \<subseteq> {clock}" using es(2) by auto
  then have "fresh_trigger {now. EvClockNow now \<in> set ?es} s m"
    by (rule fresh_trigger_subset [OF assms(5)])
  then have visit: "reconciles X R key s ?r s"
    using run steps assms(1) unfolding reconciles_def orderly_def by blast
  have silent: "\<not> asks_again ?r" using assms(9) by (simp add: asks_again_def time_Sub_def)
  have "own_step req X R key (s, q) (s, q - {key})"
    using own_step.visit [OF assms(6) visit, of req] silent by simp
  moreover have "NextFallbackTime X (Schedule (Fallback (Spec m))) (LastTriggeredAt (Status m)) later = Inr next" for later
    using assms(7,8) by (auto simp: NextFallbackTime_def split: sum.splits option.splits)
  ultimately show ?thesis
    using run steps silent assms(4,9) unfolding schedule_due_def by auto
qed

subsection \<open>The demo GitMirror and the queue\<close>

lemma demo_wired: "wired demo_L demo_filled demo_X demo_R"
  by (simp add: wired_def demo_runtime_ok demo_init demo_L_reference) (simp add: demo_X_def demo_R_def)

text \<open>A push has just been recorded: the GitMirror is in the queue.\<close>

lemma demo_queued:
  "attended (requests demo_L demo_filled) demo_X demo_R False demo_key (demo_pushed_api, {demo_key}) demo_intent"
  "on_course (view demo_pushed_api demo_intent)" "work (view demo_pushed_api demo_intent) = Idle"
proof -
  note pushed = orderly_pushed [OF demo_push_orderly, where X = demo_X and d = "''d2''" and revision = "''abc''" and now = 7, OF refl]
  have jobs: "mirror_jobs demo_pushed_api demo_intent = {}" "current_job demo_push_api m0 = None"
    by (simp_all add: mirror_jobs_def current_job_def demo_push_api_def demo_api_def empty_api_def)
  have "mirror_key demo_intent = demo_key" using pushed(1) by (simp add: orderly_def)
  then have "mirrors_keyed demo_pushed_api" using demo_push_keyed by (simp add: mirrors_keyed_def)
  moreover have "can_build demo_X demo_R demo_intent" using demo_can_build can_build_status_only [of m0 demo_intent] by simp
  moreover have "Schedule (Fallback (Spec demo_intent)) = []" using status_only_fields [of m0 demo_intent] by simp
  ultimately show "attended (requests demo_L demo_filled) demo_X demo_R False demo_key (demo_pushed_api, {demo_key}) demo_intent"
    using pushed(1) jobs(1) by (simp add: attended_def in_good_state_def owned_def)
  have "work (view demo_push_api m0) = Idle" using jobs(2) by (simp add: view_def work_of_def)
  then show "on_course (view demo_pushed_api demo_intent)" "work (view demo_pushed_api demo_intent) = Idle"
    by (simp_all add: pushed(2) spec_push_def on_course_def)
qed

lemma idle_visit_clears:
  "work v = Idle \<Longrightarrow> \<not> waiting (spec_visit False v) \<and> \<not> stale (spec_visit False v)"
  by (cases v) (auto simp: spec_visit_def spec_reconcile_def spec_record_def spec_start_def Let_def)

text \<open>The push is synced: a first visit starts the Job, its end and further visits bring it to rest.\<close>

lemma demo_comes_to_rest:
  "\<exists>t q m'. (own_step (requests demo_L demo_filled) demo_X demo_R demo_key)\<^sup>*\<^sup>* (demo_pushed_api, {demo_key}) (t, q)
    \<and> attended (requests demo_L demo_filled) demo_X demo_R False demo_key (t, q) m'
    \<and> demo_key \<notin> q \<and> work (view t m') = Idle \<and> \<not> waiting (view t m') \<and> \<not> stale (view t m')"
proof -
  obtain s1 r where r: "reconciles demo_X demo_R demo_key demo_pushed_api r s1" using demo_rounds reconciled_iff by blast
  from own_step.visit [OF _ this] obtain q1 where first: "own_step (requests demo_L demo_filled) demo_X demo_R demo_key
      (demo_pushed_api, {demo_key}) (s1, q1)" by blast
  obtain m1 due where m1: "attended (requests demo_L demo_filled) demo_X demo_R False demo_key (s1, q1) m1"
    "view s1 m1 = spec_visit due (view demo_pushed_api demo_intent)" "\<not> due"
    using visit_result [OF demo_wired demo_queued(1) r] by blast
  have "\<not> waiting (view s1 m1)" "\<not> stale (view s1 m1)"
    using idle_visit_clears [OF demo_queued(3)] m1(2,3) by simp_all
  then obtain y m' where "(own_step (requests demo_L demo_filled) demo_X demo_R demo_key)\<^sup>*\<^sup>* (s1, q1) y"
    "attended (requests demo_L demo_filled) demo_X demo_R False demo_key y m'" "demo_key \<notin> snd y"
    "work (view (fst y) m') = Idle" "\<not> waiting (view (fst y) m')" "\<not> stale (view (fst y) m')"
    using runs_to_rest [OF demo_wired m1(1)] by auto
  moreover from first this(1) have "(own_step (requests demo_L demo_filled) demo_X demo_R demo_key)\<^sup>*\<^sup>* (demo_pushed_api, {demo_key}) y"
    by (rule converse_rtranclp_into_rtranclp)
  ultimately show ?thesis by (metis prod.collapse)
qed

lemma none_active:
  assumes "attended req X R scheduled key (t, q) m" and "work (view t m) = Idle"
  shows "\<not> (\<exists>job \<in> mirror_jobs t m. JobActive (Some job))"
proof
  assume "\<exists>job \<in> mirror_jobs t m. JobActive (Some job)"
  then obtain j where "job_ends True key t j \<and> j \<noteq> t" using end_possible [OF assms(1)] by blast
  with job_over_result [OF assms(1)] assms(2) show False by (metis work.distinct(1))
qed


theorem left_alone_comes_to_rest_witness:
  "\<exists>n t q m'. (own_step (requests demo_L demo_filled) demo_X demo_R demo_key ^^ n) (demo_pushed_api, {demo_key}) (t, q)
    \<and> n \<le> 11 \<and> api_mirrors t demo_key = Some m' \<and> at_rest t m' \<and> served m'"
proof -
  obtain t q m' where run: "(own_step (requests demo_L demo_filled) demo_X demo_R demo_key)\<^sup>*\<^sup>* (demo_pushed_api, {demo_key}) (t, q)"
    and m': "attended (requests demo_L demo_filled) demo_X demo_R False demo_key (t, q) m'"
    and rest: "demo_key \<notin> q" "work (view t m') = Idle" "\<not> waiting (view t m')" "\<not> stale (view t m')"
    using demo_comes_to_rest by blast
  obtain n where n: "(own_step (requests demo_L demo_filled) demo_X demo_R demo_key ^^ n) (demo_pushed_api, {demo_key}) (t, q)"
    using run rtranclp_imp_relpowp by metis
  have "\<nexists>y. own_step (requests demo_L demo_filled) demo_X demo_R demo_key (t, q) y"
    using rest(1,2) job_over_result [OF m'] by (auto elim!: own_stepE)
  moreover have "fresh_trigger {0} t m'"
    using rest(3,4) m' by (intro fresh_not_waiting) (auto simp: attended_def in_good_state_def)
  moreover have "api_mirrors t demo_key = Some m'" using attended_stored [OF m'] by simp
  ultimately show ?thesis
    using left_alone_comes_to_rest [OF demo_wired demo_queued(1,2) n, of 0] n by fastforce
qed

text \<open>The hourly schedule of \<open>demo_hourly\<close>, a second before it is due.\<close>

theorem schedule_missed_witness:
  "\<exists>es. after (Reconcile demo_X demo_R demo_key) es
      = Some (Return (\<lparr>RequeueAfter = time_Sub (seconds 3600) (seconds 3600)\<rparr>, None))
    \<and> runs api_step (demo_api demo_hourly) es (demo_api demo_hourly)
    \<and> own_step (requests demo_L demo_filled) demo_X demo_R demo_key (demo_api demo_hourly, {demo_key}) (demo_api demo_hourly, {})
    \<and> schedule_due demo_X {seconds 86400} demo_hourly"
proof -
  have ord: "orderly demo_key (demo_api demo_hourly) demo_hourly"
    by (rule demo_api_orderly) (simp add: demo_hourly_def mirror_key_def demo_key_def)
  have fresh: "fresh_trigger {seconds 3599} (demo_api demo_hourly) demo_hourly"
    by (rule demo_api_fresh) (simp_all add: demo_hourly_def)
  have quiet: "work (view (demo_api demo_hourly) demo_hourly) = Idle" "\<not> needs_visit (view (demo_api demo_hourly) demo_hourly)"
    by (simp_all add: demo_hourly_view needs_visit_def)
  have schedule: "Schedule (Fallback (Spec demo_hourly)) \<noteq> []" by (simp add: demo_hourly_def)
  have "NextFallbackTime demo_X (Schedule (Fallback (Spec demo_hourly))) (LastTriggeredAt (Status demo_hourly)) (seconds 3599)
      = Inr (seconds 3600)"
    by (simp add: demo_hourly_def NextFallbackTime_def) (simp add: demo_X_def demo_cron_def)
  moreover have "seconds 3599 < seconds 3600" "seconds 3600 \<le> seconds 3600" "seconds 3600 \<le> seconds 86400"
    by (simp_all add: seconds_def ns_per_second_def)
  ultimately show ?thesis
    using schedule_missed [OF ord quiet schedule fresh singletonI, of demo_X "seconds 3600" "seconds 3600" "requests demo_L demo_filled" demo_R]
    by (simp only: Diff_cancel) blast
qed

end
