(* ===== verification/Operator_Properties.thy ===== *)
theory Operator_Properties
  imports Operator_Main
begin

text \<open>
  The property of the operator's start-up: its steps are tried in order, a failure ends it with
  exit status 1, and the manager is started last.
\<close>

lemma run_steps_shape:
  "run_steps fails steps = (tried, status) \<Longrightarrow> \<exists>rest. steps = tried @ rest \<and> (\<forall>s \<in> set (butlast tried). \<not> fails s)
    \<and> (status = 0 \<and> rest = [] \<and> (\<forall>s \<in> set tried. \<not> fails s) \<or> status = 1 \<and> tried \<noteq> [] \<and> fails (last tried))"
proof (induction steps arbitrary: tried)
  case (Cons s steps)
  show ?case
  proof (cases "fails s")
    case True
    with Cons.prems show ?thesis by auto
  next
    case False
    with Cons.prems obtain tried' where t: "tried = s # tried'" "run_steps fails steps = (tried', status)"
      by (auto split: prod.splits)
    from Cons.IH [OF t(2)] obtain rest where "steps = tried' @ rest" "\<forall>s \<in> set (butlast tried'). \<not> fails s"
        "status = 0 \<and> rest = [] \<and> (\<forall>s \<in> set tried'. \<not> fails s) \<or> status = 1 \<and> tried' \<noteq> [] \<and> fails (last tried')"
      by blast
    with False t(1) show ?thesis by (cases "tried' = []") auto
  qed
qed simp

lemma manager_last: "\<exists>earlier. main_steps f = earlier @ [StartManager] \<and> StartManager \<notin> set earlier"
  by (auto simp: main_steps_def)

lemma last_only_whole:
  assumes "earlier @ [s] = tried @ rest" and "s \<notin> set earlier" and "s \<in> set tried"
  shows "tried = earlier @ [s] \<and> rest = []"
proof (cases rest rule: rev_cases)
  case (snoc rest' x)
  with assms(1) have "earlier = tried @ rest'" by simp
  with assms(2,3) show ?thesis by simp
qed (use assms(1) in simp)

text \<open>Start-up stops at the first failure. The steps are tried in the order of the code; either
  all succeed and the exit status is 0, or the last one tried failed, none before it did, and
  the status is 1. The manager, which starts the reconciler and the webhook, is started only
  after every other step succeeded.\<close>

lemma startup_stops_at_failure:
  assumes "operator_main fails f = (tried, status)"
  shows "(\<exists>rest. main_steps f = tried @ rest) \<and> (\<forall>s \<in> set (butlast tried). \<not> fails s)
    \<and> (status = 0 \<and> tried = main_steps f \<and> (\<forall>s \<in> set tried. \<not> fails s) \<or> status = 1 \<and> fails (last tried))
    \<and> (StartManager \<in> set tried \<longrightarrow> (\<forall>s \<in> set (main_steps f). s \<noteq> StartManager \<longrightarrow> \<not> fails s))"
proof -
  from run_steps_shape [OF assms [unfolded operator_main_def]] obtain rest
    where r: "main_steps f = tried @ rest" "\<forall>s \<in> set (butlast tried). \<not> fails s"
      "status = 0 \<and> rest = [] \<and> (\<forall>s \<in> set tried. \<not> fails s) \<or> status = 1 \<and> tried \<noteq> [] \<and> fails (last tried)" by blast
  obtain earlier where m: "main_steps f = earlier @ [StartManager]" "StartManager \<notin> set earlier"
    using manager_last by blast
  have "\<forall>s \<in> set (main_steps f). s \<noteq> StartManager \<longrightarrow> \<not> fails s" if "StartManager \<in> set tried"
    using last_only_whole [OF m(1) [symmetric, unfolded r(1)] m(2) that] r(2) m(1) by auto
  with r show ?thesis by auto
qed

lemma startup_stops_at_failure_witness:
  "\<exists>tried rest. operator_main (\<lambda>s. s = AddHealthz) (default_flags []) = (tried, 1)
    \<and> last tried = AddHealthz \<and> main_steps (default_flags []) = tried @ rest \<and> StartManager \<notin> set tried"
proof -
  define tried where "tried = fst (operator_main (\<lambda>s. s = AddHealthz) (default_flags []))"
  have run: "operator_main (\<lambda>s. s = AddHealthz) (default_flags []) = (tried, 1)"
    unfolding tried_def by (simp add: operator_main_def main_steps_def default_flags_def)
  have "AddHealthz \<in> set (main_steps (default_flags []))" by (simp add: main_steps_def)
  with startup_stops_at_failure [OF run] run show ?thesis by auto
qed

end
