(* ===== verification/Go_Heap.thy ===== *)
theory Go_Heap
  imports Main "HOL-Library.Monad_Syntax"
begin

text \<open>
  Go's memory, as far as deep copies need it. A heap is the list of its cells, the address of a
  cell its position; allocation appends, so an address in use is one below the length of the
  heap. A pointer is an address or \<open>None\<close> (nil); a slice is \<open>None\<close> (nil) or the address of its array
  and its length. A step that Go would end with a panic (a nil or dangling pointer, an index
  out of range) has the result \<open>None\<close>.

  The locale \<open>deep_copy\<close> is the contract of a \<open>DeepCopyInto\<close>: the copy represents the same value,
  nothing that existed changes, and what the copy refers to are new cells, none of them twice.
  The rules after it give the contract of a struct from those of its fields.
\<close>

type_synonym addr = nat
type_synonym pointer = "addr option"
type_synonym slice = "(addr \<times> nat) option"

subsection \<open>Cells\<close>

text \<open>\<open>sel\<close> reads a cell as a value of some type, if it has that type.\<close>

definition load :: "('c \<Rightarrow> 's option) \<Rightarrow> 'c list \<Rightarrow> addr \<Rightarrow> 's option" where
  "load sel h a = (if a < length h then sel (h ! a) else None)"

text \<open>\<open>new(T)\<close> and \<open>make([]T, n)\<close>: a new cell with the zero value.\<close>

definition alloc :: "'c \<Rightarrow> 'c list \<Rightarrow> addr \<times> 'c list" where
  "alloc c h = (length h, h @ [c])"

definition store :: "'c list \<Rightarrow> addr \<Rightarrow> 'c \<Rightarrow> 'c list" where
  "store h a c = h[a := c]"

text \<open>\<open>xs[i]\<close>, which panics out of range.\<close>

definition index :: "'s list \<Rightarrow> nat \<Rightarrow> 's option" where
  "index xs i = (if i < length xs then Some (xs ! i) else None)"

subsection \<open>Copies of a pointer's and of a slice's target\<close>

text \<open>
  The two statements the generator writes for a pointer field, and the body of a method
  \<open>DeepCopy\<close>: nil stays nil; otherwise a new cell is made and \<open>DeepCopyInto\<close> writes into it.
\<close>

definition copy_pointer ::
  "('s \<Rightarrow> 'c) \<Rightarrow> ('c \<Rightarrow> 's option) \<Rightarrow> 's \<Rightarrow> ('s \<Rightarrow> 'c list \<Rightarrow> ('s \<times> 'c list) option)
   \<Rightarrow> pointer \<Rightarrow> 'c list \<Rightarrow> (pointer \<times> 'c list) option" where
  "copy_pointer wrap sel zero into p h = (case p of
       None \<Rightarrow> Some (None, h)
     | Some a \<Rightarrow> do {
         let (out, h) = alloc (wrap zero) h;
         x \<leftarrow> load sel h a;
         (y, h) \<leftarrow> into x h;
         Some (Some out, store h out (wrap y))
       })"

text \<open>\<open>**out = **in\<close>: a plain assignment of the struct.\<close>

definition assign :: "'s \<Rightarrow> 'c list \<Rightarrow> ('s \<times> 'c list) option" where
  "assign x h = Some (x, h)"

text \<open>\<open>for i := range *in { (*in)[i].DeepCopyInto(&(*out)[i]) }\<close>, over the indices still to do.\<close>

primrec copy_items ::
  "('s list \<Rightarrow> 'c) \<Rightarrow> ('c \<Rightarrow> 's list option) \<Rightarrow> ('s \<Rightarrow> 'c list \<Rightarrow> ('s \<times> 'c list) option)
   \<Rightarrow> addr \<Rightarrow> addr \<Rightarrow> nat list \<Rightarrow> 'c list \<Rightarrow> 'c list option" where
  "copy_items wrap sel into src dst [] h = Some h"
| "copy_items wrap sel into src dst (i # todo) h = do {
     xs \<leftarrow> load sel h src;
     x \<leftarrow> index xs i;
     (y, h) \<leftarrow> into x h;
     ys \<leftarrow> load sel h dst;
     y' \<leftarrow> index ys i;
     copy_items wrap sel into src dst todo (store h dst (wrap (ys[i := y])))
   }"

definition copy_slice ::
  "('s list \<Rightarrow> 'c) \<Rightarrow> ('c \<Rightarrow> 's list option) \<Rightarrow> 's \<Rightarrow> ('s \<Rightarrow> 'c list \<Rightarrow> ('s \<times> 'c list) option)
   \<Rightarrow> slice \<Rightarrow> 'c list \<Rightarrow> (slice \<times> 'c list) option" where
  "copy_slice wrap sel zero into s h = (case s of
       None \<Rightarrow> Some (None, h)
     | Some (a, n) \<Rightarrow> do {
         let (out, h) = alloc (wrap (replicate n zero)) h;
         h \<leftarrow> copy_items wrap sel into a out [0..<n] h;
         Some (Some (out, n), h)
       })"

subsection \<open>What is represented in memory\<close>

text \<open>
  The value behind a pointer or a slice, and the cells they reach; a value is \<open>None\<close> where the
  memory is not what the types say.
\<close>

definition pointer_value ::
  "('c \<Rightarrow> 's option) \<Rightarrow> ('s \<Rightarrow> 'c list \<Rightarrow> 'v option) \<Rightarrow> pointer \<Rightarrow> 'c list \<Rightarrow> 'v option option" where
  "pointer_value sel val p h = (case p of
       None \<Rightarrow> Some None
     | Some a \<Rightarrow> do { x \<leftarrow> load sel h a; v \<leftarrow> val x h; Some (Some v) })"

definition pointer_cells ::
  "('c \<Rightarrow> 's option) \<Rightarrow> ('s \<Rightarrow> 'c list \<Rightarrow> addr list) \<Rightarrow> pointer \<Rightarrow> 'c list \<Rightarrow> addr list" where
  "pointer_cells sel cells p h = (case p of
       None \<Rightarrow> []
     | Some a \<Rightarrow> a # (case load sel h a of None \<Rightarrow> [] | Some x \<Rightarrow> cells x h))"

definition items_value ::
  "('s \<Rightarrow> 'c list \<Rightarrow> 'v option) \<Rightarrow> 's list \<Rightarrow> 'c list \<Rightarrow> 'v list option" where
  "items_value val xs h = those (map (\<lambda>x. val x h) xs)"

definition items_cells ::
  "('s \<Rightarrow> 'c list \<Rightarrow> addr list) \<Rightarrow> 's list \<Rightarrow> 'c list \<Rightarrow> addr list" where
  "items_cells cells xs h = concat (map (\<lambda>x. cells x h) xs)"

definition slice_value ::
  "('c \<Rightarrow> 's list option) \<Rightarrow> ('s \<Rightarrow> 'c list \<Rightarrow> 'v option) \<Rightarrow> slice \<Rightarrow> 'c list \<Rightarrow> 'v list option option" where
  "slice_value sel val s h = (case s of
       None \<Rightarrow> Some None
     | Some (a, n) \<Rightarrow> do {
         xs \<leftarrow> load sel h a;
         vs \<leftarrow> (if n \<le> length xs then items_value val (take n xs) h else None);
         Some (Some vs)
       })"

definition slice_cells ::
  "('c \<Rightarrow> 's list option) \<Rightarrow> ('s \<Rightarrow> 'c list \<Rightarrow> addr list) \<Rightarrow> slice \<Rightarrow> 'c list \<Rightarrow> addr list" where
  "slice_cells sel cells s h = (case s of
       None \<Rightarrow> []
     | Some (a, n) \<Rightarrow>
         a # (case load sel h a of None \<Rightarrow> [] | Some xs \<Rightarrow> items_cells cells (take n xs) h))"

subsection \<open>The contract of a deep copy\<close>

text \<open>\<open>h'\<close> still has the cells \<open>A\<close> of \<open>h\<close>.\<close>

definition keeps :: "addr set \<Rightarrow> 'c list \<Rightarrow> 'c list \<Rightarrow> bool" where
  "keeps A h h' \<longleftrightarrow> (\<forall>a\<in>A. a < length h' \<and> h' ! a = h ! a)"

lemma keeps_subset: "keeps A h h' \<Longrightarrow> B \<subseteq> A \<Longrightarrow> keeps B h h'"
  by (auto simp: keeps_def)

text \<open>The value of \<open>y\<close> in \<open>h\<close> is \<open>v\<close>, in cells from \<open>n\<close> on that are used once.\<close>

definition apart ::
  "('s \<Rightarrow> 'c list \<Rightarrow> 'v option) \<Rightarrow> ('s \<Rightarrow> 'c list \<Rightarrow> addr list) \<Rightarrow> nat \<Rightarrow> 's \<Rightarrow> 'c list \<Rightarrow> 'v \<Rightarrow> bool" where
  "apart val cells n y h v \<longleftrightarrow>
     val y h = Some v \<and> set (cells y h) \<subseteq> {n..<length h} \<and> distinct (cells y h)"

locale memory_value =
  fixes val :: "'s \<Rightarrow> 'c list \<Rightarrow> 'v option"
    and cells :: "'s \<Rightarrow> 'c list \<Rightarrow> addr list"
  assumes within: "val x h = Some v \<Longrightarrow> set (cells x h) \<subseteq> {..<length h}"
    and framed: "val x h = Some v \<Longrightarrow> keeps (set (cells x h)) h h' \<Longrightarrow>
      val x h' = Some v \<and> cells x h' = cells x h"
begin

text \<open>More memory does not change a value.\<close>

lemma later:
  assumes "val x h = Some v"
  shows "val x (h @ new) = Some v" "cells x (h @ new) = cells x h"
proof -
  have "keeps (set (cells x h)) h (h @ new)"
    using within [OF assms] by (auto simp: keeps_def nth_append)
  from framed [OF assms this]
  show "val x (h @ new) = Some v" "cells x (h @ new) = cells x h" by simp_all
qed

lemma apart_kept:
  assumes "apart val cells n y h v" and "keeps {n..<length h} h h'"
  shows "apart val cells n y h' v" "cells y h' = cells y h"
proof -
  have "keeps (set (cells y h)) h h'"
    using assms unfolding apart_def keeps_def by blast
  moreover have "val y h = Some v"
    using assms(1) by (simp add: apart_def)
  ultimately show "cells y h' = cells y h" "apart val cells n y h' v"
    using framed [of y h v h'] assms unfolding apart_def keeps_def by fastforce+
qed

end

locale deep_copy = memory_value val cells
  for val :: "'s \<Rightarrow> 'c list \<Rightarrow> 'v option" and cells :: "'s \<Rightarrow> 'c list \<Rightarrow> addr list" +
  fixes into :: "'s \<Rightarrow> 'c list \<Rightarrow> ('s \<times> 'c list) option"
  assumes copies: "val x h = Some v \<Longrightarrow>
      \<exists>y new. into x h = Some (y, h @ new) \<and> apart val cells (length h) y (h @ new) v"
begin

text \<open>Writing to the original leaves the copy, and the other way round.\<close>

lemma original_kept:
  assumes "val x h = Some v" and "into x h = Some (y, h')" and "keeps {..<length h} h' h2"
  shows "val x h2 = Some v"
proof -
  obtain new where "h' = h @ new"
    using copies [OF assms(1)] assms(2) by auto
  then have "keeps (set (cells x h)) h h2"
    using within [OF assms(1)] assms(3) by (auto simp: keeps_def nth_append)
  then show ?thesis using framed [OF assms(1)] by simp
qed

end

subsection \<open>The contract of a struct from those of its fields\<close>

lemma deep_copy_assign: "deep_copy (\<lambda>x h. Some (g x)) (\<lambda>x h. []) assign"
  by unfold_locales (auto simp: assign_def apart_def)

text \<open>Two fields, one after the other.\<close>

definition copy_pair ::
  "('s \<Rightarrow> 'c list \<Rightarrow> ('s \<times> 'c list) option) \<Rightarrow> ('t \<Rightarrow> 'c list \<Rightarrow> ('t \<times> 'c list) option)
   \<Rightarrow> 's \<times> 't \<Rightarrow> 'c list \<Rightarrow> (('s \<times> 't) \<times> 'c list) option" where
  "copy_pair into1 into2 x h = do {
     (a, h) \<leftarrow> into1 (fst x) h;
     (b, h) \<leftarrow> into2 (snd x) h;
     Some ((a, b), h)
   }"

definition pair_value ::
  "('s \<Rightarrow> 'c list \<Rightarrow> 'v option) \<Rightarrow> ('t \<Rightarrow> 'c list \<Rightarrow> 'w option)
   \<Rightarrow> 's \<times> 't \<Rightarrow> 'c list \<Rightarrow> ('v \<times> 'w) option" where
  "pair_value val1 val2 x h = do { a \<leftarrow> val1 (fst x) h; b \<leftarrow> val2 (snd x) h; Some (a, b) }"

definition pair_cells ::
  "('s \<Rightarrow> 'c list \<Rightarrow> addr list) \<Rightarrow> ('t \<Rightarrow> 'c list \<Rightarrow> addr list)
   \<Rightarrow> 's \<times> 't \<Rightarrow> 'c list \<Rightarrow> addr list" where
  "pair_cells cells1 cells2 x h = cells1 (fst x) h @ cells2 (snd x) h"

lemma deep_copy_pair:
  assumes "deep_copy val1 cells1 into1" and "deep_copy val2 cells2 into2"
  shows "deep_copy (pair_value val1 val2) (pair_cells cells1 cells2) (copy_pair into1 into2)"
proof (unfold_locales, goal_cases)
  case (1 x h v)
  then show ?case
    using memory_value.within [OF deep_copy.axioms(1) [OF assms(1)]] memory_value.within [OF deep_copy.axioms(1) [OF assms(2)]]
    by (fastforce simp: pair_value_def pair_cells_def split: bind_splits)
next
  case (2 x h v h')
  then show ?case
    using memory_value.framed [OF deep_copy.axioms(1) [OF assms(1)], of "fst x" h _ h'] memory_value.framed [OF deep_copy.axioms(1) [OF assms(2)], of "snd x" h _ h']
    by (auto simp: pair_value_def pair_cells_def keeps_def split: bind_splits)
next
  case (3 x h v)
  then obtain a b where ab: "val1 (fst x) h = Some a" "val2 (snd x) h = Some b" "v = (a, b)"
    by (auto simp: pair_value_def split: bind_splits)
  obtain y1 n1 where 1: "into1 (fst x) h = Some (y1, h @ n1)" "apart val1 cells1 (length h) y1 (h @ n1) a"
    using deep_copy.copies [OF assms(1) ab(1)] by blast
  have "val2 (snd x) (h @ n1) = Some b"
    using memory_value.later [OF deep_copy.axioms(1) [OF assms(2)] ab(2)] by simp
  from deep_copy.copies [OF assms(2) this] obtain y2 n2 where
    2: "into2 (snd x) (h @ n1) = Some (y2, (h @ n1) @ n2)"
      "apart val2 cells2 (length (h @ n1)) y2 ((h @ n1) @ n2) b" by blast
  have "val1 y1 (h @ n1) = Some a" using 1(2) by (simp add: apart_def)
  from memory_value.later [OF deep_copy.axioms(1) [OF assms(1)] this, of n2]
  have "apart (pair_value val1 val2) (pair_cells cells1 cells2) (length h) (y1, y2) (h @ n1 @ n2) v"
    using 1(2) 2(2) ab(3) by (fastforce simp: apart_def pair_value_def pair_cells_def)
  then show ?case
    using 1(1) 2(1) by (auto simp: copy_pair_def)
qed

text \<open>
  The fields with references of a struct, \<open>get\<close> and \<open>put\<close>, and the struct's value from theirs
  and the plain fields, \<open>view\<close>.
\<close>

lemma deep_copy_struct:
  assumes "deep_copy val cells into"
    and "\<And>x p. get (put x p) = p" and "\<And>x p w. view (put x p) w = view x w"
    and "\<And>x h. struct_value x h = map_option (view x) (val (get x) h)"
    and "\<And>x h. struct_cells x h = cells (get x) h"
    and "\<And>x h. struct_into x h = map_option (\<lambda>(p, h). (put x p, h)) (into (get x) h)"
  shows "deep_copy struct_value struct_cells struct_into"
proof (unfold_locales, goal_cases)
  case (1 x h v)
  then show ?case using memory_value.within [OF deep_copy.axioms(1) [OF assms(1)]] by (auto simp: assms)
next
  case (2 x h v h')
  then show ?case
    using memory_value.framed [OF deep_copy.axioms(1) [OF assms(1)], of "get x" h _ h'] by (auto simp: assms)
next
  case (3 x h v)
  then obtain w where "val (get x) h = Some w" "v = view x w" by (auto simp: assms)
  with deep_copy.copies [OF assms(1) this(1)] show ?case
    by (fastforce simp: apart_def assms)
qed

lemma pointer_valueE:
  assumes "pointer_value sel val p h = Some v"
  obtains "p = None" "v = None"
  | a x w where "p = Some a" "load sel h a = Some x" "a < length h" "val x h = Some w" "v = Some w"
  using assms by (cases p) (auto simp: pointer_value_def load_def bind_eq_Some_conv split: if_splits)

lemma memory_value_pointer:
  assumes "memory_value val cells"
  shows "memory_value (pointer_value sel val) (pointer_cells sel cells)"
proof (unfold_locales, goal_cases)
  case (1 p h v)
  then show ?case
    by (cases rule: pointer_valueE) (use memory_value.within [OF assms] in \<open>auto simp: pointer_cells_def\<close>)
next
  case (2 p h v h')
  from 2(1) show ?case
  proof (cases rule: pointer_valueE)
    case 1
    then show ?thesis by (simp add: pointer_value_def pointer_cells_def)
  next
    case (2 a x w)
    then have k: "keeps (insert a (set (cells x h))) h h'"
      using \<open>keeps (set (pointer_cells sel cells p h)) h h'\<close> by (simp add: pointer_cells_def)
    then have "load sel h' a = Some x" using 2 by (simp add: load_def keeps_def)
    moreover have "val x h' = Some w \<and> cells x h' = cells x h"
      by (rule memory_value.framed [OF assms 2(4)]) (use k in \<open>simp add: keeps_def\<close>)
    ultimately show ?thesis
      unfolding 2(1,5) by (simp add: pointer_value_def pointer_cells_def 2(2))
  qed
qed

lemma deep_copy_pointer:
  assumes dc: "deep_copy val cells into" and sel: "\<And>x. sel (wrap x) = Some x"
  shows "deep_copy (pointer_value sel val) (pointer_cells sel cells) (copy_pointer wrap sel zero into)"
proof (intro deep_copy.intro deep_copy_axioms.intro memory_value_pointer)
  show mv: "memory_value val cells" using dc by (rule deep_copy.axioms)
  fix p :: pointer and h v
  assume "pointer_value sel val p h = Some v"
  then show "\<exists>q new. copy_pointer wrap sel zero into p h = Some (q, h @ new)
      \<and> apart (pointer_value sel val) (pointer_cells sel cells) (length h) q (h @ new) v"
  proof (cases rule: pointer_valueE)
    case 1
    then show ?thesis
      by (auto simp: pointer_value_def pointer_cells_def copy_pointer_def apart_def)
  next
    case (2 a x w)
    let ?h1 = "h @ [wrap zero]"
    have l: "load sel ?h1 a = Some x" using 2 by (simp add: load_def nth_append)
    have "val x ?h1 = Some w" using memory_value.later [OF mv 2(4)] by simp
    from deep_copy.copies [OF dc this] obtain y new where
      y: "into x ?h1 = Some (y, ?h1 @ new)" "apart val cells (length ?h1) y (?h1 @ new) w" by blast
    let ?h2 = "h @ wrap y # new"
    have "keeps {length ?h1..<length (?h1 @ new)} (?h1 @ new) ?h2"
      by (auto simp: keeps_def nth_append nth_Cons')
    from memory_value.apart_kept [OF mv y(2) this]
    have "apart (pointer_value sel val) (pointer_cells sel cells) (length h) (Some (length h)) ?h2 v"
      using 2 by (auto simp: apart_def pointer_value_def pointer_cells_def load_def sel)
    moreover have "copy_pointer wrap sel zero into p h = Some (Some (length h), ?h2)"
      using 2 l y(1) by (simp add: copy_pointer_def alloc_def store_def Let_def)
    ultimately show ?thesis by auto
  qed
qed

subsection \<open>The contract of a slice\<close>

lemma items_value_iff:
  "items_value val xs h = Some vs \<longleftrightarrow> list_all2 (\<lambda>x v. val x h = Some v) xs vs"
  by (induction xs arbitrary: vs)
    (auto simp: items_value_def list_all2_Cons1 split: option.splits)

lemma memory_value_items:
  assumes "memory_value val cells"
  shows "memory_value (items_value val) (items_cells cells)"
proof (unfold_locales, goal_cases)
  case (1 xs h vs)
  then have "val x h \<noteq> None" if "x \<in> set xs" for x
    using that by (force simp: items_value_iff list_all2_conv_all_nth in_set_conv_nth)
  then show ?case
    using memory_value.within [OF assms] by (fastforce simp: items_cells_def)
next
  case (2 xs h vs h')
  have "val x h' = Some v \<and> cells x h' = cells x h" if "x \<in> set xs" "val x h = Some v" for x v
    using memory_value.framed [OF assms that(2), of h'] 2(2) that(1)
    by (auto simp: items_cells_def keeps_def)
  then have "list_all2 (\<lambda>x v. val x h' = Some v) xs vs" "map (\<lambda>x. cells x h') xs = map (\<lambda>x. cells x h) xs"
    using 2(1) by (fastforce simp: items_value_iff list_all2_conv_all_nth in_set_conv_nth)+
  then show ?case by (simp add: items_value_iff items_cells_def cong: map_cong)
qed

text \<open>The items copied so far, and one more.\<close>

lemma apart_snoc:
  assumes "apart (items_value val) (items_cells cells) n ys h vs"
    and "set (items_cells cells ys h) \<subseteq> {n..<m}" and "apart val cells m y h v" and "n \<le> m"
  shows "apart (items_value val) (items_cells cells) n (ys @ [y]) h (vs @ [v])"
  using assms by (fastforce simp: apart_def items_value_iff items_cells_def list_all2_appendI)

text \<open>
  The loop: \<open>h0\<close> is the memory before the slice was made, \<open>ys\<close> the new array, of which the
  first \<open>i\<close> items are done.
\<close>

lemma copy_items_loop:
  assumes dc: "deep_copy val cells into" and sel: "\<And>x. sel (wrap x) = Some x"
    and src: "load sel h0 a = Some xs" "items_value val (take n xs) h0 = Some vs" "n \<le> length xs"
    and i: "i \<le> n" "length ys = n"
    and upto: "apart (items_value val) (items_cells cells) (Suc (length h0)) (take i ys) (h0 @ wrap ys # ms) (take i vs)"
  shows "\<exists>zs ms'. copy_items wrap sel into a (length h0) [i..<n] (h0 @ wrap ys # ms) = Some (h0 @ wrap zs # ms')
    \<and> length zs = n \<and> apart (items_value val) (items_cells cells) (Suc (length h0)) zs (h0 @ wrap zs # ms') vs"
  using i upto
proof (induction "n - i" arbitrary: i ys ms)
  case 0
  have "length vs = n" using src(2,3) by (auto simp: items_value_iff dest: list_all2_lengthD)
  then show ?case using 0 by auto
next
  case (Suc k)
  let ?h = "h0 @ wrap ys # ms"
  have i: "i < n" using Suc by simp
  have mv: "memory_value val cells" using dc by (rule deep_copy.axioms)
  have len: "length vs = n" using src(2,3) by (auto simp: items_value_iff dest: list_all2_lengthD)
  have "val (xs ! i) h0 = Some (vs ! i)"
    using src(2,3) i by (auto simp: items_value_iff list_all2_conv_all_nth)
  from memory_value.later(1) [OF mv this] have "val (xs ! i) ?h = Some (vs ! i)" .
  from deep_copy.copies [OF dc this] obtain y new where
    y: "into (xs ! i) ?h = Some (y, ?h @ new)" "apart val cells (length ?h) y (?h @ new) (vs ! i)" by blast
  let ?ys = "ys[i := y]" and ?ms = "ms @ new"
  let ?h' = "h0 @ wrap ?ys # ?ms"
  have "keeps {length ?h..<length (?h @ new)} (?h @ new) ?h'"
    by (auto simp: keeps_def nth_append nth_Cons')
  from memory_value.apart_kept [OF mv y(2) this] have y': "apart val cells (length ?h) y ?h' (vs ! i)" by simp
  have "keeps {Suc (length h0)..<length ?h} ?h ?h'"
    by (auto simp: keeps_def nth_append nth_Cons')
  from memory_value.apart_kept [OF memory_value_items [OF mv] Suc.prems(3) this]
  have "apart (items_value val) (items_cells cells) (Suc (length h0)) (take i ys @ [y]) ?h' (take i vs @ [vs ! i])"
    using Suc.prems(3) by (intro apart_snoc [OF _ _ y']) (auto simp: apart_def)
  then have "apart (items_value val) (items_cells cells) (Suc (length h0)) (take (Suc i) ?ys) ?h' (take (Suc i) vs)"
    using i Suc.prems(2) len by (simp add: take_Suc_conv_app_nth)
  moreover have "k = n - Suc i" "Suc i \<le> n" "length ?ys = n" using Suc.hyps(2) Suc.prems(2) i by auto
  ultimately obtain zs ms' where
    z: "copy_items wrap sel into a (length h0) [Suc i..<n] ?h' = Some (h0 @ wrap zs # ms')"
      "length zs = n" "apart (items_value val) (items_cells cells) (Suc (length h0)) zs (h0 @ wrap zs # ms') vs"
    using Suc.hyps(1) by blast
  have "load sel ?h a = Some xs" using src(1) by (simp add: load_def nth_append split: if_splits)
  moreover have "load sel (?h @ new) (length h0) = Some ys" by (simp add: load_def nth_append sel)
  ultimately have "copy_items wrap sel into a (length h0) [i..<n] ?h = Some (h0 @ wrap zs # ms')"
    using z(1) y(1) i Suc.prems(2) src(3)
    by (subst upt_conv_Cons) (simp_all add: index_def store_def)
  then show ?case using z by blast
qed

lemma slice_valueE:
  assumes "slice_value sel val s h = Some v"
  obtains "s = None" "v = None"
  | a n xs vs where "s = Some (a, n)" "load sel h a = Some xs" "a < length h" "n \<le> length xs"
      "items_value val (take n xs) h = Some vs" "v = Some vs"
  using assms by (cases s) (auto simp: slice_value_def load_def bind_eq_Some_conv split: if_splits)

lemma memory_value_slice:
  assumes "memory_value val cells"
  shows "memory_value (slice_value sel val) (slice_cells sel cells)"
proof (unfold_locales, goal_cases)
  case (1 s h v)
  then show ?case
    by (cases rule: slice_valueE)
      (use memory_value.within [OF memory_value_items [OF assms]] in \<open>auto simp: slice_cells_def\<close>)
next
  case (2 s h v h')
  from 2(1) show ?case
  proof (cases rule: slice_valueE)
    case 1
    then show ?thesis by (simp add: slice_value_def slice_cells_def)
  next
    case (2 a n xs vs)
    then have k: "keeps (insert a (set (items_cells cells (take n xs) h))) h h'"
      using \<open>keeps (set (slice_cells sel cells s h)) h h'\<close> by (simp add: slice_cells_def)
    then have "load sel h' a = Some xs" using 2 by (simp add: load_def keeps_def)
    moreover have "items_value val (take n xs) h' = Some vs
        \<and> items_cells cells (take n xs) h' = items_cells cells (take n xs) h"
      by (rule memory_value.framed [OF memory_value_items [OF assms] 2(5)])
        (use k in \<open>simp add: keeps_def\<close>)
    ultimately show ?thesis
      unfolding 2(1,6) using 2(4) by (simp add: slice_value_def slice_cells_def 2(2))
  qed
qed

lemma deep_copy_slice:
  assumes dc: "deep_copy val cells into" and sel: "\<And>x. sel (wrap x) = Some x"
  shows "deep_copy (slice_value sel val) (slice_cells sel cells) (copy_slice wrap sel zero into)"
proof (intro deep_copy.intro deep_copy_axioms.intro memory_value_slice)
  show "memory_value val cells" using dc by (rule deep_copy.axioms)
  fix s :: slice and h v
  assume "slice_value sel val s h = Some v"
  then show "\<exists>t new. copy_slice wrap sel zero into s h = Some (t, h @ new)
      \<and> apart (slice_value sel val) (slice_cells sel cells) (length h) t (h @ new) v"
  proof (cases rule: slice_valueE)
    case 1
    then show ?thesis
      by (auto simp: slice_value_def slice_cells_def copy_slice_def apart_def)
  next
    case (2 a n xs vs)
    have "apart (items_value val) (items_cells cells) (Suc (length h)) (take 0 (replicate n zero))
        (h @ wrap (replicate n zero) # []) (take 0 vs)"
      by (simp add: apart_def items_value_iff items_cells_def)
    from copy_items_loop [OF dc sel 2(2,5,4) _ _ this] obtain zs ms where
      z: "copy_items wrap sel into a (length h) [0..<n] (h @ [wrap (replicate n zero)]) = Some (h @ wrap zs # ms)"
        "length zs = n" "apart (items_value val) (items_cells cells) (Suc (length h)) zs (h @ wrap zs # ms) vs"
      by auto
    then have "apart (slice_value sel val) (slice_cells sel cells) (length h) (Some (length h, n)) (h @ wrap zs # ms) v"
      using 2 by (auto simp: apart_def slice_value_def slice_cells_def load_def sel)
    moreover have "copy_slice wrap sel zero into s h = Some (Some (length h, n), h @ wrap zs # ms)"
      using 2 z(1) by (simp add: copy_slice_def alloc_def Let_def)
    ultimately show ?thesis by auto
  qed
qed

end
