(* ===== verification/Deep_Copy.thy ===== *)
theory Deep_Copy
  imports Go_Heap API_Types
begin

text \<open>
  \<open>api/v1alpha1/zz_generated.deepcopy.go\<close> over Go's memory (\<open>Go_Heap\<close>). Elsewhere in the
  development the structs are values and a pointer is an option; here the structs that hold
  references are records of what is in memory, a pointer field being an address. Structs
  without references are the records of \<open>API_Types\<close>.

  \<open>DeepCopyInto\<close> takes the struct \<open>*in\<close> and gives the struct it leaves in \<open>*out\<close>; \<open>out\<close> is always
  other memory than \<open>in\<close>. \<open>DeepCopy\<close> takes and gives pointers. The copies of library types
  (\<open>metav1.ObjectMeta\<close>, \<open>ListMeta\<close>, \<open>Time\<close>, \<open>Condition\<close>, \<open>corev1.ResourceRequirements\<close>) are
  functions of the record \<open>library\<close>; of \<open>ObjectMeta\<close> the fields are those the program uses and
  the two maps every object has.
\<close>

subsection \<open>The structs in memory\<close>

record GitAuthSpec_mem =
  mem_Type :: string
  mem_SSH :: pointer
  mem_Basic :: pointer
  mem_GitHubApp :: pointer

record GitEndpointSpec_mem =
  mem_URL :: string
  mem_SSHSecretRef :: pointer
  mem_Auth :: pointer

text \<open>A map is a reference to its entries.\<close>

record ResourceRequirements_mem =
  mem_Requests :: pointer
  mem_Limits :: pointer

record JobSpec_mem =
  mem_Image :: string
  mem_BackoffLimit :: pointer
  mem_ActiveDeadlineSeconds :: pointer
  mem_TTLSecondsAfterFinished :: pointer
  mem_Resources :: ResourceRequirements_mem
  mem_KnownHostsConfigMapName :: string
  mem_KnownHostsConfigMapKey :: string
  mem_ServiceAccountName :: string

record GitMirrorSpec_mem =
  mem_Provider :: string
  mem_GitHub :: GitHubSpec
  mem_Source :: GitEndpointSpec_mem
  mem_Target :: GitEndpointSpec_mem
  mem_Mirror :: MirrorSpec
  mem_Fallback :: FallbackSpec
  mem_Job :: JobSpec_mem

record GitMirrorStatus_mem =
  mem_ObservedGeneration :: int64
  mem_LastWebhookAt :: pointer
  mem_LastDeliveryID :: string
  mem_LastTriggeredAt :: pointer
  mem_LastJobName :: string
  mem_LastCompletedJobName :: string
  mem_LastSuccessAt :: pointer
  mem_LastFailureAt :: pointer
  mem_LastError :: string
  mem_LastRequestedRevision :: string
  mem_LastMirroredRevision :: string
  mem_PendingResync :: bool
  mem_Conditions :: slice

record TypeMeta =
  type_Kind :: string
  type_APIVersion :: string

record ObjectMeta_mem =
  mem_Name :: string
  mem_Namespace :: string
  mem_UID :: string
  mem_Generation :: int64
  mem_Labels :: pointer
  mem_Annotations :: pointer

record GitMirror_mem =
  mem_TypeMeta :: TypeMeta
  mem_ObjectMeta :: ObjectMeta_mem
  mem_Spec :: GitMirrorSpec_mem
  mem_Status :: GitMirrorStatus_mem

record ListMeta_mem =
  mem_ResourceVersion :: string
  mem_Continue :: string
  mem_RemainingItemCount :: pointer

record GitMirrorList_mem =
  mem_ListTypeMeta :: TypeMeta
  mem_ListMeta :: ListMeta_mem
  mem_Items :: slice

subsection \<open>The cells\<close>

datatype cell =
    SecretKeyRefCell SecretKeyRef
  | SSHAuthSpecCell SSHAuthSpec
  | BasicAuthSpecCell BasicAuthSpec
  | GitHubAppAuthSpecCell GitHubAppAuthSpec
  | GitAuthSpecCell GitAuthSpec_mem
  | GitEndpointSpecCell GitEndpointSpec_mem
  | GitHubSpecCell GitHubSpec
  | MirrorSpecCell MirrorSpec
  | FallbackSpecCell FallbackSpec
  | JobSpecCell JobSpec_mem
  | GitMirrorSpecCell GitMirrorSpec_mem
  | GitMirrorStatusCell GitMirrorStatus_mem
  | GitMirrorCell GitMirror_mem
  | GitMirrorListCell GitMirrorList_mem
  | Int32Cell int32
  | Int64Cell int64
  | TimeCell time
  | MapCell "string \<rightharpoonup> string"
  | ConditionsCell "Condition list"
  | MirrorsCell "GitMirror_mem list"

type_synonym memory = "cell list"

text \<open>A cell read at a type.\<close>

definition as_SecretKeyRef :: "cell \<Rightarrow> SecretKeyRef option" where
  "as_SecretKeyRef c = (case c of SecretKeyRefCell x \<Rightarrow> Some x | _ \<Rightarrow> None)"

definition as_SSHAuthSpec :: "cell \<Rightarrow> SSHAuthSpec option" where
  "as_SSHAuthSpec c = (case c of SSHAuthSpecCell x \<Rightarrow> Some x | _ \<Rightarrow> None)"

definition as_BasicAuthSpec :: "cell \<Rightarrow> BasicAuthSpec option" where
  "as_BasicAuthSpec c = (case c of BasicAuthSpecCell x \<Rightarrow> Some x | _ \<Rightarrow> None)"

definition as_GitHubAppAuthSpec :: "cell \<Rightarrow> GitHubAppAuthSpec option" where
  "as_GitHubAppAuthSpec c = (case c of GitHubAppAuthSpecCell x \<Rightarrow> Some x | _ \<Rightarrow> None)"

definition as_GitAuthSpec :: "cell \<Rightarrow> GitAuthSpec_mem option" where
  "as_GitAuthSpec c = (case c of GitAuthSpecCell x \<Rightarrow> Some x | _ \<Rightarrow> None)"

definition as_GitEndpointSpec :: "cell \<Rightarrow> GitEndpointSpec_mem option" where
  "as_GitEndpointSpec c = (case c of GitEndpointSpecCell x \<Rightarrow> Some x | _ \<Rightarrow> None)"

definition as_GitHubSpec :: "cell \<Rightarrow> GitHubSpec option" where
  "as_GitHubSpec c = (case c of GitHubSpecCell x \<Rightarrow> Some x | _ \<Rightarrow> None)"

definition as_MirrorSpec :: "cell \<Rightarrow> MirrorSpec option" where
  "as_MirrorSpec c = (case c of MirrorSpecCell x \<Rightarrow> Some x | _ \<Rightarrow> None)"

definition as_FallbackSpec :: "cell \<Rightarrow> FallbackSpec option" where
  "as_FallbackSpec c = (case c of FallbackSpecCell x \<Rightarrow> Some x | _ \<Rightarrow> None)"

definition as_JobSpec :: "cell \<Rightarrow> JobSpec_mem option" where
  "as_JobSpec c = (case c of JobSpecCell x \<Rightarrow> Some x | _ \<Rightarrow> None)"

definition as_GitMirrorSpec :: "cell \<Rightarrow> GitMirrorSpec_mem option" where
  "as_GitMirrorSpec c = (case c of GitMirrorSpecCell x \<Rightarrow> Some x | _ \<Rightarrow> None)"

definition as_GitMirrorStatus :: "cell \<Rightarrow> GitMirrorStatus_mem option" where
  "as_GitMirrorStatus c = (case c of GitMirrorStatusCell x \<Rightarrow> Some x | _ \<Rightarrow> None)"

definition as_GitMirror :: "cell \<Rightarrow> GitMirror_mem option" where
  "as_GitMirror c = (case c of GitMirrorCell x \<Rightarrow> Some x | _ \<Rightarrow> None)"

definition as_GitMirrorList :: "cell \<Rightarrow> GitMirrorList_mem option" where
  "as_GitMirrorList c = (case c of GitMirrorListCell x \<Rightarrow> Some x | _ \<Rightarrow> None)"

definition as_Int32 :: "cell \<Rightarrow> int32 option" where
  "as_Int32 c = (case c of Int32Cell x \<Rightarrow> Some x | _ \<Rightarrow> None)"

definition as_Int64 :: "cell \<Rightarrow> int64 option" where
  "as_Int64 c = (case c of Int64Cell x \<Rightarrow> Some x | _ \<Rightarrow> None)"

definition as_Time :: "cell \<Rightarrow> time option" where
  "as_Time c = (case c of TimeCell x \<Rightarrow> Some x | _ \<Rightarrow> None)"

definition as_Map :: "cell \<Rightarrow> (string \<rightharpoonup> string) option" where
  "as_Map c = (case c of MapCell x \<Rightarrow> Some x | _ \<Rightarrow> None)"

definition as_Conditions :: "cell \<Rightarrow> (Condition list) option" where
  "as_Conditions c = (case c of ConditionsCell x \<Rightarrow> Some x | _ \<Rightarrow> None)"

definition as_Mirrors :: "cell \<Rightarrow> (GitMirror_mem list) option" where
  "as_Mirrors c = (case c of MirrorsCell x \<Rightarrow> Some x | _ \<Rightarrow> None)"

lemma as_simps [simp]:
  "as_SecretKeyRef (SecretKeyRefCell x0) = Some x0"
  "as_SSHAuthSpec (SSHAuthSpecCell x1) = Some x1"
  "as_BasicAuthSpec (BasicAuthSpecCell x2) = Some x2"
  "as_GitHubAppAuthSpec (GitHubAppAuthSpecCell x3) = Some x3"
  "as_GitAuthSpec (GitAuthSpecCell x4) = Some x4"
  "as_GitEndpointSpec (GitEndpointSpecCell x5) = Some x5"
  "as_GitHubSpec (GitHubSpecCell x6) = Some x6"
  "as_MirrorSpec (MirrorSpecCell x7) = Some x7"
  "as_FallbackSpec (FallbackSpecCell x8) = Some x8"
  "as_JobSpec (JobSpecCell x9) = Some x9"
  "as_GitMirrorSpec (GitMirrorSpecCell x10) = Some x10"
  "as_GitMirrorStatus (GitMirrorStatusCell x11) = Some x11"
  "as_GitMirror (GitMirrorCell x12) = Some x12"
  "as_GitMirrorList (GitMirrorListCell x13) = Some x13"
  "as_Int32 (Int32Cell x14) = Some x14"
  "as_Int64 (Int64Cell x15) = Some x15"
  "as_Time (TimeCell x16) = Some x16"
  "as_Map (MapCell x17) = Some x17"
  "as_Conditions (ConditionsCell x18) = Some x18"
  "as_Mirrors (MirrorsCell x19) = Some x19"
  by (simp_all add: as_SecretKeyRef_def as_SSHAuthSpec_def as_BasicAuthSpec_def as_GitHubAppAuthSpec_def as_GitAuthSpec_def as_GitEndpointSpec_def as_GitHubSpec_def as_MirrorSpec_def as_FallbackSpec_def as_JobSpec_def as_GitMirrorSpec_def as_GitMirrorStatus_def as_GitMirror_def as_GitMirrorList_def as_Int32_def as_Int64_def as_Time_def as_Map_def as_Conditions_def as_Mirrors_def)

subsection \<open>Zero values\<close>

definition zero_SecretKeyRef :: SecretKeyRef where
  "zero_SecretKeyRef = \<lparr>ref_Name = [], ref_Key = []\<rparr>"

definition zero_SSHAuthSpec :: SSHAuthSpec where
  "zero_SSHAuthSpec = \<lparr>PrivateKeyRef = zero_SecretKeyRef\<rparr>"

definition zero_BasicAuthSpec :: BasicAuthSpec where
  "zero_BasicAuthSpec = \<lparr>UsernameSecretRef = zero_SecretKeyRef, PasswordSecretRef = zero_SecretKeyRef\<rparr>"

definition zero_GitHubAppAuthSpec :: GitHubAppAuthSpec where
  "zero_GitHubAppAuthSpec = \<lparr>AppIDSecretRef = zero_SecretKeyRef,
     InstallationIDSecretRef = zero_SecretKeyRef, PrivateKeySecretRef = zero_SecretKeyRef, APIURL = []\<rparr>"

definition zero_GitAuthSpec :: GitAuthSpec_mem where
  "zero_GitAuthSpec = \<lparr>mem_Type = [], mem_SSH = None, mem_Basic = None, mem_GitHubApp = None\<rparr>"

definition zero_GitEndpointSpec :: GitEndpointSpec_mem where
  "zero_GitEndpointSpec = \<lparr>mem_URL = [], mem_SSHSecretRef = None, mem_Auth = None\<rparr>"

definition zero_GitHubSpec :: GitHubSpec where
  "zero_GitHubSpec = \<lparr>Owner = [], Repo = [], WebhookSecretRef = zero_SecretKeyRef\<rparr>"

definition zero_MirrorSpec :: MirrorSpec where
  "zero_MirrorSpec = \<lparr>Mode = [], IncludeTags = False\<rparr>"

definition zero_FallbackSpec :: FallbackSpec where
  "zero_FallbackSpec = \<lparr>Schedule = []\<rparr>"

definition zero_JobSpec :: JobSpec_mem where
  "zero_JobSpec = \<lparr>mem_Image = [], mem_BackoffLimit = None, mem_ActiveDeadlineSeconds = None,
     mem_TTLSecondsAfterFinished = None, mem_Resources = \<lparr>mem_Requests = None, mem_Limits = None\<rparr>,
     mem_KnownHostsConfigMapName = [], mem_KnownHostsConfigMapKey = [], mem_ServiceAccountName = []\<rparr>"

definition zero_GitMirrorSpec :: GitMirrorSpec_mem where
  "zero_GitMirrorSpec = \<lparr>mem_Provider = [], mem_GitHub = zero_GitHubSpec,
     mem_Source = zero_GitEndpointSpec, mem_Target = zero_GitEndpointSpec,
     mem_Mirror = zero_MirrorSpec, mem_Fallback = zero_FallbackSpec, mem_Job = zero_JobSpec\<rparr>"

text \<open>The zero of a condition's status is the empty string, which no condition keeps.\<close>

definition zero_Condition :: Condition where
  "zero_Condition = \<lparr>cond_Type = [], cond_Status = ConditionUnknown, cond_ObservedGeneration = 0,
     cond_LastTransitionTime = None, cond_Reason = [], cond_Message = []\<rparr>"

definition zero_GitMirrorStatus :: GitMirrorStatus_mem where
  "zero_GitMirrorStatus = \<lparr>mem_ObservedGeneration = 0, mem_LastWebhookAt = None, mem_LastDeliveryID = [],
     mem_LastTriggeredAt = None, mem_LastJobName = [], mem_LastCompletedJobName = [],
     mem_LastSuccessAt = None, mem_LastFailureAt = None, mem_LastError = [],
     mem_LastRequestedRevision = [], mem_LastMirroredRevision = [], mem_PendingResync = False,
     mem_Conditions = None\<rparr>"

definition zero_TypeMeta :: TypeMeta where
  "zero_TypeMeta = \<lparr>type_Kind = [], type_APIVersion = []\<rparr>"

definition zero_GitMirror :: GitMirror_mem where
  "zero_GitMirror = \<lparr>mem_TypeMeta = zero_TypeMeta,
     mem_ObjectMeta = \<lparr>mem_Name = [], mem_Namespace = [], mem_UID = [], mem_Generation = 0,
       mem_Labels = None, mem_Annotations = None\<rparr>,
     mem_Spec = zero_GitMirrorSpec, mem_Status = zero_GitMirrorStatus\<rparr>"

definition zero_GitMirrorList :: GitMirrorList_mem where
  "zero_GitMirrorList = \<lparr>mem_ListTypeMeta = zero_TypeMeta,
     mem_ListMeta = \<lparr>mem_ResourceVersion = [], mem_Continue = [], mem_RemainingItemCount = None\<rparr>,
     mem_Items = None\<rparr>"

subsection \<open>The copies of library types\<close>

record library =
  ObjectMeta_DeepCopyInto :: "ObjectMeta_mem \<Rightarrow> memory \<Rightarrow> (ObjectMeta_mem \<times> memory) option"
  ListMeta_DeepCopyInto :: "ListMeta_mem \<Rightarrow> memory \<Rightarrow> (ListMeta_mem \<times> memory) option"
  Time_DeepCopy :: "pointer \<Rightarrow> memory \<Rightarrow> (pointer \<times> memory) option"
  Condition_DeepCopyInto :: "Condition \<Rightarrow> memory \<Rightarrow> (Condition \<times> memory) option"
  ResourceRequirements_DeepCopyInto ::
    "ResourceRequirements_mem \<Rightarrow> memory \<Rightarrow> (ResourceRequirements_mem \<times> memory) option"

text \<open>\<open>if in.LastWebhookAt != nil { ... *out = (*in).DeepCopy() }\<close>, for each of the times.\<close>

definition copy_time :: "library \<Rightarrow> pointer \<Rightarrow> memory \<Rightarrow> (pointer \<times> memory) option" where
  "copy_time L p h = (if p \<noteq> None then Time_DeepCopy L p h else Some (None, h))"

subsection \<open>The generated methods\<close>

definition SecretKeyRef_DeepCopyInto :: "SecretKeyRef \<Rightarrow> memory \<Rightarrow> (SecretKeyRef \<times> memory) option" where
  "SecretKeyRef_DeepCopyInto in0 h = Some (in0, h)"

definition SecretKeyRef_DeepCopy :: "pointer \<Rightarrow> memory \<Rightarrow> (pointer \<times> memory) option" where
  "SecretKeyRef_DeepCopy in0 h =
     copy_pointer SecretKeyRefCell as_SecretKeyRef zero_SecretKeyRef SecretKeyRef_DeepCopyInto in0 h"

definition SSHAuthSpec_DeepCopyInto :: "SSHAuthSpec \<Rightarrow> memory \<Rightarrow> (SSHAuthSpec \<times> memory) option" where
  "SSHAuthSpec_DeepCopyInto in0 h = do {
     let out = in0;
     let out = out\<lparr>PrivateKeyRef := PrivateKeyRef in0\<rparr>;
     Some (out, h)
   }"

definition SSHAuthSpec_DeepCopy :: "pointer \<Rightarrow> memory \<Rightarrow> (pointer \<times> memory) option" where
  "SSHAuthSpec_DeepCopy in0 h =
     copy_pointer SSHAuthSpecCell as_SSHAuthSpec zero_SSHAuthSpec SSHAuthSpec_DeepCopyInto in0 h"

definition BasicAuthSpec_DeepCopyInto :: "BasicAuthSpec \<Rightarrow> memory \<Rightarrow> (BasicAuthSpec \<times> memory) option" where
  "BasicAuthSpec_DeepCopyInto in0 h = do {
     let out = in0;
     let out = out\<lparr>UsernameSecretRef := UsernameSecretRef in0\<rparr>;
     let out = out\<lparr>PasswordSecretRef := PasswordSecretRef in0\<rparr>;
     Some (out, h)
   }"

definition BasicAuthSpec_DeepCopy :: "pointer \<Rightarrow> memory \<Rightarrow> (pointer \<times> memory) option" where
  "BasicAuthSpec_DeepCopy in0 h =
     copy_pointer BasicAuthSpecCell as_BasicAuthSpec zero_BasicAuthSpec BasicAuthSpec_DeepCopyInto in0 h"

definition FallbackSpec_DeepCopyInto :: "FallbackSpec \<Rightarrow> memory \<Rightarrow> (FallbackSpec \<times> memory) option" where
  "FallbackSpec_DeepCopyInto in0 h = Some (in0, h)"

definition FallbackSpec_DeepCopy :: "pointer \<Rightarrow> memory \<Rightarrow> (pointer \<times> memory) option" where
  "FallbackSpec_DeepCopy in0 h =
     copy_pointer FallbackSpecCell as_FallbackSpec zero_FallbackSpec FallbackSpec_DeepCopyInto in0 h"

definition GitHubAppAuthSpec_DeepCopyInto :: "GitHubAppAuthSpec \<Rightarrow> memory \<Rightarrow> (GitHubAppAuthSpec \<times> memory) option" where
  "GitHubAppAuthSpec_DeepCopyInto in0 h = do {
     let out = in0;
     let out = out\<lparr>AppIDSecretRef := AppIDSecretRef in0\<rparr>;
     let out = out\<lparr>InstallationIDSecretRef := InstallationIDSecretRef in0\<rparr>;
     let out = out\<lparr>PrivateKeySecretRef := PrivateKeySecretRef in0\<rparr>;
     Some (out, h)
   }"

definition GitHubAppAuthSpec_DeepCopy :: "pointer \<Rightarrow> memory \<Rightarrow> (pointer \<times> memory) option" where
  "GitHubAppAuthSpec_DeepCopy in0 h =
     copy_pointer GitHubAppAuthSpecCell as_GitHubAppAuthSpec zero_GitHubAppAuthSpec GitHubAppAuthSpec_DeepCopyInto in0 h"

definition GitHubSpec_DeepCopyInto :: "GitHubSpec \<Rightarrow> memory \<Rightarrow> (GitHubSpec \<times> memory) option" where
  "GitHubSpec_DeepCopyInto in0 h = do {
     let out = in0;
     let out = out\<lparr>WebhookSecretRef := WebhookSecretRef in0\<rparr>;
     Some (out, h)
   }"

definition GitHubSpec_DeepCopy :: "pointer \<Rightarrow> memory \<Rightarrow> (pointer \<times> memory) option" where
  "GitHubSpec_DeepCopy in0 h =
     copy_pointer GitHubSpecCell as_GitHubSpec zero_GitHubSpec GitHubSpec_DeepCopyInto in0 h"

definition MirrorSpec_DeepCopyInto :: "MirrorSpec \<Rightarrow> memory \<Rightarrow> (MirrorSpec \<times> memory) option" where
  "MirrorSpec_DeepCopyInto in0 h = Some (in0, h)"

definition MirrorSpec_DeepCopy :: "pointer \<Rightarrow> memory \<Rightarrow> (pointer \<times> memory) option" where
  "MirrorSpec_DeepCopy in0 h =
     copy_pointer MirrorSpecCell as_MirrorSpec zero_MirrorSpec MirrorSpec_DeepCopyInto in0 h"

definition GitAuthSpec_DeepCopyInto :: "GitAuthSpec_mem \<Rightarrow> memory \<Rightarrow> (GitAuthSpec_mem \<times> memory) option" where
  "GitAuthSpec_DeepCopyInto in0 h = do {
     let out = in0;
     (p, h) \<leftarrow> copy_pointer SSHAuthSpecCell as_SSHAuthSpec zero_SSHAuthSpec assign (mem_SSH in0) h;
     let out = out\<lparr>mem_SSH := p\<rparr>;
     (p, h) \<leftarrow> copy_pointer BasicAuthSpecCell as_BasicAuthSpec zero_BasicAuthSpec assign (mem_Basic in0) h;
     let out = out\<lparr>mem_Basic := p\<rparr>;
     (p, h) \<leftarrow> copy_pointer GitHubAppAuthSpecCell as_GitHubAppAuthSpec zero_GitHubAppAuthSpec assign (mem_GitHubApp in0) h;
     let out = out\<lparr>mem_GitHubApp := p\<rparr>;
     Some (out, h)
   }"

definition GitAuthSpec_DeepCopy :: "pointer \<Rightarrow> memory \<Rightarrow> (pointer \<times> memory) option" where
  "GitAuthSpec_DeepCopy in0 h =
     copy_pointer GitAuthSpecCell as_GitAuthSpec zero_GitAuthSpec GitAuthSpec_DeepCopyInto in0 h"

definition GitEndpointSpec_DeepCopyInto :: "GitEndpointSpec_mem \<Rightarrow> memory \<Rightarrow> (GitEndpointSpec_mem \<times> memory) option" where
  "GitEndpointSpec_DeepCopyInto in0 h = do {
     let out = in0;
     (p, h) \<leftarrow> copy_pointer SecretKeyRefCell as_SecretKeyRef zero_SecretKeyRef assign (mem_SSHSecretRef in0) h;
     let out = out\<lparr>mem_SSHSecretRef := p\<rparr>;
     (p, h) \<leftarrow> copy_pointer GitAuthSpecCell as_GitAuthSpec zero_GitAuthSpec GitAuthSpec_DeepCopyInto (mem_Auth in0) h;
     let out = out\<lparr>mem_Auth := p\<rparr>;
     Some (out, h)
   }"

definition GitEndpointSpec_DeepCopy :: "pointer \<Rightarrow> memory \<Rightarrow> (pointer \<times> memory) option" where
  "GitEndpointSpec_DeepCopy in0 h =
     copy_pointer GitEndpointSpecCell as_GitEndpointSpec zero_GitEndpointSpec GitEndpointSpec_DeepCopyInto in0 h"

definition JobSpec_DeepCopyInto :: "library \<Rightarrow> JobSpec_mem \<Rightarrow> memory \<Rightarrow> (JobSpec_mem \<times> memory) option" where
  "JobSpec_DeepCopyInto L in0 h = do {
     let out = in0;
     (p, h) \<leftarrow> copy_pointer Int32Cell as_Int32 0 assign (mem_BackoffLimit in0) h;
     let out = out\<lparr>mem_BackoffLimit := p\<rparr>;
     (p, h) \<leftarrow> copy_pointer Int64Cell as_Int64 0 assign (mem_ActiveDeadlineSeconds in0) h;
     let out = out\<lparr>mem_ActiveDeadlineSeconds := p\<rparr>;
     (p, h) \<leftarrow> copy_pointer Int32Cell as_Int32 0 assign (mem_TTLSecondsAfterFinished in0) h;
     let out = out\<lparr>mem_TTLSecondsAfterFinished := p\<rparr>;
     (x, h) \<leftarrow> ResourceRequirements_DeepCopyInto L (mem_Resources in0) h;
     let out = out\<lparr>mem_Resources := x\<rparr>;
     Some (out, h)
   }"

definition JobSpec_DeepCopy :: "library \<Rightarrow> pointer \<Rightarrow> memory \<Rightarrow> (pointer \<times> memory) option" where
  "JobSpec_DeepCopy L in0 h =
     copy_pointer JobSpecCell as_JobSpec zero_JobSpec (JobSpec_DeepCopyInto L) in0 h"

definition GitMirrorSpec_DeepCopyInto :: "library \<Rightarrow> GitMirrorSpec_mem \<Rightarrow> memory \<Rightarrow> (GitMirrorSpec_mem \<times> memory) option" where
  "GitMirrorSpec_DeepCopyInto L in0 h = do {
     let out = in0;
     let out = out\<lparr>mem_GitHub := mem_GitHub in0\<rparr>;
     (x, h) \<leftarrow> GitEndpointSpec_DeepCopyInto (mem_Source in0) h;
     let out = out\<lparr>mem_Source := x\<rparr>;
     (x, h) \<leftarrow> GitEndpointSpec_DeepCopyInto (mem_Target in0) h;
     let out = out\<lparr>mem_Target := x\<rparr>;
     let out = out\<lparr>mem_Mirror := mem_Mirror in0\<rparr>;
     let out = out\<lparr>mem_Fallback := mem_Fallback in0\<rparr>;
     (x, h) \<leftarrow> JobSpec_DeepCopyInto L (mem_Job in0) h;
     let out = out\<lparr>mem_Job := x\<rparr>;
     Some (out, h)
   }"

definition GitMirrorSpec_DeepCopy :: "library \<Rightarrow> pointer \<Rightarrow> memory \<Rightarrow> (pointer \<times> memory) option" where
  "GitMirrorSpec_DeepCopy L in0 h =
     copy_pointer GitMirrorSpecCell as_GitMirrorSpec zero_GitMirrorSpec (GitMirrorSpec_DeepCopyInto L) in0 h"

definition GitMirrorStatus_DeepCopyInto :: "library \<Rightarrow> GitMirrorStatus_mem \<Rightarrow> memory \<Rightarrow> (GitMirrorStatus_mem \<times> memory) option" where
  "GitMirrorStatus_DeepCopyInto L in0 h = do {
     let out = in0;
     (p, h) \<leftarrow> copy_time L (mem_LastWebhookAt in0) h;
     let out = out\<lparr>mem_LastWebhookAt := p\<rparr>;
     (p, h) \<leftarrow> copy_time L (mem_LastTriggeredAt in0) h;
     let out = out\<lparr>mem_LastTriggeredAt := p\<rparr>;
     (p, h) \<leftarrow> copy_time L (mem_LastSuccessAt in0) h;
     let out = out\<lparr>mem_LastSuccessAt := p\<rparr>;
     (p, h) \<leftarrow> copy_time L (mem_LastFailureAt in0) h;
     let out = out\<lparr>mem_LastFailureAt := p\<rparr>;
     (s, h) \<leftarrow> copy_slice ConditionsCell as_Conditions zero_Condition (Condition_DeepCopyInto L) (mem_Conditions in0) h;
     let out = out\<lparr>mem_Conditions := s\<rparr>;
     Some (out, h)
   }"

definition GitMirrorStatus_DeepCopy :: "library \<Rightarrow> pointer \<Rightarrow> memory \<Rightarrow> (pointer \<times> memory) option" where
  "GitMirrorStatus_DeepCopy L in0 h =
     copy_pointer GitMirrorStatusCell as_GitMirrorStatus zero_GitMirrorStatus (GitMirrorStatus_DeepCopyInto L) in0 h"

definition GitMirror_DeepCopyInto :: "library \<Rightarrow> GitMirror_mem \<Rightarrow> memory \<Rightarrow> (GitMirror_mem \<times> memory) option" where
  "GitMirror_DeepCopyInto L in0 h = do {
     let out = in0;
     let out = out\<lparr>mem_TypeMeta := mem_TypeMeta in0\<rparr>;
     (x, h) \<leftarrow> ObjectMeta_DeepCopyInto L (mem_ObjectMeta in0) h;
     let out = out\<lparr>mem_ObjectMeta := x\<rparr>;
     (x, h) \<leftarrow> GitMirrorSpec_DeepCopyInto L (mem_Spec in0) h;
     let out = out\<lparr>mem_Spec := x\<rparr>;
     (x, h) \<leftarrow> GitMirrorStatus_DeepCopyInto L (mem_Status in0) h;
     let out = out\<lparr>mem_Status := x\<rparr>;
     Some (out, h)
   }"

definition GitMirror_DeepCopy :: "library \<Rightarrow> pointer \<Rightarrow> memory \<Rightarrow> (pointer \<times> memory) option" where
  "GitMirror_DeepCopy L in0 h =
     copy_pointer GitMirrorCell as_GitMirror zero_GitMirror (GitMirror_DeepCopyInto L) in0 h"

text \<open>
  An interface value: nil, or a type and a pointer, which may be nil itself.
\<close>

datatype Object = MirrorObject pointer | MirrorListObject pointer

definition GitMirror_DeepCopyObject :: "library \<Rightarrow> pointer \<Rightarrow> memory \<Rightarrow> (Object option \<times> memory) option" where
  "GitMirror_DeepCopyObject L in0 h = do {
     (c, h) \<leftarrow> GitMirror_DeepCopy L in0 h;
     Some (if c \<noteq> None then Some (MirrorObject c) else None, h)
   }"

definition GitMirrorList_DeepCopyInto :: "library \<Rightarrow> GitMirrorList_mem \<Rightarrow> memory \<Rightarrow> (GitMirrorList_mem \<times> memory) option" where
  "GitMirrorList_DeepCopyInto L in0 h = do {
     let out = in0;
     let out = out\<lparr>mem_ListTypeMeta := mem_ListTypeMeta in0\<rparr>;
     (x, h) \<leftarrow> ListMeta_DeepCopyInto L (mem_ListMeta in0) h;
     let out = out\<lparr>mem_ListMeta := x\<rparr>;
     (s, h) \<leftarrow> copy_slice MirrorsCell as_Mirrors zero_GitMirror (GitMirror_DeepCopyInto L) (mem_Items in0) h;
     let out = out\<lparr>mem_Items := s\<rparr>;
     Some (out, h)
   }"

definition GitMirrorList_DeepCopy :: "library \<Rightarrow> pointer \<Rightarrow> memory \<Rightarrow> (pointer \<times> memory) option" where
  "GitMirrorList_DeepCopy L in0 h =
     copy_pointer GitMirrorListCell as_GitMirrorList zero_GitMirrorList (GitMirrorList_DeepCopyInto L) in0 h"

definition GitMirrorList_DeepCopyObject :: "library \<Rightarrow> pointer \<Rightarrow> memory \<Rightarrow> (Object option \<times> memory) option" where
  "GitMirrorList_DeepCopyObject L in0 h = do {
     (c, h) \<leftarrow> GitMirrorList_DeepCopy L in0 h;
     Some (if c \<noteq> None then Some (MirrorListObject c) else None, h)
   }"

end
