(* ===== verification/Deep_Copy_Values.thy ===== *)
theory Deep_Copy_Values
  imports Deep_Copy
begin

text \<open>
  What the structs of \<open>Deep_Copy\<close> represent: for each of them its value (the record of
  \<open>API_Types\<close>) and the cells it reaches, and the contract \<open>deep_copy\<close> of its \<open>DeepCopyInto\<close>,
  from that of its fields by the rules of \<open>Go_Heap\<close>. \<open>library_ok\<close> states the same contract for
  the library's copies.
\<close>

subsection \<open>Values and cells\<close>

definition plain :: "'s \<Rightarrow> memory \<Rightarrow> 's option" where
  "plain x h = Some x"

definition no_cells :: "'s \<Rightarrow> memory \<Rightarrow> addr list" where
  "no_cells x h = []"

definition GitAuthSpec_value :: "GitAuthSpec_mem \<Rightarrow> memory \<Rightarrow> GitAuthSpec option" where
  "GitAuthSpec_value x h = do {
     ssh \<leftarrow> pointer_value as_SSHAuthSpec plain (mem_SSH x) h;
     basic \<leftarrow> pointer_value as_BasicAuthSpec plain (mem_Basic x) h;
     app \<leftarrow> pointer_value as_GitHubAppAuthSpec plain (mem_GitHubApp x) h;
     Some \<lparr>auth_Type = mem_Type x, auth_SSH = ssh, auth_Basic = basic, auth_GitHubApp = app\<rparr>
   }"

definition GitAuthSpec_cells :: "GitAuthSpec_mem \<Rightarrow> memory \<Rightarrow> addr list" where
  "GitAuthSpec_cells x h = pointer_cells as_SSHAuthSpec no_cells (mem_SSH x) h
     @ pointer_cells as_BasicAuthSpec no_cells (mem_Basic x) h
     @ pointer_cells as_GitHubAppAuthSpec no_cells (mem_GitHubApp x) h"

definition GitEndpointSpec_value :: "GitEndpointSpec_mem \<Rightarrow> memory \<Rightarrow> GitEndpointSpec option" where
  "GitEndpointSpec_value x h = do {
     ref \<leftarrow> pointer_value as_SecretKeyRef plain (mem_SSHSecretRef x) h;
     auth \<leftarrow> pointer_value as_GitAuthSpec GitAuthSpec_value (mem_Auth x) h;
     Some \<lparr>URL = mem_URL x, SSHSecretRef = ref, Auth = auth\<rparr>
   }"

definition GitEndpointSpec_cells :: "GitEndpointSpec_mem \<Rightarrow> memory \<Rightarrow> addr list" where
  "GitEndpointSpec_cells x h = pointer_cells as_SecretKeyRef no_cells (mem_SSHSecretRef x) h
     @ pointer_cells as_GitAuthSpec GitAuthSpec_cells (mem_Auth x) h"

definition ResourceRequirements_value :: "ResourceRequirements_mem \<Rightarrow> memory \<Rightarrow> ResourceRequirements option" where
  "ResourceRequirements_value x h = do {
     requests \<leftarrow> pointer_value as_Map plain (mem_Requests x) h;
     limits \<leftarrow> pointer_value as_Map plain (mem_Limits x) h;
     Some \<lparr>Requests = requests, Limits = limits\<rparr>
   }"

definition ResourceRequirements_cells :: "ResourceRequirements_mem \<Rightarrow> memory \<Rightarrow> addr list" where
  "ResourceRequirements_cells x h = pointer_cells as_Map no_cells (mem_Requests x) h
     @ pointer_cells as_Map no_cells (mem_Limits x) h"

definition JobSpec_value :: "JobSpec_mem \<Rightarrow> memory \<Rightarrow> JobSpec option" where
  "JobSpec_value x h = do {
     backoff \<leftarrow> pointer_value as_Int32 plain (mem_BackoffLimit x) h;
     deadline \<leftarrow> pointer_value as_Int64 plain (mem_ActiveDeadlineSeconds x) h;
     ttl \<leftarrow> pointer_value as_Int32 plain (mem_TTLSecondsAfterFinished x) h;
     resources \<leftarrow> ResourceRequirements_value (mem_Resources x) h;
     Some \<lparr>spec_Image = mem_Image x, spec_BackoffLimit = backoff,
       spec_ActiveDeadlineSeconds = deadline, spec_TTLSecondsAfterFinished = ttl,
       spec_Resources = resources, KnownHostsConfigMapName = mem_KnownHostsConfigMapName x,
       KnownHostsConfigMapKey = mem_KnownHostsConfigMapKey x,
       spec_ServiceAccountName = mem_ServiceAccountName x\<rparr>
   }"

definition JobSpec_cells :: "JobSpec_mem \<Rightarrow> memory \<Rightarrow> addr list" where
  "JobSpec_cells x h = pointer_cells as_Int32 no_cells (mem_BackoffLimit x) h
     @ pointer_cells as_Int64 no_cells (mem_ActiveDeadlineSeconds x) h
     @ pointer_cells as_Int32 no_cells (mem_TTLSecondsAfterFinished x) h
     @ ResourceRequirements_cells (mem_Resources x) h"

definition GitMirrorSpec_value :: "GitMirrorSpec_mem \<Rightarrow> memory \<Rightarrow> GitMirrorSpec option" where
  "GitMirrorSpec_value x h = do {
     source \<leftarrow> GitEndpointSpec_value (mem_Source x) h;
     target \<leftarrow> GitEndpointSpec_value (mem_Target x) h;
     job \<leftarrow> JobSpec_value (mem_Job x) h;
     Some \<lparr>Provider = mem_Provider x, GitHub = mem_GitHub x, Source = source, Target = target,
       Mirror = mem_Mirror x, Fallback = mem_Fallback x, Job = job\<rparr>
   }"

definition GitMirrorSpec_cells :: "GitMirrorSpec_mem \<Rightarrow> memory \<Rightarrow> addr list" where
  "GitMirrorSpec_cells x h = GitEndpointSpec_cells (mem_Source x) h
     @ GitEndpointSpec_cells (mem_Target x) h @ JobSpec_cells (mem_Job x) h"

text \<open>A nil slice of conditions is the empty list.\<close>

definition GitMirrorStatus_value :: "GitMirrorStatus_mem \<Rightarrow> memory \<Rightarrow> GitMirrorStatus option" where
  "GitMirrorStatus_value x h = do {
     webhook \<leftarrow> pointer_value as_Time plain (mem_LastWebhookAt x) h;
     triggered \<leftarrow> pointer_value as_Time plain (mem_LastTriggeredAt x) h;
     success \<leftarrow> pointer_value as_Time plain (mem_LastSuccessAt x) h;
     failure \<leftarrow> pointer_value as_Time plain (mem_LastFailureAt x) h;
     conditions \<leftarrow> slice_value as_Conditions plain (mem_Conditions x) h;
     Some \<lparr>ObservedGeneration = mem_ObservedGeneration x, LastWebhookAt = webhook,
       LastDeliveryID = mem_LastDeliveryID x, LastTriggeredAt = triggered,
       LastJobName = mem_LastJobName x, LastCompletedJobName = mem_LastCompletedJobName x,
       LastSuccessAt = success, LastFailureAt = failure, LastError = mem_LastError x,
       LastRequestedRevision = mem_LastRequestedRevision x,
       LastMirroredRevision = mem_LastMirroredRevision x, PendingResync = mem_PendingResync x,
       Conditions = (case conditions of None \<Rightarrow> [] | Some cs \<Rightarrow> cs)\<rparr>
   }"

definition GitMirrorStatus_cells :: "GitMirrorStatus_mem \<Rightarrow> memory \<Rightarrow> addr list" where
  "GitMirrorStatus_cells x h = pointer_cells as_Time no_cells (mem_LastWebhookAt x) h
     @ pointer_cells as_Time no_cells (mem_LastTriggeredAt x) h
     @ pointer_cells as_Time no_cells (mem_LastSuccessAt x) h
     @ pointer_cells as_Time no_cells (mem_LastFailureAt x) h
     @ slice_cells as_Conditions no_cells (mem_Conditions x) h"

text \<open>An object's metadata, its maps included.\<close>

record ObjectMeta =
  om_Name :: string
  om_Namespace :: string
  om_UID :: string
  om_Generation :: int64
  om_Labels :: "(string \<rightharpoonup> string) option"
  om_Annotations :: "(string \<rightharpoonup> string) option"

definition ObjectMeta_value :: "ObjectMeta_mem \<Rightarrow> memory \<Rightarrow> ObjectMeta option" where
  "ObjectMeta_value x h = do {
     labels \<leftarrow> pointer_value as_Map plain (mem_Labels x) h;
     annotations \<leftarrow> pointer_value as_Map plain (mem_Annotations x) h;
     Some \<lparr>om_Name = mem_Name x, om_Namespace = mem_Namespace x, om_UID = mem_UID x,
       om_Generation = mem_Generation x, om_Labels = labels, om_Annotations = annotations\<rparr>
   }"

definition ObjectMeta_cells :: "ObjectMeta_mem \<Rightarrow> memory \<Rightarrow> addr list" where
  "ObjectMeta_cells x h = pointer_cells as_Map no_cells (mem_Labels x) h
     @ pointer_cells as_Map no_cells (mem_Annotations x) h"

text \<open>A GitMirror with the parts of its metadata the other theories leave out.\<close>

record GitMirrorObject =
  obj_TypeMeta :: TypeMeta
  obj_Labels :: "(string \<rightharpoonup> string) option"
  obj_Annotations :: "(string \<rightharpoonup> string) option"
  obj_Mirror :: GitMirror

definition GitMirror_value :: "GitMirror_mem \<Rightarrow> memory \<Rightarrow> GitMirrorObject option" where
  "GitMirror_value x h = do {
     meta \<leftarrow> ObjectMeta_value (mem_ObjectMeta x) h;
     spec \<leftarrow> GitMirrorSpec_value (mem_Spec x) h;
     status \<leftarrow> GitMirrorStatus_value (mem_Status x) h;
     Some \<lparr>obj_TypeMeta = mem_TypeMeta x, obj_Labels = om_Labels meta,
       obj_Annotations = om_Annotations meta,
       obj_Mirror = \<lparr>gm_Name = om_Name meta, gm_Namespace = om_Namespace meta,
         gm_UID = om_UID meta, gm_Generation = om_Generation meta, Spec = spec, Status = status\<rparr>\<rparr>
   }"

definition GitMirror_cells :: "GitMirror_mem \<Rightarrow> memory \<Rightarrow> addr list" where
  "GitMirror_cells x h = ObjectMeta_cells (mem_ObjectMeta x) h
     @ GitMirrorSpec_cells (mem_Spec x) h @ GitMirrorStatus_cells (mem_Status x) h"

record ListMeta =
  lm_ResourceVersion :: string
  lm_Continue :: string
  lm_RemainingItemCount :: "int64 option"

definition ListMeta_value :: "ListMeta_mem \<Rightarrow> memory \<Rightarrow> ListMeta option" where
  "ListMeta_value x h = do {
     remaining \<leftarrow> pointer_value as_Int64 plain (mem_RemainingItemCount x) h;
     Some \<lparr>lm_ResourceVersion = mem_ResourceVersion x, lm_Continue = mem_Continue x,
       lm_RemainingItemCount = remaining\<rparr>
   }"

definition ListMeta_cells :: "ListMeta_mem \<Rightarrow> memory \<Rightarrow> addr list" where
  "ListMeta_cells x h = pointer_cells as_Int64 no_cells (mem_RemainingItemCount x) h"

text \<open>\<open>GitMirrorList\<close>; \<open>None\<close> is a nil slice of items.\<close>

record GitMirrorList =
  list_TypeMeta :: TypeMeta
  list_Meta :: ListMeta
  Items :: "GitMirrorObject list option"

definition GitMirrorList_value :: "GitMirrorList_mem \<Rightarrow> memory \<Rightarrow> GitMirrorList option" where
  "GitMirrorList_value x h = do {
     meta \<leftarrow> ListMeta_value (mem_ListMeta x) h;
     items \<leftarrow> slice_value as_Mirrors GitMirror_value (mem_Items x) h;
     Some \<lparr>list_TypeMeta = mem_ListTypeMeta x, list_Meta = meta, Items = items\<rparr>
   }"

definition GitMirrorList_cells :: "GitMirrorList_mem \<Rightarrow> memory \<Rightarrow> addr list" where
  "GitMirrorList_cells x h = ListMeta_cells (mem_ListMeta x) h
     @ slice_cells as_Mirrors GitMirror_cells (mem_Items x) h"

subsection \<open>What the library's copies promise\<close>

definition library_ok :: "library \<Rightarrow> bool" where
  "library_ok L \<longleftrightarrow>
     deep_copy ObjectMeta_value ObjectMeta_cells (ObjectMeta_DeepCopyInto L) \<and>
     deep_copy ListMeta_value ListMeta_cells (ListMeta_DeepCopyInto L) \<and>
     deep_copy (pointer_value as_Time plain) (pointer_cells as_Time no_cells) (Time_DeepCopy L) \<and>
     deep_copy plain no_cells (Condition_DeepCopyInto L) \<and>
     deep_copy ResourceRequirements_value ResourceRequirements_cells (ResourceRequirements_DeepCopyInto L)"

subsection \<open>The contracts\<close>

text \<open>A struct without references.\<close>

lemma deep_copy_plain: "deep_copy plain no_cells assign"
  using deep_copy_assign [of "\<lambda>x. x"] by (simp add: plain_def [abs_def] no_cells_def [abs_def])

lemma DeepCopyInto_assign:
  "SecretKeyRef_DeepCopyInto = assign" "SSHAuthSpec_DeepCopyInto = assign"
  "BasicAuthSpec_DeepCopyInto = assign" "FallbackSpec_DeepCopyInto = assign"
  "GitHubAppAuthSpec_DeepCopyInto = assign" "GitHubSpec_DeepCopyInto = assign"
  "MirrorSpec_DeepCopyInto = assign"
  by (simp_all add: fun_eq_iff assign_def SecretKeyRef_DeepCopyInto_def SSHAuthSpec_DeepCopyInto_def
      BasicAuthSpec_DeepCopyInto_def FallbackSpec_DeepCopyInto_def GitHubAppAuthSpec_DeepCopyInto_def
      GitHubSpec_DeepCopyInto_def MirrorSpec_DeepCopyInto_def)

lemmas deep_copy_flat = deep_copy_plain [folded DeepCopyInto_assign(1)]
  deep_copy_plain [folded DeepCopyInto_assign(2)] deep_copy_plain [folded DeepCopyInto_assign(3)]
  deep_copy_plain [folded DeepCopyInto_assign(4)] deep_copy_plain [folded DeepCopyInto_assign(5)]
  deep_copy_plain [folded DeepCopyInto_assign(6)] deep_copy_plain [folded DeepCopyInto_assign(7)]

text \<open>Pointers to such structs.\<close>

lemma deep_copy_plain_pointer:
  "(\<And>x. sel (wrap x) = Some x) \<Longrightarrow>
   deep_copy (pointer_value sel plain) (pointer_cells sel no_cells) (copy_pointer wrap sel zero assign)"
  by (rule deep_copy_pointer [OF deep_copy_plain])

lemmas ssh_pointer = deep_copy_plain_pointer [of as_SSHAuthSpec SSHAuthSpecCell zero_SSHAuthSpec, OF as_simps(2)]
lemmas basic_pointer = deep_copy_plain_pointer [of as_BasicAuthSpec BasicAuthSpecCell zero_BasicAuthSpec, OF as_simps(3)]
lemmas app_pointer = deep_copy_plain_pointer [of as_GitHubAppAuthSpec GitHubAppAuthSpecCell zero_GitHubAppAuthSpec, OF as_simps(4)]
lemmas ref_pointer = deep_copy_plain_pointer [of as_SecretKeyRef SecretKeyRefCell zero_SecretKeyRef, OF as_simps(1)]
lemmas int32_pointer = deep_copy_plain_pointer [of as_Int32 Int32Cell 0, OF as_simps(15)]
lemmas int64_pointer = deep_copy_plain_pointer [of as_Int64 Int64Cell 0, OF as_simps(16)]

lemma bind_pair: "Option.bind (case p of (a, b) \<Rightarrow> f a b) g = (case p of (a, b) \<Rightarrow> Option.bind (f a b) g)"
  by (simp split: prod.split)

lemma map_option_pair: "map_option g (case p of (a, b) \<Rightarrow> f a b) = (case p of (a, b) \<Rightarrow> map_option g (f a b))"
  by (simp split: prod.split)

lemma map_option_of_bind: "map_option g (Option.bind m f) = Option.bind m (\<lambda>x. map_option g (f x))"
  by (cases m) simp_all

lemmas struct_simps = pair_value_def pair_cells_def copy_pair_def bind_assoc bind_pair
  map_option_pair map_option_of_bind split_def

text \<open>Structs that hold references, and no library type.\<close>

interpretation auth: deep_copy GitAuthSpec_value GitAuthSpec_cells GitAuthSpec_DeepCopyInto
  by (rule deep_copy_struct [OF deep_copy_pair [OF ssh_pointer deep_copy_pair [OF basic_pointer app_pointer]],
        where get = "\<lambda>x. (mem_SSH x, mem_Basic x, mem_GitHubApp x)"
        and put = "\<lambda>x (p, q, r). x\<lparr>mem_SSH := p, mem_Basic := q, mem_GitHubApp := r\<rparr>"
        and view = "\<lambda>x (p, q, r). \<lparr>auth_Type = mem_Type x, auth_SSH = p, auth_Basic = q, auth_GitHubApp = r\<rparr>"])
    (simp_all add: GitAuthSpec_value_def GitAuthSpec_cells_def GitAuthSpec_DeepCopyInto_def
      struct_simps)

lemmas auth_pointer = deep_copy_pointer [OF auth.deep_copy_axioms, of as_GitAuthSpec GitAuthSpecCell zero_GitAuthSpec, OF as_simps(5)]

interpretation endpoint: deep_copy GitEndpointSpec_value GitEndpointSpec_cells GitEndpointSpec_DeepCopyInto
  by (rule deep_copy_struct [OF deep_copy_pair [OF ref_pointer auth_pointer],
        where get = "\<lambda>x. (mem_SSHSecretRef x, mem_Auth x)"
        and put = "\<lambda>x (p, q). x\<lparr>mem_SSHSecretRef := p, mem_Auth := q\<rparr>"
        and view = "\<lambda>x (p, q). \<lparr>URL = mem_URL x, SSHSecretRef = p, Auth = q\<rparr>"])
    (simp_all add: GitEndpointSpec_value_def GitEndpointSpec_cells_def GitEndpointSpec_DeepCopyInto_def
      struct_simps)

text \<open>Structs that hold library types.\<close>

lemma library_okD:
  assumes "library_ok L"
  shows "deep_copy ObjectMeta_value ObjectMeta_cells (ObjectMeta_DeepCopyInto L)"
    and "deep_copy ListMeta_value ListMeta_cells (ListMeta_DeepCopyInto L)"
    and "deep_copy (pointer_value as_Time plain) (pointer_cells as_Time no_cells)
      (copy_time L)"
    and "deep_copy plain no_cells (Condition_DeepCopyInto L)"
    and "deep_copy ResourceRequirements_value ResourceRequirements_cells (ResourceRequirements_DeepCopyInto L)"
    and "deep_copy (slice_value as_Conditions plain) (slice_cells as_Conditions no_cells)
      (copy_slice ConditionsCell as_Conditions zero_Condition (Condition_DeepCopyInto L))"
proof -
  show "deep_copy ObjectMeta_value ObjectMeta_cells (ObjectMeta_DeepCopyInto L)"
    "deep_copy ListMeta_value ListMeta_cells (ListMeta_DeepCopyInto L)"
    "deep_copy plain no_cells (Condition_DeepCopyInto L)"
    "deep_copy ResourceRequirements_value ResourceRequirements_cells (ResourceRequirements_DeepCopyInto L)"
    using assms by (simp_all add: library_ok_def)
  then show "deep_copy (slice_value as_Conditions plain) (slice_cells as_Conditions no_cells)
      (copy_slice ConditionsCell as_Conditions zero_Condition (Condition_DeepCopyInto L))"
    by (intro deep_copy_slice) simp_all
  have "deep_copy (pointer_value as_Time plain) (pointer_cells as_Time no_cells) (Time_DeepCopy L)"
    using assms by (simp add: library_ok_def)
  then show "deep_copy (pointer_value as_Time plain) (pointer_cells as_Time no_cells)
      (copy_time L)"
    by (auto simp: deep_copy_def deep_copy_axioms_def apart_def pointer_value_def pointer_cells_def
        copy_time_def)
qed

lemma deep_copy_job:
  assumes "library_ok L"
  shows "deep_copy JobSpec_value JobSpec_cells (JobSpec_DeepCopyInto L)"
  by (rule deep_copy_struct [OF deep_copy_pair [OF int32_pointer deep_copy_pair [OF int64_pointer
          deep_copy_pair [OF int32_pointer library_okD(5) [OF assms]]]],
        where get = "\<lambda>x. (mem_BackoffLimit x, mem_ActiveDeadlineSeconds x, mem_TTLSecondsAfterFinished x, mem_Resources x)"
        and put = "\<lambda>x (p, q, r, s). x\<lparr>mem_BackoffLimit := p, mem_ActiveDeadlineSeconds := q,
          mem_TTLSecondsAfterFinished := r, mem_Resources := s\<rparr>"
        and view = "\<lambda>x (p, q, r, s). \<lparr>spec_Image = mem_Image x, spec_BackoffLimit = p, spec_ActiveDeadlineSeconds = q,
          spec_TTLSecondsAfterFinished = r, spec_Resources = s,
          KnownHostsConfigMapName = mem_KnownHostsConfigMapName x, KnownHostsConfigMapKey = mem_KnownHostsConfigMapKey x,
          spec_ServiceAccountName = mem_ServiceAccountName x\<rparr>"])
    (simp_all add: JobSpec_value_def JobSpec_cells_def JobSpec_DeepCopyInto_def
      struct_simps)

lemma deep_copy_spec:
  assumes "library_ok L"
  shows "deep_copy GitMirrorSpec_value GitMirrorSpec_cells (GitMirrorSpec_DeepCopyInto L)"
  by (rule deep_copy_struct [OF deep_copy_pair [OF endpoint.deep_copy_axioms deep_copy_pair [OF endpoint.deep_copy_axioms
          deep_copy_job [OF assms]]],
        where get = "\<lambda>x. (mem_Source x, mem_Target x, mem_Job x)"
        and put = "\<lambda>x (p, q, r). x\<lparr>mem_Source := p, mem_Target := q, mem_Job := r\<rparr>"
        and view = "\<lambda>x (p, q, r). \<lparr>Provider = mem_Provider x, GitHub = mem_GitHub x, Source = p, Target = q,
          Mirror = mem_Mirror x, Fallback = mem_Fallback x, Job = r\<rparr>"])
    (simp_all add: GitMirrorSpec_value_def GitMirrorSpec_cells_def GitMirrorSpec_DeepCopyInto_def
      struct_simps)

lemma deep_copy_status:
  assumes "library_ok L"
  shows "deep_copy GitMirrorStatus_value GitMirrorStatus_cells (GitMirrorStatus_DeepCopyInto L)"
  by (rule deep_copy_struct [OF deep_copy_pair [OF library_okD(3) [OF assms] deep_copy_pair [OF library_okD(3) [OF assms]
          deep_copy_pair [OF library_okD(3) [OF assms] deep_copy_pair [OF library_okD(3) [OF assms] library_okD(6) [OF assms]]]]],
        where get = "\<lambda>x. (mem_LastWebhookAt x, mem_LastTriggeredAt x, mem_LastSuccessAt x, mem_LastFailureAt x, mem_Conditions x)"
        and put = "\<lambda>x (p, q, r, s, t). x\<lparr>mem_LastWebhookAt := p, mem_LastTriggeredAt := q, mem_LastSuccessAt := r,
          mem_LastFailureAt := s, mem_Conditions := t\<rparr>"
        and view = "\<lambda>x (p, q, r, s, t). \<lparr>ObservedGeneration = mem_ObservedGeneration x, LastWebhookAt = p,
          LastDeliveryID = mem_LastDeliveryID x, LastTriggeredAt = q, LastJobName = mem_LastJobName x,
          LastCompletedJobName = mem_LastCompletedJobName x, LastSuccessAt = r, LastFailureAt = s,
          LastError = mem_LastError x, LastRequestedRevision = mem_LastRequestedRevision x,
          LastMirroredRevision = mem_LastMirroredRevision x, PendingResync = mem_PendingResync x,
          Conditions = (case t of None \<Rightarrow> [] | Some cs \<Rightarrow> cs)\<rparr>"])
    (simp_all add: GitMirrorStatus_value_def GitMirrorStatus_cells_def GitMirrorStatus_DeepCopyInto_def
      struct_simps)

lemma deep_copy_mirror:
  assumes "library_ok L"
  shows "deep_copy GitMirror_value GitMirror_cells (GitMirror_DeepCopyInto L)"
  by (rule deep_copy_struct [OF deep_copy_pair [OF library_okD(1) [OF assms] deep_copy_pair [OF deep_copy_spec [OF assms]
          deep_copy_status [OF assms]]],
        where get = "\<lambda>x. (mem_ObjectMeta x, mem_Spec x, mem_Status x)"
        and put = "\<lambda>x (p, q, r). x\<lparr>mem_ObjectMeta := p, mem_Spec := q, mem_Status := r\<rparr>"
        and view = "\<lambda>x (p, q, r). \<lparr>obj_TypeMeta = mem_TypeMeta x, obj_Labels = om_Labels p, obj_Annotations = om_Annotations p,
          obj_Mirror = \<lparr>gm_Name = om_Name p, gm_Namespace = om_Namespace p, gm_UID = om_UID p,
            gm_Generation = om_Generation p, Spec = q, Status = r\<rparr>\<rparr>"])
    (simp_all add: GitMirror_value_def GitMirror_cells_def GitMirror_DeepCopyInto_def
      struct_simps)

lemmas deep_copy_items = deep_copy_slice [OF deep_copy_mirror, of _ as_Mirrors MirrorsCell zero_GitMirror, OF _ as_simps(20)]

lemma deep_copy_list:
  assumes "library_ok L"
  shows "deep_copy GitMirrorList_value GitMirrorList_cells (GitMirrorList_DeepCopyInto L)"
  by (rule deep_copy_struct [OF deep_copy_pair [OF library_okD(2) [OF assms] deep_copy_items [OF assms]],
        where get = "\<lambda>x. (mem_ListMeta x, mem_Items x)"
        and put = "\<lambda>x (p, q). x\<lparr>mem_ListMeta := p, mem_Items := q\<rparr>"
        and view = "\<lambda>x (p, q). \<lparr>list_TypeMeta = mem_ListTypeMeta x, list_Meta = p, Items = q\<rparr>"])
    (simp_all add: GitMirrorList_value_def GitMirrorList_cells_def GitMirrorList_DeepCopyInto_def
      struct_simps)

end
