(* ===== verification/Deep_Copy_Properties.thy ===== *)
theory Deep_Copy_Properties
  imports Deep_Copy_Values
begin

text \<open>
  What the generated copies promise the rest of the program: a copy has the value of the
  original and shares no memory with it. With it, the structs of the other theories may be
  values: in \<open>PatchGitMirrorStatus\<close> the base of the merge patch is the object as read, whatever
  the closure writes into the object itself.
\<close>

abbreviation mirror_at :: "pointer \<Rightarrow> memory \<Rightarrow> GitMirrorObject option option" where
  "mirror_at \<equiv> pointer_value as_GitMirror GitMirror_value"

abbreviation mirror_cells :: "pointer \<Rightarrow> memory \<Rightarrow> addr list" where
  "mirror_cells \<equiv> pointer_cells as_GitMirror GitMirror_cells"

abbreviation list_at :: "pointer \<Rightarrow> memory \<Rightarrow> GitMirrorList option option" where
  "list_at \<equiv> pointer_value as_GitMirrorList GitMirrorList_value"

abbreviation list_cells :: "pointer \<Rightarrow> memory \<Rightarrow> addr list" where
  "list_cells \<equiv> pointer_cells as_GitMirrorList GitMirrorList_cells"

lemma deep_copy_mirror_at:
  assumes "library_ok L"
  shows "deep_copy mirror_at mirror_cells (GitMirror_DeepCopy L)"
  unfolding GitMirror_DeepCopy_def [abs_def]
  by (rule deep_copy_pointer [OF deep_copy_mirror [OF assms] as_simps(13)])

lemma deep_copy_list_at:
  assumes "library_ok L"
  shows "deep_copy list_at list_cells (GitMirrorList_DeepCopy L)"
  unfolding GitMirrorList_DeepCopy_def [abs_def]
  by (rule deep_copy_pointer [OF deep_copy_list [OF assms] as_simps(14)])

text \<open>A copy of something that is not nil is not nil.\<close>

lemma copy_pointer_not_nil: "copy_pointer wrap sel zero into (Some a) h = Some (p, h') \<Longrightarrow> p \<noteq> None"
  by (auto simp: copy_pointer_def alloc_def Let_def bind_eq_Some_conv)

lemma mirror_copied:
  assumes "library_ok L" and "mirror_at (Some a) h = Some v"
  obtains b new where "GitMirror_DeepCopy L (Some a) h = Some (Some b, h @ new)"
    "apart mirror_at mirror_cells (length h) (Some b) (h @ new) v"
proof -
  obtain q new where "GitMirror_DeepCopy L (Some a) h = Some (q, h @ new)"
    "apart mirror_at mirror_cells (length h) q (h @ new) v"
    using deep_copy.copies [OF deep_copy_mirror_at [OF assms(1)] assms(2)] by blast
  with copy_pointer_not_nil [of _ _ _ _ a h q] that show thesis
    by (fastforce simp: GitMirror_DeepCopy_def)
qed

lemma list_copied:
  assumes "library_ok L" and "list_at (Some a) h = Some v"
  obtains b new where "GitMirrorList_DeepCopy L (Some a) h = Some (Some b, h @ new)"
    "apart list_at list_cells (length h) (Some b) (h @ new) v"
proof -
  obtain q new where "GitMirrorList_DeepCopy L (Some a) h = Some (q, h @ new)"
    "apart list_at list_cells (length h) q (h @ new) v"
    using deep_copy.copies [OF deep_copy_list_at [OF assms(1)] assms(2)] by blast
  with copy_pointer_not_nil [of _ _ _ _ a h q] that show thesis
    by (fastforce simp: GitMirrorList_DeepCopy_def)
qed

subsection \<open>A library, and a GitMirror in memory\<close>

definition sample_library :: library where
  "sample_library = \<lparr>
     ObjectMeta_DeepCopyInto = (\<lambda>x h. do {
       (p, h) \<leftarrow> copy_pointer MapCell as_Map Map.empty assign (mem_Labels x) h;
       (q, h) \<leftarrow> copy_pointer MapCell as_Map Map.empty assign (mem_Annotations x) h;
       Some (x\<lparr>mem_Labels := p, mem_Annotations := q\<rparr>, h) }),
     ListMeta_DeepCopyInto = (\<lambda>x h. do {
       (p, h) \<leftarrow> copy_pointer Int64Cell as_Int64 0 assign (mem_RemainingItemCount x) h;
       Some (x\<lparr>mem_RemainingItemCount := p\<rparr>, h) }),
     Time_DeepCopy = copy_pointer TimeCell as_Time 0 assign,
     Condition_DeepCopyInto = assign,
     ResourceRequirements_DeepCopyInto = (\<lambda>x h. do {
       (p, h) \<leftarrow> copy_pointer MapCell as_Map Map.empty assign (mem_Requests x) h;
       (q, h) \<leftarrow> copy_pointer MapCell as_Map Map.empty assign (mem_Limits x) h;
       Some (x\<lparr>mem_Requests := p, mem_Limits := q\<rparr>, h) })\<rparr>"

lemmas map_pointer = deep_copy_plain_pointer [of as_Map MapCell Map.empty, OF as_simps(18)]

lemma sample_library_ok: "library_ok sample_library"
  unfolding library_ok_def sample_library_def library.simps
proof (intro conjI)
  show "deep_copy ObjectMeta_value ObjectMeta_cells (\<lambda>x h. do {
       (p, h) \<leftarrow> copy_pointer MapCell as_Map Map.empty assign (mem_Labels x) h;
       (q, h) \<leftarrow> copy_pointer MapCell as_Map Map.empty assign (mem_Annotations x) h;
       Some (x\<lparr>mem_Labels := p, mem_Annotations := q\<rparr>, h) })"
    by (rule deep_copy_struct [OF deep_copy_pair [OF map_pointer map_pointer],
          where get = "\<lambda>x. (mem_Labels x, mem_Annotations x)"
          and put = "\<lambda>x (p, q). x\<lparr>mem_Labels := p, mem_Annotations := q\<rparr>"
          and view = "\<lambda>x (p, q). \<lparr>om_Name = mem_Name x, om_Namespace = mem_Namespace x, om_UID = mem_UID x,
            om_Generation = mem_Generation x, om_Labels = p, om_Annotations = q\<rparr>"])
      (simp_all add: ObjectMeta_value_def ObjectMeta_cells_def struct_simps)
  show "deep_copy ListMeta_value ListMeta_cells (\<lambda>x h. do {
       (p, h) \<leftarrow> copy_pointer Int64Cell as_Int64 0 assign (mem_RemainingItemCount x) h;
       Some (x\<lparr>mem_RemainingItemCount := p\<rparr>, h) })"
    by (rule deep_copy_struct [OF int64_pointer, where get = mem_RemainingItemCount
          and put = "\<lambda>x p. x\<lparr>mem_RemainingItemCount := p\<rparr>"
          and view = "\<lambda>x p. \<lparr>lm_ResourceVersion = mem_ResourceVersion x, lm_Continue = mem_Continue x,
            lm_RemainingItemCount = p\<rparr>"])
      (simp_all add: ListMeta_value_def ListMeta_cells_def map_option_case split_def split: bind_split option.split)
  show "deep_copy (pointer_value as_Time plain) (pointer_cells as_Time no_cells)
      (copy_pointer TimeCell as_Time 0 assign)"
    by (rule deep_copy_plain_pointer) simp
  show "deep_copy plain no_cells assign" by (rule deep_copy_plain)
  show "deep_copy ResourceRequirements_value ResourceRequirements_cells (\<lambda>x h. do {
       (p, h) \<leftarrow> copy_pointer MapCell as_Map Map.empty assign (mem_Requests x) h;
       (q, h) \<leftarrow> copy_pointer MapCell as_Map Map.empty assign (mem_Limits x) h;
       Some (x\<lparr>mem_Requests := p, mem_Limits := q\<rparr>, h) })"
    by (rule deep_copy_struct [OF deep_copy_pair [OF map_pointer map_pointer],
          where get = "\<lambda>x. (mem_Requests x, mem_Limits x)"
          and put = "\<lambda>x (p, q). x\<lparr>mem_Requests := p, mem_Limits := q\<rparr>"
          and view = "\<lambda>x (p, q). \<lparr>Requests = p, Limits = q\<rparr>"])
      (simp_all add: ResourceRequirements_value_def ResourceRequirements_cells_def struct_simps)
qed

text \<open>
  A GitMirror with labels, credentials for both endpoints, limits, times and conditions; the
  last success and the last trigger share a cell, and the slice of conditions has spare
  capacity.
\<close>

definition sample_condition :: Condition where
  "sample_condition = zero_Condition\<lparr>cond_Type := ''SyncPending'', cond_Status := ConditionFalse\<rparr>"

definition sample_mem :: GitMirror_mem where
  "sample_mem = zero_GitMirror\<lparr>
     mem_ObjectMeta := \<lparr>mem_Name = ''demo'', mem_Namespace = ''default'', mem_UID = ''u1'',
       mem_Generation = 1, mem_Labels = Some 0, mem_Annotations = None\<rparr>,
     mem_Spec := zero_GitMirrorSpec\<lparr>
       mem_Source := \<lparr>mem_URL = ''https://a.example/r.git'', mem_SSHSecretRef = None, mem_Auth = Some 2\<rparr>,
       mem_Target := \<lparr>mem_URL = ''git@b.example:r.git'', mem_SSHSecretRef = Some 3, mem_Auth = None\<rparr>,
       mem_Job := zero_JobSpec\<lparr>mem_BackoffLimit := Some 4,
         mem_Resources := \<lparr>mem_Requests = None, mem_Limits = Some 5\<rparr>\<rparr>\<rparr>,
     mem_Status := zero_GitMirrorStatus\<lparr>mem_LastTriggeredAt := Some 6, mem_LastSuccessAt := Some 6,
       mem_Conditions := Some (7, 1)\<rparr>\<rparr>"

definition sample_memory :: memory where
  "sample_memory = [
     MapCell [''team'' \<mapsto> ''infra''],
     BasicAuthSpecCell zero_BasicAuthSpec,
     GitAuthSpecCell \<lparr>mem_Type = ''basic'', mem_SSH = None, mem_Basic = Some 1, mem_GitHubApp = None\<rparr>,
     SecretKeyRefCell \<lparr>ref_Name = ''target'', ref_Key = ''key''\<rparr>,
     Int32Cell 3,
     MapCell [''memory'' \<mapsto> ''1Gi''],
     TimeCell 1000,
     ConditionsCell [sample_condition, zero_Condition],
     GitMirrorCell sample_mem]"

lemmas sample_simps = sample_memory_def sample_mem_def sample_condition_def zero_GitMirror_def
  zero_GitMirrorSpec_def zero_JobSpec_def zero_GitMirrorStatus_def pointer_value_def slice_value_def
  items_value_def load_def plain_def GitMirror_value_def ObjectMeta_value_def GitMirrorSpec_value_def
  GitEndpointSpec_value_def GitAuthSpec_value_def JobSpec_value_def ResourceRequirements_value_def
  GitMirrorStatus_value_def

subsection \<open>The properties\<close>

text \<open>C16. \<open>GitMirror.DeepCopy\<close> of a pointer to a GitMirror does not panic, changes nothing that
  existed, and gives a pointer to a GitMirror of the same value (every field of the
  specification, the status, the metadata's name, generation, labels and annotations) whose
  pointers, maps and slices are all new memory, none of it reached twice, also where the
  original shares memory between its own fields. A later write that leaves the new
  memory alone leaves the copy's value, and a write into the copy leaves the original's.\<close>

theorem deep_copy_separates:
  assumes "library_ok L" and "mirror_at (Some a) h = Some v"
  shows "\<exists>b new. GitMirror_DeepCopy L (Some a) h = Some (Some b, h @ new)
    \<and> mirror_at (Some b) (h @ new) = Some v
    \<and> set (mirror_cells (Some b) (h @ new)) \<subseteq> {length h..<length (h @ new)}
    \<and> distinct (mirror_cells (Some b) (h @ new))
    \<and> (\<forall>h2. keeps {length h..<length (h @ new)} (h @ new) h2 \<longrightarrow> mirror_at (Some b) h2 = Some v)
    \<and> (\<forall>h2. keeps {..<length h} (h @ new) h2 \<longrightarrow> mirror_at (Some a) h2 = Some v)"
proof -
  note dc = deep_copy_mirror_at [OF assms(1)]
  obtain b new where b: "GitMirror_DeepCopy L (Some a) h = Some (Some b, h @ new)"
    "apart mirror_at mirror_cells (length h) (Some b) (h @ new) v"
    using assms by (rule mirror_copied)
  have "mirror_at (Some b) h2 = Some v" if "keeps {length h..<length (h @ new)} (h @ new) h2" for h2
    using memory_value.apart_kept [OF deep_copy.axioms(1) [OF dc] b(2) that] by (simp add: apart_def)
  moreover have "mirror_at (Some a) h2 = Some v" if "keeps {..<length h} (h @ new) h2" for h2
    using deep_copy.original_kept [OF dc assms(2) b(1) that] .
  ultimately show ?thesis using b unfolding apart_def by blast
qed

definition sample_object :: GitMirrorObject where
  "sample_object = the (the (mirror_at (Some 8) sample_memory))"

lemma sample_value: "mirror_at (Some 8) sample_memory = Some (Some sample_object)"
  by (simp add: sample_object_def sample_simps)

lemma deep_copy_separates_witness:
  "\<exists>b new. GitMirror_DeepCopy sample_library (Some 8) sample_memory = Some (Some b, sample_memory @ new)
    \<and> mirror_at (Some b) (sample_memory @ new) = Some (Some sample_object)
    \<and> distinct (mirror_cells (Some b) (sample_memory @ new))"
  using deep_copy_separates [OF sample_library_ok sample_value] by blast

text \<open>
  One attempt of \<open>PatchGitMirrorStatus\<close> in memory, from \<open>current\<close> as read to the two arguments of
  the patch: the base is copied, then the closure writes into \<open>current\<close>.
\<close>

definition patch_attempt ::
  "library \<Rightarrow> (addr \<Rightarrow> memory \<Rightarrow> memory option) \<Rightarrow> addr \<Rightarrow> memory \<Rightarrow> (pointer \<times> memory) option" where
  "patch_attempt L mutate current h = do {
     (base, h) \<leftarrow> GitMirror_DeepCopy L (Some current) h;
     h \<leftarrow> mutate current h;
     Some (base, h)
   }"

text \<open>
  A closure that implements a function on GitMirrors: it writes only into what \<open>current\<close>
  reaches (in place, if it likes) and into new memory.
\<close>

definition writes_as :: "(addr \<Rightarrow> memory \<Rightarrow> memory option) \<Rightarrow> (GitMirrorObject \<Rightarrow> GitMirrorObject) \<Rightarrow> bool" where
  "writes_as mutate f \<longleftrightarrow> (\<forall>a h v. mirror_at (Some a) h = Some (Some v) \<longrightarrow>
     (\<exists>h'. mutate a h = Some h' \<and> mirror_at (Some a) h' = Some (Some (f v))
       \<and> keeps ({..<length h} - set (mirror_cells (Some a) h)) h h'))"

text \<open>C17. In \<open>PatchGitMirrorStatus\<close> the object that is sent and the base it is compared with are
  the closure's result and the object as it was read: whatever the closure writes in place
  into \<open>current\<close>, its times or its conditions, the base keeps the value that was read. This is
  what the model of the function on values (\<open>PatchStatus new current\<close>) says.\<close>

theorem patch_base_is_what_was_read:
  assumes "library_ok L" and "writes_as mutate f" and "mirror_at (Some a) h = Some (Some v)"
  shows "\<exists>b h'. patch_attempt L mutate a h = Some (Some b, h')
    \<and> mirror_at (Some a) h' = Some (Some (f v)) \<and> mirror_at (Some b) h' = Some (Some v)"
proof -
  note dc = deep_copy_mirror_at [OF assms(1)]
  note mv = deep_copy.axioms(1) [OF dc]
  obtain b new where b: "GitMirror_DeepCopy L (Some a) h = Some (Some b, h @ new)"
    "apart mirror_at mirror_cells (length h) (Some b) (h @ new) (Some v)"
    using assms(1,3) by (rule mirror_copied)
  note later = memory_value.later [OF mv assms(3), of new]
  obtain h' where h': "mutate a (h @ new) = Some h'" "mirror_at (Some a) h' = Some (Some (f v))"
    "keeps ({..<length (h @ new)} - set (mirror_cells (Some a) h)) (h @ new) h'"
    using assms(2) later unfolding writes_as_def by metis
  have "keeps {length h..<length (h @ new)} (h @ new) h'"
    by (rule keeps_subset [OF h'(3)]) (use memory_value.within [OF mv assms(3)] in force)
  from memory_value.apart_kept [OF mv b(2) this]
  have "mirror_at (Some b) h' = Some (Some v)" by (simp add: apart_def)
  then show ?thesis using b(1) h' by (simp add: patch_attempt_def)
qed

text \<open>
  A closure that sets the pending flag and, as \<open>meta.SetStatusCondition\<close> does for a condition
  that is there, rewrites the first condition in place.
\<close>

definition mark_pending :: "addr \<Rightarrow> memory \<Rightarrow> memory option" where
  "mark_pending a h = do {
     x \<leftarrow> load as_GitMirror h a;
     let h = store h a (GitMirrorCell (x\<lparr>mem_Status := mem_Status x\<lparr>mem_PendingResync := True\<rparr>\<rparr>));
     case mem_Conditions (mem_Status x) of
       None \<Rightarrow> Some h
     | Some (cs, n) \<Rightarrow> do {
         ys \<leftarrow> load as_Conditions h cs;
         Some (store h cs (ConditionsCell (ys[0 := (ys ! 0)\<lparr>cond_Status := ConditionTrue\<rparr>])))
       }
   }"

definition marked :: "GitMirrorObject \<Rightarrow> GitMirrorObject" where
  "marked v = v\<lparr>obj_Mirror := (obj_Mirror v)\<lparr>Status := (Status (obj_Mirror v))\<lparr>PendingResync := True,
     Conditions := (case Conditions (Status (obj_Mirror v)) of
         [] \<Rightarrow> [] | c # cs \<Rightarrow> c\<lparr>cond_Status := ConditionTrue\<rparr> # cs)\<rparr>\<rparr>\<rparr>"

text \<open>A write into a cell of one type is not seen at another.\<close>

lemma load_store_other:
  assumes "load sel h a = Some x" "sel (wrap y) = Some y"
    and "\<And>c z. sel c = Some z \<Longrightarrow> sel' c = None"
  shows "load sel' (store h a (wrap y)) b = load sel' h b"
  using assms by (auto simp: load_def store_def nth_list_update split: if_splits)

lemma load_store_same:
  assumes "load sel h a = Some x" "sel (wrap y) = Some y"
  shows "load sel (store h a (wrap y)) a = Some y"
  using assms by (auto simp: load_def store_def split: if_splits)

text \<open>Two memories with the same cells of the types a GitMirror refers to, conditions excepted.\<close>

definition same_but_conditions :: "memory \<Rightarrow> memory \<Rightarrow> bool" where
  "same_but_conditions h h' \<longleftrightarrow>
     load as_Map h' = load as_Map h \<and> load as_Time h' = load as_Time h \<and>
     load as_Int32 h' = load as_Int32 h \<and> load as_Int64 h' = load as_Int64 h \<and>
     load as_SecretKeyRef h' = load as_SecretKeyRef h \<and> load as_GitAuthSpec h' = load as_GitAuthSpec h \<and>
     load as_SSHAuthSpec h' = load as_SSHAuthSpec h \<and> load as_BasicAuthSpec h' = load as_BasicAuthSpec h \<and>
     load as_GitHubAppAuthSpec h' = load as_GitHubAppAuthSpec h"

lemma same_but_conditions_trans:
  "same_but_conditions h h1 \<Longrightarrow> same_but_conditions h1 h2 \<Longrightarrow> same_but_conditions h h2"
  by (simp add: same_but_conditions_def)

lemmas as_defs = as_Map_def as_Time_def as_Int32_def as_Int64_def as_SecretKeyRef_def as_GitAuthSpec_def
  as_SSHAuthSpec_def as_BasicAuthSpec_def as_GitHubAppAuthSpec_def as_GitMirror_def as_Conditions_def

lemma same_after_mirror:
  assumes "load as_GitMirror h a = Some x"
  shows "same_but_conditions h (store h a (GitMirrorCell y))"
  unfolding same_but_conditions_def
  by (intro conjI ext load_store_other [OF assms]) (simp_all add: as_defs split: cell.splits)

lemma same_after_conditions:
  assumes "load as_Conditions h a = Some x"
  shows "same_but_conditions h (store h a (ConditionsCell y))"
  unfolding same_but_conditions_def
  by (intro conjI ext load_store_other [OF assms]) (simp_all add: as_defs split: cell.splits)

lemma keeps_refl: "keeps ({..<length h} - B) h h"
  by (simp add: keeps_def)

lemma keeps_store: "keeps (A - B) h h' \<Longrightarrow> a \<in> B \<Longrightarrow> keeps (A - B) h (store h' a c)"
  unfolding keeps_def store_def
  by (intro ballI) (metis DiffD2 length_list_update nth_list_update_neq)

lemma pointer_value_same:
  "load sel h' = load sel h \<Longrightarrow> (\<And>x. val x h' = val x h) \<Longrightarrow> pointer_value sel val p h' = pointer_value sel val p h"
  by (cases p) (simp_all add: pointer_value_def)

lemma values_same:
  assumes "same_but_conditions h h'"
  shows "ObjectMeta_value m h' = ObjectMeta_value m h" "GitMirrorSpec_value s h' = GitMirrorSpec_value s h"
    "pointer_value as_Time plain p h' = pointer_value as_Time plain p h"
proof -
  note eqs = assms [unfolded same_but_conditions_def]
  have plain: "pointer_value sel plain p h' = pointer_value sel plain p h"
    if "load sel h' = load sel h" for sel :: "cell \<Rightarrow> 'x option" and p
    by (rule pointer_value_same [OF that]) (simp add: plain_def)
  note ptrs = plain [of as_Map] plain [of as_Time] plain [of as_Int32] plain [of as_Int64]
    plain [of as_SecretKeyRef] plain [of as_SSHAuthSpec] plain [of as_BasicAuthSpec] plain [of as_GitHubAppAuthSpec]
  have "GitAuthSpec_value x h' = GitAuthSpec_value x h" for x
    using eqs by (simp add: GitAuthSpec_value_def ptrs)
  then have "pointer_value as_GitAuthSpec GitAuthSpec_value q h' = pointer_value as_GitAuthSpec GitAuthSpec_value q h" for q
    using eqs by (intro pointer_value_same) simp_all
  then have "GitEndpointSpec_value e h' = GitEndpointSpec_value e h" for e
    using eqs by (simp add: GitEndpointSpec_value_def ptrs)
  moreover have "JobSpec_value j h' = JobSpec_value j h" for j
    using eqs by (simp add: JobSpec_value_def ResourceRequirements_value_def ptrs)
  ultimately show "GitMirrorSpec_value s h' = GitMirrorSpec_value s h"
    by (simp add: GitMirrorSpec_value_def)
  show "ObjectMeta_value m h' = ObjectMeta_value m h"
    "pointer_value as_Time plain p h' = pointer_value as_Time plain p h"
    using eqs by (simp_all add: ObjectMeta_value_def ptrs)
qed

lemma mark_pending_writes: "writes_as mark_pending marked"
  unfolding writes_as_def
proof (intro allI impI)
  fix a h v
  assume "mirror_at (Some a) h = Some (Some v)"
  then obtain x where x: "load as_GitMirror h a = Some x" "GitMirror_value x h = Some v"
    by (auto simp: pointer_value_def bind_eq_Some_conv)
  let ?x = "x\<lparr>mem_Status := mem_Status x\<lparr>mem_PendingResync := True\<rparr>\<rparr>"
  let ?h = "store h a (GitMirrorCell ?x)"
  note same = same_after_mirror [OF x(1), of ?x]
  have a: "load as_GitMirror ?h a = Some ?x"
    by (rule load_store_same [OF x(1)]) simp
  have mem: "a \<in> set (mirror_cells (Some a) h)" by (simp add: pointer_cells_def)
  show "\<exists>h'. mark_pending a h = Some h' \<and> mirror_at (Some a) h' = Some (Some (marked v))
      \<and> keeps ({..<length h} - set (mirror_cells (Some a) h)) h h'"
  proof (cases "mem_Conditions (mem_Status x)")
    case None
    have "GitMirror_value ?x ?h = Some (marked v)"
      using x(2) None
      by (auto simp: GitMirror_value_def GitMirrorStatus_value_def values_same [OF same]
          slice_value_def marked_def bind_eq_Some_conv)
    then show ?thesis
      using x(1) a None keeps_store [OF keeps_refl mem] by (auto simp: mark_pending_def pointer_value_def)
  next
    case (Some s)
    obtain cs n where s: "s = (cs, n)" by (cases s)
    from x(2) obtain ys where ys: "load as_Conditions h cs = Some ys" "n \<le> length ys"
      by (auto simp: GitMirror_value_def GitMirrorStatus_value_def slice_value_def bind_eq_Some_conv
          Some s split: if_splits)
    have cs: "load as_Conditions ?h cs = Some ys"
      unfolding ys(1) [symmetric] by (rule load_store_other [OF x(1)]) (simp_all add: as_defs split: cell.splits)
    let ?ys = "ys[0 := (ys ! 0)\<lparr>cond_Status := ConditionTrue\<rparr>]"
    let ?h2 = "store ?h cs (ConditionsCell ?ys)"
    note same2 = same_but_conditions_trans [OF same same_after_conditions [OF cs, of ?ys]]
    have a2: "load as_GitMirror ?h2 a = Some ?x"
      unfolding a [symmetric] by (rule load_store_other [OF cs]) (simp_all add: as_defs split: cell.splits)
    have cs2: "load as_Conditions ?h2 cs = Some ?ys"
      by (rule load_store_same [OF cs]) simp
    have vals: "items_value plain zs k = Some zs" for zs and k :: memory
      by (simp add: items_value_iff plain_def list_all2_same)
    have "take n ?ys = (case take n ys of [] \<Rightarrow> [] | c # r \<Rightarrow> c\<lparr>cond_Status := ConditionTrue\<rparr> # r)"
      by (cases n; cases ys) auto
    then have "GitMirror_value ?x ?h2 = Some (marked v)"
      using x(2) Some s ys cs2
      by (auto simp: GitMirror_value_def GitMirrorStatus_value_def values_same [OF same2]
          slice_value_def marked_def bind_eq_Some_conv vals)
    moreover have "cs \<in> set (mirror_cells (Some a) h)"
      using x(1) Some s by (simp add: pointer_cells_def GitMirror_cells_def GitMirrorStatus_cells_def slice_cells_def)
    ultimately show ?thesis
      using x(1) a2 cs Some s keeps_store [OF keeps_store [OF keeps_refl mem]]
      by (auto simp: mark_pending_def pointer_value_def)
  qed
qed

lemma patch_base_is_what_was_read_witness:
  "\<exists>b h'. patch_attempt sample_library mark_pending 8 sample_memory = Some (Some b, h')
    \<and> mirror_at (Some 8) h' = Some (Some (marked sample_object))
    \<and> mirror_at (Some b) h' = Some (Some sample_object) \<and> marked sample_object \<noteq> sample_object"
  using patch_base_is_what_was_read [OF sample_library_ok mark_pending_writes sample_value]
  by (auto simp: marked_def sample_object_def sample_simps)

text \<open>The API machinery copies what it hands out through \<open>DeepCopyObject\<close>. For a GitMirrorList
  it gives an object that holds the same metadata and the same GitMirrors in the same order
  (a nil slice staying nil), made of new memory only, so that the array, every GitMirror in it
  and everything they refer to are separate from the list in the cache. Of a nil pointer it
  gives the nil object, not an object that holds a nil pointer.\<close>

lemma list_copy_object:
  assumes "library_ok L" and "list_at p h = Some v"
  shows "\<exists>b new. GitMirrorList_DeepCopyObject L p h = Some (b, h @ new)
    \<and> (case v of None \<Rightarrow> b = None \<and> new = []
       | Some l \<Rightarrow> \<exists>q. b = Some (MirrorListObject q) \<and> list_at q (h @ new) = Some (Some l)
           \<and> set (list_cells q (h @ new)) \<subseteq> {length h..<length (h @ new)} \<and> distinct (list_cells q (h @ new)))"
proof (cases p)
  case None
  then show ?thesis
    using assms(2)
    by (simp add: pointer_value_def GitMirrorList_DeepCopyObject_def GitMirrorList_DeepCopy_def copy_pointer_def)
next
  case (Some a)
  with assms obtain b new where "GitMirrorList_DeepCopy L (Some a) h = Some (Some b, h @ new)"
    "apart list_at list_cells (length h) (Some b) (h @ new) v"
    by (auto elim: list_copied)
  moreover obtain l where "v = Some l"
    using assms(2) Some by (auto simp: pointer_value_def bind_eq_Some_conv)
  ultimately show ?thesis
    using Some by (auto simp: GitMirrorList_DeepCopyObject_def apart_def)
qed

definition sample_list :: memory where
  "sample_list = sample_memory @ [MirrorsCell [sample_mem, zero_GitMirror],
     GitMirrorListCell (zero_GitMirrorList\<lparr>mem_Items := Some (9, 2)\<rparr>)]"

lemma list_copy_object_witness:
  "\<exists>l b new q. list_at (Some 10) sample_list = Some (Some l) \<and> length (the (Items l)) = 2
    \<and> GitMirrorList_DeepCopyObject sample_library (Some 10) sample_list = Some (b, sample_list @ new)
    \<and> b = Some (MirrorListObject q) \<and> list_at q (sample_list @ new) = Some (Some l)"
proof -
  have "list_at (Some 10) sample_list
    = Some (Some (the (the (list_at (Some 10) sample_list)))) \<and> length (the (Items (the (the (list_at (Some 10) sample_list))))) = 2"
    by (simp add: sample_list_def zero_GitMirrorList_def GitMirrorList_value_def ListMeta_value_def
        zero_GitEndpointSpec_def zero_TypeMeta_def sample_simps)
  then show ?thesis
    using list_copy_object [OF sample_library_ok conjunct1] by fastforce
qed

end
