(* ===== verification/Spec2Isabelle.thy ===== *)
theory Spec2Isabelle
  imports Env_Contract Job_Run Divergences Lease_Divergences Lease_Properties Push_To_Job Coming_To_Rest
    Sync_Properties Operator_Properties Deep_Copy_Properties
begin

text \<open>
  git-mirror-operator: a Kubernetes operator that keeps git repositories mirrored. This
  development models the program's Go code and proves what makes it correct.

  THE PROGRAM. A GitMirror resource names a source and a target repository. Three parts
  share it. The webhook server (\<open>internal/webhook/server.go\<close>, with \<open>internal/github/payload.go\<close>)
  authenticates GitHub's push events and records them in the resource's status as a pending
  resync. The reconciler (\<open>internal/controller/*.go\<close>) reads the resource and the Jobs labelled
  with it, records finished Jobs in the status, and creates a Job for a pending resync, for a
  changed specification or for a cron schedule, under a Lease of the repository; the Job is
  made by \<open>internal/jobs/builder.go\<close>. The Job's container is the sync runner
  (\<open>sync/main.go\<close>), which reads its configuration from the environment (the names are in
  \<open>internal/syncenv/env.go\<close>), prepares credentials and runs \<open>git clone --bare\<close> and
  \<open>git push\<close>. \<open>cmd/main.go\<close> starts the first two in one process. They interact only through
  the API server (status, Jobs, Leases, Secrets) and through the environment of the Job.

  HOW CODE THAT CALLS OUT IS MODELLED. A handler of the operator is a value of \<open>'a prog\<close>
  (theory \<open>Kube_Client\<close>): the API calls and clock reads it makes, in order, each with a
  continuation for the answer. Nothing is assumed of an answer, so a theorem on all lists of
  events \<open>after (Reconcile X R key) es\<close> covers every failure of the API server, every other
  process between two calls, and a process that is cut off after any call. The sync runner is
  treated alike (\<open>OS_Prog\<close>): files, commands, HTTP and the clock. Go errors are the values of
  \<open>error\<close> in \<open>Prelude\<close>, results with an error are sums, nil pointers are \<open>None\<close>, \<open>int64\<close> and
  \<open>int32\<close> are words, strings are lists of bytes, and UTF-8 decoding is written out where the
  code ranges over runes.

  THE THEORIES, with the sources they model.
  \<^item> \<open>Prelude\<close>: words, errors, trimming, the collections of simplification rules.
  \<^item> Go's standard library, as far as the program uses it: \<open>Go_Strings\<close> (strings, runes,
    \<open>strconv\<close>), \<open>Go_Hash\<close> (SHA-256, HMAC, hexadecimal), \<open>Go_Time\<close> (\<open>RFC3339Nano\<close>), \<open>Go_JSON\<close> (the
    scanner and the decoder of \<open>encoding/json\<close>, base64), \<open>Go_URL\<close> and \<open>URL_Facts\<close> (\<open>net/url\<close>).
  \<^item> \<open>API_Types\<close>: \<open>api/v1alpha1/gitmirror_types.go\<close>, field by field, and the fields of the
    Kubernetes objects the program reads and writes.
  \<^item> \<open>Go_Heap\<close> (memory cells, addresses, slices) and \<open>Deep_Copy\<close>:
    \<open>api/v1alpha1/zz_generated.deepcopy.go\<close>, every method, on the structs as they are in memory.
  \<^item> \<open>Syncenv\<close>: \<open>internal/syncenv/env.go\<close>.
  \<^item> \<open>Job_Names\<close>, \<open>Job_Builder\<close>: \<open>internal/jobs/builder.go\<close>, and the Lease's name. The locale
    \<open>hashed_name\<close> is the contract of a name made of a cut label and a hash; it is interpreted
    for the Job's name and for the Lease's. The locale \<open>label_sanitizer\<close> is the contract of
    label values, interpreted on \<open>SanitizeLabelValue\<close>.
  \<^item> \<open>Status\<close>, \<open>Status_Update\<close>: \<open>internal/controller/status.go\<close> and \<open>status_update.go\<close>.
  \<^item> \<open>Sync_Lease\<close>, \<open>Reconciler\<close>: \<open>internal/controller/gitmirror_controller.go\<close>.
  \<^item> \<open>GitHub_Payload\<close>, \<open>Webhook_Server\<close>: \<open>internal/github/payload.go\<close>, \<open>internal/webhook/server.go\<close>.
  \<^item> \<open>Sync_Config\<close> (configuration, commands, redaction: pure) and \<open>Sync_Runner\<close> (credentials,
    GitHub App tokens, the run: effects): \<open>sync/main.go\<close>.
  \<^item> \<open>Operator_Main\<close>: \<open>cmd/main.go\<close>, the order of start-up and the webhook's HTTP server.
  \<^item> \<open>Controller_Setup\<close>: the API group (\<open>groupversion_info.go\<close>, \<open>init\<close> of \<open>gitmirror_types.go\<close>), the
    scheme (\<open>init\<close> of \<open>cmd/main.go\<close>) and the watches of \<open>SetupWithManager\<close>.
\<close>

text \<open>
  WHAT IS PROVED.
  \<^item> \<open>Policies\<close>, \<open>Reconciler_Safety\<close>: what \<open>Reconcile\<close> may ask for. The locale \<open>lease_policy\<close> lists
    what a policy must allow for the locked creation of Jobs to keep it, \<open>reconcile_policy\<close> extends
    it by the status patches; inside them, part by part, \<open>Reconcile\<close> is shown to keep every such
    policy under any answers. The interpretation on \<open>reconcile_rule\<close>, the strongest policy
    used, gives the safety properties of \<open>Reconciler_Properties\<close>: a Job is asked for only
    under the Lease, a Lease is taken over or deleted only with a reason just observed, and a
    status patch is always one of the few the events before it justify.
  \<^item> \<open>Deep_Copy_Values\<close>, \<open>Deep_Copy_Properties\<close>: the locale \<open>memory_value\<close> of \<open>Go_Heap\<close> says what it
    is for memory to represent a value, \<open>deep_copy\<close> extends it by the contract of a
    \<open>DeepCopyInto\<close> (same value, only new cells, nothing shared); rules give the contract of a
    struct from those of its fields, up to GitMirror and its list. Hence the theories above may
    have structs as values, also where \<open>PatchGitMirrorStatus\<close> compares an object with its base.
  \<^item> \<open>Reconciler_Behaviour\<close>, \<open>Reconciler_Properties\<close>: what a reconciliation does on given answers
    (a pending resync becomes a Job, a follow-up is scheduled, an active Job coalesces, a
    settled GitMirror is left alone). \<open>Status_Properties\<close>: what the status functions record.
  \<^item> \<open>Divergences\<close>, \<open>Lease_Divergences\<close>: runs on which the reconciler misses its purpose: a
    follow-up lost to a refused creation or a busy Lease, a lost push, a trigger that is not
    synced, an old outcome recorded again, two reconcilers creating Jobs at once, the Lease of
    an active Job taken over for another generation.
    \<open>Lease_Properties\<close>: the case in which the Lease does exclude others, and the bound on the
    attempts of a status patch.
  \<^item> \<open>Api_Server\<close>, \<open>Sync_View\<close>, \<open>Sync_Refinement\<close>, \<open>Sync_Schedule\<close>: an API server that answers
    as documented, and what the operator achieves on it when nobody else writes in between. The
    abstract specification of the operator is a small state machine (\<open>sync_view\<close>: the wanted
    and the mirrored revision, whether the last Job failed, whether a sync is waiting, whether
    the specification has changed since the last Job, the Job at work); \<open>Reconcile\<close> refines its
    step \<open>spec_visit\<close> from every orderly state, whether its cron schedule is due or not, and the
    delay after which it asks to be called again is pinned in every case (\<open>requeues\<close>). The
    names it may give to a new Job are taken to be free (\<open>fresh_trigger\<close>); \<open>Divergences\<close> has a
    run on which they are not.
  \<^item> \<open>Push_Mirrored\<close>, \<open>Spec_Change\<close>, \<open>System_Runs\<close>: the same for the webhook, the end of Jobs and
    changes of the specification, and their composition. A push is mirrored in the end, whatever
    the operator was doing; a changed specification is synced, whatever Jobs of earlier ones are
    doing. \<open>system_step\<close> is the step relation of the whole system, one thing after the other:
    every run of it is a run of the specification, and no push is forgotten in any reachable state.
  \<^item> \<open>Work_Queue\<close>, \<open>Coming_To_Rest\<close>: the same steps with the controller's work queue, which a change
    of a watched object, an error or \<open>RequeueAfter\<close> fills and a reconciliation empties. The
    invariant \<open>attended\<close>: where something is left to do, the GitMirror is in the queue; it rests on
    \<open>Controller_Setup\<close>, where the owner reference that \<open>BuildSyncJob\<close> asks for is shown to lead
    the watch of a Job to its GitMirror. So what is not in the queue and has no active Job is
    served, and an operator left alone gets there in at most eleven steps (\<open>steps_left\<close>). A cron
    schedule has no such guarantee: \<open>schedule_missed\<close> is a run on which it is never looked at again.
  \<^item> \<open>Job_Properties\<close>: when there is a Job, its names, generation and pod. \<open>Env_Contract\<close>: what
    the operator puts into the container's environment is what the runner reads from it, after
    Kubernetes has expanded references in it; for a specification without dollar signs it is the
    configuration of the GitMirror.
    \<open>Job_Run\<close>: the composition of both with the sync runner, from the GitMirror to the git commands
    that a completed Job has run.
  \<^item> \<open>Webhook_Properties\<close>: only an authentic push of a known repository changes anything; what
    each reply means; the payload round trip. \<open>Push_To_Job\<close>: the composition of the webhook and
    the reconciler, from the request to the Job with the pushed revision.
  \<^item> \<open>Sync_Safety\<close>, \<open>Sync_Behaviour\<close>, \<open>Sync_Properties\<close>: the rule every run of the sync runner
    keeps, runs on given answers, and from these the order of clone and pushes, the credentials
    each command is given, the files they are kept in, when a push of tags may be left out, and
    what is logged.
  \<^item> \<open>Operator_Properties\<close>: start-up stops at the first step that fails.
  \<^item> \<open>Demo\<close>: the concrete GitMirror, Job and parameters the witnesses use.

  PARAMETERS. Code outside the repository is an argument. \<open>External\<close> holds
  \<open>meta.SetStatusCondition\<close>, the cron parser, \<open>controllerutil.SetControllerReference\<close> and the
  number of retries of \<open>retry.DefaultRetry\<close>; a lemma that needs more of them than that they are
  functions says so (\<open>only_sets_owner\<close>: the owner reference is all that is changed). \<open>Platform\<close>
  holds the runner's environment, PEM, PKCS and RSA functions and the test for an IPv6
  address. \<open>library\<close> holds the deep copies of library types, which \<open>library_ok\<close> takes to keep the
  contract \<open>deep_copy\<close>. \<open>runtime_library\<close> holds the scheme and the watches of apimachinery and
  controller-runtime, and \<open>runtime_ok\<close> what is documented of them; that controller-runtime calls
  the reconciler again after an error or a positive \<open>RequeueAfter\<close> is \<open>asks_again\<close>. Kubernetes\' setting of environment variables from values and Secrets is
  \<open>container_env\<close> in \<open>Env_Contract\<close>; its expansion of \<open>$(VAR)\<close> and \<open>$$\<close> in a value is an argument,
  and \<open>expands_references\<close> is what is documented of it. The answers of the API server, files, git and HTTP are
  arbitrary, except where a theorem says that they are those of \<open>api_step\<close>.

  BOUNDS. Every definition is total, with no fuel. \<open>PatchGitMirrorStatus\<close> recurs on the
  remaining retries \<open>n\<close> and makes at most \<open>2 * (n + 1)\<close> calls. A panic of a deep copy is the
  result \<open>None\<close>, and the copies are shown not to panic. The webhook's body limit (4 MiB) and the
  nesting limit of \<open>encoding/json\<close> (10000) are part of the model.

  THE IDEALISED SYSTEM. The theories from \<open>Api_Server\<close> on, save \<open>Divergences\<close>, say what the operator
  achieves when all goes well: handlers run as a whole, one after the other; no call fails except
  for a documented reason; reads are never stale (the client of \<open>cmd/main.go\<close> reads from a
  cache); the names of new Jobs are free; no active Job of another GitMirror with the same
  generation is on the GitMirror's Lease (\<open>orderly\<close>, \<open>others_act\<close>); and the times of the status keep
  their nanoseconds. Their theorems do not extend beyond that: the theorems of \<open>Divergences\<close> are
  runs of the same \<open>Reconcile\<close> with interleaved, refused or name-clashing calls on which pushes are
  lost and two Jobs are active. What holds without any such condition is in \<open>Reconciler_Properties\<close>,
  \<open>Webhook_Properties\<close> and \<open>Sync_Properties\<close>.

  NOT MODELLED. The libraries behind the start-up steps of \<open>cmd/main.go\<close>: flag parsing, the
  manager, the watchers of certificates. The choice of a clock in \<open>r.now()\<close> is the call
  \<open>ClockNow\<close>. The log of the operator is not modelled; the runner's is, since it must not
  hold credentials. The end-to-end tests and \<open>test/utils\<close> are no part of the program.
\<close>

end
